(* ===== verification/Prelude.thy ===== *)
theory Prelude
  imports Main "HOL-Library.State_Monad" "HOL-Library.Multiset"
begin

section \<open>Prelude: state-passing combinators, loops and sorting\<close>

text \<open>
  What every component of the library shares.  Go code that can fail returns a pair
  \<open>(value, err)\<close>; the model returns a value of the sum type \<open>'err + 'a\<close> from a
  computation of \<^verbatim>\<open>HOL-Library.State_Monad\<close>, and \<open>check m k\<close> is the idiom
  \<^verbatim>\<open>if err != nil { return err }\<close>; \<open>ignore m\<close> is \<^verbatim>\<open>_ = m\<close>, a result thrown away.  \<open>for_each\<close> and \<open>for_each_err\<close> are the two
  shapes of \<^verbatim>\<open>for _, x := range xs\<close> the code has: without and with an early return.

  The collection \<open>evolve_intros\<close> holds the rules that show, by structural decomposition,
  that a computation only moves its state along a preorder; \<open>sort_by\<close> is the sorting
  routine behind every \<^verbatim>\<open>sort.Slice\<close>.
\<close>

named_theorems evolve_intros \<open>how a computation moves the state along a preorder\<close>
named_theorems run_simps \<open>what a computation returns and which state it leaves\<close>

abbreviation ret :: "'a \<Rightarrow> ('s, 'a) state" where
  "ret \<equiv> State_Monad.return"

abbreviation ok :: "'a \<Rightarrow> ('s, 'err + 'a) state" where
  "ok x \<equiv> State_Monad.return (Inr x)"

abbreviation fail :: "'err \<Rightarrow> ('s, 'err + 'a) state" where
  "fail e \<equiv> State_Monad.return (Inl e)"

definition check :: "('s, 'err + 'a) state \<Rightarrow> ('a \<Rightarrow> ('s, 'err + 'b) state)
    \<Rightarrow> ('s, 'err + 'b) state" where
  "check m k = do { r \<leftarrow> m; (case r of Inl e \<Rightarrow> ret (Inl e) | Inr x \<Rightarrow> k x) }"

definition ignore :: "('s, 'a) state \<Rightarrow> ('s, unit) state" where
  "ignore m = do { m; ret () }"

fun for_each :: "('a \<Rightarrow> ('s, 'b) state) \<Rightarrow> 'a list \<Rightarrow> ('s, unit) state" where
  "for_each f [] = ret ()"
| "for_each f (x # xs) = do { f x; for_each f xs }"

fun for_each_err :: "('a \<Rightarrow> ('s, 'err + unit) state) \<Rightarrow> 'a list
    \<Rightarrow> ('s, 'err + unit) state" where
  "for_each_err f [] = ok ()"
| "for_each_err f (x # xs) = check (f x) (\<lambda>_. for_each_err f xs)"

text \<open>The outcome of a run as a boolean: whether it returned no error.\<close>

definition succeeded :: "('err + 'a) \<times> 's \<Rightarrow> bool \<times> 's" where
  "succeeded r = (case fst r of Inl _ \<Rightarrow> False | Inr _ \<Rightarrow> True, snd r)"

lemma succeeded_simps [simp]:
  "succeeded r = (True, s) \<longleftrightarrow> (\<exists>x. r = (Inr x, s))"
  "succeeded r = (False, s) \<longleftrightarrow> (\<exists>e. r = (Inl e, s))"
  "snd (succeeded r) = snd r"
  by (cases r; cases "fst r"; auto simp: succeeded_def)+

subsection \<open>Running a computation\<close>

lemma run_check [run_simps]:
  "run_state (check m k) s =
     (case run_state m s of (Inl e, s') \<Rightarrow> (Inl e, s') | (Inr x, s') \<Rightarrow> run_state (k x) s')"
  by (auto simp: check_def split: prod.splits sum.splits)

lemma run_ignore [run_simps]: "run_state (ignore m) w = ((), snd (run_state m w))"
  by (simp add: ignore_def split: prod.splits)

lemma check_InrE:
  assumes "run_state (check m k) s = (Inr y, s')"
  obtains x s1 where "run_state m s = (Inr x, s1)" "run_state (k x) s1 = (Inr y, s')"
  using assms by (auto simp: run_check split: prod.splits sum.splits)

lemma for_each_append:
  "run_state (for_each f (xs @ ys)) s =
     run_state (for_each f ys) (snd (run_state (for_each f xs) s))"
  by (induction xs arbitrary: s) (auto split: prod.splits)

subsection \<open>Moving along a preorder\<close>

definition preorder_rel :: "('s \<Rightarrow> 's \<Rightarrow> bool) \<Rightarrow> bool" where
  "preorder_rel R \<longleftrightarrow> reflp R \<and> transp R"

lemma preorder_rel_refl: "preorder_rel R \<Longrightarrow> R s s"
  by (simp add: preorder_rel_def reflpD)

lemma preorder_rel_trans: "preorder_rel R \<Longrightarrow> R s t \<Longrightarrow> R t u \<Longrightarrow> R s u"
  unfolding preorder_rel_def by (meson transpD)

lemma io_rel_return [evolve_intros]:
  "preorder_rel R \<Longrightarrow> state_io_rel R (State_Monad.return x)"
  by (simp add: state_io_rel_def preorder_rel_refl)

lemma io_rel_get [evolve_intros]: "preorder_rel R \<Longrightarrow> state_io_rel R State_Monad.get"
  by (simp add: state_io_rel_def preorder_rel_refl)

lemma io_rel_bind [evolve_intros]:
  assumes "preorder_rel R" "state_io_rel R m" "\<And>a. state_io_rel R (f a)"
  shows "state_io_rel R (m \<bind> f)"
  using assms unfolding state_io_rel_def
  by (auto split: prod.splits) (metis preorder_rel_trans snd_conv)

lemma io_rel_check [evolve_intros]:
  assumes "preorder_rel R" "state_io_rel R m" "\<And>a. state_io_rel R (f a)"
  shows "state_io_rel R (check m f)"
  using assms unfolding state_io_rel_def run_check
  by (auto split: prod.splits sum.splits) (metis preorder_rel_trans snd_conv)+

lemma evolve_ignore [evolve_intros]:
  "preorder_rel R \<Longrightarrow> state_io_rel R m \<Longrightarrow> state_io_rel R (ignore m)"
  unfolding ignore_def by (intro evolve_intros; assumption?)

lemma io_rel_if [evolve_intros]:
  "(b \<Longrightarrow> state_io_rel R m) \<Longrightarrow> (\<not> b \<Longrightarrow> state_io_rel R n) \<Longrightarrow> state_io_rel R (if b then m else n)"
  by simp

lemma io_rel_case_sum [evolve_intros]:
  "(\<And>x. state_io_rel R (f x)) \<Longrightarrow> (\<And>y. state_io_rel R (g y)) \<Longrightarrow>
     state_io_rel R (case v of Inl x \<Rightarrow> f x | Inr y \<Rightarrow> g y)"
  by (cases v) simp_all

lemma io_rel_case_option [evolve_intros]:
  "state_io_rel R m \<Longrightarrow> (\<And>y. state_io_rel R (g y)) \<Longrightarrow>
     state_io_rel R (case v of None \<Rightarrow> m | Some y \<Rightarrow> g y)"
  by (cases v) simp_all

lemma io_rel_case_list [evolve_intros]:
  "state_io_rel R m \<Longrightarrow> (\<And>y ys. state_io_rel R (g y ys)) \<Longrightarrow>
     state_io_rel R (case v of [] \<Rightarrow> m | y # ys \<Rightarrow> g y ys)"
  by (cases v) simp_all

lemma io_rel_case_prod [evolve_intros]:
  "(\<And>x y. state_io_rel R (f x y)) \<Longrightarrow> state_io_rel R (case v of (x, y) \<Rightarrow> f x y)"
  by (cases v) simp_all

lemma io_rel_for_each [evolve_intros]:
  assumes "preorder_rel R" "\<And>x. state_io_rel R (f x)"
  shows "state_io_rel R (for_each f xs)"
  using assms by (induction xs) (auto intro!: evolve_intros)

lemma io_rel_for_each_err [evolve_intros]:
  assumes "preorder_rel R" "\<And>x. state_io_rel R (f x)"
  shows "state_io_rel R (for_each_err f xs)"
  using assms by (induction xs) (auto intro!: evolve_intros)

subsection \<open>Sorting by a strict comparison\<close>

text \<open>
  \<^verbatim>\<open>sort.Slice(xs, lt)\<close> returns some permutation of \<open>xs\<close> with no later element
  less than an earlier one.  \<open>sort_by\<close> is a stable insertion sort: where \<open>lt\<close>
  is a strict total order on the elements every such permutation is the same list, and
  where it is not, it is one of the results the library may give.
\<close>

fun insert_by :: "('a \<Rightarrow> 'a \<Rightarrow> bool) \<Rightarrow> 'a \<Rightarrow> 'a list \<Rightarrow> 'a list" where
  "insert_by lt x [] = [x]"
| "insert_by lt x (y # ys) = (if lt y x then y # insert_by lt x ys else x # y # ys)"

fun sort_by :: "('a \<Rightarrow> 'a \<Rightarrow> bool) \<Rightarrow> 'a list \<Rightarrow> 'a list" where
  "sort_by lt [] = []"
| "sort_by lt (x # xs) = insert_by lt x (sort_by lt xs)"

lemma mset_insert_by [simp]: "mset (insert_by lt x ys) = add_mset x (mset ys)"
  by (induction ys) auto

lemma mset_sort_by [simp]: "mset (sort_by lt xs) = mset xs"
  by (induction xs) auto

lemma set_sort_by [simp]: "set (sort_by lt xs) = set xs"
  by (metis mset_sort_by set_mset_mset)

lemma length_sort_by [simp]: "length (sort_by lt xs) = length xs"
  by (metis mset_sort_by size_mset)

lemma sort_by_eq_Nil [simp]: "sort_by lt xs = [] \<longleftrightarrow> xs = []"
  by (metis length_0_conv length_sort_by)

lemma distinct_sort_by [simp]: "distinct (sort_by lt xs) \<longleftrightarrow> distinct xs"
  by (metis mset_eq_imp_distinct_iff mset_sort_by)

lemma distinct_map_sort_by [simp]: "distinct (map f (sort_by lt xs)) \<longleftrightarrow> distinct (map f xs)"
  by (metis mset_eq_imp_distinct_iff mset_map mset_sort_by)

lemma sorted_insert_by:
  assumes asym: "\<And>a b. lt a b \<Longrightarrow> \<not> lt b a"
    and trans: "\<And>a b c. \<not> lt b a \<Longrightarrow> \<not> lt c b \<Longrightarrow> \<not> lt c a"
    and "sorted_wrt (\<lambda>a b. \<not> lt b a) ys"
  shows "sorted_wrt (\<lambda>a b. \<not> lt b a) (insert_by lt x ys)"
  using assms(3)
proof (induction ys)
  case Nil
  then show ?case by simp
next
  case (Cons y ys)
  show ?case
  proof (cases "lt y x")
    case True
    have "set (insert_by lt x ys) = insert x (set ys)"
      by (metis mset_insert_by set_mset_add_mset_insert set_mset_mset)
    with True Cons asym show ?thesis by auto
  next
    case False
    with Cons.prems trans show ?thesis by auto
  qed
qed

lemma sorted_sort_by:
  assumes asym: "\<And>a b. lt a b \<Longrightarrow> \<not> lt b a"
    and trans: "\<And>a b c. \<not> lt b a \<Longrightarrow> \<not> lt c b \<Longrightarrow> \<not> lt c a"
  shows "sorted_wrt (\<lambda>a b. \<not> lt b a) (sort_by lt xs)"
  by (induction xs) (auto intro: sorted_insert_by [OF assms])

lemma hd_sort_by_least:
  assumes asym: "\<And>a b. lt a b \<Longrightarrow> \<not> lt b a"
    and trans: "\<And>a b c. \<not> lt b a \<Longrightarrow> \<not> lt c b \<Longrightarrow> \<not> lt c a"
    and "sort_by lt xs = y # ys" and "x \<in> set xs"
  shows "\<not> lt x y"
proof -
  have "sorted_wrt (\<lambda>a b. \<not> lt b a) (y # ys)"
    using sorted_sort_by [where lt = lt and xs = xs] asym trans assms(3) by metis
  moreover have "x \<in> set (y # ys)"
    using assms(3,4) by (metis set_sort_by)
  ultimately show ?thesis using asym by auto
qed

subsection \<open>Lists and maps\<close>

lemma find_Some_in: "find P xs = Some x \<Longrightarrow> x \<in> set xs \<and> P x"
  by (auto simp: find_Some_iff)

lemma distinct_map_filter [intro]: "distinct (map f xs) \<Longrightarrow> distinct (map f (filter P xs))"
  by (induction xs) auto

lemma distinct_map_inj: "distinct (map f xs) \<Longrightarrow> x \<in> set xs \<Longrightarrow> y \<in> set xs \<Longrightarrow> f x = f y \<Longrightarrow> x = y"
  by (metis distinct_map inj_onD)

lemma find_unique:
  assumes "distinct (map f xs)" "x \<in> set xs" "f x = k"
  shows "find (\<lambda>r. f r = k) xs = Some x"
  using assms by (induction xs) auto

lemma find_None_key: "find (\<lambda>r. f r = k) xs = None \<longleftrightarrow> k \<notin> f ` set xs"
  by (auto simp: find_None_iff)

end
