(* ===== verification/GoLib.thy ===== *)
theory GoLib
  imports Prelude "HOL-Library.Char_ord" "HOL-Library.List_Lexorder"
begin

section \<open>The part of Go and its standard library that the code uses\<close>

text \<open>
  Go strings are byte strings: \<open>string\<close> is a list of \<open>char\<close>, each a byte.  Comparison is
  bytewise lexicographic (the order of \<^verbatim>\<open>List_Lexorder\<close> over \<^verbatim>\<open>Char_ord\<close>).  \<open>TrimSpace\<close>
  strips the UTF-8 encodings of every rune for which \<^verbatim>\<open>unicode.IsSpace\<close> holds; \<open>ToLower\<close>,
  \<open>ToUpper\<close> and \<open>EqualFold\<close> act on ASCII letters and leave other bytes alone.  Signed 64-bit
  integers are \<open>int\<close> with the wrap-around \<open>i64\<close> written at the operations that can overflow.
  An \<^verbatim>\<open>error\<close> is its text together with the sentinel errors found along its \<^verbatim>\<open>%w\<close> chain,
  which is what \<^verbatim>\<open>errors.Is\<close> and \<^verbatim>\<open>err.Error()\<close> observe.
\<close>

subsection \<open>Integers\<close>

definition i64 :: "int \<Rightarrow> int" where
  "i64 x = (x + 2 ^ 63) mod 2 ^ 64 - 2 ^ 63"

definition in_i64 :: "int \<Rightarrow> bool" where
  "in_i64 x \<longleftrightarrow> - (2 ^ 63) \<le> x \<and> x < 2 ^ 63"

lemma i64_id: "in_i64 x \<Longrightarrow> i64 x = x"
  by (simp add: i64_def in_i64_def)

lemma in_i64_i64 [simp]: "in_i64 (i64 x)"
  by (auto simp: i64_def in_i64_def)

lemma i64_0 [simp]: "i64 0 = 0"
  by (simp add: i64_def)

lemma in_i64_small: "0 \<le> x \<Longrightarrow> x < 2 ^ 63 \<Longrightarrow> in_i64 x"
  by (simp add: in_i64_def)

text \<open>Go's \<^verbatim>\<open>/\<close> on signed integers rounds towards zero.\<close>

definition go_div :: "int \<Rightarrow> int \<Rightarrow> int" where
  "go_div n d =
     (let q = abs n div abs d in if (n < 0) = (d < 0) then q else - q)"

lemma go_div_nonneg: "0 \<le> n \<Longrightarrow> 0 < d \<Longrightarrow> go_div n d = n div d"
  by (simp add: go_div_def)

subsection \<open>Strings\<close>

definition HasPrefix :: "string \<Rightarrow> string \<Rightarrow> bool" where
  "HasPrefix s p \<longleftrightarrow> take (length p) s = p"

definition HasSuffix :: "string \<Rightarrow> string \<Rightarrow> bool" where
  "HasSuffix s p \<longleftrightarrow> HasPrefix (rev s) (rev p)"

definition TrimPrefix :: "string \<Rightarrow> string \<Rightarrow> string" where
  "TrimPrefix s p = (if HasPrefix s p then drop (length p) s else s)"

definition TrimSuffix :: "string \<Rightarrow> string \<Rightarrow> string" where
  "TrimSuffix s p = (if HasSuffix s p then take (length s - length p) s else s)"

fun Contains :: "string \<Rightarrow> string \<Rightarrow> bool" where
  "Contains [] p = (p = [])"
| "Contains (c # s) p = (HasPrefix (c # s) p \<or> Contains s p)"

definition TrimRightByte :: "char \<Rightarrow> string \<Rightarrow> string" where
  "TrimRightByte c s = rev (dropWhile (\<lambda>x. x = c) (rev s))"

fun SplitByte :: "char \<Rightarrow> string \<Rightarrow> string list" where
  "SplitByte c [] = [[]]"
| "SplitByte c (x # s) =
     (if x = c then [] # SplitByte c s
      else (case SplitByte c s of [] \<Rightarrow> [[x]] | p # ps \<Rightarrow> (x # p) # ps))"

fun Join :: "string list \<Rightarrow> string \<Rightarrow> string" where
  "Join [] sep = []"
| "Join [p] sep = p"
| "Join (p # q # ps) sep = p @ sep @ Join (q # ps) sep"

text \<open>The UTF-8 encodings of the runes with \<^verbatim>\<open>unicode.IsSpace\<close>, none a prefix of another.\<close>

definition space_runes :: "string list" where
  "space_runes =
     [[CHR 0x09], [CHR 0x0A], [CHR 0x0B], [CHR 0x0C], [CHR 0x0D], [CHR 0x20],
      [CHR 0xC2, CHR 0x85], [CHR 0xC2, CHR 0xA0], [CHR 0xE1, CHR 0x9A, CHR 0x80],
      [CHR 0xE2, CHR 0x80, CHR 0x80], [CHR 0xE2, CHR 0x80, CHR 0x81],
      [CHR 0xE2, CHR 0x80, CHR 0x82], [CHR 0xE2, CHR 0x80, CHR 0x83],
      [CHR 0xE2, CHR 0x80, CHR 0x84], [CHR 0xE2, CHR 0x80, CHR 0x85],
      [CHR 0xE2, CHR 0x80, CHR 0x86], [CHR 0xE2, CHR 0x80, CHR 0x87],
      [CHR 0xE2, CHR 0x80, CHR 0x88], [CHR 0xE2, CHR 0x80, CHR 0x89],
      [CHR 0xE2, CHR 0x80, CHR 0x8A], [CHR 0xE2, CHR 0x80, CHR 0xA8],
      [CHR 0xE2, CHR 0x80, CHR 0xA9], [CHR 0xE2, CHR 0x80, CHR 0xAF],
      [CHR 0xE2, CHR 0x81, CHR 0x9F], [CHR 0xE3, CHR 0x80, CHR 0x80]]"

definition leading_space :: "string list \<Rightarrow> string \<Rightarrow> nat" where
  "leading_space ws s = (case find (HasPrefix s) ws of None \<Rightarrow> 0 | Some w \<Rightarrow> length w)"

function trim_left :: "string list \<Rightarrow> string \<Rightarrow> string" where
  "trim_left ws s =
     (if s = [] \<or> leading_space ws s = 0 then s else trim_left ws (drop (leading_space ws s) s))"
  by pat_completeness auto
termination
  by (relation "measure (\<lambda>(ws, s). length s)") auto

declare trim_left.simps [simp del]

definition TrimSpace :: "string \<Rightarrow> string" where
  "TrimSpace s = rev (trim_left (map rev space_runes) (rev (trim_left space_runes s)))"

definition lower_byte :: "char \<Rightarrow> char" where
  "lower_byte c = (if CHR ''A'' \<le> c \<and> c \<le> CHR ''Z'' then char_of ((of_char c :: nat) + 32) else c)"

definition upper_byte :: "char \<Rightarrow> char" where
  "upper_byte c = (if CHR ''a'' \<le> c \<and> c \<le> CHR ''z'' then char_of ((of_char c :: nat) - 32) else c)"

definition ToLower :: "string \<Rightarrow> string" where
  "ToLower s = map lower_byte s"

definition ToUpper :: "string \<Rightarrow> string" where
  "ToUpper s = map upper_byte s"

definition EqualFold :: "string \<Rightarrow> string \<Rightarrow> bool" where
  "EqualFold s t \<longleftrightarrow> ToLower s = ToLower t"

fun show_nat :: "nat \<Rightarrow> string" where
  "show_nat n = (if n < 10 then [char_of (48 + n)] else show_nat (n div 10) @ [char_of (48 + n mod 10)])"

declare show_nat.simps [simp del]

definition show_int :: "int \<Rightarrow> string" where
  "show_int i = (if i < 0 then CHR ''-'' # show_nat (nat (- i)) else show_nat (nat i))"

subsection \<open>Facts about trimming\<close>

lemma HasPrefix_drop: "HasPrefix s p \<Longrightarrow> s = p @ drop (length p) s"
  unfolding HasPrefix_def by (metis append_take_drop_id)

lemma HasPrefix_append [simp]: "HasPrefix (p @ s) p"
  by (simp add: HasPrefix_def)

lemma HasPrefix_iff: "HasPrefix s p \<longleftrightarrow> (\<exists>t. s = p @ t)"
  by (metis HasPrefix_append HasPrefix_drop)

lemma leading_space_prefix:
  assumes "leading_space ws (s @ t) = 0" "[] \<notin> set ws"
  shows "leading_space ws s = 0"
proof -
  have "\<not> HasPrefix (s @ t) w" if "w \<in> set ws" for w
    using assms that unfolding leading_space_def
    by (auto split: option.splits dest!: find_Some_in simp: find_None_iff)
  then have "\<not> HasPrefix s w" if "w \<in> set ws" for w
    using that by (metis HasPrefix_iff append.assoc)
  then have "find (HasPrefix s) ws = None"
    by (auto simp: find_None_iff)
  then show ?thesis by (simp add: leading_space_def)
qed

lemma trim_left_leading: "trim_left ws s = [] \<or> leading_space ws (trim_left ws s) = 0"
  by (induction ws s rule: trim_left.induct) (metis trim_left.simps)

lemma trim_left_suffix: "\<exists>p. s = p @ trim_left ws s"
proof (induction ws s rule: trim_left.induct)
  case (1 ws s)
  show ?case
  proof (cases "s = [] \<or> leading_space ws s = 0")
    case True
    then show ?thesis by (subst trim_left.simps) auto
  next
    case False
    with 1 obtain p where "drop (leading_space ws s) s = p @ trim_left ws (drop (leading_space ws s) s)"
      by blast
    moreover have "trim_left ws s = trim_left ws (drop (leading_space ws s) s)"
      using False by (subst trim_left.simps) simp
    ultimately have "s = (take (leading_space ws s) s @ p) @ trim_left ws s"
      by (metis append.assoc append_take_drop_id)
    then show ?thesis by blast
  qed
qed

lemma trim_left_id: "leading_space ws s = 0 \<Longrightarrow> trim_left ws s = s"
  by (subst trim_left.simps) simp

lemma trim_left_Nil [simp]: "trim_left ws [] = []"
  by (subst trim_left.simps) simp

lemma Nil_notin_space_runes [simp]: "[] \<notin> set space_runes" "[] \<notin> set (map rev space_runes)"
  by (auto simp: space_runes_def)

lemma leading_space_Nil: "[] \<notin> set ws \<Longrightarrow> leading_space ws [] = 0"
  by (auto simp: leading_space_def HasPrefix_def split: option.splits dest!: find_Some_in)

lemma TrimSpace_idem [simp]: "TrimSpace (TrimSpace s) = TrimSpace s"
proof -
  let ?l = "trim_left space_runes s"
  let ?r = "trim_left (map rev space_runes) (rev ?l)"
  obtain p where p: "rev ?l = p @ ?r"
    using trim_left_suffix by blast
  have "leading_space space_runes ?l = 0"
    using trim_left_leading [of space_runes s] leading_space_Nil [of space_runes] by fastforce
  moreover have "?l = rev ?r @ rev p"
    using p by (metis rev_append rev_rev_ident)
  ultimately have "leading_space space_runes (rev ?r) = 0"
    by (metis Nil_notin_space_runes(1) leading_space_prefix)
  then have "trim_left space_runes (rev ?r) = rev ?r"
    by (rule trim_left_id)
  moreover have "leading_space (map rev space_runes) ?r = 0"
    using trim_left_leading [of "map rev space_runes" "rev ?l"] leading_space_Nil [of "map rev space_runes"]
    by fastforce
  ultimately show ?thesis
    by (simp add: TrimSpace_def trim_left_id)
qed

lemma TrimSpace_Nil [simp]: "TrimSpace [] = []"
  by (simp add: TrimSpace_def)

lemma TrimSpace_none: "TrimSpace ''(none)'' = ''(none)''"
  by code_simp

subsection \<open>Facts about case folding\<close>

lemma lower_byte_idem [simp]: "lower_byte (lower_byte c) = lower_byte c"
proof (cases "CHR ''A'' \<le> c \<and> c \<le> CHR ''Z''")
  case True
  then have c: "65 \<le> (of_char c :: nat)" "(of_char c :: nat) \<le> 90"
    by (simp_all add: less_eq_char_def)
  then have "(of_char (char_of ((of_char c :: nat) + 32) :: char) :: nat) = of_char c + 32"
    by simp
  with c show ?thesis by (simp add: lower_byte_def less_eq_char_def)
next
  case False
  then have "lower_byte c = c" by (simp only: lower_byte_def if_False)
  then show ?thesis by simp
qed

lemma ToLower_idem [simp]: "ToLower (ToLower s) = ToLower s"
  by (simp add: ToLower_def)

lemma lower_byte_eq:
  assumes "\<not> (CHR ''A'' \<le> b \<and> b \<le> CHR ''Z'')" "\<not> (CHR ''a'' \<le> b \<and> b \<le> CHR ''z'')"
  shows "lower_byte c = b \<longleftrightarrow> c = b"
proof (cases "CHR ''A'' \<le> c \<and> c \<le> CHR ''Z''")
  case True
  then have c: "65 \<le> (of_char c :: nat)" "(of_char c :: nat) \<le> 90"
    by (simp_all add: less_eq_char_def)
  then have lc: "(of_char (lower_byte c) :: nat) = of_char c + 32"
    using True by (simp add: lower_byte_def)
  have "lower_byte c \<noteq> b"
    using assms(2) c lc by (auto simp: less_eq_char_def)
  moreover have "c \<noteq> b" using True assms(1) by auto
  ultimately show ?thesis by simp
next
  case False
  then have "lower_byte c = c" by (simp only: lower_byte_def if_False)
  then show ?thesis by simp
qed

lemma HasPrefix_ToLower:
  assumes "\<forall>b \<in> set w. \<forall>c. (lower_byte c = b) = (c = b)"
  shows "HasPrefix (ToLower s) w \<longleftrightarrow> HasPrefix s w"
  using assms
proof (induction w arbitrary: s)
  case Nil
  then show ?case by (simp add: HasPrefix_def)
next
  case (Cons b w)
  show ?case
  proof (cases s)
    case Nil
    then show ?thesis by (simp add: HasPrefix_def ToLower_def)
  next
    case (Cons c t)
    have "HasPrefix (ToLower t) w = HasPrefix t w"
      by (rule Cons.IH) (use Cons.prems in auto)
    then show ?thesis
      using Cons Cons.prems by (simp add: HasPrefix_def ToLower_def)
  qed
qed

lemma ToLower_Nil [simp]: "ToLower [] = []" "ToLower s = [] \<longleftrightarrow> s = []"
  by (simp_all add: ToLower_def)

lemma leading_space_ToLower:
  assumes "\<And>w b c. w \<in> set ws \<Longrightarrow> b \<in> set w \<Longrightarrow> (lower_byte c = b) = (c = b)"
  shows "leading_space ws (ToLower s) = leading_space ws s"
proof -
  have "find (HasPrefix (ToLower s)) ws = find (HasPrefix s) ws"
    using assms by (intro find_cong) (auto simp: HasPrefix_ToLower)
  then show ?thesis by (simp add: leading_space_def)
qed

lemma trim_left_ToLower:
  assumes "\<And>w b c. w \<in> set ws \<Longrightarrow> b \<in> set w \<Longrightarrow> (lower_byte c = b) = (c = b)"
  shows "trim_left ws (ToLower s) = ToLower (trim_left ws s)"
  using assms
proof (induction ws s rule: trim_left.induct)
  case (1 ws s)
  have ls: "leading_space ws (ToLower s) = leading_space ws s"
    using 1(2) by (rule leading_space_ToLower)
  show ?case
  proof (cases "s = [] \<or> leading_space ws s = 0")
    case True
    then show ?thesis
      using ls by (auto simp: trim_left_id)
  next
    case False
    have "trim_left ws (ToLower (drop (leading_space ws s) s)) =
        ToLower (trim_left ws (drop (leading_space ws s) s))"
      using 1 False by blast
    moreover have "ToLower (drop (leading_space ws s) s) = drop (leading_space ws s) (ToLower s)"
      by (simp add: ToLower_def drop_map)
    ultimately show ?thesis
      using False ls trim_left.simps [of ws s] trim_left.simps [of ws "ToLower s"] by simp
  qed
qed

lemma rev_ToLower: "rev (ToLower s) = ToLower (rev s)"
  by (simp add: ToLower_def rev_map)

lemma space_rune_bytes:
  assumes "w \<in> set space_runes" "b \<in> set w"
  shows "(lower_byte c = b) = (c = b)"
proof (rule lower_byte_eq)
  have "\<forall>w \<in> set space_runes. \<forall>b \<in> set w. \<not> (CHR ''A'' \<le> b \<and> b \<le> CHR ''Z'') \<and> \<not> (CHR ''a'' \<le> b \<and> b \<le> CHR ''z'')"
    by (simp add: space_runes_def)
  with assms show "\<not> (CHR ''A'' \<le> b \<and> b \<le> CHR ''Z'')" "\<not> (CHR ''a'' \<le> b \<and> b \<le> CHR ''z'')"
    by blast+
qed

lemma TrimSpace_ToLower: "TrimSpace (ToLower s) = ToLower (TrimSpace s)"
proof -
  have "trim_left space_runes (ToLower s) = ToLower (trim_left space_runes s)"
    by (rule trim_left_ToLower) (rule space_rune_bytes)
  moreover have "trim_left (map rev space_runes) (ToLower t) = ToLower (trim_left (map rev space_runes) t)" for t
  proof (rule trim_left_ToLower)
    fix w b c
    assume "w \<in> set (map rev space_runes)" "b \<in> set w"
    then have "rev w \<in> set space_runes" "b \<in> set (rev w)" by auto
    then show "(lower_byte c = b) = (c = b)" by (rule space_rune_bytes)
  qed
  ultimately show ?thesis
    by (simp add: TrimSpace_def rev_ToLower)
qed

lemma EqualFold_refl [simp]: "EqualFold s s"
  by (simp add: EqualFold_def)

subsection \<open>Errors\<close>

datatype sentinel =
    ErrNoRows | ErrInvalidInput | ErrPortReservationConflict | ErrExternalConflict
  | ErrNotExist | ErrInvalidCursor

fun sentinel_text :: "sentinel \<Rightarrow> string" where
  "sentinel_text ErrNoRows = ''sql: no rows in result set''"
| "sentinel_text ErrInvalidInput = ''invalid input''"
| "sentinel_text ErrPortReservationConflict = ''port reservation conflict''"
| "sentinel_text ErrExternalConflict = ''external object conflict''"
| "sentinel_text ErrNotExist = ''file does not exist''"
| "sentinel_text ErrInvalidCursor = ''invalid cursor''"

datatype GoError = GoError (err_chain: "sentinel list") (err_text: string)

definition errors_Is :: "GoError \<Rightarrow> sentinel \<Rightarrow> bool" where
  "errors_Is e s \<longleftrightarrow> s \<in> set (err_chain e)"

definition sentinel_err :: "sentinel \<Rightarrow> GoError" where
  "sentinel_err s = GoError [s] (sentinel_text s)"

definition Errorf :: "string \<Rightarrow> GoError" where
  "Errorf msg = GoError [] msg"

text \<open>\<open>Errorf_w pre e\<close> is \<^verbatim>\<open>fmt.Errorf("pre: %w", e)\<close>; \<open>Errorf_s s post\<close> is \<^verbatim>\<open>fmt.Errorf("%w: post", s)\<close>.\<close>

definition Errorf_w :: "string \<Rightarrow> GoError \<Rightarrow> GoError" where
  "Errorf_w pre e = GoError (err_chain e) (pre @ '': '' @ err_text e)"

definition Errorf_s :: "sentinel \<Rightarrow> string \<Rightarrow> GoError" where
  "Errorf_s s post = GoError [s] (sentinel_text s @ '': '' @ post)"

lemma errors_Is_simps [simp]:
  "errors_Is (sentinel_err s) t \<longleftrightarrow> t = s"
  "errors_Is (Errorf m) t \<longleftrightarrow> False"
  "errors_Is (Errorf_w m e) t \<longleftrightarrow> errors_Is e t"
  "errors_Is (Errorf_s s m) t \<longleftrightarrow> t = s"
  by (auto simp: errors_Is_def sentinel_err_def Errorf_def Errorf_w_def Errorf_s_def)

end
