(* ===== verification/Pkg_Env.thy ===== *)
theory Pkg_Env
  imports Complex_Main GoLib
begin

section \<open>pkg: reading the environment\<close>

text \<open>
  \<^verbatim>\<open>pkg/envutil/envutil.go\<close> and \<^verbatim>\<open>pkg/configutil/configutil.go\<close>.  The process environment and
  the two numeric parsers of the standard library the code calls and never looks into are the
  record \<open>Environment\<close>: \<open>Getenv\<close>, \<open>ParseDuration\<close> (nanoseconds) and \<open>ParseFloat\<close>.  \<open>Atoi\<close> is
  written out.  A 64-bit float is a rational number, a NaN or an infinity.
\<close>

datatype GoFloat = Finite rat | NaN | Infinite

record Environment =
  Getenv :: "string \<Rightarrow> string"
  ParseDuration :: "string \<Rightarrow> int option"
  ParseFloat :: "string \<Rightarrow> GoFloat option"

subsection \<open>strconv.Atoi\<close>

definition digit_value :: "char \<Rightarrow> int option" where
  "digit_value c = (if CHR ''0'' \<le> c \<and> c \<le> CHR ''9'' then Some (int (of_char c) - 48) else None)"

fun digits_value :: "int \<Rightarrow> string \<Rightarrow> int option" where
  "digits_value acc [] = Some acc"
| "digits_value acc (c # cs) = (case digit_value c of None \<Rightarrow> None | Some d \<Rightarrow> digits_value (10 * acc + d) cs)"

definition ParseUintDigits :: "string \<Rightarrow> int option" where
  "ParseUintDigits s = (if s = [] then None else digits_value 0 s)"

definition Atoi :: "string \<Rightarrow> int option" where
  "Atoi s =
     (let (neg, digits) =
        (case s of [] \<Rightarrow> (False, [])
         | c # cs \<Rightarrow> if c = CHR ''-'' then (True, cs) else if c = CHR ''+'' then (False, cs) else (False, s)) in
      (case ParseUintDigits digits of
         None \<Rightarrow> None
       | Some n \<Rightarrow> let v = (if neg then - n else n) in if in_i64 v then Some v else None))"

subsection \<open>envutil\<close>

definition envutil_Get :: "Environment \<Rightarrow> string \<Rightarrow> string \<Rightarrow> string" where
  "envutil_Get env key def =
     (let v = TrimSpace (Getenv env key) in if v = [] then def else v)"

definition envutil_GetInt :: "Environment \<Rightarrow> string \<Rightarrow> int \<Rightarrow> int" where
  "envutil_GetInt env key def =
     (let v = TrimSpace (Getenv env key) in
      if v = [] then def else (case Atoi v of None \<Rightarrow> def | Some n \<Rightarrow> n))"

definition envutil_GetFloat64 :: "Environment \<Rightarrow> string \<Rightarrow> GoFloat \<Rightarrow> GoFloat" where
  "envutil_GetFloat64 env key def =
     (let v = TrimSpace (Getenv env key) in
      if v = [] then def
      else (case ParseFloat env v of
              None \<Rightarrow> def
            | Some NaN \<Rightarrow> def
            | Some Infinite \<Rightarrow> def
            | Some (Finite q) \<Rightarrow> Finite q))"

definition envutil_GetDuration :: "Environment \<Rightarrow> string \<Rightarrow> int \<Rightarrow> int" where
  "envutil_GetDuration env key def =
     (let v = TrimSpace (Getenv env key) in
      if v = [] then def
      else (case ParseDuration env v of None \<Rightarrow> def | Some d \<Rightarrow> if d \<le> 0 then def else d))"

definition envutil_GetBool :: "Environment \<Rightarrow> string \<Rightarrow> bool \<Rightarrow> bool" where
  "envutil_GetBool env key def =
     (let v = TrimSpace (ToLower (Getenv env key)) in
      if v = [] then def
      else if v \<in> set [''1'', ''true'', ''yes'', ''y'', ''on''] then True
      else if v \<in> set [''0'', ''false'', ''no'', ''n'', ''off''] then False
      else def)"

subsection \<open>configutil\<close>

definition SplitCSV :: "string \<Rightarrow> string list" where
  "SplitCSV raw = map (\<lambda>p. ToUpper (TrimSpace p)) (SplitByte (CHR '','') raw)"

definition CSVEnv :: "Environment \<Rightarrow> string \<Rightarrow> string list \<Rightarrow> string list" where
  "CSVEnv env key def =
     (let raw = Getenv env key in
      if raw = [] then def
      else let out = filter (\<lambda>p. p \<noteq> []) (SplitCSV raw) in
        if out = [] then def else out)"

subsection \<open>Facts\<close>

lemma GetDuration_pos: "0 < def \<Longrightarrow> 0 < envutil_GetDuration env key def"
  by (simp add: envutil_GetDuration_def Let_def split: option.splits)

lemma GetFloat64_finite: "\<exists>q. envutil_GetFloat64 env key (Finite d) = Finite q"
  by (auto simp: envutil_GetFloat64_def Let_def split: option.splits GoFloat.splits)

lemma digit_value_range: "digit_value c = Some d \<Longrightarrow> 0 \<le> d \<and> d \<le> 9"
proof -
  assume "digit_value c = Some d"
  then have c: "CHR ''0'' \<le> c" "c \<le> CHR ''9''" "d = int (of_char c) - 48"
    by (auto simp: digit_value_def split: if_splits)
  from c(1,2) have n: "48 \<le> (of_char c :: nat)" "(of_char c :: nat) \<le> 57"
    by (simp_all add: less_eq_char_def)
  with c(3) show ?thesis by linarith
qed

lemma digits_value_nonneg: "0 \<le> acc \<Longrightarrow> digits_value acc s = Some n \<Longrightarrow> 0 \<le> n"
  by (induction acc s rule: digits_value.induct) (auto split: option.splits dest: digit_value_range)

lemma Atoi_in_i64: "Atoi s = Some n \<Longrightarrow> in_i64 n"
  by (auto simp: Atoi_def Let_def split: option.splits if_splits prod.splits)

lemma SplitByte_nonempty [simp]: "SplitByte c s \<noteq> []"
  by (induction c s rule: SplitByte.induct) (auto split: list.splits)

lemma length_SplitByte: "length (SplitByte c s) = Suc (length (filter (\<lambda>x. x = c) s))"
  by (induction c s rule: SplitByte.induct) (auto split: list.splits)

lemma CSVEnv_nonempty:
  assumes "def \<noteq> []" "[] \<notin> set def"
  shows "CSVEnv env key def \<noteq> [] \<and> [] \<notin> set (CSVEnv env key def)"
  using assms by (auto simp: CSVEnv_def Let_def)

text \<open>\<open>Atoi\<close> reads back what \<open>%d\<close> prints.\<close>

lemma digits_value_append:
  "digits_value acc (s @ t) = (case digits_value acc s of None \<Rightarrow> None | Some a \<Rightarrow> digits_value a t)"
  by (induction acc s rule: digits_value.induct) (auto split: option.splits)

lemma digit_value_char: "k < 10 \<Longrightarrow> digit_value (char_of (48 + k)) = Some (int k)"
proof -
  assume "k < (10 :: nat)"
  then have "k \<in> {0, 1, 2, 3, 4, 5, 6, 7, 8, 9}" by auto
  then show ?thesis
    by (auto simp: digit_value_def less_eq_char_def)
qed

lemma digits_value_show_nat: "digits_value 0 (show_nat n) = Some (int n)"
proof (induction n rule: less_induct)
  case (less n)
  show ?case
  proof (cases "n < 10")
    case True
    then show ?thesis by (subst show_nat.simps) (simp add: digit_value_char)
  next
    case False
    then have "digits_value 0 (show_nat (n div 10)) = Some (int (n div 10))"
      by (intro less) simp
    moreover have "10 * int (n div 10) + int (n mod 10) = int n"
      by presburger
    ultimately show ?thesis
      using False by (subst show_nat.simps) (simp add: digits_value_append digit_value_char)
  qed
qed

lemma show_nat_nonempty [simp]: "show_nat n \<noteq> []"
  by (subst show_nat.simps) simp

lemma Atoi_show_nat:
  assumes "in_i64 (int n)"
  shows "Atoi (show_nat n) = Some (int n)"
proof -
  obtain c cs where s: "show_nat n = c # cs" by (cases "show_nat n") auto
  have "digit_value c \<noteq> None"
    using digits_value_show_nat [of n] s by (auto split: option.splits)
  then have "c \<noteq> CHR ''-''" "c \<noteq> CHR ''+''"
    by (auto simp: digit_value_def less_eq_char_def split: if_splits)
  then show ?thesis
    using s digits_value_show_nat [of n] assms
    by (simp add: Atoi_def ParseUintDigits_def del: digits_value.simps)
qed

end
