(* ===== verification/Go_Net.thy ===== *)
theory Go_Net
  imports Pkg_Env
begin

section \<open>The part of net, net/http and strconv that both daemons use\<close>

text \<open>
  \<^verbatim>\<open>net.ParseIP\<close>, \<^verbatim>\<open>net.ParseCIDR\<close> and \<^verbatim>\<open>netip.ParsePrefix\<close> as far as their callers look at
  the result, the HTTP status codes, the number and truth-value parsers of \<^verbatim>\<open>strconv\<close>, and what
  the code reads from a quantity of \<^verbatim>\<open>k8s.io/apimachinery\<close>.
\<close>

subsection \<open>resource.Quantity\<close>

text \<open>
  \<^verbatim>\<open>resource.ParseQuantity\<close> is a parameter: a parsed quantity is what the code reads from it,
  its \<^verbatim>\<open>MilliValue\<close> and its \<^verbatim>\<open>Value\<close>, both 64-bit.
\<close>

record Quantity =
  q_MilliValue :: int
  q_Value :: int

subsection \<open>net.ParseIP\<close>

definition is_digit :: "char \<Rightarrow> bool" where
  "is_digit c \<longleftrightarrow> CHR ''0'' \<le> c \<and> c \<le> CHR ''9''"

definition is_hex :: "char \<Rightarrow> bool" where
  "is_hex c \<longleftrightarrow> is_digit c \<or> CHR ''a'' \<le> c \<and> c \<le> CHR ''f'' \<or> CHR ''A'' \<le> c \<and> c \<le> CHR ''F''"

definition ipv4_field :: "string \<Rightarrow> bool" where
  "ipv4_field s \<longleftrightarrow> s \<noteq> [] \<and> length s \<le> 3 \<and> list_all is_digit s \<and>
     (hd s = CHR ''0'' \<longrightarrow> length s = 1) \<and>
     (case digits_value 0 s of None \<Rightarrow> False | Some n \<Rightarrow> n \<le> 255)"

definition is_ipv4 :: "string \<Rightarrow> bool" where
  "is_ipv4 s \<longleftrightarrow> (let fs = SplitByte (CHR ''.'') s in length fs = 4 \<and> list_all ipv4_field fs)"

text \<open>\<open>ipv6_fields n e i s\<close>: at most \<open>n\<close> more fields, an ellipsis was seen or not, \<open>i\<close> bytes read.\<close>

fun ipv6_fields :: "nat \<Rightarrow> bool \<Rightarrow> nat \<Rightarrow> string \<Rightarrow> bool" where
  "ipv6_fields 0 e i s = (s = [] \<and> \<not> e)"
| "ipv6_fields (Suc n) e i s =
     (let h = takeWhile is_hex s; r = dropWhile is_hex s in
      if h = [] \<or> 4 < length h then False
      else (case r of
              [] \<Rightarrow> (if i + 2 < 16 then e else \<not> e)
            | c # r' \<Rightarrow>
                if c = CHR ''.'' then
                  (e \<or> i = 12) \<and> i + 4 \<le> 16 \<and> is_ipv4 s \<and> (if i + 4 < 16 then e else \<not> e)
                else if c \<noteq> CHR '':'' \<or> r' = [] then False
                else if hd r' = CHR '':'' then
                  \<not> e \<and> (if tl r' = [] then i + 2 < 16 else ipv6_fields n True (i + 2) (tl r'))
                else ipv6_fields n e (i + 2) r'))"

definition is_ipv6 :: "string \<Rightarrow> bool" where
  "is_ipv6 s =
     (if CHR ''%'' \<in> set s then False
      else if HasPrefix s ''::'' then (drop 2 s = [] \<or> ipv6_fields 8 True 0 (drop 2 s))
      else ipv6_fields 8 False 0 s)"

definition ParseIP_ok :: "string \<Rightarrow> bool" where
  "ParseIP_ok s =
     (case find (\<lambda>c. c = CHR ''.'' \<or> c = CHR '':'' \<or> c = CHR ''%'') s of
        None \<Rightarrow> False
      | Some c \<Rightarrow> if c = CHR ''.'' then is_ipv4 s else if c = CHR '':'' then is_ipv6 s else False)"

lemma ParseIP_examples:
  "ParseIP_ok ''10.0.0.1''" "\<not> ParseIP_ok ''10.0.0.01''" "\<not> ParseIP_ok ''10.0.0.256''"
  "\<not> ParseIP_ok ''10.0.0''" "\<not> ParseIP_ok ''localhost''" "ParseIP_ok ''::1''"
  "ParseIP_ok ''fe80::1:2''" "\<not> ParseIP_ok ''fe80::1::2''" "\<not> ParseIP_ok ''fe80::1%eth0''"
  "ParseIP_ok ''::ffff:10.0.0.1''" "\<not> ParseIP_ok ''1:2:3:4:5:6:7''" "ParseIP_ok ''1:2:3:4:5:6:7:8''"
  "ParseIP_ok ''1::''" "\<not> ParseIP_ok ''1:2:3:4:5:6:7:8::''" "\<not> ParseIP_ok ''12345::''"
  by code_simp+

text \<open>
  \<^verbatim>\<open>net.ParseCIDR\<close>, up to the size of the mask it returns: how many leading bits of how many.
  \<open>prefix_ipv4\<close> is the address \<^verbatim>\<open>netip.ParsePrefix\<close> reads when it is an IPv4 one.
\<close>

definition ip_bits :: "string \<Rightarrow> nat option" where
  "ip_bits s = (if ParseIP_ok s then Some (if is_ipv4 s then 32 else 128) else None)"

definition split_last :: "char \<Rightarrow> string \<Rightarrow> (string \<times> string) option" where
  "split_last c s =
     (if c \<in> set s
      then Some (rev (tl (dropWhile (\<lambda>x. x \<noteq> c) (rev s))), rev (takeWhile (\<lambda>x. x \<noteq> c) (rev s)))
      else None)"

definition split_first :: "char \<Rightarrow> string \<Rightarrow> (string \<times> string) option" where
  "split_first c s =
     (if c \<in> set s then Some (takeWhile (\<lambda>x. x \<noteq> c) s, tl (dropWhile (\<lambda>x. x \<noteq> c) s)) else None)"

definition ParseCIDR_mask :: "string \<Rightarrow> (nat \<times> nat) option" where
  "ParseCIDR_mask s =
     (case split_first (CHR ''/'') s of
        None \<Rightarrow> None
      | Some (addr, ones) \<Rightarrow>
          (case ip_bits addr of
             None \<Rightarrow> None
           | Some bits \<Rightarrow>
               (case ParseUintDigits ones of
                  None \<Rightarrow> None
                | Some n \<Rightarrow> if n \<le> int bits then Some (nat n, bits) else None)))"

definition prefix_ipv4 :: "string \<Rightarrow> string option" where
  "prefix_ipv4 s =
     (case split_last (CHR ''/'') s of
        None \<Rightarrow> None
      | Some (addr, bits) \<Rightarrow>
          if is_ipv4 addr \<and> \<not> (1 < length bits \<and> hd bits = CHR ''0'') \<and>
             (case ParseUintDigits bits of None \<Rightarrow> False | Some n \<Rightarrow> n \<le> 32)
          then Some addr else None)"

lemma ParseCIDR_examples:
  "ParseCIDR_mask ''10.89.0.0/16'' = Some (16, 32)" "ParseCIDR_mask ''10.89.0.0/33'' = None"
  "ParseCIDR_mask ''fd00::/64'' = Some (64, 128)" "ParseCIDR_mask ''10.89.0.0'' = None"
  "prefix_ipv4 ''10.89.0.7/16'' = Some ''10.89.0.7''" "prefix_ipv4 ''fd00::1/64'' = None"
  by code_simp+

subsection \<open>strconv\<close>

text \<open>The value \<^verbatim>\<open>Atoi\<close> returns next to its error, which \<^verbatim>\<open>limit, _ := strconv.Atoi(...)\<close> uses.\<close>

fun scan_uint :: "int \<Rightarrow> string \<Rightarrow> int option" where
  "scan_uint n [] = Some n"
| "scan_uint n (c # cs) =
     (case digit_value c of
        None \<Rightarrow> None
      | Some d \<Rightarrow> if 2 ^ 64 \<le> 10 * n + d then Some (2 ^ 64 - 1) else scan_uint (10 * n + d) cs)"

definition Atoi_value :: "string \<Rightarrow> int" where
  "Atoi_value s =
     (let (neg, digits) =
        (case s of [] \<Rightarrow> (False, [])
         | c # cs \<Rightarrow> if c = CHR ''-'' then (True, cs) else if c = CHR ''+'' then (False, cs) else (False, s)) in
      if digits = [] then 0
      else (case scan_uint 0 digits of
              None \<Rightarrow> 0
            | Some un \<Rightarrow> if neg then max (- (2 ^ 63)) (- un) else min (2 ^ 63 - 1) un))"

definition ParseBool :: "string \<Rightarrow> bool option" where
  "ParseBool s =
     (if s \<in> set [''1'', ''t'', ''T'', ''true'', ''TRUE'', ''True''] then Some True
      else if s \<in> set [''0'', ''f'', ''F'', ''false'', ''FALSE'', ''False''] then Some False
      else None)"

subsection \<open>net/http status codes and gin query defaults\<close>

definition StatusOK :: int where "StatusOK = 200"
definition StatusCreated :: int where "StatusCreated = 201"
definition StatusAccepted :: int where "StatusAccepted = 202"
definition StatusBadRequest :: int where "StatusBadRequest = 400"
definition StatusNotFound :: int where "StatusNotFound = 404"
definition StatusTooManyRequests :: int where "StatusTooManyRequests = 429"
definition StatusInternalServerError :: int where "StatusInternalServerError = 500"
definition StatusBadGateway :: int where "StatusBadGateway = 502"

lemmas status_codes = StatusOK_def StatusCreated_def StatusAccepted_def StatusBadRequest_def StatusNotFound_def
  StatusTooManyRequests_def StatusInternalServerError_def StatusBadGateway_def

definition DefaultQuery :: "string option \<Rightarrow> string \<Rightarrow> string" where
  "DefaultQuery q def = (case q of None \<Rightarrow> def | Some v \<Rightarrow> v)"

end
