(* ===== verification/Ctl_Value.thy ===== *)
theory Ctl_Value
  imports Go_Net
begin

section \<open>sbxctl: dynamic values\<close>

text \<open>
  The operator's client \<^verbatim>\<open>sbxctl\<close> works on \<^verbatim>\<open>any\<close> values: \<open>any\<close> has a constructor for each dynamic
  type its code distinguishes (the signed integers, the unsigned ones and the floats are one each,
  a \<^verbatim>\<open>map[string]any\<close> is a nil map or a list of its entries).  Of the libraries it calls the record
  \<open>Lib\<close> holds what the model does not write out: YAML decoding and the encoders' errors (yaml.v3 is
  third-party), \<^verbatim>\<open>json.Unmarshal\<close> into a map, and the printing, parsing and out-of-range conversion
  of floats.  This theory models \<^verbatim>\<open>toString\<close>, \<^verbatim>\<open>anyToInt64\<close>, the two unit formats and the row
  extraction of \<^verbatim>\<open>sandboxd-ctl/cmd/output.go\<close>.
\<close>

datatype any =
    AnyNil | AnyBool bool | AnyInt int | AnyUint int | AnyFloat GoFloat | AnyNumber string
  | AnyString string | AnySlice "any list" | AnyNilMap | AnyMap "(string \<times> any) list"

type_synonym gomap = "(string \<times> any) list option"

record SandboxManifest =
  mf_APIVersion :: string
  mf_Kind :: string
  mf_ID :: string
  mf_Spec :: gomap

record Lib =
  lib_yaml_Unmarshal :: "string \<Rightarrow> GoError + SandboxManifest"
  lib_yaml_error :: "gomap \<Rightarrow> GoError option"
  lib_json_Unmarshal :: "string \<Rightarrow> GoError + gomap"
  lib_json_error :: "gomap \<Rightarrow> GoError option"
  lib_show_float :: "GoFloat \<Rightarrow> string"
  lib_ParseFloat :: "string \<Rightarrow> GoFloat option"
  lib_int64_overflow :: "GoFloat \<Rightarrow> int"

subsection \<open>The verb \<^verbatim>\<open>%q\<close>\<close>

text \<open>Escapes of \<^verbatim>\<open>strconv.Quote\<close> for ASCII; bytes of longer UTF-8 sequences stay as they are.\<close>

definition quote_byte :: "char \<Rightarrow> string" where
  "quote_byte c = (let n = of_char c :: nat in
     if c = CHR 0x22 \<or> c = CHR 0x5C then [CHR 0x5C, c]
     else if n = 7 then [CHR 0x5C, CHR ''a''] else if n = 8 then [CHR 0x5C, CHR ''b'']
     else if n = 9 then [CHR 0x5C, CHR ''t''] else if n = 10 then [CHR 0x5C, CHR ''n'']
     else if n = 11 then [CHR 0x5C, CHR ''v''] else if n = 12 then [CHR 0x5C, CHR ''f'']
     else if n = 13 then [CHR 0x5C, CHR ''r'']
     else if n < 32 \<or> n = 127 then
       [CHR 0x5C, CHR ''x'', ''0123456789abcdef'' ! (n div 16), ''0123456789abcdef'' ! (n mod 16)]
     else [c])"

definition Quote :: "string \<Rightarrow> string" where
  "Quote s = [CHR 0x22] @ concat (map quote_byte s) @ [CHR 0x22]"

subsection \<open>Maps\<close>

definition lookup :: "gomap \<Rightarrow> string \<Rightarrow> any" where
  "lookup m k = (case m of None \<Rightarrow> AnyNil
     | Some kvs \<Rightarrow> (case map_of kvs k of None \<Rightarrow> AnyNil | Some v \<Rightarrow> v))"

definition has_key :: "gomap \<Rightarrow> string \<Rightarrow> bool" where
  "has_key m k \<longleftrightarrow> (case m of None \<Rightarrow> False | Some kvs \<Rightarrow> map_of kvs k \<noteq> None)"

text \<open>\<open>as_map v\<close> is \<^verbatim>\<open>v.(map[string]any)\<close>, with \<open>None\<close> for \<^verbatim>\<open>ok == false\<close>; \<open>map_or_nil\<close> drops \<^verbatim>\<open>ok\<close>.\<close>

definition as_map :: "any \<Rightarrow> gomap option" where
  "as_map v = (case v of AnyNilMap \<Rightarrow> Some None | AnyMap kvs \<Rightarrow> Some (Some kvs) | _ \<Rightarrow> None)"

definition map_or_nil :: "any \<Rightarrow> gomap" where
  "map_or_nil v = (case as_map v of None \<Rightarrow> None | Some m \<Rightarrow> m)"

definition as_slice :: "any \<Rightarrow> any list option" where
  "as_slice v = (case v of AnySlice xs \<Rightarrow> Some xs | _ \<Rightarrow> None)"

definition any_of :: "gomap \<Rightarrow> any" where
  "any_of m = (case m of None \<Rightarrow> AnyNilMap | Some kvs \<Rightarrow> AnyMap kvs)"

subsection \<open>Printing and numbers\<close>

definition show_entries :: "(string \<times> string) list \<Rightarrow> string" where
  "show_entries kvs = Join (map (\<lambda>(k, s). k @ '':'' @ s) (sort_by (\<lambda>a b. fst a < fst b) kvs)) '' ''"

text \<open>The verb \<^verbatim>\<open>%v\<close>: maps print sorted by key.\<close>

primrec show_any :: "Lib \<Rightarrow> any \<Rightarrow> string" where
  "show_any L AnyNil = ''<nil>''"
| "show_any L (AnyBool b) = (if b then ''true'' else ''false'')"
| "show_any L (AnyInt i) = show_int i"
| "show_any L (AnyUint u) = show_int u"
| "show_any L (AnyFloat f) = lib_show_float L f"
| "show_any L (AnyNumber s) = s"
| "show_any L (AnyString s) = s"
| "show_any L (AnySlice xs) = ''['' @ Join (map (show_any L) xs) '' '' @ '']''"
| "show_any L AnyNilMap = ''map[]''"
| "show_any L (AnyMap kvs) = ''map['' @ show_entries (map (map_prod id (show_any L)) kvs) @ '']''"

definition toString :: "Lib \<Rightarrow> any \<Rightarrow> string" where
  "toString L v = (if v = AnyNil then [] else show_any L v)"

definition int64_of_float :: "Lib \<Rightarrow> GoFloat \<Rightarrow> int" where
  "int64_of_float L f = (case f of
       Finite q \<Rightarrow> (let t = (if q < 0 then - floor (- q) else floor q) in
         if in_i64 t then t else lib_int64_overflow L f)
     | _ \<Rightarrow> lib_int64_overflow L f)"

definition anyToInt64 :: "Lib \<Rightarrow> any \<Rightarrow> int" where
  "anyToInt64 L v = (case v of
       AnyInt i \<Rightarrow> i
     | AnyUint u \<Rightarrow> if 2 ^ 63 - 1 < u then 2 ^ 63 - 1 else u
     | AnyFloat f \<Rightarrow> int64_of_float L f
     | AnyNumber t \<Rightarrow> Atoi_value t
     | AnyString t \<Rightarrow>
         (let s = TrimSpace t in
          if s = [] then 0
          else (case Atoi s of
                  Some i \<Rightarrow> i
                | None \<Rightarrow> (case lib_ParseFloat L s of Some f \<Rightarrow> int64_of_float L f | None \<Rightarrow> 0)))
     | _ \<Rightarrow> 0)"

definition formatMilli :: "Lib \<Rightarrow> any \<Rightarrow> string" where
  "formatMilli L v = show_int (anyToInt64 L v) @ ''m''"

definition formatBytesMB :: "Lib \<Rightarrow> any \<Rightarrow> string" where
  "formatBytesMB L v = show_int (go_div (anyToInt64 L v) (1024 * 1024)) @ ''MB''"

subsection \<open>Rows\<close>

type_synonym row = "(string \<times> string) list"

definition cell :: "row \<Rightarrow> string \<Rightarrow> string" where
  "cell r k = (case map_of r k of None \<Rightarrow> [] | Some v \<Rightarrow> v)"

definition by_cell :: "string \<Rightarrow> row \<Rightarrow> row \<Rightarrow> bool" where
  "by_cell k a b \<longleftrightarrow> cell a k < cell b k"

definition port_cell :: "Lib \<Rightarrow> any \<Rightarrow> string option" where
  "port_cell L p = map_option (\<lambda>pm.
     (let proto0 = ToLower (toString L (lookup pm ''protocol''));
          proto = (if proto0 = [] then ''tcp'' else proto0) in
      toString L (lookup pm ''host_port'') @ ''/'' @ proto @ ''->'' @ toString L (lookup pm ''container_port'')))
     (as_map p)"

definition ports_cell :: "Lib \<Rightarrow> gomap \<Rightarrow> string" where
  "ports_cell L status = (case as_slice (lookup status ''assigned_ports'') of
       None \<Rightarrow> ''-''
     | Some ap \<Rightarrow> (let parts = List.map_filter (port_cell L) ap in
         if parts = [] then ''-'' else Join parts '',''))"

definition sandbox_row :: "Lib \<Rightarrow> gomap \<Rightarrow> row" where
  "sandbox_row L m0 =
     (let m = (case as_map (lookup m0 ''sandbox'') of None \<Rightarrow> m0 | Some nested \<Rightarrow> nested);
          status = map_or_nil (lookup m ''status'');
          spec = map_or_nil (lookup m ''spec'');
          containers = (case as_slice (lookup spec ''containers'') of None \<Rightarrow> 0 | Some cs \<Rightarrow> length cs);
          ip0 = toString L (lookup m ''ip'');
          ip = (if ip0 = [] then toString L (lookup status ''ip'') else ip0) in
      [(''name'', toString L (lookup m ''id'')),
       (''phase'', toString L (lookup status ''phase'')),
       (''node'', toString L (lookup status ''node_name'')),
       (''external'', toString L (lookup status ''external'')),
       (''ip'', ip),
       (''ports'', ports_cell L status),
       (''egress'', toString L (lookup spec ''egress'')),
       (''containers'', show_int (int containers)),
       (''expire_at'', toString L (lookup status ''expire_at'')),
       (''last_error'', toString L (lookup status ''last_error'')),
       (''created'', toString L (lookup m ''created_at''))])"

definition node_row :: "Lib \<Rightarrow> gomap \<Rightarrow> row" where
  "node_row L m =
     (let res = map_or_nil (lookup m ''resources'');
          id0 = toString L (lookup m ''id'');
          i = (if id0 = [] then toString L (lookup m ''name'') else id0) in
      [(''name'', i),
       (''state'', toString L (lookup m ''state'')),
       (''ip'', toString L (lookup m ''ip'')),
       (''port'', toString L (lookup m ''port'')),
       (''external'', toString L (lookup res ''external'')),
       (''updated'', toString L (lookup m ''updated_at'')),
       (''last_error'', toString L (lookup m ''last_error'')),
       (''last_heartbeat'', toString L (lookup m ''last_heartbeat'')),
       (''cpu'', formatMilli L (lookup res ''allocatable_cpu_milli'') @ ''/'' @
                 formatMilli L (lookup res ''used_cpu_milli'') @ ''/'' @
                 formatMilli L (lookup res ''available_cpu_milli'')),
       (''mem'', formatBytesMB L (lookup res ''allocatable_memory_bytes'') @ ''/'' @
                 formatBytesMB L (lookup res ''used_memory_bytes'') @ ''/'' @
                 formatBytesMB L (lookup res ''available_memory_bytes''))])"

definition external_row :: "Lib \<Rightarrow> gomap \<Rightarrow> row" where
  "external_row L m =
     [(''id'', toString L (lookup m ''id'')),
      (''node_id'', toString L (lookup m ''node_id'')),
      (''external'', toString L (lookup m ''external'')),
      (''updated'', toString L (lookup m ''updated_at''))]"

definition rows_of :: "(gomap \<Rightarrow> row) \<Rightarrow> string \<Rightarrow> any \<Rightarrow> row list" where
  "rows_of f k items = (case as_slice items of
       None \<Rightarrow> []
     | Some arr \<Rightarrow> sort_by (by_cell k) (map f (List.map_filter as_map arr)))"

definition extractSandboxRows :: "Lib \<Rightarrow> any \<Rightarrow> row list" where
  "extractSandboxRows L items = rows_of (sandbox_row L) ''name'' items"

definition extractNodeRows :: "Lib \<Rightarrow> any \<Rightarrow> row list" where
  "extractNodeRows L items = rows_of (node_row L) ''name'' items"

definition extractExternalRows :: "Lib \<Rightarrow> any \<Rightarrow> row list" where
  "extractExternalRows L items = rows_of (external_row L) ''id'' items"

subsection \<open>Facts\<close>

lemma cell_rows:
  "cell (sandbox_row L m) ''containers'' \<noteq> []" "cell (node_row L m) ''state'' = toString L (lookup m ''state'')"
  by (auto simp: sandbox_row_def node_row_def cell_def Let_def show_int_def)

text \<open>A table lists one row per object of the answer, in the order of its key.\<close>

lemma rows_of_sorted:
  "sorted_wrt (\<lambda>a b. cell a k \<le> cell b k) (rows_of f k (AnySlice arr)) \<and>
   mset (rows_of f k (AnySlice arr)) = image_mset f (mset (List.map_filter as_map arr))"
proof -
  have "sorted_wrt (\<lambda>a b. \<not> by_cell k b a) (sort_by (by_cell k) xs)" for xs
    by (rule sorted_sort_by) (auto simp: by_cell_def)
  then show ?thesis
    by (simp add: rows_of_def as_slice_def by_cell_def not_less)
qed

lemma int64_of_float_int: "in_i64 i \<Longrightarrow> int64_of_float L (Finite (of_int i)) = i"
  by (simp add: int64_of_float_def Let_def flip: of_int_minus)

end
