(* ===== verification/Let_Model.thy ===== *)
theory Let_Model
  imports GoLib
begin

section \<open>sbxlet: the data model and request validation\<close>

text \<open>
  \<^verbatim>\<open>sandboxd-let/model\<close>: the structures a node agent stores and receives, and
  \<^verbatim>\<open>CreateSandboxRequest.Validate\<close>.  A Go map \<^verbatim>\<open>map[string]ContainerState\<close> is an
  association list; its order is the (unspecified) iteration order of one \<^verbatim>\<open>range\<close> loop.
  Times are nanoseconds since the epoch.
\<close>

record ResourceSpec =
  rs_CPU :: string
  rs_Memory :: string

record PortMapping =
  pm_HostPort :: int
  pm_ContainerPort :: int
  pm_Protocol :: string

record ContainerState =
  cs_ID :: string
  cs_Name :: string
  cs_Phase :: string
  cs_Error :: string
  cs_Image :: string
  cs_Args :: "string list"
  cs_Env :: "string list"
  cs_Resource :: ResourceSpec
  cs_TaskPID :: int
  cs_Runtime :: string
  cs_TaskStatus :: string

record LetSandbox =
  ls_ID :: string
  ls_Phase :: string
  ls_Error :: string
  ls_Namespace :: string
  ls_IP :: string
  ls_SubnetCIDR :: string
  ls_BridgeName :: string
  ls_Egress :: bool
  ls_Ports :: "PortMapping list"
  ls_Containers :: "(string \<times> ContainerState) list"
  ls_PauseID :: string
  ls_CNIConfPath :: string
  ls_CreatedAt :: int
  ls_UpdatedAt :: int

record CreateContainerRequest =
  cc_Name :: string
  cc_Image :: string
  cc_Args :: "string list"
  cc_Env :: "string list"
  cc_WorkDir :: string
  cc_Resource :: ResourceSpec

record CreateSandboxRequest =
  cr_ID :: string
  cr_Egress :: bool
  cr_Containers :: "CreateContainerRequest list"
  cr_Ports :: "PortMapping list"

record ResourceLimits =
  lim_MemoryBytes :: int
  lim_CPUQuota :: int
  lim_CPUPeriod :: int
  lim_PidsLimit :: int

record NodeResourceSnapshot =
  snap_CapacityCPUMilli :: int
  snap_CapacityMemoryBytes :: int
  snap_AllocatableCPUMilli :: int
  snap_AllocatableMemory :: int
  snap_UsedCPUMilli :: int
  snap_UsedMemoryBytes :: int
  snap_AvailableCPUMilli :: int
  snap_AvailableMemory :: int
  snap_MaxAllocPercent :: int
  snap_UpdatedAt :: int

text \<open>\<^verbatim>\<open>strings.ToLower(strings.TrimSpace(p))\<close> with an empty protocol read as tcp.\<close>

definition normalizeProto :: "string \<Rightarrow> string" where
  "normalizeProto proto =
     (let p = ToLower (TrimSpace proto) in if p = [] then ''tcp'' else p)"

fun validate_containers :: "string list \<Rightarrow> CreateContainerRequest list \<Rightarrow> GoError option" where
  "validate_containers seenNames [] = None"
| "validate_containers seenNames (c # cs) =
     (if cc_Name c = [] \<or> cc_Image c = [] then Some (Errorf ''container name and image are required'')
      else if TrimSpace (rs_CPU (cc_Resource c)) = [] then
        Some (Errorf (''container '' @ cc_Name c @ '': cpu is required''))
      else if TrimSpace (rs_Memory (cc_Resource c)) = [] then
        Some (Errorf (''container '' @ cc_Name c @ '': memory is required''))
      else if cc_Name c \<in> set seenNames then
        Some (Errorf (''duplicate container name: '' @ cc_Name c))
      else validate_containers (cc_Name c # seenNames) cs)"

fun validate_ports :: "int list \<Rightarrow> PortMapping list \<Rightarrow> GoError option" where
  "validate_ports seenHostPorts [] = None"
| "validate_ports seenHostPorts (p # ps) =
     (if pm_HostPort p < 1 \<or> pm_HostPort p > 65535 \<or> pm_ContainerPort p < 1 \<or> pm_ContainerPort p > 65535
      then Some (Errorf (''invalid port mapping: '' @ show_int (pm_HostPort p) @ '':'' @ show_int (pm_ContainerPort p)))
      else if pm_HostPort p < 1024 then
        Some (Errorf (''privileged host ports are not allowed: '' @ show_int (pm_HostPort p)))
      else
        let proto = normalizeProto (pm_Protocol p) in
        if proto \<noteq> ''tcp'' \<and> proto \<noteq> ''udp'' then
          Some (Errorf (''unsupported protocol: '' @ pm_Protocol p))
        else if pm_HostPort p \<in> set seenHostPorts then
          Some (Errorf (''duplicate host port: '' @ show_int (pm_HostPort p)))
        else validate_ports (pm_HostPort p # seenHostPorts) ps)"

definition Validate :: "CreateSandboxRequest \<Rightarrow> GoError option" where
  "Validate r =
     (if cr_ID r = [] then Some (Errorf ''id is required'')
      else if length (cr_Containers r) < 1 then Some (Errorf ''at least one container is required'')
      else (case validate_containers [] (cr_Containers r) of
              Some e \<Rightarrow> Some e
            | None \<Rightarrow> validate_ports [] (cr_Ports r)))"

subsection \<open>What an accepted request satisfies\<close>

definition valid_container :: "CreateContainerRequest \<Rightarrow> bool" where
  "valid_container c \<longleftrightarrow> cc_Name c \<noteq> [] \<and> cc_Image c \<noteq> [] \<and>
     TrimSpace (rs_CPU (cc_Resource c)) \<noteq> [] \<and> TrimSpace (rs_Memory (cc_Resource c)) \<noteq> []"

definition valid_port :: "PortMapping \<Rightarrow> bool" where
  "valid_port p \<longleftrightarrow> 1024 \<le> pm_HostPort p \<and> pm_HostPort p \<le> 65535 \<and>
     1 \<le> pm_ContainerPort p \<and> pm_ContainerPort p \<le> 65535 \<and>
     normalizeProto (pm_Protocol p) \<in> {''tcp'', ''udp''}"

definition valid_request :: "CreateSandboxRequest \<Rightarrow> bool" where
  "valid_request r \<longleftrightarrow> cr_ID r \<noteq> [] \<and> cr_Containers r \<noteq> [] \<and>
     (\<forall>c \<in> set (cr_Containers r). valid_container c) \<and> distinct (map cc_Name (cr_Containers r)) \<and>
     (\<forall>p \<in> set (cr_Ports r). valid_port p) \<and> distinct (map pm_HostPort (cr_Ports r))"

lemma validate_containers_None:
  "validate_containers seen cs = None \<longleftrightarrow>
     (\<forall>c \<in> set cs. valid_container c) \<and> distinct (map cc_Name cs) \<and> cc_Name ` set cs \<inter> set seen = {}"
  by (induction cs arbitrary: seen) (auto simp: valid_container_def)

lemma validate_ports_None:
  "validate_ports seen ps = None \<longleftrightarrow>
     (\<forall>p \<in> set ps. valid_port p) \<and> distinct (map pm_HostPort ps) \<and> pm_HostPort ` set ps \<inter> set seen = {}"
  by (induction ps arbitrary: seen) (auto simp: valid_port_def Let_def)

lemma Validate_None: "Validate r = None \<longleftrightarrow> valid_request r"
  using validate_containers_None [of "[]" "cr_Containers r"] validate_ports_None [of "[]" "cr_Ports r"]
  by (cases "validate_containers [] (cr_Containers r)")
    (auto simp: Validate_def valid_request_def Suc_le_eq)

lemma normalizeProto_idem [simp]: "normalizeProto (normalizeProto s) = normalizeProto s"
proof -
  have "normalizeProto ''tcp'' = ''tcp''" by code_simp
  then show ?thesis
    by (simp add: normalizeProto_def Let_def TrimSpace_ToLower)
qed

lemma normalizeProto_nonempty [simp]: "normalizeProto s \<noteq> []"
  by (simp add: normalizeProto_def Let_def)

end
