(* ===== verification/Orch_Types.thy ===== *)
theory Orch_Types
  imports Let_Model
begin

section \<open>sbxorch: nodes, sandboxes and externals\<close>

text \<open>
  \<^verbatim>\<open>sandboxd-orch/types/types.go\<close>.  \<^verbatim>\<open>NodeState\<close> and \<^verbatim>\<open>SandboxPhase\<close> are open string
  types in Go: the declared constants are constructors and every other string is
  \<open>NodeStateOther\<close> or \<open>SandboxPhaseOther\<close>.  Go's \<^verbatim>\<open>*time.Time\<close> is an option.
  Storing a status or a resource report as JSON and reading it back keeps every field,
  except that the custom marshallers trim \<^verbatim>\<open>External\<close>.
\<close>

datatype NodeState =
    NodeStateUnknown | NodeStateReady | NodeStateNotReady | NodeStateOther string

datatype SandboxPhase =
    SandboxPhasePending | SandboxPhaseScheduled | SandboxPhaseRunning | SandboxPhaseFailed
  | SandboxPhaseDeleting | SandboxPhaseOther string

record NodeResources =
  res_CapacityCPUMilli :: int
  res_CapacityMemoryBytes :: int
  res_AllocatableCPUMilli :: int
  res_AllocatableMemory :: int
  res_UsedCPUMilli :: int
  res_UsedMemoryBytes :: int
  res_AvailableCPUMilli :: int
  res_AvailableMemory :: int
  res_MaxAllocPercent :: int
  res_External :: string
  res_UpdatedAt :: "int option"

record Node =
  n_ID :: string
  n_IP :: string
  n_Port :: int
  n_State :: NodeState
  n_Source :: string
  n_LastError :: string
  n_SuccessStreak :: int
  n_FailureStreak :: int
  n_CreatedAt :: int
  n_UpdatedAt :: int
  n_LastHeartbeat :: "int option"
  n_Resources :: NodeResources
  n_SbxletBaseURL :: string

record RegisterNodeRequest =
  rn_ID :: string
  rn_IP :: string
  rn_Port :: int

record NodeObjectSpec =
  no_IP :: string
  no_Port :: int

record CreateNodeObjectRequest =
  cn_ID :: string
  cn_Spec :: NodeObjectSpec

record ExternalObjectSpec =
  eo_NodeID :: string
  eo_External :: string

record CreateExternalObjectRequest =
  ce_ID :: string
  ce_Spec :: ExternalObjectSpec

record External =
  ext_ID :: string
  ext_NodeID :: string
  ext_External :: string
  ext_CreatedAt :: int
  ext_UpdatedAt :: int

record SandboxResource =
  sr_CPU :: string
  sr_Memory :: string

record SandboxContainerSpec =
  sc_Name :: string
  sc_Image :: string
  sc_Args :: "string list"
  sc_Env :: "string list"
  sc_WorkDir :: string
  sc_Resource :: SandboxResource

record SandboxPortSpec =
  ps_HostPort :: int
  ps_ContainerPort :: int
  ps_Protocol :: string

record SandboxSpec =
  spec_Egress :: bool
  spec_TTLSeconds :: int
  spec_Ports :: "SandboxPortSpec list"
  spec_Containers :: "SandboxContainerSpec list"

record SandboxPortAssign =
  pa_HostPort :: int
  pa_ContainerPort :: int
  pa_Protocol :: string

record SandboxStatus =
  st_Phase :: SandboxPhase
  st_NodeName :: string
  st_External :: string
  st_IP :: string
  st_AssignedPorts :: "SandboxPortAssign list"
  st_SandboxdID :: string
  st_ExpireAt :: "int option"
  st_LastError :: string

record Sandbox =
  sbx_ID :: string
  sbx_Spec :: SandboxSpec
  sbx_Status :: SandboxStatus
  sbx_CreatedAt :: int
  sbx_UpdatedAt :: int
  sbx_DeletedAt :: "int option"

record CreateSandboxObjectRequest =
  cso_ID :: string
  cso_Spec :: SandboxSpec

definition zero_status :: SandboxStatus where
  "zero_status = \<lparr>st_Phase = SandboxPhaseOther [], st_NodeName = [], st_External = [], st_IP = [],
     st_AssignedPorts = [], st_SandboxdID = [], st_ExpireAt = None, st_LastError = []\<rparr>"

definition zero_resources :: NodeResources where
  "zero_resources = \<lparr>res_CapacityCPUMilli = 0, res_CapacityMemoryBytes = 0,
     res_AllocatableCPUMilli = 0, res_AllocatableMemory = 0, res_UsedCPUMilli = 0,
     res_UsedMemoryBytes = 0, res_AvailableCPUMilli = 0, res_AvailableMemory = 0,
     res_MaxAllocPercent = 0, res_External = [], res_UpdatedAt = None\<rparr>"

text \<open>\<^verbatim>\<open>MarshalJSON\<close> then \<^verbatim>\<open>UnmarshalJSON\<close>: the value a column gives back.\<close>

definition status_json :: "SandboxStatus \<Rightarrow> SandboxStatus" where
  "status_json s = s\<lparr>st_External := TrimSpace (st_External s)\<rparr>"

definition resources_json :: "NodeResources \<Rightarrow> NodeResources" where
  "resources_json r = r\<lparr>res_External := TrimSpace (res_External r)\<rparr>"

lemma status_json_idem [simp]: "status_json (status_json s) = status_json s"
  by (simp add: status_json_def)

lemma status_json_sel [simp]:
  "st_Phase (status_json s) = st_Phase s" "st_NodeName (status_json s) = st_NodeName s"
  "st_IP (status_json s) = st_IP s" "st_AssignedPorts (status_json s) = st_AssignedPorts s"
  "st_LastError (status_json s) = st_LastError s" "st_ExpireAt (status_json s) = st_ExpireAt s"
  "st_SandboxdID (status_json s) = st_SandboxdID s"
  "st_External (status_json s) = TrimSpace (st_External s)"
  by (simp_all add: status_json_def)

definition is_deleting :: "SandboxStatus \<Rightarrow> bool" where
  "is_deleting s \<longleftrightarrow> st_Phase s = SandboxPhaseDeleting"

end
