(* ===== verification/Orch_Db.thy ===== *)
theory Orch_Db
  imports Orch_Types
begin

section \<open>sbxorch: the SQLite schema and its statements\<close>

text \<open>
  The tables created by \<^verbatim>\<open>migrate\<close> in \<^verbatim>\<open>sandboxd-orch/repo/node_repo.go\<close>, each a list of
  rows in rowid order, and one definition per SQL statement the two repositories issue.
  A statement that violates a \<^verbatim>\<open>PRIMARY KEY\<close>, \<^verbatim>\<open>UNIQUE\<close> or \<^verbatim>\<open>FOREIGN KEY\<close> constraint has
  no effect and yields the name of the constraint (\<open>Inl\<close>).  Timestamps, stored as RFC 3339
  text, are kept as the nanoseconds they denote; \<open>rfc3339_less\<close> is the order of the texts,
  which is what \<^verbatim>\<open>ORDER BY created_at\<close> compares.

  \<open>db_inv\<close> is what the schema's constraints promise; \<open>db_step\<close> is one statement, and every
  statement keeps \<open>db_inv\<close>.
\<close>

record NodeRow =
  nd_name :: string
  nd_ip :: string
  nd_port :: int
  nd_source :: string
  nd_created_at :: int
  nd_updated_at :: int

record NodeStatusRow =
  ns_name :: string
  ns_state :: NodeState
  ns_success_streak :: int
  ns_failure_streak :: int
  ns_last_error :: string
  ns_last_heartbeat_at :: "int option"
  ns_updated_at :: int

record NodeResourcesRow =
  nr_name :: string
  nr_res :: NodeResources
  nr_updated_at :: int

record SandboxRow =
  sb_id :: string
  sb_spec :: SandboxSpec
  sb_status :: SandboxStatus
  sb_created_at :: int
  sb_updated_at :: int

record SandboxPortRow =
  pt_sandbox_id :: string
  pt_node_name :: string
  pt_host_port :: int
  pt_container_port :: int
  pt_protocol :: string
  pt_created_at :: int

record NodeExternalRow =
  ex_external_id :: string
  ex_node_id :: string
  ex_external :: string
  ex_created_at :: int
  ex_updated_at :: int

record database =
  t_nodes :: "NodeRow list"
  t_status :: "NodeStatusRow list"
  t_resources :: "NodeResourcesRow list"
  t_sandboxes :: "SandboxRow list"
  t_ports :: "SandboxPortRow list"
  t_externals :: "NodeExternalRow list"

definition migrate :: database where
  "migrate = \<lparr>t_nodes = [], t_status = [], t_resources = [], t_sandboxes = [], t_ports = [],
     t_externals = []\<rparr>"

subsection \<open>Order of timestamps stored as text\<close>

text \<open>
  \<^verbatim>\<open>time.RFC3339Nano\<close> writes the seconds with a fixed width and the fraction without its
  trailing zeros, none at all when it is zero.  The text is therefore ordered first by the
  second and then by the text of the fraction followed by \<^verbatim>\<open>Z\<close>.
\<close>

fun frac_digits :: "nat \<Rightarrow> int \<Rightarrow> string" where
  "frac_digits 0 f = []"
| "frac_digits (Suc k) f = frac_digits k (f div 10) @ [char_of (48 + nat (f mod 10))]"

definition frac_text :: "int \<Rightarrow> string" where
  "frac_text f =
     (if f = 0 then ''Z''
      else CHR ''.'' # TrimRightByte (CHR ''0'') (frac_digits 9 f) @ ''Z'')"

definition rfc3339_less :: "int \<Rightarrow> int \<Rightarrow> bool" where
  "rfc3339_less a b \<longleftrightarrow>
     (let sa = a div 10 ^ 9; sb = b div 10 ^ 9 in
      sa < sb \<or> sa = sb \<and> frac_text (a mod 10 ^ 9) < frac_text (b mod 10 ^ 9))"

subsection \<open>Statements on nodes\<close>

definition sql_upsert_node :: "string \<Rightarrow> string \<Rightarrow> int \<Rightarrow> string \<Rightarrow> int \<Rightarrow> database \<Rightarrow> database" where
  "sql_upsert_node id0 ip port source now d =
     (if id0 \<in> nd_name ` set (t_nodes d) then
        d\<lparr>t_nodes := map (\<lambda>r. if nd_name r = id0
             then r\<lparr>nd_ip := ip, nd_port := port, nd_source := source, nd_updated_at := now\<rparr> else r) (t_nodes d)\<rparr>
      else
        d\<lparr>t_nodes := t_nodes d @ [\<lparr>nd_name = id0, nd_ip = ip, nd_port = port, nd_source = source,
             nd_created_at = now, nd_updated_at = now\<rparr>]\<rparr>)"

definition sql_init_status :: "string \<Rightarrow> int \<Rightarrow> database \<Rightarrow> database" where
  "sql_init_status id0 now d =
     (if id0 \<in> ns_name ` set (t_status d) then d
      else d\<lparr>t_status := t_status d @ [\<lparr>ns_name = id0, ns_state = NodeStateUnknown,
             ns_success_streak = 0, ns_failure_streak = 0, ns_last_error = [],
             ns_last_heartbeat_at = None, ns_updated_at = now\<rparr>]\<rparr>)"

definition sql_init_resources :: "string \<Rightarrow> int \<Rightarrow> database \<Rightarrow> database" where
  "sql_init_resources id0 now d =
     (if id0 \<in> nr_name ` set (t_resources d) then d
      else d\<lparr>t_resources := t_resources d @ [\<lparr>nr_name = id0,
             nr_res = zero_resources\<lparr>res_External := ''(none)''\<rparr>, nr_updated_at = now\<rparr>]\<rparr>)"

definition sql_delete_ports_of_node :: "string \<Rightarrow> database \<Rightarrow> database" where
  "sql_delete_ports_of_node id0 d = d\<lparr>t_ports := filter (\<lambda>r. pt_node_name r \<noteq> id0) (t_ports d)\<rparr>"

definition sql_delete_resources :: "string \<Rightarrow> database \<Rightarrow> database" where
  "sql_delete_resources id0 d = d\<lparr>t_resources := filter (\<lambda>r. nr_name r \<noteq> id0) (t_resources d)\<rparr>"

definition sql_delete_status :: "string \<Rightarrow> database \<Rightarrow> database" where
  "sql_delete_status id0 d = d\<lparr>t_status := filter (\<lambda>r. ns_name r \<noteq> id0) (t_status d)\<rparr>"

text \<open>\<^verbatim>\<open>node_externals.node_id REFERENCES nodes(name) ON DELETE CASCADE\<close>.\<close>

definition sql_delete_node :: "string \<Rightarrow> database \<Rightarrow> database" where
  "sql_delete_node id0 d =
     d\<lparr>t_nodes := filter (\<lambda>r. nd_name r \<noteq> id0) (t_nodes d),
       t_externals := (if id0 \<in> nd_name ` set (t_nodes d)
          then filter (\<lambda>r. ex_node_id r \<noteq> id0) (t_externals d) else t_externals d)\<rparr>"

definition sql_upsert_heartbeat ::
  "string \<Rightarrow> NodeState \<Rightarrow> int \<Rightarrow> int \<Rightarrow> string \<Rightarrow> int option \<Rightarrow> int \<Rightarrow> database \<Rightarrow> database" where
  "sql_upsert_heartbeat id0 st ss fs le beat now d =
     (let row = \<lparr>ns_name = id0, ns_state = st, ns_success_streak = ss, ns_failure_streak = fs,
                  ns_last_error = le, ns_last_heartbeat_at = beat, ns_updated_at = now\<rparr> in
      if id0 \<in> ns_name ` set (t_status d)
      then d\<lparr>t_status := map (\<lambda>r. if ns_name r = id0 then row else r) (t_status d)\<rparr>
      else d\<lparr>t_status := t_status d @ [row]\<rparr>)"

definition sql_upsert_resources :: "string \<Rightarrow> NodeResources \<Rightarrow> int \<Rightarrow> database \<Rightarrow> database" where
  "sql_upsert_resources id0 res now d =
     (let row = \<lparr>nr_name = id0, nr_res = res, nr_updated_at = now\<rparr> in
      if id0 \<in> nr_name ` set (t_resources d)
      then d\<lparr>t_resources := map (\<lambda>r. if nr_name r = id0 then row else r) (t_resources d)\<rparr>
      else d\<lparr>t_resources := t_resources d @ [row]\<rparr>)"

definition adjust_usage :: "int \<Rightarrow> int \<Rightarrow> NodeResources \<Rightarrow> NodeResources" where
  "adjust_usage cpu mem r =
     r\<lparr>res_UsedCPUMilli := max 0 (res_UsedCPUMilli r + cpu),
       res_UsedMemoryBytes := max 0 (res_UsedMemoryBytes r + mem),
       res_AvailableCPUMilli := max 0 (res_AllocatableCPUMilli r - max 0 (res_UsedCPUMilli r + cpu)),
       res_AvailableMemory := max 0 (res_AllocatableMemory r - max 0 (res_UsedMemoryBytes r + mem))\<rparr>"

definition sql_adjust_usage :: "string \<Rightarrow> int \<Rightarrow> int \<Rightarrow> int \<Rightarrow> database \<Rightarrow> database" where
  "sql_adjust_usage id0 cpu mem now d =
     d\<lparr>t_resources := map (\<lambda>r. if nr_name r = id0
          then r\<lparr>nr_res := adjust_usage cpu mem (nr_res r), nr_updated_at := now\<rparr> else r) (t_resources d)\<rparr>"

definition sql_set_resources_external :: "string \<Rightarrow> string \<Rightarrow> int \<Rightarrow> database \<Rightarrow> database" where
  "sql_set_resources_external ext now_id now d =
     d\<lparr>t_resources := map (\<lambda>r. if nr_name r = now_id
          then r\<lparr>nr_res := (nr_res r)\<lparr>res_External := ext\<rparr>, nr_updated_at := now\<rparr> else r) (t_resources d)\<rparr>"

subsection \<open>Statements on externals\<close>

definition sql_update_external :: "string \<Rightarrow> string \<Rightarrow> int \<Rightarrow> database \<Rightarrow> database" where
  "sql_update_external eid ext now d =
     d\<lparr>t_externals := map (\<lambda>r. if ex_external_id r = eid
          then r\<lparr>ex_external := ext, ex_updated_at := now\<rparr> else r) (t_externals d)\<rparr>"

definition sql_insert_external :: "NodeExternalRow \<Rightarrow> database \<Rightarrow> string + database" where
  "sql_insert_external row d =
     (if ex_external_id row \<in> ex_external_id ` set (t_externals d) then Inl ''node_externals.external_id''
      else if ex_node_id row \<in> ex_node_id ` set (t_externals d) then Inl ''node_externals.node_id''
      else if ex_node_id row \<notin> nd_name ` set (t_nodes d) then Inl ''FOREIGN KEY''
      else Inr (d\<lparr>t_externals := t_externals d @ [row]\<rparr>))"

definition sql_delete_external_of_node :: "string \<Rightarrow> database \<Rightarrow> database" where
  "sql_delete_external_of_node nid d = d\<lparr>t_externals := filter (\<lambda>r. ex_node_id r \<noteq> nid) (t_externals d)\<rparr>"

definition sql_delete_external :: "string \<Rightarrow> database \<Rightarrow> database" where
  "sql_delete_external eid d = d\<lparr>t_externals := filter (\<lambda>r. ex_external_id r \<noteq> eid) (t_externals d)\<rparr>"

subsection \<open>Statements on sandboxes and their ports\<close>

definition sql_insert_sandbox :: "SandboxRow \<Rightarrow> database \<Rightarrow> string + database" where
  "sql_insert_sandbox row d =
     (if sb_id row \<in> sb_id ` set (t_sandboxes d) then Inl ''sandboxes.id''
      else Inr (d\<lparr>t_sandboxes := t_sandboxes d @ [row]\<rparr>))"

definition sql_update_status :: "string \<Rightarrow> SandboxStatus \<Rightarrow> int \<Rightarrow> database \<Rightarrow> database" where
  "sql_update_status id0 st now d =
     d\<lparr>t_sandboxes := map (\<lambda>r. if sb_id r = id0
          then r\<lparr>sb_status := status_json st, sb_updated_at := now\<rparr> else r) (t_sandboxes d)\<rparr>"

definition sql_update_status_if ::
  "string \<Rightarrow> SandboxStatus \<Rightarrow> int \<Rightarrow> int \<Rightarrow> database \<Rightarrow> nat \<times> database" where
  "sql_update_status_if id0 st now expected d =
     (let hit = (\<lambda>r. sb_id r = id0 \<and> sb_updated_at r = expected) in
      (length (filter hit (t_sandboxes d)),
       d\<lparr>t_sandboxes := map (\<lambda>r. if hit r
          then r\<lparr>sb_status := status_json st, sb_updated_at := now\<rparr> else r) (t_sandboxes d)\<rparr>))"

definition sql_delete_ports_of_sandbox :: "string \<Rightarrow> database \<Rightarrow> database" where
  "sql_delete_ports_of_sandbox id0 d = d\<lparr>t_ports := filter (\<lambda>r. pt_sandbox_id r \<noteq> id0) (t_ports d)\<rparr>"

text \<open>\<^verbatim>\<open>sandbox_ports.sandbox_id REFERENCES sandboxes(id) ON DELETE CASCADE\<close>.\<close>

definition sql_delete_sandbox :: "string \<Rightarrow> database \<Rightarrow> database" where
  "sql_delete_sandbox id0 d =
     d\<lparr>t_sandboxes := filter (\<lambda>r. sb_id r \<noteq> id0) (t_sandboxes d),
       t_ports := (if id0 \<in> sb_id ` set (t_sandboxes d)
          then filter (\<lambda>r. pt_sandbox_id r \<noteq> id0) (t_ports d) else t_ports d)\<rparr>"

abbreviation port_key :: "SandboxPortRow \<Rightarrow> string \<times> int" where
  "port_key r \<equiv> (pt_node_name r, pt_host_port r)"

definition sql_insert_port :: "SandboxPortRow \<Rightarrow> database \<Rightarrow> string + database" where
  "sql_insert_port row d =
     (if port_key row \<in> port_key ` set (t_ports d) then Inl ''sandbox_ports.node_name, sandbox_ports.host_port''
      else if pt_sandbox_id row \<notin> sb_id ` set (t_sandboxes d) then Inl ''FOREIGN KEY''
      else Inr (d\<lparr>t_ports := t_ports d @ [row]\<rparr>))"

subsection \<open>Queries\<close>

definition sql_count_port :: "string \<Rightarrow> int \<Rightarrow> database \<Rightarrow> nat" where
  "sql_count_port node hp d = length (filter (\<lambda>r. port_key r = (node, hp)) (t_ports d))"

definition sql_ports_of_node :: "string \<Rightarrow> database \<Rightarrow> int list" where
  "sql_ports_of_node node d = map pt_host_port (filter (\<lambda>r. pt_node_name r = node) (t_ports d))"

definition row_sandbox :: "SandboxRow \<Rightarrow> Sandbox" where
  "row_sandbox r = \<lparr>sbx_ID = sb_id r, sbx_Spec = sb_spec r, sbx_Status = status_json (sb_status r),
     sbx_CreatedAt = sb_created_at r, sbx_UpdatedAt = sb_updated_at r, sbx_DeletedAt = None\<rparr>"

definition sql_get_sandbox :: "string \<Rightarrow> database \<Rightarrow> Sandbox option" where
  "sql_get_sandbox id0 d = map_option row_sandbox (find (\<lambda>r. sb_id r = id0) (t_sandboxes d))"

definition sql_list_sandboxes :: "database \<Rightarrow> Sandbox list" where
  "sql_list_sandboxes d =
     map row_sandbox (sort_by (\<lambda>a b. rfc3339_less (sb_created_at a) (sb_created_at b)) (t_sandboxes d))"

text \<open>The three \<^verbatim>\<open>LEFT JOIN\<close>s and their \<^verbatim>\<open>COALESCE\<close> defaults, for one row of \<^verbatim>\<open>nodes\<close>.\<close>

definition join_node :: "database \<Rightarrow> NodeRow \<Rightarrow> Node" where
  "join_node d n =
     (let s = find (\<lambda>r. ns_name r = nd_name n) (t_status d);
          r = find (\<lambda>r. nr_name r = nd_name n) (t_resources d);
          ne = find (\<lambda>r. ex_node_id r = nd_name n) (t_externals d);
          res = (case r of None \<Rightarrow> zero_resources | Some x \<Rightarrow> nr_res x);
          ext = (case ne of Some x \<Rightarrow> ex_external x
                 | None \<Rightarrow> (case r of Some x \<Rightarrow> res_External (nr_res x) | None \<Rightarrow> ''(none)'')) in
      \<lparr>n_ID = nd_name n, n_IP = nd_ip n, n_Port = nd_port n,
       n_State = (case s of None \<Rightarrow> NodeStateUnknown | Some x \<Rightarrow> ns_state x),
       n_Source = nd_source n,
       n_LastError = (case s of None \<Rightarrow> [] | Some x \<Rightarrow> ns_last_error x),
       n_SuccessStreak = (case s of None \<Rightarrow> 0 | Some x \<Rightarrow> ns_success_streak x),
       n_FailureStreak = (case s of None \<Rightarrow> 0 | Some x \<Rightarrow> ns_failure_streak x),
       n_CreatedAt = nd_created_at n, n_UpdatedAt = nd_updated_at n,
       n_LastHeartbeat = (case s of None \<Rightarrow> None | Some x \<Rightarrow> ns_last_heartbeat_at x),
       n_Resources = res\<lparr>res_External := ext\<rparr>,
       n_SbxletBaseURL = ''http://'' @ nd_ip n @ '':'' @ show_int (nd_port n)\<rparr>)"

definition sql_get_node :: "string \<Rightarrow> database \<Rightarrow> Node option" where
  "sql_get_node id0 d = map_option (join_node d) (find (\<lambda>r. nd_name r = id0) (t_nodes d))"

definition sql_list_nodes :: "database \<Rightarrow> Node list" where
  "sql_list_nodes d = map (join_node d) (sort_by (\<lambda>a b. nd_name a < nd_name b) (t_nodes d))"

definition row_external :: "NodeExternalRow \<Rightarrow> External" where
  "row_external r = \<lparr>ext_ID = ex_external_id r, ext_NodeID = ex_node_id r, ext_External = ex_external r,
     ext_CreatedAt = ex_created_at r, ext_UpdatedAt = ex_updated_at r\<rparr>"

definition sql_get_external :: "string \<Rightarrow> database \<Rightarrow> External option" where
  "sql_get_external eid d = map_option row_external (find (\<lambda>r. ex_external_id r = eid) (t_externals d))"

definition sql_external_of_node :: "string \<Rightarrow> database \<Rightarrow> External option" where
  "sql_external_of_node nid d = map_option row_external (find (\<lambda>r. ex_node_id r = nid) (t_externals d))"

definition sql_list_externals :: "database \<Rightarrow> External list" where
  "sql_list_externals d =
     map row_external (sort_by (\<lambda>a b. ex_external_id a < ex_external_id b) (t_externals d))"

end
