(* ===== verification/Orch_Db_Inv.thy ===== *)
theory Orch_Db_Inv
  imports Orch_Db
begin

section \<open>sbxorch: what the schema promises, statement by statement\<close>

text \<open>
  \<open>db_inv\<close> collects the constraints of \<^verbatim>\<open>migrate\<close>: the primary and unique keys, and the two
  foreign keys.  \<open>db_step\<close> is the effect of one write statement, with one rule for each; any
  interleaving of the goroutines of the orchestrator is a sequence of such steps, because the
  connection pool has a single connection.  \<open>db_steps\<close> is its reflexive-transitive closure.
\<close>

definition db_inv :: "database \<Rightarrow> bool" where
  "db_inv d \<longleftrightarrow>
     distinct (map nd_name (t_nodes d)) \<and> distinct (map ns_name (t_status d)) \<and>
     distinct (map nr_name (t_resources d)) \<and> distinct (map sb_id (t_sandboxes d)) \<and>
     distinct (map port_key (t_ports d)) \<and>
     distinct (map ex_external_id (t_externals d)) \<and> distinct (map ex_node_id (t_externals d)) \<and>
     (\<forall>p \<in> set (t_ports d). pt_sandbox_id p \<in> sb_id ` set (t_sandboxes d)) \<and>
     (\<forall>e \<in> set (t_externals d). ex_node_id e \<in> nd_name ` set (t_nodes d))"

inductive db_step :: "database \<Rightarrow> database \<Rightarrow> bool" where
  upsert_node: "db_step d (sql_upsert_node id0 ip port source now d)"
| init_status: "db_step d (sql_init_status id0 now d)"
| init_resources: "db_step d (sql_init_resources id0 now d)"
| delete_ports_of_node: "db_step d (sql_delete_ports_of_node id0 d)"
| delete_resources: "db_step d (sql_delete_resources id0 d)"
| delete_status: "db_step d (sql_delete_status id0 d)"
| delete_node: "db_step d (sql_delete_node id0 d)"
| upsert_heartbeat: "db_step d (sql_upsert_heartbeat id0 st ss fs le beat now d)"
| upsert_resources: "db_step d (sql_upsert_resources id0 res now d)"
| adjust_usage: "db_step d (sql_adjust_usage id0 cpu mem now d)"
| set_resources_external: "db_step d (sql_set_resources_external ext id0 now d)"
| update_external: "db_step d (sql_update_external eid ext now d)"
| insert_external: "sql_insert_external row d = Inr d' \<Longrightarrow> db_step d d'"
| delete_external_of_node: "db_step d (sql_delete_external_of_node nid d)"
| delete_external: "db_step d (sql_delete_external eid d)"
| insert_sandbox: "sql_insert_sandbox row d = Inr d' \<Longrightarrow> db_step d d'"
| update_status: "db_step d (sql_update_status id0 stt now d)"
| update_status_if: "db_step d (snd (sql_update_status_if id0 stt now expected d))"
| delete_ports_of_sandbox: "db_step d (sql_delete_ports_of_sandbox id0 d)"
| delete_sandbox: "db_step d (sql_delete_sandbox id0 d)"
| insert_port: "sql_insert_port prow d = Inr d' \<Longrightarrow> db_step d d'"

abbreviation db_steps :: "database \<Rightarrow> database \<Rightarrow> bool" where
  "db_steps \<equiv> db_step\<^sup>*\<^sup>*"

lemma map_key_update:
  "(\<And>r. key (f r) = key r) \<Longrightarrow> map key (map (\<lambda>r. if P r then f r else r) rs) = map key rs"
  by simp

lemma map_key_replace:
  "key row = k \<Longrightarrow> map key (map (\<lambda>r. if key r = k then row else r) rs) = map key rs"
  by simp

lemma image_key_update:
  "(\<And>r. key (f r) = key r) \<Longrightarrow> key ` (\<lambda>r. if P r then f r else r) ` A = key ` A"
  unfolding image_image by (rule image_cong) auto

lemma db_inv_migrate: "db_inv migrate"
  by (simp add: db_inv_def migrate_def)

subsection \<open>Statements on nodes keep the invariant\<close>

lemma nodes_key_upsert:
  "nd_name ` set (t_nodes (sql_upsert_node id0 ip port source now d)) = insert id0 (nd_name ` set (t_nodes d))"
proof (cases "id0 \<in> nd_name ` set (t_nodes d)")
  case True
  then have "map nd_name (t_nodes (sql_upsert_node id0 ip port source now d)) = map nd_name (t_nodes d)"
    by (simp add: sql_upsert_node_def)
  then show ?thesis using True by (metis insert_absorb set_map)
next
  case False
  then show ?thesis by (simp add: sql_upsert_node_def)
qed

lemma inv_upsert_node: "db_inv d \<Longrightarrow> db_inv (sql_upsert_node id0 ip port source now d)"
  using nodes_key_upsert [of id0 ip port source now d]
  by (auto simp: db_inv_def sql_upsert_node_def comp_def if_distrib cong: if_cong)

lemma inv_init_status: "db_inv d \<Longrightarrow> db_inv (sql_init_status id0 now d)"
  by (auto simp: db_inv_def sql_init_status_def)

lemma inv_init_resources: "db_inv d \<Longrightarrow> db_inv (sql_init_resources id0 now d)"
  by (auto simp: db_inv_def sql_init_resources_def)

lemma inv_delete_ports_of_node: "db_inv d \<Longrightarrow> db_inv (sql_delete_ports_of_node id0 d)"
  by (auto simp: db_inv_def sql_delete_ports_of_node_def)

lemma inv_delete_resources: "db_inv d \<Longrightarrow> db_inv (sql_delete_resources id0 d)"
  by (auto simp: db_inv_def sql_delete_resources_def)

lemma inv_delete_status: "db_inv d \<Longrightarrow> db_inv (sql_delete_status id0 d)"
  by (auto simp: db_inv_def sql_delete_status_def)

lemma inv_delete_node: "db_inv d \<Longrightarrow> db_inv (sql_delete_node id0 d)"
  by (force simp: db_inv_def sql_delete_node_def)

lemma inv_upsert_heartbeat: "db_inv d \<Longrightarrow> db_inv (sql_upsert_heartbeat id0 st ss fs le beat now d)"
  by (auto simp: db_inv_def sql_upsert_heartbeat_def Let_def comp_def if_distrib cong: if_cong)

lemma inv_upsert_resources: "db_inv d \<Longrightarrow> db_inv (sql_upsert_resources id0 res now d)"
  by (auto simp: db_inv_def sql_upsert_resources_def Let_def comp_def if_distrib cong: if_cong)

lemma inv_adjust_usage: "db_inv d \<Longrightarrow> db_inv (sql_adjust_usage id0 cpu mem now d)"
  by (auto simp: db_inv_def sql_adjust_usage_def comp_def if_distrib cong: if_cong)

lemma inv_set_resources_external: "db_inv d \<Longrightarrow> db_inv (sql_set_resources_external ext id0 now d)"
  by (auto simp: db_inv_def sql_set_resources_external_def comp_def if_distrib cong: if_cong)

subsection \<open>Statements on externals keep the invariant\<close>

lemma inv_update_external: "db_inv d \<Longrightarrow> db_inv (sql_update_external eid ext now d)"
  by (auto simp: db_inv_def sql_update_external_def comp_def if_distrib cong: if_cong)

lemma inv_insert_external: "db_inv d \<Longrightarrow> sql_insert_external row d = Inr d' \<Longrightarrow> db_inv d'"
  by (auto simp: db_inv_def sql_insert_external_def split: if_splits)

lemma inv_delete_external_of_node: "db_inv d \<Longrightarrow> db_inv (sql_delete_external_of_node nid d)"
  by (auto simp: db_inv_def sql_delete_external_of_node_def)

lemma inv_delete_external: "db_inv d \<Longrightarrow> db_inv (sql_delete_external eid d)"
  by (auto simp: db_inv_def sql_delete_external_def)

subsection \<open>Statements on sandboxes and ports keep the invariant\<close>

lemma inv_insert_sandbox: "db_inv d \<Longrightarrow> sql_insert_sandbox row d = Inr d' \<Longrightarrow> db_inv d'"
  by (auto simp: db_inv_def sql_insert_sandbox_def split: if_splits)

lemma ids_update_status [simp]:
  "map sb_id (t_sandboxes (sql_update_status id0 st now d)) = map sb_id (t_sandboxes d)"
  "map sb_id (t_sandboxes (snd (sql_update_status_if id0 st now e d))) = map sb_id (t_sandboxes d)"
  by (auto simp: sql_update_status_def sql_update_status_if_def Let_def)

lemma id_set_update_status [simp]:
  "sb_id ` set (t_sandboxes (sql_update_status id0 st now d)) = sb_id ` set (t_sandboxes d)"
  "sb_id ` set (t_sandboxes (snd (sql_update_status_if id0 st now e d))) = sb_id ` set (t_sandboxes d)"
  by (metis ids_update_status(1) set_map, metis ids_update_status(2) set_map)

lemma inv_update_status: "db_inv d \<Longrightarrow> db_inv (sql_update_status id0 st now d)"
  unfolding db_inv_def ids_update_status id_set_update_status by (simp add: sql_update_status_def)

lemma inv_update_status_if: "db_inv d \<Longrightarrow> db_inv (snd (sql_update_status_if id0 st now e d))"
  unfolding db_inv_def ids_update_status id_set_update_status
  by (simp add: sql_update_status_if_def Let_def)

lemma inv_delete_ports_of_sandbox: "db_inv d \<Longrightarrow> db_inv (sql_delete_ports_of_sandbox id0 d)"
  by (auto simp: db_inv_def sql_delete_ports_of_sandbox_def)

lemma inv_delete_sandbox: "db_inv d \<Longrightarrow> db_inv (sql_delete_sandbox id0 d)"
  by (force simp: db_inv_def sql_delete_sandbox_def)

lemma inv_insert_port: "db_inv d \<Longrightarrow> sql_insert_port row d = Inr d' \<Longrightarrow> db_inv d'"
  by (auto simp: db_inv_def sql_insert_port_def split: if_splits)

lemmas stmt_inv =
  inv_upsert_node inv_init_status inv_init_resources inv_delete_ports_of_node inv_delete_resources
  inv_delete_status inv_delete_node inv_upsert_heartbeat inv_upsert_resources inv_adjust_usage
  inv_set_resources_external inv_update_external inv_insert_external inv_delete_external_of_node
  inv_delete_external inv_insert_sandbox inv_update_status inv_update_status_if
  inv_delete_ports_of_sandbox inv_delete_sandbox inv_insert_port

lemma db_step_inv: "db_step d d' \<Longrightarrow> db_inv d \<Longrightarrow> db_inv d'"
  by (induction rule: db_step.induct) (auto intro: stmt_inv)

lemma db_steps_inv: "db_steps d d' \<Longrightarrow> db_inv d \<Longrightarrow> db_inv d'"
  by (induction rule: rtranclp_induct) (auto intro: db_step_inv)

subsection \<open>What the invariant gives\<close>

lemma db_inv_port_owner:
  assumes "db_inv d" "p \<in> set (t_ports d)" "q \<in> set (t_ports d)"
    and "pt_node_name p = pt_node_name q" "pt_host_port p = pt_host_port q"
  shows "p = q"
  using assms distinct_map_inj [of port_key "t_ports d" p q] by (simp add: db_inv_def)

lemma db_inv_find_sandbox:
  assumes "db_inv d" "r \<in> set (t_sandboxes d)"
  shows "find (\<lambda>x. sb_id x = sb_id r) (t_sandboxes d) = Some r"
  using assms by (intro find_unique [where f = sb_id]) (auto simp: db_inv_def)

lemma get_sandbox_None: "sql_get_sandbox id0 d = None \<longleftrightarrow> id0 \<notin> sb_id ` set (t_sandboxes d)"
  by (simp add: sql_get_sandbox_def find_None_key)

lemma get_sandbox_Some_id: "sql_get_sandbox id0 d = Some s \<Longrightarrow> sbx_ID s = id0"
  by (auto simp: sql_get_sandbox_def row_sandbox_def dest: find_Some_in)

lemma set_list_sandboxes: "set (sql_list_sandboxes d) = row_sandbox ` set (t_sandboxes d)"
  by (simp add: sql_list_sandboxes_def)

lemma list_get_sandbox:
  assumes "db_inv d"
  shows "s \<in> set (sql_list_sandboxes d) \<longleftrightarrow> sql_get_sandbox (sbx_ID s) d = Some s"
proof
  assume "s \<in> set (sql_list_sandboxes d)"
  then obtain r where "r \<in> set (t_sandboxes d)" "s = row_sandbox r"
    by (auto simp: set_list_sandboxes)
  then show "sql_get_sandbox (sbx_ID s) d = Some s"
    using db_inv_find_sandbox [OF assms] by (simp add: sql_get_sandbox_def row_sandbox_def)
next
  assume "sql_get_sandbox (sbx_ID s) d = Some s"
  then show "s \<in> set (sql_list_sandboxes d)"
    by (auto simp: sql_get_sandbox_def set_list_sandboxes dest: find_Some_in)
qed

lemma distinct_list_sandboxes: "db_inv d \<Longrightarrow> distinct (map sbx_ID (sql_list_sandboxes d))"
  by (simp add: sql_list_sandboxes_def db_inv_def row_sandbox_def comp_def)

lemma set_list_nodes: "set (sql_list_nodes d) = join_node d ` set (t_nodes d)"
  by (simp add: sql_list_nodes_def)

lemma join_node_ID [simp]: "n_ID (join_node d r) = nd_name r"
  by (simp add: join_node_def Let_def)

lemma distinct_list_nodes: "db_inv d \<Longrightarrow> distinct (map n_ID (sql_list_nodes d))"
  by (simp add: sql_list_nodes_def db_inv_def comp_def)

lemma sql_insert_sandbox_eq_Inr:
  "sql_insert_sandbox row d = Inr d' \<longleftrightarrow>
     sb_id row \<notin> sb_id ` set (t_sandboxes d) \<and> d' = d\<lparr>t_sandboxes := t_sandboxes d @ [row]\<rparr>"
  by (auto simp: sql_insert_sandbox_def)

lemma sql_insert_port_eq_Inr:
  "sql_insert_port row d = Inr d' \<longleftrightarrow>
     port_key row \<notin> port_key ` set (t_ports d) \<and> pt_sandbox_id row \<in> sb_id ` set (t_sandboxes d) \<and>
     d' = d\<lparr>t_ports := t_ports d @ [row]\<rparr>"
  by (auto simp: sql_insert_port_def)

lemma count_port_0: "sql_count_port node hp d = 0 \<longleftrightarrow> (node, hp) \<notin> port_key ` set (t_ports d)"
  by (auto simp: sql_count_port_def filter_empty_conv)

end
