(* ===== verification/Orch_Cache.thy ===== *)
theory Orch_Cache
  imports Orch_Types
begin

section \<open>sbxorch: the resource cache\<close>

text \<open>
  \<^verbatim>\<open>sandboxd-orch/cache/resource_cache.go\<close>.  The cache is a map from node names to the last
  reported resources, the last resources written to the database and the time of that write
  (Go's zero \<^verbatim>\<open>time.Time\<close> is \<open>None\<close>).  Each method runs under the cache's mutex, so it is one
  atomic step.  \<open>ShouldPersist\<close> throttles the writes; the lemmas characterise when it lets one
  through.
\<close>

record ResourceCacheEntry =
  ce_Current :: NodeResources
  ce_LastPersisted :: NodeResources
  ce_LastPersistedAt :: "int option"

type_synonym ResourceCache = "string \<rightharpoonup> ResourceCacheEntry"

definition zero_entry :: ResourceCacheEntry where
  "zero_entry = \<lparr>ce_Current = zero_resources, ce_LastPersisted = zero_resources, ce_LastPersistedAt = None\<rparr>"

definition NewResourceCache :: ResourceCache where
  "NewResourceCache = Map.empty"

definition cache_entry :: "ResourceCache \<Rightarrow> string \<Rightarrow> ResourceCacheEntry" where
  "cache_entry c name = (case c name of None \<Rightarrow> zero_entry | Some e \<Rightarrow> e)"

definition PutCurrent :: "string \<Rightarrow> NodeResources \<Rightarrow> ResourceCache \<Rightarrow> ResourceCache" where
  "PutCurrent name res c = c(name \<mapsto> (cache_entry c name)\<lparr>ce_Current := res\<rparr>)"

definition MarkPersisted :: "string \<Rightarrow> NodeResources \<Rightarrow> int \<Rightarrow> ResourceCache \<Rightarrow> ResourceCache" where
  "MarkPersisted name res at c =
     c(name \<mapsto> (cache_entry c name)\<lparr>ce_Current := res, ce_LastPersisted := res, ce_LastPersistedAt := Some at\<rparr>)"

definition CacheDelete :: "string \<Rightarrow> ResourceCache \<Rightarrow> ResourceCache" where
  "CacheDelete name c = c(name := None)"

definition sameResources :: "NodeResources \<Rightarrow> NodeResources \<Rightarrow> bool" where
  "sameResources a b \<longleftrightarrow>
     res_CapacityCPUMilli a = res_CapacityCPUMilli b \<and>
     res_CapacityMemoryBytes a = res_CapacityMemoryBytes b \<and>
     res_AllocatableCPUMilli a = res_AllocatableCPUMilli b \<and>
     res_AllocatableMemory a = res_AllocatableMemory b \<and>
     res_UsedCPUMilli a = res_UsedCPUMilli b \<and>
     res_UsedMemoryBytes a = res_UsedMemoryBytes b \<and>
     res_AvailableCPUMilli a = res_AvailableCPUMilli b \<and>
     res_AvailableMemory a = res_AvailableMemory b \<and>
     res_MaxAllocPercent a = res_MaxAllocPercent b"

text \<open>\<^verbatim>\<open>t.Sub(u)\<close> is a 64-bit duration and saturates.\<close>

definition time_Sub :: "int \<Rightarrow> int \<Rightarrow> int" where
  "time_Sub t u = max (- (2 ^ 63)) (min (2 ^ 63 - 1) (t - u))"

definition ShouldPersist :: "string \<Rightarrow> int \<Rightarrow> int \<Rightarrow> int \<Rightarrow> ResourceCache \<Rightarrow> bool" where
  "ShouldPersist name now minInt maxInt c =
     (case c name of
        None \<Rightarrow> True
      | Some e \<Rightarrow>
          (case ce_LastPersistedAt e of
             None \<Rightarrow> True
           | Some at \<Rightarrow>
               let changed = \<not> sameResources (ce_Current e) (ce_LastPersisted e) in
               if maxInt \<le> time_Sub now at then True
               else if \<not> changed then False
               else if time_Sub now at < minInt then False
               else True))"

subsection \<open>The cache as a map\<close>

lemma sameResources_refl [simp]: "sameResources r r"
  by (simp add: sameResources_def)

lemma sameResources_sym: "sameResources a b = sameResources b a"
  by (auto simp: sameResources_def)

lemma cache_entry_PutCurrent [simp]:
  "cache_entry (PutCurrent k r c) n = (if n = k then (cache_entry c k)\<lparr>ce_Current := r\<rparr> else cache_entry c n)"
  by (simp add: cache_entry_def PutCurrent_def)

lemma cache_entry_MarkPersisted [simp]:
  "cache_entry (MarkPersisted k r at c) n =
     (if n = k then \<lparr>ce_Current = r, ce_LastPersisted = r, ce_LastPersistedAt = Some at\<rparr> else cache_entry c n)"
  by (simp add: cache_entry_def MarkPersisted_def)

lemma cache_entry_Delete [simp]:
  "cache_entry (CacheDelete k c) n = (if n = k then zero_entry else cache_entry c n)"
  by (simp add: cache_entry_def CacheDelete_def)

subsection \<open>When a write is let through\<close>

lemma ShouldPersist_iff:
  "ShouldPersist n now mn mx c \<longleftrightarrow>
     (case ce_LastPersistedAt (cache_entry c n) of
        None \<Rightarrow> True
      | Some at \<Rightarrow> mx \<le> time_Sub now at \<or>
          mn \<le> time_Sub now at \<and>
            \<not> sameResources (ce_Current (cache_entry c n)) (ce_LastPersisted (cache_entry c n)))"
  by (auto simp: ShouldPersist_def cache_entry_def zero_entry_def Let_def split: option.splits)

lemma ShouldPersist_after_mark:
  "ShouldPersist n now mn mx (PutCurrent n r (MarkPersisted n r0 at c)) \<longleftrightarrow>
     mx \<le> time_Sub now at \<or> mn \<le> time_Sub now at \<and> \<not> sameResources r r0"
  by (simp add: ShouldPersist_iff)

lemma ShouldPersist_other_node:
  "m \<noteq> n \<Longrightarrow> ShouldPersist n now mn mx (PutCurrent m r c) = ShouldPersist n now mn mx c"
  "m \<noteq> n \<Longrightarrow> ShouldPersist n now mn mx (MarkPersisted m r at c) = ShouldPersist n now mn mx c"
  "m \<noteq> n \<Longrightarrow> ShouldPersist n now mn mx (CacheDelete m c) = ShouldPersist n now mn mx c"
  by (simp_all add: ShouldPersist_def PutCurrent_def MarkPersisted_def CacheDelete_def)

end
