(* ===== verification/Orch_World.thy ===== *)
theory Orch_World
  imports Orch_Db_Inv Orch_Cache
begin

section \<open>sbxorch: the state its goroutines act on\<close>

text \<open>
  \<open>world\<close> is everything an operation of the orchestrator reads or changes: the database, the
  resource cache, the clock behind \<^verbatim>\<open>time.Now\<close>, the numbers \<^verbatim>\<open>math/rand\<close> will draw, the
  goroutines that were started and the state \<open>'e\<close> of the node agents behind HTTP.

  What the outside decides is part of the state.  \<open>w_faults\<close> says for each database call
  whether it fails: a failing call has no effect and returns the given error, as a statement of
  SQLite does (a busy database, a cancelled context, a full disk).  \<open>w_driver_text\<close> is the text
  the SQL driver gives to a violated constraint.  \<open>w_ticks\<close> is by how much the clock moves from
  one reading to the next, in nanoseconds.  When a plan is used up no call fails, the clock
  stands still and every draw is 0.

  \<open>db_rel P\<close> relates two worlds whose databases are related by \<open>P\<close>.  \<open>evolves\<close> is the case where
  the database of the second comes from that of the first by statements; every operation of the orchestrator moves the world along \<open>evolves\<close>, whatever
  faults occur and whatever the agents answer.
\<close>

record 'e world =
  w_db :: database
  w_cache :: ResourceCache
  w_clock :: int
  w_ticks :: "int list"
  w_rands :: "nat list"
  w_faults :: "GoError option list"
  w_driver_text :: "string \<Rightarrow> string"
  w_tasks :: "(string \<times> string) list"
  w_env :: 'e

type_synonym ('e, 'a) act = "('e world, 'a) state"
type_synonym ('e, 'a) io = "('e world, GoError + 'a) state"

definition modify_world :: "('e world \<Rightarrow> 'e world) \<Rightarrow> ('e, unit) act" where
  "modify_world f = State (\<lambda>w. ((), f w))"

definition time_Now :: "('e, int) act" where
  "time_Now = State (\<lambda>w. (w_clock w,
     w\<lparr>w_clock := w_clock w + (case w_ticks w of [] \<Rightarrow> 0 | t # _ \<Rightarrow> t), w_ticks := tl (w_ticks w)\<rparr>))"

definition rand_draw :: "('e, nat) act" where
  "rand_draw = State (\<lambda>w. (case w_rands w of [] \<Rightarrow> 0 | r # _ \<Rightarrow> r, w\<lparr>w_rands := tl (w_rands w)\<rparr>))"

definition next_fault :: "('e, GoError option) act" where
  "next_fault = State (\<lambda>w. (case w_faults w of [] \<Rightarrow> None | f # _ \<Rightarrow> f, w\<lparr>w_faults := tl (w_faults w)\<rparr>))"

definition spawn :: "string \<times> string \<Rightarrow> ('e, unit) act" where
  "spawn t = modify_world (\<lambda>w. w\<lparr>w_tasks := w_tasks w @ [t]\<rparr>)"

subsection \<open>Database calls\<close>

text \<open>
  \<open>exec\<close> is \<^verbatim>\<open>ExecContext\<close> of a statement no constraint can reject, \<open>exec_c\<close> of one that a
  constraint can, \<open>query\<close> is \<^verbatim>\<open>QueryContext\<close> and \<open>query_row\<close> is \<^verbatim>\<open>QueryRowContext(...).Scan\<close>.
\<close>

definition exec :: "(database \<Rightarrow> database) \<Rightarrow> ('e, unit) io" where
  "exec f = do { e \<leftarrow> next_fault;
     (case e of Some err \<Rightarrow> fail err
      | None \<Rightarrow> do { modify_world (\<lambda>w. w\<lparr>w_db := f (w_db w)\<rparr>); ok () }) }"

definition exec_c :: "(database \<Rightarrow> string + database) \<Rightarrow> ('e, unit) io" where
  "exec_c f = do { e \<leftarrow> next_fault;
     (case e of Some err \<Rightarrow> fail err
      | None \<Rightarrow> State (\<lambda>w. (case f (w_db w) of
           Inl c \<Rightarrow> (Inl (Errorf (w_driver_text w c)), w)
         | Inr d \<Rightarrow> (Inr (), w\<lparr>w_db := d\<rparr>)))) }"

definition exec_rows :: "(database \<Rightarrow> nat \<times> database) \<Rightarrow> ('e, nat) io" where
  "exec_rows f = do { e \<leftarrow> next_fault;
     (case e of Some err \<Rightarrow> fail err
      | None \<Rightarrow> State (\<lambda>w. (Inr (fst (f (w_db w))), w\<lparr>w_db := snd (f (w_db w))\<rparr>))) }"

definition query :: "(database \<Rightarrow> 'a) \<Rightarrow> ('e, 'a) io" where
  "query q = do { e \<leftarrow> next_fault;
     (case e of Some err \<Rightarrow> fail err
      | None \<Rightarrow> State (\<lambda>w. (Inr (q (w_db w)), w))) }"

definition query_row :: "(database \<Rightarrow> 'a option) \<Rightarrow> ('e, 'a) io" where
  "query_row q = check (query q) (\<lambda>r. case r of None \<Rightarrow> fail (sentinel_err ErrNoRows) | Some x \<Rightarrow> ok x)"

text \<open>\<^verbatim>\<open>BeginTx\<close>, the body, then \<^verbatim>\<open>Commit\<close>; every early return runs the deferred \<^verbatim>\<open>Rollback\<close>.\<close>

definition transaction :: "('e, 'a) io \<Rightarrow> ('e, 'a) io" where
  "transaction m = do {
     e \<leftarrow> next_fault;
     (case e of Some err \<Rightarrow> fail err
      | None \<Rightarrow> do {
          w \<leftarrow> State_Monad.get;
          r \<leftarrow> m;
          (case r of
             Inl err \<Rightarrow> do { modify_world (\<lambda>w'. w'\<lparr>w_db := w_db w\<rparr>); fail err }
           | Inr x \<Rightarrow> do {
               c \<leftarrow> next_fault;
               (case c of
                  Some err \<Rightarrow> do { modify_world (\<lambda>w'. w'\<lparr>w_db := w_db w\<rparr>); fail err }
                | None \<Rightarrow> ok x) }) }) }"

subsection \<open>Every operation evolves the world\<close>

definition db_rel :: "(database \<Rightarrow> database \<Rightarrow> bool) \<Rightarrow> 'e world \<Rightarrow> 'e world \<Rightarrow> bool" where
  "db_rel P w w' \<longleftrightarrow> P (w_db w) (w_db w')"

abbreviation evolves :: "'e world \<Rightarrow> 'e world \<Rightarrow> bool" where
  "evolves \<equiv> db_rel db_steps"

lemma preorder_db_rel [evolve_intros]: "preorder_rel P \<Longrightarrow> preorder_rel (db_rel P)"
  unfolding preorder_rel_def reflp_def transp_def db_rel_def by blast

lemma preorder_db_steps [evolve_intros]: "preorder_rel db_steps"
  unfolding preorder_rel_def reflp_def transp_def by auto

lemma evolves_inv: "evolves w w' \<Longrightarrow> db_inv (w_db w) \<Longrightarrow> db_inv (w_db w')"
  unfolding db_rel_def by (rule db_steps_inv)

lemma db_rel_same: "preorder_rel P \<Longrightarrow> w_db w' = w_db w \<Longrightarrow> db_rel P w w'"
  by (simp add: db_rel_def preorder_rel_refl)

lemma io_rel_same_db:
  assumes "preorder_rel P" "\<And>w. w_db (snd (run_state m w)) = w_db w"
  shows "state_io_rel (db_rel P) m"
  using assms by (simp add: state_io_rel_def db_rel_same)

lemma evolve_modify: "(\<And>w. db_rel P w (f w)) \<Longrightarrow> state_io_rel (db_rel P) (modify_world f)"
  by (simp add: state_io_rel_def modify_world_def)

lemma evolve_time_Now [evolve_intros]: "preorder_rel P \<Longrightarrow> state_io_rel (db_rel P) time_Now"
  by (rule io_rel_same_db) (simp_all add: time_Now_def)

lemma evolve_rand_draw [evolve_intros]: "preorder_rel P \<Longrightarrow> state_io_rel (db_rel P) rand_draw"
  by (rule io_rel_same_db) (simp_all add: rand_draw_def)

lemma evolve_next_fault [evolve_intros]: "preorder_rel P \<Longrightarrow> state_io_rel (db_rel P) next_fault"
  by (rule io_rel_same_db) (simp_all add: next_fault_def)

lemma evolve_spawn [evolve_intros]: "preorder_rel P \<Longrightarrow> state_io_rel (db_rel P) (spawn t)"
  by (rule io_rel_same_db) (simp_all add: spawn_def modify_world_def)

lemma evolve_exec [evolve_intros]:
  assumes "preorder_rel P" "\<And>d. P d (f d)"
  shows "state_io_rel (db_rel P) (exec f)"
  unfolding exec_def
  by (intro evolve_intros assms evolve_modify) (use assms in \<open>auto simp: db_rel_def\<close>)

lemma evolve_exec_c [evolve_intros]:
  assumes "preorder_rel P" "\<And>d d'. f d = Inr d' \<Longrightarrow> P d d'"
  shows "state_io_rel (db_rel P) (exec_c f)"
  unfolding exec_c_def
  by (intro evolve_intros assms)
    (auto simp: state_io_rel_def db_rel_def assms preorder_rel_refl split: sum.splits)

lemma evolve_exec_rows [evolve_intros]:
  assumes "preorder_rel P" "\<And>d. P d (snd (f d))"
  shows "state_io_rel (db_rel P) (exec_rows f)"
  unfolding exec_rows_def
  by (intro evolve_intros assms) (use assms in \<open>auto simp: state_io_rel_def db_rel_def\<close>)

lemma evolve_query [evolve_intros]: "preorder_rel P \<Longrightarrow> state_io_rel (db_rel P) (query q)"
  by (rule io_rel_same_db) (auto simp: query_def next_fault_def split: option.splits)

lemma evolve_query_row [evolve_intros]: "preorder_rel P \<Longrightarrow> state_io_rel (db_rel P) (query_row q)"
  unfolding query_row_def by (intro evolve_intros)

lemma evolve_transaction [evolve_intros]:
  assumes "preorder_rel P" "state_io_rel (db_rel P) m"
  shows "state_io_rel (db_rel P) (transaction m)"
proof -
  have "P (w_db w) (w_db (snd (run_state m (w\<lparr>w_faults := fs\<rparr>))))" for w fs
  proof -
    have "db_rel P (w\<lparr>w_faults := fs\<rparr>) (snd (run_state m (w\<lparr>w_faults := fs\<rparr>)))"
      using assms(2) by (simp add: state_io_rel_def)
    then show ?thesis by (simp add: db_rel_def)
  qed
  then show ?thesis
    using preorder_rel_refl [OF assms(1)]
    by (auto simp: state_io_rel_def transaction_def next_fault_def modify_world_def db_rel_def
        split: option.splits sum.splits prod.splits list.splits) (metis snd_conv)+
qed

lemmas step_to_steps [evolve_intros] = r_into_rtranclp [where r = db_step]

lemmas db_step_stmts [evolve_intros] = db_step.intros

subsection \<open>Running database calls\<close>

lemma run_time_Now [run_simps]:
  "run_state time_Now w = (w_clock w, w\<lparr>w_clock := w_clock w + (case w_ticks w of [] \<Rightarrow> 0 | t # _ \<Rightarrow> t),
     w_ticks := tl (w_ticks w)\<rparr>)"
  by (simp add: time_Now_def)

lemma run_modify [run_simps]: "run_state (modify_world f) w = ((), f w)"
  by (simp add: modify_world_def)

lemma run_spawn [run_simps]: "run_state (spawn t) w = ((), w\<lparr>w_tasks := w_tasks w @ [t]\<rparr>)"
  by (simp add: spawn_def run_modify)

lemma run_next_fault [run_simps]:
  "run_state next_fault w = (case w_faults w of [] \<Rightarrow> None | f # _ \<Rightarrow> f, w\<lparr>w_faults := tl (w_faults w)\<rparr>)"
  by (simp add: next_fault_def)

end
