(* ===== verification/Orch_Client.thy ===== *)
theory Orch_Client
  imports Orch_World Pkg_Env
begin

section \<open>sbxorch: the HTTP client of a node agent\<close>

text \<open>
  \<^verbatim>\<open>sandboxd-orch/client\<close>.  What a node agent answers is not the orchestrator's to decide, so
  the transport is a parameter: \<open>net method url body env\<close> gives the reply, or the error of
  \<^verbatim>\<open>http.Client.Do\<close> (which includes every timeout), and the agents' next state.  A \<open>Reply\<close>
  carries the status, the raw body and what \<^verbatim>\<open>json.Unmarshal\<close> makes of that body for each Go
  type the client decodes into.
\<close>

record ContainerSyncStatus =
  css_Name :: string
  css_Phase :: string
  css_Error :: string
  css_TaskStatus :: string

record SandboxSyncStatus =
  sss_ID :: string
  sss_IP :: string
  sss_Phase :: string
  sss_Error :: string
  sss_UnhealthyContainers :: "ContainerSyncStatus list"

record SandboxStatusesResponse =
  ssr_Items :: "SandboxSyncStatus list"
  ssr_Missing :: "string list"

record NodeStatus =
  nst_OK :: bool
  nst_Resources :: NodeResources

text \<open>
  A decoded JSON object: its \<^verbatim>\<open>ok\<close> field when that is a boolean, and the result of encoding the
  object again and decoding it as a \<^verbatim>\<open>NodeStatus\<close>.  \<open>None\<close> in \<open>rp_object\<close> is the JSON \<^verbatim>\<open>null\<close>.
\<close>

record JsonObject =
  jo_ok :: "bool option"
  jo_node_status :: "GoError + NodeStatus"

record Reply =
  rp_StatusCode :: int
  rp_Status :: string
  rp_raw :: string
  rp_object :: "GoError + JsonObject option"
  rp_statuses :: "GoError + SandboxStatusesResponse"

datatype RequestBody = NoBody | CreateBody CreateSandboxRequest | IdsBody "string list"

type_synonym 'e net = "string \<Rightarrow> string \<Rightarrow> RequestBody \<Rightarrow> 'e \<Rightarrow> (GoError + Reply) \<times> 'e"

record Client =
  cl_baseURL :: string

definition client_New :: "string \<Rightarrow> Client" where
  "client_New baseURL = \<lparr>cl_baseURL = TrimRightByte (CHR ''/'') baseURL\<rparr>"

subsection \<open>net/url\<close>

text \<open>The bytes \<^verbatim>\<open>shouldEscape\<close> never escapes are the ASCII letters and digits, given by their codes.\<close>

definition url_plain :: "char \<Rightarrow> bool" where
  "url_plain c = (let n = of_char c :: nat in
     list_ex (\<lambda>(lo, hi). lo \<le> n \<and> n \<le> hi) [(48, 57), (65, 90), (97, 122)])"

definition hex_digit :: "nat \<Rightarrow> char" where
  "hex_digit n = ''0123456789ABCDEF'' ! n"

definition percent :: "char \<Rightarrow> string" where
  "percent c = [CHR ''%'', hex_digit (of_char c div 16), hex_digit (of_char c mod 16)]"

definition PathEscape :: "string \<Rightarrow> string" where
  "PathEscape s = concat (map (\<lambda>c. if url_plain c \<or> c \<in> set ''-_.~$&+=:@'' then [c] else percent c) s)"

definition QueryEscape :: "string \<Rightarrow> string" where
  "QueryEscape s = concat (map (\<lambda>c. if url_plain c \<or> c \<in> set ''-_.~'' then [c]
     else if c = CHR '' '' then ''+'' else percent c) s)"

subsection \<open>do.go\<close>

definition http_Do :: "'e net \<Rightarrow> string \<Rightarrow> string \<Rightarrow> RequestBody \<Rightarrow> ('e, Reply) io" where
  "http_Do net meth url body = State (\<lambda>w. (case net meth url body (w_env w) of
     (r, env') \<Rightarrow> (r, w\<lparr>w_env := env'\<rparr>)))"

definition doInto ::
  "'e net \<Rightarrow> Client \<Rightarrow> string \<Rightarrow> string \<Rightarrow> RequestBody \<Rightarrow> (Reply \<Rightarrow> GoError + 'a) \<Rightarrow> ('e, 'a option) io" where
  "doInto net c meth path body decode =
     check (http_Do net meth (cl_baseURL c @ path) body) (\<lambda>resp.
       if 400 \<le> rp_StatusCode resp then
         let t = TrimSpace (rp_raw resp); msg = (if t = [] then rp_Status resp else t) in
         fail (Errorf (''sandboxd '' @ meth @ '' '' @ path @ '' failed: '' @ msg))
       else if rp_raw resp = [] then ok None
       else (case decode resp of
               Inl e \<Rightarrow> fail (Errorf_w ''decode sandboxd response'' e)
             | Inr x \<Rightarrow> ok (Some x)))"

definition ok_object :: JsonObject where
  "ok_object = \<lparr>jo_ok = Some True, jo_node_status = Inr \<lparr>nst_OK = True, nst_Resources = zero_resources\<rparr>\<rparr>"

definition client_do :: "'e net \<Rightarrow> Client \<Rightarrow> string \<Rightarrow> string \<Rightarrow> RequestBody \<Rightarrow> ('e, JsonObject) io" where
  "client_do net c meth path body =
     check (doInto net c meth path body rp_object) (\<lambda>out.
       (case out of Some (Some j) \<Rightarrow> ok j | _ \<Rightarrow> ok ok_object))"

subsection \<open>nodes.go and sandboxes.go\<close>

definition client_Healthz :: "'e net \<Rightarrow> Client \<Rightarrow> ('e, unit) io" where
  "client_Healthz net c =
     check (client_do net c ''GET'' ''/healthz'' NoBody) (\<lambda>out.
       (if jo_ok out = Some True then ok () else fail (Errorf ''healthz not ok'')))"

definition client_NodeStatus :: "'e net \<Rightarrow> Client \<Rightarrow> ('e, NodeStatus) io" where
  "client_NodeStatus net c =
     check (client_do net c ''GET'' ''/v1/node/status'' NoBody) (\<lambda>out.
       (case jo_node_status out of
          Inl e \<Rightarrow> fail e
        | Inr st \<Rightarrow> if nst_OK st then ok st else fail (Errorf ''node status not ok'')))"

definition client_Reconcile :: "'e net \<Rightarrow> Client \<Rightarrow> ('e, JsonObject) io" where
  "client_Reconcile net c = client_do net c ''POST'' ''/v1/reconcile'' NoBody"

definition page_query :: "string \<Rightarrow> int \<Rightarrow> string" where
  "page_query cursor limit =
     (let qs = Join ((if cursor \<noteq> [] then [''cursor='' @ QueryEscape cursor] else []) @
                     (if 0 < limit then [''limit='' @ show_int limit] else [])) ''&'' in
      if qs = [] then [] else CHR ''?'' # qs)"

definition client_ListSandboxes :: "'e net \<Rightarrow> Client \<Rightarrow> string \<Rightarrow> int \<Rightarrow> ('e, JsonObject) io" where
  "client_ListSandboxes net c cursor limit =
     client_do net c ''GET'' (''/v1/sandboxes'' @ page_query cursor limit) NoBody"

definition client_GetSandbox :: "'e net \<Rightarrow> Client \<Rightarrow> string \<Rightarrow> ('e, JsonObject) io" where
  "client_GetSandbox net c id0 = client_do net c ''GET'' (''/v1/sandboxes/'' @ PathEscape id0) NoBody"

definition client_CreateSandbox :: "'e net \<Rightarrow> Client \<Rightarrow> CreateSandboxRequest \<Rightarrow> ('e, JsonObject) io" where
  "client_CreateSandbox net c req = client_do net c ''POST'' ''/v1/sandboxes'' (CreateBody req)"

definition client_DeleteSandbox :: "'e net \<Rightarrow> Client \<Rightarrow> string \<Rightarrow> ('e, JsonObject) io" where
  "client_DeleteSandbox net c id0 = client_do net c ''DELETE'' (''/v1/sandboxes/'' @ PathEscape id0) NoBody"

definition client_SandboxStatuses ::
  "'e net \<Rightarrow> Client \<Rightarrow> string list \<Rightarrow> ('e, SandboxStatusesResponse) io" where
  "client_SandboxStatuses net c ids =
     check (doInto net c ''POST'' ''/v1/sandboxes/statuses'' (IdsBody ids) rp_statuses) (\<lambda>out.
       (case out of Some r \<Rightarrow> ok r | None \<Rightarrow> ok \<lparr>ssr_Items = [], ssr_Missing = []\<rparr>))"

definition client_GetContainerLogs ::
  "'e net \<Rightarrow> Client \<Rightarrow> string \<Rightarrow> string \<Rightarrow> string \<Rightarrow> int \<Rightarrow> ('e, JsonObject) io" where
  "client_GetContainerLogs net c sandboxID containerName cursor limit =
     client_do net c ''GET'' (''/v1/sandboxes/'' @ PathEscape sandboxID @ ''/containers/'' @
       PathEscape containerName @ ''/logs'' @ page_query cursor limit) NoBody"

subsection \<open>Calls leave the orchestrator's state alone\<close>

lemma evolve_http_Do [evolve_intros]: "preorder_rel P \<Longrightarrow> state_io_rel (db_rel P) (http_Do net m u b)"
  by (rule io_rel_same_db) (auto simp: http_Do_def split: prod.splits)

lemma evolve_doInto [evolve_intros]: "preorder_rel P \<Longrightarrow> state_io_rel (db_rel P) (doInto net c m p b dec)"
  unfolding doInto_def Let_def by (intro evolve_intros)

lemma evolve_client_do [evolve_intros]: "preorder_rel P \<Longrightarrow> state_io_rel (db_rel P) (client_do net c m p b)"
  unfolding client_do_def by (intro evolve_intros)

lemma evolve_client [evolve_intros]:
  assumes "preorder_rel P"
  shows "state_io_rel (db_rel P) (client_Healthz net c)"
    and "state_io_rel (db_rel P) (client_NodeStatus net c)"
    and "state_io_rel (db_rel P) (client_Reconcile net c)"
    and "state_io_rel (db_rel P) (client_CreateSandbox net c req)"
    and "state_io_rel (db_rel P) (client_DeleteSandbox net c i)"
    and "state_io_rel (db_rel P) (client_SandboxStatuses net c ids)"
  unfolding client_Healthz_def client_NodeStatus_def client_Reconcile_def client_CreateSandbox_def
    client_DeleteSandbox_def client_SandboxStatuses_def
  by (intro evolve_intros assms)+

text \<open>A call changes nothing but the agents' state.\<close>

definition env_step :: "'e world \<Rightarrow> 'e world \<Rightarrow> bool" where
  "env_step w w' \<longleftrightarrow> (\<exists>e. w' = w\<lparr>w_env := e\<rparr>)"

lemma preorder_env_step [evolve_intros]: "preorder_rel env_step"
proof -
  have "env_step w w" for w :: "'e world"
    unfolding env_step_def by (rule exI [of _ "w_env w"]) simp
  then show ?thesis
    by (auto simp: preorder_rel_def reflp_def transp_def env_step_def)
qed

lemma env_step_http_Do [evolve_intros]: "state_io_rel env_step (http_Do net m u b)"
  by (auto simp: state_io_rel_def http_Do_def env_step_def split: prod.splits)

lemma env_step_doInto [evolve_intros]: "state_io_rel env_step (doInto net c m p b dec)"
  unfolding doInto_def Let_def by (intro evolve_intros)

lemma env_step_client_do [evolve_intros]: "state_io_rel env_step (client_do net c m p b)"
  unfolding client_do_def by (intro evolve_intros)

lemma env_step_client [evolve_intros]:
  "state_io_rel env_step (client_Healthz net c)"
  "state_io_rel env_step (client_NodeStatus net c)"
  "state_io_rel env_step (client_Reconcile net c)"
  "state_io_rel env_step (client_CreateSandbox net c req)"
  "state_io_rel env_step (client_DeleteSandbox net c i)"
  "state_io_rel env_step (client_SandboxStatuses net c ids)"
  unfolding client_Healthz_def client_NodeStatus_def client_Reconcile_def client_CreateSandbox_def
    client_DeleteSandbox_def client_SandboxStatuses_def
  by (intro evolve_intros)+

subsection \<open>Path segments\<close>

lemma hex_digit_safe: "n < 16 \<Longrightarrow> hex_digit n \<noteq> CHR ''/'' \<and> hex_digit n \<noteq> CHR ''?''"
proof -
  assume "n < 16"
  then have "hex_digit n \<in> set ''0123456789ABCDEF''"
    unfolding hex_digit_def by (intro nth_mem) simp
  then show ?thesis by auto
qed

lemma percent_safe: "CHR ''/'' \<notin> set (percent c) \<and> CHR ''?'' \<notin> set (percent c)"
proof -
  have "(of_char c :: nat) < 256" by simp
  then have d: "(of_char c :: nat) div 16 < 16" "(of_char c :: nat) mod 16 < 16" by presburger+
  from hex_digit_safe [OF d(1)] hex_digit_safe [OF d(2)] show ?thesis
    unfolding percent_def by auto
qed

lemma not_plain: "\<not> url_plain (CHR ''/'')" "\<not> url_plain (CHR ''?'')"
  by code_simp+

lemma PathEscape_no_slash: "CHR ''/'' \<notin> set (PathEscape s) \<and> CHR ''?'' \<notin> set (PathEscape s)"
proof (induction s)
  case Nil
  then show ?case by (simp add: PathEscape_def)
next
  case (Cons c s)
  have "PathEscape (c # s) =
      (if url_plain c \<or> c \<in> set ''-_.~$&+=:@'' then [c] else percent c) @ PathEscape s"
    by (simp add: PathEscape_def)
  then show ?case
    using Cons percent_safe [of c] not_plain by (auto split: if_splits)
qed

end
