(* ===== verification/Ctl_Client.thy ===== *)
theory Ctl_Client
  imports Ctl_Value Orch_Client
begin

section \<open>sbxctl: the client of the orchestrator\<close>

text \<open>
  \<^verbatim>\<open>sandboxd-ctl/client\<close>.  The transport is a parameter: \<open>net method url body env\<close> gives the
  status and the body of the reply, or the error of building or sending the request, and the next
  state of the other side.  A body is the map that is encoded, \<open>None\<close> for no body.  The state of a
  run is that other side and what was printed so far; contexts and timeouts only add errors.
\<close>

record CtlReply =
  ct_StatusCode :: int
  ct_Body :: string

type_synonym 'e ctl_net =
  "string \<Rightarrow> string \<Rightarrow> (string \<times> any) list option \<Rightarrow> 'e \<Rightarrow> (GoError + CtlReply) \<times> 'e"

datatype printed = Json gomap | Yaml gomap | Line string | Table "string list" "string list list"

record 'e ctl_world =
  cw_env :: 'e
  cw_out :: "printed list"

type_synonym ('e, 'a) ctl = "('e ctl_world, GoError + 'a) state"

record CtlClient =
  cc_baseURL :: string
  cc_Timeout :: int

definition second :: int where "second = 1000000000"

definition ctl_New :: "string \<Rightarrow> int \<Rightarrow> CtlClient" where
  "ctl_New baseURL timeout =
     (let b = TrimRightByte (CHR ''/'') (TrimSpace baseURL) in
      \<lparr>cc_baseURL = (if b = [] then ''http://127.0.0.1:8082'' else b),
       cc_Timeout = (if timeout \<le> 0 then 10 * second else timeout)\<rparr>)"

subsection \<open>One request\<close>

definition ctl_http :: "'e ctl_net \<Rightarrow> string \<Rightarrow> string \<Rightarrow> (string \<times> any) list option \<Rightarrow> ('e, CtlReply) ctl" where
  "ctl_http net meth url body = State (\<lambda>w. (case net meth url body (cw_env w) of
     (r, env') \<Rightarrow> (r, w\<lparr>cw_env := env'\<rparr>)))"

definition body_limit :: int where "body_limit = 4194304"

definition LimitReader :: "string \<Rightarrow> string" where
  "LimitReader s = (if int (length s) \<le> body_limit then s else take (nat body_limit) s)"

definition error_field :: "Lib \<Rightarrow> string \<Rightarrow> string option" where
  "error_field L raw =
     (let e = (case lib_json_Unmarshal L raw of Inl _ \<Rightarrow> None | Inr m \<Rightarrow> m) in
      (case lookup e ''error'' of
         AnyString m \<Rightarrow> if TrimSpace m = [] then None else Some m
       | _ \<Rightarrow> None))"

definition http_error :: "Lib \<Rightarrow> string \<Rightarrow> string \<Rightarrow> int \<Rightarrow> string \<Rightarrow> GoError" where
  "http_error L meth path code raw =
     (let pre = meth @ '' '' @ path @ '': '' in
      (case error_field L raw of
         Some m \<Rightarrow> Errorf (pre @ m)
       | None \<Rightarrow> if raw = [] then Errorf (pre @ ''http '' @ show_int code)
                 else Errorf (pre @ ''http '' @ show_int code @ '': '' @ TrimSpace raw)))"

definition ctl_do ::
  "Lib \<Rightarrow> 'e ctl_net \<Rightarrow> CtlClient \<Rightarrow> string \<Rightarrow> string \<Rightarrow> (string \<times> any) list option \<Rightarrow> ('e, gomap) ctl" where
  "ctl_do L net c meth path body =
     (case (case body of None \<Rightarrow> None | Some kvs \<Rightarrow> lib_json_error L (Some kvs)) of
        Some e \<Rightarrow> fail e
      | None \<Rightarrow>
          check (ctl_http net meth (cc_baseURL c @ path) body) (\<lambda>res.
            let raw = LimitReader (ct_Body res) in
            if 400 \<le> ct_StatusCode res then fail (http_error L meth path (ct_StatusCode res) raw)
            else if raw = [] then ok (Some [])
            else (case lib_json_Unmarshal L raw of
                    Inl e \<Rightarrow> fail (Errorf_w ''decode response'' e)
                  | Inr out \<Rightarrow> ok out)))"

subsection \<open>The endpoints\<close>

definition ctl_Healthz :: "Lib \<Rightarrow> 'e ctl_net \<Rightarrow> CtlClient \<Rightarrow> ('e, gomap) ctl" where
  "ctl_Healthz L net c = ctl_do L net c ''GET'' ''/healthz'' None"

definition ctl_ListSandboxes :: "Lib \<Rightarrow> 'e ctl_net \<Rightarrow> CtlClient \<Rightarrow> ('e, gomap) ctl" where
  "ctl_ListSandboxes L net c = ctl_do L net c ''GET'' ''/api/v1/sandboxes'' None"

definition ctl_ListNodes :: "Lib \<Rightarrow> 'e ctl_net \<Rightarrow> CtlClient \<Rightarrow> ('e, gomap) ctl" where
  "ctl_ListNodes L net c = ctl_do L net c ''GET'' ''/api/v1/nodes'' None"

definition ctl_GetNode :: "Lib \<Rightarrow> 'e ctl_net \<Rightarrow> CtlClient \<Rightarrow> string \<Rightarrow> ('e, gomap) ctl" where
  "ctl_GetNode L net c name = ctl_do L net c ''GET'' (''/api/v1/nodes/'' @ PathEscape (TrimSpace name)) None"

definition ctl_CreateNodeObject :: "Lib \<Rightarrow> 'e ctl_net \<Rightarrow> CtlClient \<Rightarrow> (string \<times> any) list \<Rightarrow> ('e, gomap) ctl" where
  "ctl_CreateNodeObject L net c req = ctl_do L net c ''POST'' ''/api/v1/nodes'' (Some req)"

definition ctl_CreateExternalObject :: "Lib \<Rightarrow> 'e ctl_net \<Rightarrow> CtlClient \<Rightarrow> (string \<times> any) list \<Rightarrow> ('e, gomap) ctl" where
  "ctl_CreateExternalObject L net c req = ctl_do L net c ''POST'' ''/api/v1/externals'' (Some req)"

definition ctl_ListExternals :: "Lib \<Rightarrow> 'e ctl_net \<Rightarrow> CtlClient \<Rightarrow> ('e, gomap) ctl" where
  "ctl_ListExternals L net c = ctl_do L net c ''GET'' ''/api/v1/externals'' None"

definition ctl_GetExternal :: "Lib \<Rightarrow> 'e ctl_net \<Rightarrow> CtlClient \<Rightarrow> string \<Rightarrow> ('e, gomap) ctl" where
  "ctl_GetExternal L net c i = ctl_do L net c ''GET'' (''/api/v1/externals/'' @ PathEscape (TrimSpace i)) None"

definition ctl_DeleteNodeWithForce :: "Lib \<Rightarrow> 'e ctl_net \<Rightarrow> CtlClient \<Rightarrow> string \<Rightarrow> bool \<Rightarrow> ('e, gomap) ctl" where
  "ctl_DeleteNodeWithForce L net c name force =
     ctl_do L net c ''DELETE''
       (''/api/v1/nodes/'' @ PathEscape (TrimSpace name) @ (if force then ''?force=true'' else [])) None"

definition ctl_DeleteNode :: "Lib \<Rightarrow> 'e ctl_net \<Rightarrow> CtlClient \<Rightarrow> string \<Rightarrow> ('e, gomap) ctl" where
  "ctl_DeleteNode L net c name = ctl_DeleteNodeWithForce L net c name False"

definition ctl_DeleteExternal :: "Lib \<Rightarrow> 'e ctl_net \<Rightarrow> CtlClient \<Rightarrow> string \<Rightarrow> ('e, gomap) ctl" where
  "ctl_DeleteExternal L net c i = ctl_do L net c ''DELETE'' (''/api/v1/externals/'' @ PathEscape (TrimSpace i)) None"

definition ctl_GetSandbox :: "Lib \<Rightarrow> 'e ctl_net \<Rightarrow> CtlClient \<Rightarrow> string \<Rightarrow> ('e, gomap) ctl" where
  "ctl_GetSandbox L net c i = ctl_do L net c ''GET'' (''/api/v1/sandboxes/'' @ PathEscape (TrimSpace i)) None"

definition ctl_CreateSandbox :: "Lib \<Rightarrow> 'e ctl_net \<Rightarrow> CtlClient \<Rightarrow> (string \<times> any) list \<Rightarrow> ('e, gomap) ctl" where
  "ctl_CreateSandbox L net c payload = ctl_do L net c ''POST'' ''/api/v1/sandboxes'' (Some payload)"

definition ctl_DeleteSandbox :: "Lib \<Rightarrow> 'e ctl_net \<Rightarrow> CtlClient \<Rightarrow> string \<Rightarrow> ('e, gomap) ctl" where
  "ctl_DeleteSandbox L net c i = ctl_do L net c ''DELETE'' (''/api/v1/sandboxes/'' @ PathEscape (TrimSpace i)) None"

definition node_sandboxes :: "string \<Rightarrow> string" where
  "node_sandboxes node = ''/api/v1/nodes/'' @ PathEscape node @ ''/sandboxes''"

definition limit_query :: "int \<Rightarrow> string" where
  "limit_query limit = (if 0 < limit then ''?limit='' @ show_int limit else [])"

definition ctl_NodeListSandboxes :: "Lib \<Rightarrow> 'e ctl_net \<Rightarrow> CtlClient \<Rightarrow> string \<Rightarrow> int \<Rightarrow> ('e, gomap) ctl" where
  "ctl_NodeListSandboxes L net c node limit =
     ctl_do L net c ''GET'' (node_sandboxes node @ limit_query limit) None"

definition ctl_NodeGetSandbox :: "Lib \<Rightarrow> 'e ctl_net \<Rightarrow> CtlClient \<Rightarrow> string \<Rightarrow> string \<Rightarrow> ('e, gomap) ctl" where
  "ctl_NodeGetSandbox L net c node i =
     ctl_do L net c ''GET'' (node_sandboxes node @ ''/'' @ PathEscape i) None"

definition ctl_NodeDeleteSandbox :: "Lib \<Rightarrow> 'e ctl_net \<Rightarrow> CtlClient \<Rightarrow> string \<Rightarrow> string \<Rightarrow> ('e, gomap) ctl" where
  "ctl_NodeDeleteSandbox L net c node i =
     ctl_do L net c ''DELETE'' (node_sandboxes node @ ''/'' @ PathEscape i) None"

definition ctl_NodeCreateSandbox ::
  "Lib \<Rightarrow> 'e ctl_net \<Rightarrow> CtlClient \<Rightarrow> string \<Rightarrow> (string \<times> any) list \<Rightarrow> ('e, gomap) ctl" where
  "ctl_NodeCreateSandbox L net c node payload = ctl_do L net c ''POST'' (node_sandboxes node) (Some payload)"

definition ctl_NodeContainerLogs ::
  "Lib \<Rightarrow> 'e ctl_net \<Rightarrow> CtlClient \<Rightarrow> string \<Rightarrow> string \<Rightarrow> string \<Rightarrow> int \<Rightarrow> ('e, gomap) ctl" where
  "ctl_NodeContainerLogs L net c node sandboxID container limit =
     (if TrimSpace container = [] then fail (Errorf ''container name is required'')
      else ctl_do L net c ''GET'' (node_sandboxes node @ ''/'' @ PathEscape sandboxID @ ''/containers/'' @
             PathEscape container @ ''/logs'' @ limit_query limit) None)"

end
