(* ===== verification/Ctl_Cmd.thy ===== *)
theory Ctl_Cmd
  imports Ctl_Client
begin

section \<open>sbxctl: manifests and commands\<close>

text \<open>
  \<^verbatim>\<open>sandboxd-ctl/manifest\<close> and \<^verbatim>\<open>sandboxd-ctl/cmd\<close>.  Cobra parses the command line: the options, the
  positional arguments (their number is checked by cobra) and the content of the \<^verbatim>\<open>-f\<close> file are
  arguments.  What a command prints is recorded as values: a document in one of the two encodings,
  a line, or a table given by its header and its cells (\<^verbatim>\<open>text/tabwriter\<close> pads them with blanks).
\<close>

record Options =
  op_Server :: string
  op_Node :: string
  op_Timeout :: int
  op_Output :: string
  op_Limit :: int

definition prerun :: "Environment \<Rightarrow> Options \<Rightarrow> Options" where
  "prerun env opts =
     (let s0 = op_Server opts;
          s1 = (if TrimSpace s0 = [] then TrimSpace (Getenv env ''SBXCTL_SERVER'') else s0);
          s2 = (if TrimSpace s1 = [] then ''http://127.0.0.1:8082'' else s1) in
      opts\<lparr>op_Server := s2,
           op_Timeout := (if op_Timeout opts \<le> 0 then 10 * second else op_Timeout opts),
           op_Limit := (if op_Limit opts \<le> 0 then 100 else op_Limit opts)\<rparr>)"

definition mustClient :: "Options \<Rightarrow> CtlClient" where
  "mustClient opts = ctl_New (op_Server opts) (op_Timeout opts)"

definition no_node :: "Options \<Rightarrow> bool" where
  "no_node opts \<longleftrightarrow> TrimSpace (op_Node opts) = []"

subsection \<open>Object references\<close>

record objectRef =
  or_Resource :: string
  or_Name :: string

definition normalizeResource :: "string \<Rightarrow> string" where
  "normalizeResource s0 =
     (let s = ToLower (TrimSpace s0) in
      if s \<in> set [''sandbox'', ''sandboxes'', ''sbx'', ''s''] then ''sandbox''
      else if s \<in> set [''node'', ''nodes'', ''n''] then ''node''
      else if s \<in> set [''external'', ''externals'', ''ext'', ''e''] then ''external''
      else s)"

definition parseObjectRef :: "string \<Rightarrow> GoError + objectRef" where
  "parseObjectRef arg0 =
     (let arg = TrimSpace arg0 in
      (case SplitByte (CHR ''/'') arg of
         [a, b] \<Rightarrow>
           (let res = normalizeResource a; name = TrimSpace b in
            if res = [] \<or> name = [] then Inl (Errorf (''invalid object reference '' @ Quote arg))
            else Inr \<lparr>or_Resource = res, or_Name = name\<rparr>)
       | _ \<Rightarrow> Inl (Errorf (''expected <resource>/<name>, got '' @ Quote arg))))"

definition known_resource :: "string \<Rightarrow> bool" where
  "known_resource r \<longleftrightarrow> \<not> (r \<noteq> ''sandbox'' \<and> r \<noteq> ''node'' \<and> r \<noteq> ''external'')"

fun resource_list :: "string list \<Rightarrow> string list \<Rightarrow> GoError + string list" where
  "resource_list out [] = Inr out"
| "resource_list out (p # ps) =
     (let res = normalizeResource p in
      if \<not> known_resource res then Inl (Errorf (''unsupported resource '' @ Quote (TrimSpace p)))
      else resource_list (if res \<in> set out then out else out @ [res]) ps)"

definition parseResourceList :: "string \<Rightarrow> GoError + string list" where
  "parseResourceList arg0 =
     (let arg = TrimSpace arg0 in
      if arg = [] then Inl (Errorf ''resource is required'')
      else resource_list [] (SplitByte (CHR '','') arg))"

definition ensureSandboxResource :: "string \<Rightarrow> GoError option" where
  "ensureSandboxResource name =
     (if normalizeResource name \<noteq> ''sandbox''
      then Some (Errorf (''unsupported resource '' @ Quote name @ '' (only sandbox is supported now)''))
      else None)"

subsection \<open>Manifests\<close>

definition required :: "gomap \<Rightarrow> string list \<Rightarrow> GoError option" where
  "required spec keys =
     (if spec = None then Some (Errorf ''spec is required'')
      else (case find (\<lambda>k. \<not> has_key spec k) keys of
              None \<Rightarrow> None
            | Some k \<Rightarrow> Some (Errorf (''spec.'' @ k @ '' is required''))))"

definition parsed :: "string \<Rightarrow> string \<Rightarrow> gomap \<Rightarrow> string list \<Rightarrow> GoError + gomap" where
  "parsed kind i spec keys = (case required spec keys of
       Some e \<Rightarrow> Inl e
     | None \<Rightarrow> Inr (Some [(''kind'', AnyString kind), (''id'', AnyString i), (''spec'', any_of spec)]))"

definition ParseManifest :: "Lib \<Rightarrow> string \<Rightarrow> GoError + gomap" where
  "ParseManifest L raw =
     (case lib_yaml_Unmarshal L raw of
        Inl e \<Rightarrow> Inl (Errorf_w ''parse yaml'' e)
      | Inr m \<Rightarrow>
          if TrimSpace (mf_Kind m) = [] then Inl (Errorf ''kind is required'')
          else
            (let kind = ToLower (TrimSpace (mf_Kind m)); i = TrimSpace (mf_ID m) in
             if i = [] then Inl (Errorf ''id is required'')
             else if kind = ''sandbox'' then parsed ''Sandbox'' i (mf_Spec m) [''containers'']
             else if kind = ''node'' then parsed ''Node'' i (mf_Spec m) [''ip'', ''port'']
             else if kind = ''external'' then parsed ''External'' i (mf_Spec m) [''node_id'', ''external'']
             else Inl (Errorf (''unsupported kind '' @ Quote (mf_Kind m) @ '' (expected Sandbox|Node|External)''))))"

subsection \<open>Output\<close>

definition emit :: "printed \<Rightarrow> ('e, unit) ctl" where
  "emit p = State (\<lambda>w. (Inr (), w\<lparr>cw_out := cw_out w @ [p]\<rparr>))"

definition printAny :: "Lib \<Rightarrow> gomap \<Rightarrow> string \<Rightarrow> ('e, unit) ctl" where
  "printAny L v format =
     (let f = ToLower (TrimSpace format) in
      if f = ''yaml'' \<or> f = ''yml''
      then (case lib_yaml_error L v of Some e \<Rightarrow> fail e | None \<Rightarrow> emit (Yaml v))
      else (case lib_json_error L v of Some e \<Rightarrow> fail e | None \<Rightarrow> emit (Json v)))"

definition table :: "string list \<Rightarrow> string list \<Rightarrow> row list \<Rightarrow> printed" where
  "table header keys rows = Table header (map (\<lambda>r. map (cell r) keys) rows)"

definition printSandboxTable :: "row list \<Rightarrow> ('e, unit) ctl" where
  "printSandboxTable rows = emit (table [''NAME'', ''PHASE'', ''NODE'', ''EXTERNAL'', ''CREATED'']
     [''name'', ''phase'', ''node'', ''external'', ''created''] rows)"

definition printSandboxTableWide :: "row list \<Rightarrow> ('e, unit) ctl" where
  "printSandboxTableWide rows = emit (table
     [''NAME'', ''PHASE'', ''NODE'', ''EXTERNAL'', ''IP'', ''PORTS'', ''EGRESS'', ''CONTAINERS'', ''EXPIRE_AT'', ''LAST_ERROR'', ''CREATED'']
     [''name'', ''phase'', ''node'', ''external'', ''ip'', ''ports'', ''egress'', ''containers'', ''expire_at'', ''last_error'', ''created'']
     rows)"

definition printNodeTable :: "row list \<Rightarrow> ('e, unit) ctl" where
  "printNodeTable rows = emit (table [''NAME'', ''STATE'', ''IP'', ''PORT'', ''EXTERNAL'', ''UPDATED'']
     [''name'', ''state'', ''ip'', ''port'', ''external'', ''updated''] rows)"

definition printNodeTableWide :: "row list \<Rightarrow> ('e, unit) ctl" where
  "printNodeTableWide rows = emit (table
     [''NAME'', ''STATE'', ''IP'', ''PORT'', ''EXTERNAL'', ''CPU(ALLOC/USED/AVAIL)'', ''MEM(ALLOC/USED/AVAIL)'', ''LAST_ERROR'', ''HEARTBEAT'', ''UPDATED'']
     [''name'', ''state'', ''ip'', ''port'', ''external'', ''cpu'', ''mem'', ''last_error'', ''last_heartbeat'', ''updated'']
     rows)"

definition printExternalTable :: "row list \<Rightarrow> ('e, unit) ctl" where
  "printExternalTable rows = emit (table [''ID'', ''NODE_ID'', ''EXTERNAL'', ''UPDATED'']
     [''id'', ''node_id'', ''external'', ''updated''] rows)"

text \<open>One resource of a list in table form.\<close>

definition print_rows :: "row list \<Rightarrow> (row list \<Rightarrow> ('e, unit) ctl) \<Rightarrow> ('e, unit) ctl" where
  "print_rows rows pr = (if rows = [] then emit (Line ''No resources found'') else pr rows)"

definition print_resource :: "Lib \<Rightarrow> bool \<Rightarrow> string \<Rightarrow> any \<Rightarrow> ('e, unit) ctl" where
  "print_resource L wide res items =
     check (emit (Line (''RESOURCE: '' @ res))) (\<lambda>_.
       if res = ''sandbox'' then
         print_rows (extractSandboxRows L items) (if wide then printSandboxTableWide else printSandboxTable)
       else if res = ''node'' then
         print_rows (extractNodeRows L items) (if wide then printNodeTableWide else printNodeTable)
       else print_rows (extractExternalRows L items) printExternalTable)"

subsection \<open>get\<close>

definition not_applicable :: "string \<Rightarrow> GoError" where
  "not_applicable what = Errorf (''--node is not applicable '' @ what)"

definition get_object :: "Lib \<Rightarrow> 'e ctl_net \<Rightarrow> Options \<Rightarrow> objectRef \<Rightarrow> ('e, gomap) ctl" where
  "get_object L net opts ref =
     (let c = mustClient opts in
      if or_Resource ref = ''sandbox'' then
        (if \<not> no_node opts then ctl_NodeGetSandbox L net c (op_Node opts) (or_Name ref)
         else ctl_GetSandbox L net c (or_Name ref))
      else if or_Resource ref = ''node'' then
        (if \<not> no_node opts then fail (not_applicable ''when getting node objects'')
         else ctl_GetNode L net c (or_Name ref))
      else if or_Resource ref = ''external'' then
        (if \<not> no_node opts then fail (not_applicable ''when getting external objects'')
         else ctl_GetExternal L net c (or_Name ref))
      else fail (Errorf (''unsupported resource '' @ Quote (or_Resource ref))))"

definition list_objects :: "Lib \<Rightarrow> 'e ctl_net \<Rightarrow> Options \<Rightarrow> string \<Rightarrow> ('e, gomap) ctl" where
  "list_objects L net opts res =
     (let c = mustClient opts in
      if res = ''sandbox'' then
        (if \<not> no_node opts then ctl_NodeListSandboxes L net c (op_Node opts) (op_Limit opts)
         else ctl_ListSandboxes L net c)
      else if res = ''node'' then
        (if \<not> no_node opts then fail (not_applicable ''when listing node objects'')
         else ctl_ListNodes L net c)
      else if res = ''external'' then
        (if \<not> no_node opts then fail (not_applicable ''when listing external objects'')
         else ctl_ListExternals L net c)
      else ok None)"

definition combined_key :: "string \<Rightarrow> string" where
  "combined_key res =
     (if res = ''sandbox'' then ''sandboxes'' else if res = ''node'' then ''nodes'' else ''externals'')"

text \<open>The loop over the resources: \<open>first\<close> is \<^verbatim>\<open>i == 0\<close>, the result is the combined map.\<close>

fun get_resources ::
  "Lib \<Rightarrow> 'e ctl_net \<Rightarrow> Options \<Rightarrow> string \<Rightarrow> bool \<Rightarrow> (string \<times> any) list \<Rightarrow> string list
     \<Rightarrow> ('e, (string \<times> any) list) ctl" where
  "get_resources L net opts mode first combined [] = ok combined"
| "get_resources L net opts mode first combined (res # rs) =
     check (list_objects L net opts res) (\<lambda>out.
       if mode = [] \<or> mode = ''wide'' then
         check (if first then ok () else emit (Line [])) (\<lambda>_.
         check (print_resource L (mode = ''wide'') res (lookup out ''items'')) (\<lambda>_.
           get_resources L net opts mode False combined rs))
       else get_resources L net opts mode False (combined @ [(combined_key res, lookup out ''items'')]) rs)"

definition cmd_get :: "Lib \<Rightarrow> 'e ctl_net \<Rightarrow> Options \<Rightarrow> string \<Rightarrow> ('e, unit) ctl" where
  "cmd_get L net opts arg0 =
     (let arg = TrimSpace arg0; mode = ToLower (TrimSpace (op_Output opts)) in
      if CHR ''/'' \<in> set arg then
        (case parseObjectRef arg of
           Inl e \<Rightarrow> fail e
         | Inr ref \<Rightarrow> check (get_object L net opts ref) (\<lambda>out. printAny L out (op_Output opts)))
      else
        (case parseResourceList arg of
           Inl e \<Rightarrow> fail e
         | Inr resources \<Rightarrow>
             check (get_resources L net opts mode True [] resources) (\<lambda>combined.
               if mode = [] \<or> mode = ''wide'' then ok () else printAny L (Some combined) mode)))"

subsection \<open>spec\<close>

definition cmd_spec :: "Lib \<Rightarrow> 'e ctl_net \<Rightarrow> Options \<Rightarrow> string \<Rightarrow> ('e, unit) ctl" where
  "cmd_spec L net opts arg =
     (case parseObjectRef arg of
        Inl e \<Rightarrow> fail e
      | Inr ref \<Rightarrow>
          (case ensureSandboxResource (or_Resource ref) of
             Some e \<Rightarrow> fail e
           | None \<Rightarrow>
               (let c = mustClient opts in
                check (if op_Node opts \<noteq> [] then ctl_NodeGetSandbox L net c (op_Node opts) (or_Name ref)
                       else ctl_GetSandbox L net c (or_Name ref)) (\<lambda>out.
                  let sbx = map_or_nil (lookup out ''sandbox'') in
                  if sbx = None then printAny L out ''yaml''
                  else printAny L (Some [(''apiVersion'', AnyString ''sandboxd.o/v1''), (''kind'', AnyString ''Sandbox''),
                         (''id'', lookup sbx ''id''), (''spec'', any_of (map_or_nil (lookup sbx ''spec'')))]) ''yaml''))))"

subsection \<open>create\<close>

definition create_object :: "Lib \<Rightarrow> 'e ctl_net \<Rightarrow> Options \<Rightarrow> gomap \<Rightarrow> ('e, gomap) ctl" where
  "create_object L net opts payload =
     (let c = mustClient opts;
          kind = ToLower (TrimSpace (toString L (lookup payload ''kind'')));
          req = [(''id'', lookup payload ''id''), (''spec'', lookup payload ''spec'')] in
      if kind = ''sandbox'' then
        (if \<not> no_node opts then ctl_NodeCreateSandbox L net c (op_Node opts) req else ctl_CreateSandbox L net c req)
      else if kind = ''node'' then
        (if \<not> no_node opts then fail (not_applicable ''for node object create'')
         else ctl_CreateNodeObject L net c req)
      else if kind = ''external'' then
        (if \<not> no_node opts then fail (not_applicable ''for external object create'')
         else ctl_CreateExternalObject L net c req)
      else fail (Errorf (''unsupported manifest kind '' @ Quote (toString L (lookup payload ''kind'')))))"

text \<open>\<open>file\<close> is the \<^verbatim>\<open>-f\<close> option, \<open>read\<close> what \<^verbatim>\<open>os.ReadFile\<close> answers to it.\<close>

definition cmd_create ::
  "Lib \<Rightarrow> 'e ctl_net \<Rightarrow> Options \<Rightarrow> (string \<Rightarrow> GoError + string) \<Rightarrow> string \<Rightarrow> ('e, unit) ctl" where
  "cmd_create L net opts read file =
     (if TrimSpace file = [] then fail (Errorf ''-f/--file is required'')
      else (case read file of
              Inl e \<Rightarrow> fail e
            | Inr raw \<Rightarrow>
                (case ParseManifest L raw of
                   Inl e \<Rightarrow> fail e
                 | Inr payload \<Rightarrow>
                     check (create_object L net opts payload) (\<lambda>out. printAny L out (op_Output opts)))))"

subsection \<open>delete\<close>

definition delete_object :: "Lib \<Rightarrow> 'e ctl_net \<Rightarrow> Options \<Rightarrow> bool \<Rightarrow> objectRef \<Rightarrow> ('e, gomap) ctl" where
  "delete_object L net opts force ref =
     (let c = mustClient opts in
      if or_Resource ref = ''sandbox'' then
        (if \<not> no_node opts then ctl_NodeDeleteSandbox L net c (op_Node opts) (or_Name ref)
         else ctl_DeleteSandbox L net c (or_Name ref))
      else if or_Resource ref = ''node'' then
        (if \<not> no_node opts then fail (not_applicable ''when deleting node objects'')
         else ctl_DeleteNodeWithForce L net c (or_Name ref) force)
      else if or_Resource ref = ''external'' then
        (if \<not> no_node opts then fail (not_applicable ''when deleting external objects'')
         else ctl_DeleteExternal L net c (or_Name ref))
      else fail (Errorf (''unsupported resource '' @ Quote (or_Resource ref))))"

definition cmd_delete :: "Lib \<Rightarrow> 'e ctl_net \<Rightarrow> Options \<Rightarrow> bool \<Rightarrow> string \<Rightarrow> ('e, unit) ctl" where
  "cmd_delete L net opts force arg =
     (case parseObjectRef arg of
        Inl e \<Rightarrow> fail e
      | Inr ref \<Rightarrow> check (delete_object L net opts force ref) (\<lambda>out. printAny L out (op_Output opts)))"

subsection \<open>logs\<close>

definition logs_node :: "Lib \<Rightarrow> 'e ctl_net \<Rightarrow> Options \<Rightarrow> objectRef \<Rightarrow> ('e, string) ctl" where
  "logs_node L net opts ref =
     (let node = TrimSpace (op_Node opts) in
      if node \<noteq> [] then ok node
      else do {
        r \<leftarrow> ctl_GetSandbox L net (mustClient opts) (or_Name ref);
        (case r of
           Inl e \<Rightarrow> fail (Errorf_w ''resolve node from sandbox status'' e)
         | Inr obj \<Rightarrow>
             (let sbx = map_or_nil (lookup obj ''sandbox'');
                  status = map_or_nil (lookup sbx ''status'');
                  assigned = TrimSpace (toString L (lookup status ''node_name'')) in
              if assigned = [] then
                fail (Errorf (''sandbox '' @ or_Name ref @ '' has no assigned node; provide --node''))
              else ok assigned)) })"

definition cmd_logs :: "Lib \<Rightarrow> 'e ctl_net \<Rightarrow> Options \<Rightarrow> string \<Rightarrow> string \<Rightarrow> ('e, unit) ctl" where
  "cmd_logs L net opts arg container0 =
     (case parseObjectRef arg of
        Inl e \<Rightarrow> fail e
      | Inr ref \<Rightarrow>
          (case ensureSandboxResource (or_Resource ref) of
             Some e \<Rightarrow> fail e
           | None \<Rightarrow>
               (let container = TrimSpace container0 in
                if container = [] then fail (Errorf ''container name is required'')
                else check (logs_node L net opts ref) (\<lambda>node.
                  check (ctl_NodeContainerLogs L net (mustClient opts) node (or_Name ref) container (op_Limit opts))
                    (\<lambda>out. printAny L out (op_Output opts))))))"

end
