(* ===== verification/Let_Path.thy ===== *)
theory Let_Path
  imports Pkg_Env
begin

section \<open>path/filepath and strings.Fields\<close>

text \<open>
  The part of \<^verbatim>\<open>path/filepath\<close> the node agent builds its file names with, on Unix:
  \<^verbatim>\<open>Clean\<close> splits a path at its slashes, drops empty and \<^verbatim>\<open>.\<close> components and lets a
  \<^verbatim>\<open>..\<close> remove the component before it; \<^verbatim>\<open>Join\<close> puts non-empty elements together and cleans
  the result.  \<open>clean_abs p\<close> says that \<open>p\<close> is an absolute path \<^verbatim>\<open>Clean\<close> leaves as it is, other
  than the root; \<open>safe_name n\<close> that \<open>n\<close> is one component.  Joining safe names to such a path
  appends them, which is what keeps the files of different sandboxes apart.
\<close>

fun clean_step :: "bool \<Rightarrow> string list \<Rightarrow> string \<Rightarrow> string list" where
  "clean_step rooted st c =
     (if c = [] \<or> c = ''.'' then st
      else if c = ''..'' then
        (if st \<noteq> [] \<and> last st \<noteq> ''..'' then butlast st
         else if rooted then st else st @ [''..''])
      else st @ [c])"

definition clean_comps :: "bool \<Rightarrow> string list \<Rightarrow> string list" where
  "clean_comps rooted cs = foldl (clean_step rooted) [] cs"

definition is_rooted :: "string \<Rightarrow> bool" where
  "is_rooted p \<longleftrightarrow> p \<noteq> [] \<and> hd p = CHR ''/''"

definition Clean :: "string \<Rightarrow> string" where
  "Clean p =
     (let st = clean_comps (is_rooted p) (SplitByte (CHR ''/'') p) in
      if is_rooted p then CHR ''/'' # Join st ''/''
      else if st = [] then ''.'' else Join st ''/'')"

definition filepath_Join :: "string list \<Rightarrow> string" where
  "filepath_Join elems =
     (let es = dropWhile (\<lambda>e. e = []) elems in
      if es = [] then [] else Clean (Join es ''/''))"

text \<open>\<^verbatim>\<open>strings.Fields\<close>: the maximal runs of bytes that start no white space.\<close>

function fields_from :: "string \<Rightarrow> string \<Rightarrow> string list" where
  "fields_from cur s =
     (if s = [] then (if cur = [] then [] else [cur])
      else let k = leading_space space_runes s in
        if k = 0 then fields_from (cur @ [hd s]) (tl s)
        else (if cur = [] then [] else [cur]) @ fields_from [] (drop k s))"
  by pat_completeness auto
termination
  by (relation "measure (\<lambda>(cur, s). length s)") auto

declare fields_from.simps [simp del]

definition Fields :: "string \<Rightarrow> string list" where
  "Fields s = fields_from [] s"

subsection \<open>Names and clean paths\<close>

definition safe_name :: "string \<Rightarrow> bool" where
  "safe_name n \<longleftrightarrow> n \<noteq> [] \<and> CHR ''/'' \<notin> set n \<and> n \<noteq> ''.'' \<and> n \<noteq> ''..''"

definition clean_abs :: "string \<Rightarrow> bool" where
  "clean_abs p \<longleftrightarrow> is_rooted p \<and> Clean p = p \<and> p \<noteq> ''/''"

lemma Split_no_sep: "c \<notin> set s \<Longrightarrow> SplitByte c s = [s]"
  by (induction s) auto

lemma Split_append_sep: "SplitByte c (s @ c # t) = SplitByte c s @ SplitByte c t"
  by (induction c s rule: SplitByte.induct) (auto split: list.splits)

lemma Join_snoc: "xs \<noteq> [] \<Longrightarrow> Join (xs @ [y]) sep = Join xs sep @ sep @ y"
proof (induction xs)
  case (Cons x xs)
  then show ?case by (cases xs) auto
qed simp

lemma clean_comps_snoc: "clean_comps r (cs @ [c]) = clean_step r (clean_comps r cs) c"
  by (simp add: clean_comps_def)

lemma is_rooted_append [simp]: "is_rooted p \<Longrightarrow> is_rooted (p @ q)"
  by (auto simp: is_rooted_def)

lemma Clean_child:
  assumes "clean_abs p" "safe_name n"
  shows "Clean (p @ ''/'' @ n) = p @ ''/'' @ n"
proof -
  let ?st = "clean_comps True (SplitByte (CHR ''/'') p)"
  have r: "is_rooted p" and p: "p = CHR ''/'' # Join ?st ''/''"
    using assms(1) by (auto simp: clean_abs_def Clean_def Let_def)
  have "?st \<noteq> []" using p assms(1) by (auto simp: clean_abs_def)
  moreover have "SplitByte (CHR ''/'') (p @ ''/'' @ n) = SplitByte (CHR ''/'') p @ [n]"
    using assms(2) Split_append_sep [of "CHR ''/''" p n] by (simp add: safe_name_def Split_no_sep)
  ultimately have "Clean (p @ ''/'' @ n) = CHR ''/'' # Join ?st ''/'' @ ''/'' @ n"
    using assms(2) r
    by (simp add: Clean_def Let_def clean_comps_snoc safe_name_def Join_snoc)
  then show ?thesis using p by simp
qed

lemma clean_abs_child:
  assumes "clean_abs p" "safe_name n"
  shows "clean_abs (p @ ''/'' @ n)"
  using assms Clean_child [OF assms] by (auto simp: clean_abs_def is_rooted_def safe_name_def append_eq_Cons_conv)

lemma clean_abs_nonempty: "clean_abs p \<Longrightarrow> p \<noteq> []"
  by (auto simp: clean_abs_def is_rooted_def)

lemma Join_child:
  assumes "clean_abs p" "safe_name n"
  shows "filepath_Join [p, n] = p @ ''/'' @ n"
  using assms Clean_child [OF assms]
  by (simp add: filepath_Join_def clean_abs_nonempty Let_def)

lemma Join_grandchild:
  assumes "clean_abs p" "safe_name n" "safe_name m"
  shows "filepath_Join [p, n, m] = p @ ''/'' @ n @ ''/'' @ m"
  using assms(1) Clean_child [OF clean_abs_child [OF assms(1,2)] assms(3)]
  by (simp add: filepath_Join_def clean_abs_nonempty Let_def)

lemma Join_dot:
  assumes "clean_abs p" "safe_name n"
  shows "filepath_Join [p, ''.'', n] = p @ ''/'' @ n"
proof -
  have "SplitByte (CHR ''/'') (p @ ''/'' @ ''./'' @ n) = SplitByte (CHR ''/'') p @ [''.'', n]"
    using assms(2) Split_append_sep [of "CHR ''/''" p "''./'' @ n"] by (simp add: safe_name_def Split_no_sep)
  moreover have "SplitByte (CHR ''/'') (p @ ''/'' @ n) = SplitByte (CHR ''/'') p @ [n]"
    using assms(2) Split_append_sep [of "CHR ''/''" p n] by (simp add: safe_name_def Split_no_sep)
  moreover have "clean_comps True (cs @ [''.'', n]) = clean_comps True (cs @ [n])" for cs
    by (simp add: clean_comps_def)
  ultimately have "Clean (p @ ''/'' @ ''./'' @ n) = Clean (p @ ''/'' @ n)"
    using assms(1) by (simp add: Clean_def clean_abs_def)
  then show ?thesis
    using assms(1) Clean_child [OF assms] by (simp add: filepath_Join_def clean_abs_nonempty)
qed

lemma path_names_inj:
  assumes "safe_name n" "safe_name m" "p @ ''/'' @ n @ ''/'' @ x = p @ ''/'' @ m @ ''/'' @ y"
  shows "n = m"
proof -
  have "SplitByte (CHR ''/'') (n @ CHR ''/'' # x) = SplitByte (CHR ''/'') (m @ CHR ''/'' # y)"
    using assms(3) by simp
  then show ?thesis
    using assms(1,2) by (simp add: Split_append_sep Split_no_sep safe_name_def)
qed

subsection \<open>Absolute paths as lists of names\<close>

definition comps :: "string \<Rightarrow> string list" where
  "comps p = clean_comps True (SplitByte (CHR ''/'') p)"

definition render :: "string list \<Rightarrow> string" where
  "render st = CHR ''/'' # Join st ''/''"

lemma Clean_rooted: "is_rooted p \<Longrightarrow> Clean p = render (comps p)"
  by (simp add: Clean_def comps_def render_def Let_def)

lemma is_rooted_render [simp]: "is_rooted (render st)"
  by (simp add: render_def is_rooted_def)

lemma Split_parts_no_sep: "x \<in> set (SplitByte c s) \<Longrightarrow> c \<notin> set x"
  by (induction c s arbitrary: x rule: SplitByte.induct) (auto split: if_splits list.splits)

lemma clean_comps_safe:
  "\<forall>c \<in> set cs. CHR ''/'' \<notin> set c \<Longrightarrow> \<forall>c \<in> set (clean_comps True cs). safe_name c"
proof (induction cs rule: rev_induct)
  case Nil
  then show ?case by (simp add: clean_comps_def)
next
  case (snoc c cs)
  then show ?case
    by (auto simp: clean_comps_snoc safe_name_def dest!: in_set_butlastD)
qed

lemma comps_safe: "\<forall>c \<in> set (comps p). safe_name c"
  unfolding comps_def using Split_parts_no_sep by (intro clean_comps_safe) blast

lemma clean_comps_append: "clean_comps r (cs @ ds) = foldl (clean_step r) (clean_comps r cs) ds"
  by (simp add: clean_comps_def)

lemma clean_steps_safe: "\<forall>c \<in> set ds. safe_name c \<Longrightarrow> foldl (clean_step r) st ds = st @ ds"
  by (induction ds arbitrary: st) (auto simp: safe_name_def)

lemma Split_Join:
  assumes "st \<noteq> []" "\<forall>c \<in> set st. CHR ''/'' \<notin> set c"
  shows "SplitByte (CHR ''/'') (Join st ''/'') = st"
  using assms
proof (induction st rule: induct_list012)
  case (3 x y zs)
  then show ?case using Split_append_sep [of "CHR ''/''" x "Join (y # zs) ''/''"] by (simp add: Split_no_sep)
qed (simp_all add: Split_no_sep)

lemma comps_render:
  assumes "\<forall>c \<in> set st. safe_name c"
  shows "comps (render st) = st"
proof (cases "st = []")
  case True
  then show ?thesis by (simp add: comps_def render_def clean_comps_def)
next
  case False
  have "SplitByte (CHR ''/'') (render st) = [] # st"
    using Split_Join [OF False] assms by (simp add: render_def safe_name_def)
  then show ?thesis
    using clean_steps_safe [OF assms, of True "[]"] by (simp add: comps_def clean_comps_def)
qed

lemma comps_below:
  assumes "st \<noteq> []" "\<forall>c \<in> set st. safe_name c"
  shows "comps (p @ ''/'' @ Join st ''/'') = comps p @ st"
proof -
  have "SplitByte (CHR ''/'') (p @ ''/'' @ Join st ''/'') = SplitByte (CHR ''/'') p @ st"
    using Split_append_sep [of "CHR ''/''" p "Join st ''/''"] Split_Join [OF assms(1)] assms(2)
    by (simp add: safe_name_def)
  then show ?thesis
    using clean_steps_safe [OF assms(2)] by (simp add: comps_def clean_comps_append)
qed

lemma comps_child: "safe_name n \<Longrightarrow> comps (p @ ''/'' @ n) = comps p @ [n]"
  using comps_below [of "[n]" p] by simp

lemma comps_trailing: "comps (p @ ''/'') = comps p"
  using Split_append_sep [of "CHR ''/''" p "[]"] by (simp add: comps_def clean_comps_snoc)

lemma Join_append: "xs \<noteq> [] \<Longrightarrow> ys \<noteq> [] \<Longrightarrow> Join (xs @ ys) sep = Join xs sep @ sep @ Join ys sep"
  by (induction xs rule: induct_list012) (auto simp: neq_Nil_conv)

lemma render_append: "xs \<noteq> [] \<Longrightarrow> ys \<noteq> [] \<Longrightarrow> render (xs @ ys) = render xs @ render ys"
  by (simp add: render_def Join_append)

end
