(* ===== verification/Ctl_Props.thy ===== *)
theory Ctl_Props
  imports Ctl_Cmd Let_Path
begin

section \<open>sbxctl: what its parsers accept\<close>

text \<open>
  Object references and resource lists: which arguments are accepted, what they stand for, and
  that a reference printed in its normal form is read back.
\<close>

subsection \<open>Trimming and slashes\<close>

lemma HasPrefix_cut:
  assumes "HasPrefix (a @ c # t) w" "c \<notin> set w"
  shows "HasPrefix a w"
proof (cases "length w \<le> length a")
  case True
  with assms(1) show ?thesis by (simp add: HasPrefix_def)
next
  case False
  then have "(a @ c # t) ! length a = w ! length a"
    using assms(1) by (metis HasPrefix_iff not_le nth_append)
  then have "c = w ! length a" by simp
  with False assms(2) show ?thesis by (metis not_le nth_mem)
qed

lemma leading_space_cut:
  assumes "leading_space ws a = 0" "\<forall>w \<in> set ws. c \<notin> set w \<and> w \<noteq> []"
  shows "leading_space ws (a @ c # t) = 0"
proof -
  have "\<not> HasPrefix a w" if "w \<in> set ws" for w
    using assms that unfolding leading_space_def
    by (auto split: option.splits dest!: find_Some_in simp: find_None_iff)
  then have "find (HasPrefix (a @ c # t)) ws = None"
    using assms(2) HasPrefix_cut [of a c t] unfolding find_None_iff by blast
  then show ?thesis by (simp add: leading_space_def)
qed

text \<open>Trimmed at both ends.\<close>

definition trimmed :: "string \<Rightarrow> bool" where
  "trimmed s \<longleftrightarrow> leading_space space_runes s = 0 \<and> leading_space (map rev space_runes) (rev s) = 0"

lemma trim_left_fixed: "trim_left ws s = s \<Longrightarrow> [] \<notin> set ws \<Longrightarrow> leading_space ws s = 0"
  using trim_left_leading [of ws s] leading_space_Nil [of ws] by auto

lemma length_trim_left: "length (trim_left ws s) \<le> length s"
  using trim_left_suffix [of s ws] by (metis length_append le_add2)

lemma trimmed_iff: "trimmed s \<longleftrightarrow> TrimSpace s = s"
proof
  assume "trimmed s"
  then show "TrimSpace s = s" by (simp add: trimmed_def TrimSpace_def trim_left_id)
next
  assume t: "TrimSpace s = s"
  define l where "l = trim_left space_runes s"
  obtain p where p: "s = p @ l" unfolding l_def using trim_left_suffix by blast
  have r: "rev s = trim_left (map rev space_runes) (rev l)"
    using arg_cong [OF t, of rev] unfolding TrimSpace_def l_def rev_rev_ident by (rule sym)
  have "length (rev s) \<le> length (rev l)" unfolding r by (rule length_trim_left)
  with p have l: "l = s" by simp
  have "leading_space space_runes s = 0"
    using l Nil_notin_space_runes(1) unfolding l_def by (rule trim_left_fixed)
  moreover have "leading_space (map rev space_runes) (rev s) = 0"
    using r [symmetric] Nil_notin_space_runes(2) unfolding l by (rule trim_left_fixed)
  ultimately show "trimmed s" unfolding trimmed_def by (rule conjI)
qed

lemma trimmed_TrimSpace [simp]: "trimmed (TrimSpace s)"
  by (simp add: trimmed_iff)

lemma no_slash_space: "\<forall>w \<in> set space_runes. CHR ''/'' \<notin> set w \<and> w \<noteq> []"
  by (simp add: space_runes_def)

lemma trimmed_slash:
  assumes "trimmed a" "trimmed b"
  shows "trimmed (a @ CHR ''/'' # b)"
proof -
  have "leading_space space_runes (a @ CHR ''/'' # b) = 0"
    using assms(1) no_slash_space by (intro leading_space_cut) (simp_all add: trimmed_def)
  moreover have "leading_space (map rev space_runes) (rev b @ CHR ''/'' # rev a) = 0"
    using assms(2) no_slash_space by (intro leading_space_cut) (auto simp: trimmed_def)
  ultimately show ?thesis by (simp add: trimmed_def)
qed

lemma set_trim_left: "set (trim_left ws s) \<subseteq> set s"
  using trim_left_suffix [of s ws] by (metis set_append Un_upper2)

lemma set_TrimSpace: "set (TrimSpace s) \<subseteq> set s"
  unfolding TrimSpace_def using set_trim_left by (metis (no_types, lifting) order_trans set_rev)

subsection \<open>Normal names of resources\<close>

lemma normalize_known: "normalizeResource ''sandbox'' = ''sandbox''" "normalizeResource ''node'' = ''node''"
  "normalizeResource ''external'' = ''external''"
  by code_simp+

lemma normalize_idem: "normalizeResource (normalizeResource s) = normalizeResource s"
proof -
  let ?s = "ToLower (TrimSpace s)"
  have t: "ToLower (TrimSpace ?s) = ?s" by (simp add: TrimSpace_ToLower)
  show ?thesis
  proof (cases "normalizeResource s = ?s")
    case True
    then show ?thesis by (simp add: normalizeResource_def [of ?s] t) (simp add: normalizeResource_def [of s])
  next
    case False
    then have "normalizeResource s \<in> {''sandbox'', ''node'', ''external''}"
      by (auto simp: normalizeResource_def Let_def split: if_splits)
    then show ?thesis using normalize_known by auto
  qed
qed

lemma normalize_trimmed: "trimmed (normalizeResource s)"
proof -
  have "trimmed ''sandbox''" "trimmed ''node''" "trimmed ''external''"
    unfolding trimmed_iff by code_simp+
  moreover have "trimmed (ToLower (TrimSpace s))" by (simp add: trimmed_iff TrimSpace_ToLower)
  ultimately show ?thesis by (simp add: normalizeResource_def Let_def)
qed

lemma slash_not_lower: "lower_byte c = CHR ''/'' \<longleftrightarrow> c = CHR ''/''"
  by (rule lower_byte_eq) (simp_all add: less_eq_char_def)

lemma normalize_no_slash:
  assumes "CHR ''/'' \<notin> set s"
  shows "CHR ''/'' \<notin> set (normalizeResource s)"
proof -
  have "CHR ''/'' \<notin> set (ToLower (TrimSpace s))"
  proof
    assume "CHR ''/'' \<in> set (ToLower (TrimSpace s))"
    then obtain c where "c \<in> set (TrimSpace s)" "CHR ''/'' = lower_byte c"
      unfolding ToLower_def set_map by (rule imageE)
    then have "CHR ''/'' \<in> set (TrimSpace s)" using slash_not_lower [of c] by metis
    with set_TrimSpace [of s] assms show False by (metis subsetD)
  qed
  moreover have "normalizeResource s \<in> {''sandbox'', ''node'', ''external'', ToLower (TrimSpace s)}"
    by (simp add: normalizeResource_def Let_def)
  moreover have "CHR ''/'' \<notin> set ''sandbox''" "CHR ''/'' \<notin> set ''node''" "CHR ''/'' \<notin> set ''external''" by simp_all
  ultimately show ?thesis unfolding insert_iff empty_iff by metis
qed

subsection \<open>Object references\<close>

lemma Join_Split: "Join (SplitByte c s) [c] = s"
proof (induction c s rule: SplitByte.induct)
  case (2 c x s)
  obtain p ps where "SplitByte c s = p # ps" by (cases "SplitByte c s") auto
  with 2 show ?case by (cases "x = c"; cases ps) auto
qed simp

lemma parse_ref_split:
  assumes "parseObjectRef arg = Inr ref"
  obtains a b where "TrimSpace arg = a @ CHR ''/'' # b" "CHR ''/'' \<notin> set a" "CHR ''/'' \<notin> set b"
    "or_Resource ref = normalizeResource a" "or_Name ref = TrimSpace b" "or_Resource ref \<noteq> []" "or_Name ref \<noteq> []"
proof -
  obtain a b where s: "SplitByte (CHR ''/'') (TrimSpace arg) = [a, b]"
    using assms by (auto simp: parseObjectRef_def Let_def split: list.splits)
  have "TrimSpace arg = a @ CHR ''/'' # b"
    using Join_Split [of "CHR ''/''" "TrimSpace arg"] s by simp
  moreover have "CHR ''/'' \<notin> set a" "CHR ''/'' \<notin> set b"
    using Split_parts_no_sep [of _ "CHR ''/''" "TrimSpace arg"] s by auto
  ultimately show ?thesis
    using that assms s by (auto simp: parseObjectRef_def Let_def split: if_splits)
qed

lemma parse_ref_name:
  assumes "parseObjectRef arg = Inr ref"
  shows "or_Name ref \<noteq> []" "CHR ''/'' \<notin> set (or_Name ref)" "TrimSpace (or_Name ref) = or_Name ref"
proof -
  obtain b where b: "CHR ''/'' \<notin> set b" "or_Name ref = TrimSpace b" "or_Name ref \<noteq> []"
    using assms by (rule parse_ref_split)
  show "or_Name ref \<noteq> []" by (rule b(3))
  show "CHR ''/'' \<notin> set (or_Name ref)" unfolding b(2) using b(1) set_TrimSpace [of b] by (metis subsetD)
  show "TrimSpace (or_Name ref) = or_Name ref" by (simp add: b(2))
qed

lemma normalize_Nil: "normalizeResource s = [] \<longleftrightarrow> TrimSpace s = []"
proof (cases "TrimSpace s")
  case Nil
  then show ?thesis by (simp add: normalizeResource_def)
next
  case (Cons c t)
  then show ?thesis by (simp add: normalizeResource_def Let_def)
qed

definition show_ref :: "objectRef \<Rightarrow> string" where
  "show_ref ref = or_Resource ref @ ''/'' @ or_Name ref"

lemma parse_slash:
  assumes "TrimSpace arg = a @ CHR ''/'' # b" "CHR ''/'' \<notin> set a" "CHR ''/'' \<notin> set b"
  shows "parseObjectRef arg =
    (if TrimSpace a = [] \<or> TrimSpace b = [] then Inl (Errorf (''invalid object reference '' @ Quote (TrimSpace arg)))
     else Inr \<lparr>or_Resource = normalizeResource a, or_Name = TrimSpace b\<rparr>)"
proof -
  have "SplitByte (CHR ''/'') (TrimSpace arg) = [a, b]"
    unfolding assms(1) Split_append_sep Split_no_sep [OF assms(2)] Split_no_sep [OF assms(3)] by simp
  then show ?thesis by (simp add: parseObjectRef_def Let_def normalize_Nil)
qed

text \<open>
  C24: an object reference is accepted exactly when the trimmed argument has one slash and neither
  side of it is blank, and an accepted reference is printed and read back: \<open>resource/name\<close>, with the
  resource in its normal form and the name trimmed, stands for the same reference.
\<close>

theorem object_ref_roundtrip:
  "((\<exists>ref. parseObjectRef arg = Inr ref) \<longleftrightarrow>
     (\<exists>a b. TrimSpace arg = a @ ''/'' @ b \<and> CHR ''/'' \<notin> set a \<and> CHR ''/'' \<notin> set b \<and>
        TrimSpace a \<noteq> [] \<and> TrimSpace b \<noteq> [])) \<and>
   (case parseObjectRef arg of Inl _ \<Rightarrow> True | Inr ref \<Rightarrow> parseObjectRef (show_ref ref) = Inr ref)"
proof (intro conjI)
  show "(\<exists>ref. parseObjectRef arg = Inr ref) \<longleftrightarrow>
     (\<exists>a b. TrimSpace arg = a @ ''/'' @ b \<and> CHR ''/'' \<notin> set a \<and> CHR ''/'' \<notin> set b \<and>
        TrimSpace a \<noteq> [] \<and> TrimSpace b \<noteq> [])" (is "?l \<longleftrightarrow> ?r")
  proof
    assume ?l
    then obtain ref where "parseObjectRef arg = Inr ref" by blast
    then obtain a b where "TrimSpace arg = a @ CHR ''/'' # b" "CHR ''/'' \<notin> set a" "CHR ''/'' \<notin> set b"
      "or_Resource ref = normalizeResource a" "or_Name ref = TrimSpace b" "or_Resource ref \<noteq> []" "or_Name ref \<noteq> []"
      by (rule parse_ref_split)
    then show ?r using normalize_Nil [of a] by (intro exI [of _ a] exI [of _ b]) simp
  next
    assume ?r
    then obtain a b where "TrimSpace arg = a @ CHR ''/'' # b" "CHR ''/'' \<notin> set a" "CHR ''/'' \<notin> set b"
      and n: "TrimSpace a \<noteq> []" "TrimSpace b \<noteq> []" by auto
    from parse_slash [OF this(1-3)] n show ?l by simp
  qed
next
  have "parseObjectRef (show_ref ref) = Inr ref" if "parseObjectRef arg = Inr ref" for ref
  proof -
    from that obtain a b where ab: "CHR ''/'' \<notin> set a" "or_Resource ref = normalizeResource a"
      "or_Resource ref \<noteq> []" by (rule parse_ref_split)
    note n = parse_ref_name [OF that]
    have r: "trimmed (or_Resource ref)" "CHR ''/'' \<notin> set (or_Resource ref)"
      using ab normalize_trimmed normalize_no_slash by simp_all
    have "TrimSpace (show_ref ref) = or_Resource ref @ CHR ''/'' # or_Name ref"
      using trimmed_slash [OF r(1), of "or_Name ref"] n(3) unfolding trimmed_iff by (simp add: show_ref_def)
    from parse_slash [OF this r(2) n(2)] show ?thesis
      using r(1) n(1,3) ab(2,3) normalize_idem [of a] unfolding trimmed_iff by (cases ref) simp
  qed
  then show "case parseObjectRef arg of Inl _ \<Rightarrow> True | Inr ref \<Rightarrow> parseObjectRef (show_ref ref) = Inr ref"
    by (simp split: sum.split)
qed

subsection \<open>Resource lists\<close>

lemma remdups_snoc_rev: "rev (remdups (rev (xs @ [x]))) = (if x \<in> set xs then rev (remdups (rev xs)) else rev (remdups (rev xs)) @ [x])"
  by simp

lemma resource_list_remdups:
  assumes "out = rev (remdups (rev xs))"
  shows "resource_list out ps =
    (case find (\<lambda>p. \<not> known_resource (normalizeResource p)) ps of
       Some p \<Rightarrow> Inl (Errorf (''unsupported resource '' @ Quote (TrimSpace p)))
     | None \<Rightarrow> Inr (rev (remdups (rev (xs @ map normalizeResource ps)))))"
  using assms
proof (induction ps arbitrary: out xs)
  case Nil
  then show ?case by simp
next
  case (Cons p ps)
  let ?r = "normalizeResource p"
  have "(if ?r \<in> set out then out else out @ [?r]) = rev (remdups (rev (xs @ [?r])))"
    using Cons.prems by simp
  from Cons.IH [OF this] show ?case by (simp add: Let_def split: option.split)
qed

text \<open>
  A list of resources is read as its normalised names in the order of their first mention, each
  once, and it is refused exactly when it is blank or mentions a resource that is not one of the
  three; the first such one is named in the error.
\<close>

theorem parseResourceList_correct:
  "parseResourceList arg =
     (let parts = SplitByte (CHR '','') (TrimSpace arg) in
      if TrimSpace arg = [] then Inl (Errorf ''resource is required'')
      else (case find (\<lambda>p. normalizeResource p \<notin> {''sandbox'', ''node'', ''external''}) parts of
              Some p \<Rightarrow> Inl (Errorf (''unsupported resource '' @ Quote (TrimSpace p)))
            | None \<Rightarrow> Inr (rev (remdups (rev (map normalizeResource parts))))))"
proof -
  have k: "(\<lambda>p. \<not> known_resource (normalizeResource p)) = (\<lambda>p. normalizeResource p \<notin> {''sandbox'', ''node'', ''external''})"
    by (auto simp: known_resource_def)
  show ?thesis
    using resource_list_remdups [of "[]" "[]" "SplitByte (CHR '','') (TrimSpace arg)"]
    by (simp add: parseResourceList_def Let_def k split: option.split)
qed

end
