(* ===== verification/Let_Config.thy ===== *)
theory Let_Config
  imports Pkg_Env
begin

section \<open>sbxlet: configuration\<close>

text \<open>
  \<^verbatim>\<open>sandboxd-let/config/config.go\<close>: the settings a node agent starts with, read from its
  environment, and the defaults that replace what is missing or out of range.  Durations are
  nanoseconds.
\<close>

definition ns_second :: int where "ns_second = 1000000000"
definition ns_minute :: int where "ns_minute = 60 * ns_second"

definition DefaultContainerdAddr :: string where
  "DefaultContainerdAddr = ''/run/containerd/containerd.sock''"
definition DefaultStateBaseDir :: string where
  "DefaultStateBaseDir = ''/var/lib/sandboxd/sandboxes''"
definition DefaultLockDir :: string where
  "DefaultLockDir = ''/var/lib/sandboxd/locks''"
definition DefaultBridgeInterface :: string where
  "DefaultBridgeInterface = ''sbx-br0''"
definition DefaultSubnetCIDR :: string where
  "DefaultSubnetCIDR = ''10.89.0.0/16''"
definition DefaultCNIConfPath :: string where
  "DefaultCNIConfPath = ''/etc/cni/sandboxd.d/20-sbxnet.conflist''"
definition DefaultRuntimeBinary :: string where
  "DefaultRuntimeBinary = ''runsc''"
definition DefaultReconcileEvery :: int where "DefaultReconcileEvery = 15 * ns_second"
definition DefaultReconcileGrace :: int where "DefaultReconcileGrace = 5 * ns_second"
definition DefaultReconcileHits :: int where "DefaultReconcileHits = 2"
definition DefaultLockWaitTimeout :: int where "DefaultLockWaitTimeout = 20 * ns_second"
definition DefaultProvisionTimeout :: int where "DefaultProvisionTimeout = 4 * ns_minute"
definition DefaultContainerCreateTimeout :: int where "DefaultContainerCreateTimeout = 2 * ns_minute"
definition DefaultImagePullTimeout :: int where "DefaultImagePullTimeout = 8 * ns_minute"

record LetConfig =
  ContainerdAddress :: string
  StateBaseDir :: string
  LockDir :: string
  CgroupParent :: string
  BridgeInterface :: string
  SubnetCIDR :: string
  CNIConfPath :: string
  ReconcileInterval :: int
  ReconcileGrace :: int
  ReconcileHits :: int
  RuntimeBinary :: string
  MaxAllocPercent :: int
  ProvisionTimeout :: int
  ContainerCreateTimeout :: int
  ImagePullTimeout :: int

definition DefaultConfig :: "Environment \<Rightarrow> LetConfig" where
  "DefaultConfig env =
     (let addr = Getenv env ''SANDBOX_CONTAINERD_ADDRESS'' in
      \<lparr>ContainerdAddress = (if addr = [] then DefaultContainerdAddr else addr),
       StateBaseDir = DefaultStateBaseDir,
       LockDir = DefaultLockDir,
       CgroupParent = envutil_Get env ''SANDBOX_CGROUP_PARENT'' [],
       BridgeInterface = DefaultBridgeInterface,
       SubnetCIDR = DefaultSubnetCIDR,
       CNIConfPath = envutil_Get env ''SANDBOX_CNI_CONF_PATH'' DefaultCNIConfPath,
       ReconcileInterval = DefaultReconcileEvery,
       ReconcileGrace = DefaultReconcileGrace,
       ReconcileHits = DefaultReconcileHits,
       RuntimeBinary = envutil_Get env ''SANDBOX_RUNTIME_BINARY'' DefaultRuntimeBinary,
       MaxAllocPercent = envutil_GetInt env ''SANDBOX_MAX_ALLOC_PERCENT'' 90,
       ProvisionTimeout = envutil_GetDuration env ''SANDBOX_PROVISION_TIMEOUT'' DefaultProvisionTimeout,
       ContainerCreateTimeout =
         envutil_GetDuration env ''SANDBOX_CONTAINER_CREATE_TIMEOUT'' DefaultContainerCreateTimeout,
       ImagePullTimeout = envutil_GetDuration env ''SANDBOX_IMAGE_PULL_TIMEOUT'' DefaultImagePullTimeout\<rparr>)"

definition or_default :: "string \<Rightarrow> string \<Rightarrow> string" where
  "or_default s d = (if s = [] then d else s)"

definition pos_default :: "int \<Rightarrow> int \<Rightarrow> int" where
  "pos_default n d = (if n \<le> 0 then d else n)"

definition WithConfigDefaults :: "Environment \<Rightarrow> LetConfig \<Rightarrow> LetConfig" where
  "WithConfigDefaults env cfg =
     \<lparr>ContainerdAddress = or_default (ContainerdAddress cfg) DefaultContainerdAddr,
      StateBaseDir = or_default (StateBaseDir cfg) DefaultStateBaseDir,
      LockDir = or_default (LockDir cfg) DefaultLockDir,
      CgroupParent = envutil_Get env ''SANDBOX_CGROUP_PARENT'' (CgroupParent cfg),
      BridgeInterface = or_default (BridgeInterface cfg) DefaultBridgeInterface,
      SubnetCIDR = or_default (SubnetCIDR cfg) DefaultSubnetCIDR,
      CNIConfPath = or_default (CNIConfPath cfg) DefaultCNIConfPath,
      ReconcileInterval = pos_default (ReconcileInterval cfg) DefaultReconcileEvery,
      ReconcileGrace = pos_default (ReconcileGrace cfg) DefaultReconcileGrace,
      ReconcileHits = (if ReconcileHits cfg < 1 then DefaultReconcileHits else ReconcileHits cfg),
      RuntimeBinary = or_default (RuntimeBinary cfg) DefaultRuntimeBinary,
      MaxAllocPercent =
        (if MaxAllocPercent cfg \<le> 0 \<or> MaxAllocPercent cfg > 100 then 90 else MaxAllocPercent cfg),
      ProvisionTimeout = pos_default (ProvisionTimeout cfg) DefaultProvisionTimeout,
      ContainerCreateTimeout = pos_default (ContainerCreateTimeout cfg) DefaultContainerCreateTimeout,
      ImagePullTimeout = pos_default (ImagePullTimeout cfg) DefaultImagePullTimeout\<rparr>"

lemmas let_defaults = ns_second_def ns_minute_def DefaultContainerdAddr_def DefaultStateBaseDir_def
  DefaultLockDir_def DefaultBridgeInterface_def DefaultSubnetCIDR_def DefaultCNIConfPath_def
  DefaultRuntimeBinary_def DefaultReconcileEvery_def DefaultReconcileGrace_def DefaultReconcileHits_def
  DefaultLockWaitTimeout_def DefaultProvisionTimeout_def DefaultContainerCreateTimeout_def
  DefaultImagePullTimeout_def

definition let_config_ok :: "LetConfig \<Rightarrow> bool" where
  "let_config_ok c \<longleftrightarrow>
     [] \<notin> {ContainerdAddress c, StateBaseDir c, LockDir c, BridgeInterface c, SubnetCIDR c, CNIConfPath c,
        RuntimeBinary c} \<and>
     0 < ReconcileInterval c \<and> 0 < ReconcileGrace c \<and> 1 \<le> ReconcileHits c \<and>
     1 \<le> MaxAllocPercent c \<and> MaxAllocPercent c \<le> 100 \<and>
     0 < ProvisionTimeout c \<and> 0 < ContainerCreateTimeout c \<and> 0 < ImagePullTimeout c"

lemma WithConfigDefaults_ok: "let_config_ok (WithConfigDefaults env cfg)"
proof -
  have "[] \<noteq> or_default s d" if "d \<noteq> []" for s d using that by (simp add: or_default_def)
  moreover have "0 < pos_default n d" if "0 < d" for n d using that by (simp add: pos_default_def)
  ultimately show ?thesis
    by (simp add: let_config_ok_def WithConfigDefaults_def let_defaults)
qed

lemma WithConfigDefaults_id:
  assumes "let_config_ok cfg" "TrimSpace (Getenv env ''SANDBOX_CGROUP_PARENT'') = []"
  shows "WithConfigDefaults env cfg = cfg"
proof -
  have "or_default s d = s" if "[] \<noteq> s" for s d using that by (simp add: or_default_def)
  moreover have "pos_default n d = n" if "0 < n" for n d using that by (simp add: pos_default_def)
  ultimately show ?thesis
    using assms by (simp add: let_config_ok_def WithConfigDefaults_def envutil_Get_def)
qed

end
