(* ===== verification/Let_World.thy ===== *)
theory Let_World
  imports Let_Model Let_Path Let_Config Go_Net "HOL-Library.AList"
begin

section \<open>sbxlet: the state of a node agent and the calls that leave the process\<close>

text \<open>
  \<open>let_world\<close> is what the operations of \<^verbatim>\<open>sandbox.Service\<close> read and change: the file system
  (an association list from clean absolute paths to directories and files), the lock files other
  goroutines or processes hold, the maps \<^verbatim>\<open>reservedPorts\<close>, \<^verbatim>\<open>unhealthySince\<close> and
  \<^verbatim>\<open>unhealthyHits\<close>, the provisioning goroutines that were started, and the state \<open>'o\<close> of
  everything outside: kernel, container runtime, packet filter, clock.

  The outside is reached through a record \<open>Host\<close> of operations on \<open>'o\<close>, which is a parameter.
  \<open>ho_fault\<close> decides for each system call on a path whether it fails; \<open>ho_torn\<close> does the same for
  \<^verbatim>\<open>os.WriteFile\<close>, which truncates first and so may leave any part of the data behind.
  \<open>ho_lock_timeout\<close> tells whether another process keeps a lock until the deadline,
  \<open>ho_ctx_Err\<close> whether the context of the operation is done.  The text of a state file is not
  spelled out: \<open>StateJSON s\<close> stands for what \<^verbatim>\<open>json.MarshalIndent\<close> writes for \<open>s\<close>, which
  \<^verbatim>\<open>json.Unmarshal\<close> reads back; what it makes of any other bytes is \<open>ho_Unmarshal\<close>.
\<close>

datatype FileData = Bytes string | StateJSON LetSandbox

datatype FsNode = Dir | File FileData

definition file_text :: "FileData \<Rightarrow> string" where
  "file_text d = (case d of Bytes b \<Rightarrow> b | StateJSON _ \<Rightarrow> [])"

type_synonym file_system = "(string \<times> FsNode) list"

record 'o Host =
  ho_fault :: "string \<Rightarrow> 'o \<Rightarrow> GoError option \<times> 'o"
  ho_torn :: "string \<Rightarrow> 'o \<Rightarrow> (GoError \<times> string option) option \<times> 'o"
  ho_Unmarshal :: "string \<Rightarrow> GoError + LetSandbox"
  ho_lock_timeout :: "string \<Rightarrow> 'o \<Rightarrow> bool \<times> 'o"
  ho_Now :: "'o \<Rightarrow> int \<times> 'o"
  ho_ctx_Err :: "'o \<Rightarrow> GoError option \<times> 'o"
  ho_Listen :: "string \<Rightarrow> int \<Rightarrow> 'o \<Rightarrow> GoError option \<times> 'o"
  ho_Dial :: "string \<Rightarrow> int \<Rightarrow> 'o \<Rightarrow> GoError option \<times> 'o"
  ho_dial_cri :: "string \<Rightarrow> 'o \<Rightarrow> GoError option \<times> 'o"
  ho_new_iptables :: "'o \<Rightarrow> GoError option \<times> 'o"
  ho_modprobe :: "'o \<Rightarrow> GoError option \<times> 'o"
  ho_NumCPU :: int
  ho_ParseQuantity :: "string \<Rightarrow> GoError + Quantity"
  ho_cni_Unmarshal :: "string \<Rightarrow> GoError + string list"
  ho_mapped_ipv4 :: "string \<Rightarrow> string option"

record 'o let_world =
  lw_fs :: file_system
  lw_locks :: "string list"
  lw_reserved :: "(string \<times> string) list"
  lw_since :: "(string \<times> int) list"
  lw_hits :: "(string \<times> int) list"
  lw_jobs :: "(string \<times> CreateSandboxRequest) list"
  lw_out :: 'o

type_synonym ('o, 'a) lact = "('o let_world, 'a) state"
type_synonym ('o, 'a) lio = "('o let_world, GoError + 'a) state"

definition modify_let :: "('o let_world \<Rightarrow> 'o let_world) \<Rightarrow> ('o, unit) lact" where
  "modify_let f = State (\<lambda>w. ((), f w))"

definition gets_let :: "('o let_world \<Rightarrow> 'a) \<Rightarrow> ('o, 'a) lact" where
  "gets_let f = State (\<lambda>w. (f w, w))"

definition outside :: "('o \<Rightarrow> 'a \<times> 'o) \<Rightarrow> ('o, 'a) lact" where
  "outside f = State (\<lambda>w. (fst (f (lw_out w)), w\<lparr>lw_out := snd (f (lw_out w))\<rparr>))"

definition let_Now :: "'o Host \<Rightarrow> ('o, int) lact" where
  "let_Now H = outside (ho_Now H)"

subsection \<open>The file system\<close>

definition parent_dir :: "string \<Rightarrow> string" where
  "parent_dir p = rev (tl (dropWhile (\<lambda>c. c \<noteq> CHR ''/'') (rev p)))"

definition ancestors :: "string \<Rightarrow> string list" where
  "ancestors p = map (\<lambda>i. take i p) (filter (\<lambda>i. p ! i = CHR ''/'') [1..<length p])"

definition missing_dirs :: "string list \<Rightarrow> file_system \<Rightarrow> file_system" where
  "missing_dirs ps fs = map (\<lambda>p. (p, Dir)) (filter (\<lambda>p. map_of fs p = None) ps)"

definition no_such_file :: "string \<Rightarrow> GoError" where
  "no_such_file p = GoError [ErrNotExist] (''open '' @ p @ '': no such file or directory'')"

definition os_call :: "'o Host \<Rightarrow> string \<Rightarrow> (file_system \<Rightarrow> GoError + ('a \<times> file_system)) \<Rightarrow> ('o, 'a) lio" where
  "os_call H p f = do {
     e \<leftarrow> outside (ho_fault H p);
     (case e of
        Some err \<Rightarrow> fail err
      | None \<Rightarrow> State (\<lambda>w. (case f (lw_fs w) of
           Inl err \<Rightarrow> (Inl err, w)
         | Inr (x, fs) \<Rightarrow> (Inr x, w\<lparr>lw_fs := fs\<rparr>)))) }"

definition os_MkdirAll :: "'o Host \<Rightarrow> string \<Rightarrow> ('o, unit) lio" where
  "os_MkdirAll H p = os_call H p (\<lambda>fs.
     if \<exists>q \<in> set (ancestors p @ [p]). (case map_of fs q of Some (File _) \<Rightarrow> True | _ \<Rightarrow> False)
     then Inl (Errorf (''mkdir '' @ p @ '': not a directory''))
     else Inr ((), fs @ missing_dirs (ancestors p @ [p]) fs))"

definition os_ReadFile :: "'o Host \<Rightarrow> string \<Rightarrow> ('o, FileData) lio" where
  "os_ReadFile H p = os_call H p (\<lambda>fs. (case map_of fs p of
       None \<Rightarrow> Inl (no_such_file p)
     | Some Dir \<Rightarrow> Inl (Errorf (''read '' @ p @ '': is a directory''))
     | Some (File d) \<Rightarrow> Inr (d, fs)))"

definition fs_write :: "string \<Rightarrow> FileData \<Rightarrow> file_system \<Rightarrow> GoError + (unit \<times> file_system)" where
  "fs_write p d fs =
     (if map_of fs (parent_dir p) \<noteq> Some Dir then Inl (no_such_file p)
      else if map_of fs p = Some Dir then Inl (Errorf (''open '' @ p @ '': is a directory''))
      else Inr ((), AList.update p (File d) fs))"

definition os_WriteFile :: "'o Host \<Rightarrow> string \<Rightarrow> FileData \<Rightarrow> ('o, unit) lio" where
  "os_WriteFile H p d = do {
     t \<leftarrow> outside (ho_torn H p);
     (case t of
        None \<Rightarrow> os_call H p (fs_write p d)
      | Some (err, None) \<Rightarrow> fail err
      | Some (err, Some left) \<Rightarrow> do { os_call H p (fs_write p (Bytes left)); fail err }) }"

text \<open>\<^verbatim>\<open>os.OpenFile(path, O_CREATE|O_RDWR)\<close>, which the lock files are opened with.\<close>

definition os_OpenCreate :: "'o Host \<Rightarrow> string \<Rightarrow> ('o, unit) lio" where
  "os_OpenCreate H p = os_call H p (\<lambda>fs.
     if map_of fs (parent_dir p) \<noteq> Some Dir then Inl (no_such_file p)
     else (case map_of fs p of
         Some Dir \<Rightarrow> Inl (Errorf (''open '' @ p @ '': is a directory''))
       | Some (File _) \<Rightarrow> Inr ((), fs)
       | None \<Rightarrow> Inr ((), AList.update p (File (Bytes [])) fs)))"

definition below :: "string \<Rightarrow> string \<Rightarrow> bool" where
  "below p q \<longleftrightarrow> q = p \<or> HasPrefix q (p @ ''/'')"

text \<open>
  \<^verbatim>\<open>os.RemoveAll\<close> refuses a path that ends in \<^verbatim>\<open>/.\<close>; of one that ends in \<^verbatim>\<open>/..\<close> it removes
  all the entries and then fails to remove the directory itself, unless the directory the
  \<^verbatim>\<open>..\<close> is looked up in does not exist.
\<close>

definition os_RemoveAll :: "'o Host \<Rightarrow> string \<Rightarrow> ('o, unit) lio" where
  "os_RemoveAll H p =
     (let c = Clean p in
      if HasSuffix p ''/.'' then fail (Errorf (''RemoveAll '' @ p @ '': invalid argument''))
      else if HasSuffix p ''/..'' then
        check (os_call H c (\<lambda>fs.
            if map_of fs (parent_dir p) = None then Inr (False, fs)
            else Inr (True, filter (\<lambda>(q, _). q = c \<or> \<not> below c q) fs)))
          (\<lambda>found. if found then fail (Errorf (''unlinkat '' @ p @ '': directory not empty'')) else ok ())
      else os_call H c (\<lambda>fs. Inr ((), filter (\<lambda>(q, _). \<not> below c q) fs)))"

text \<open>
  \<^verbatim>\<open>os.Remove\<close>, which the code applies to a cgroup directory only: the control files the
  kernel shows in it go with it, a cgroup below it keeps it.
\<close>

definition os_Remove :: "'o Host \<Rightarrow> string \<Rightarrow> ('o, unit) lio" where
  "os_Remove H p = os_call H p (\<lambda>fs.
     if map_of fs p = None then Inl (no_such_file p)
     else if \<exists>(q, n) \<in> set fs. n = Dir \<and> q \<noteq> p \<and> below p q
     then Inl (Errorf (''remove '' @ p @ '': directory not empty''))
     else Inr ((), filter (\<lambda>(q, _). \<not> below p q) fs))"

definition os_Stat :: "'o Host \<Rightarrow> string \<Rightarrow> ('o, FsNode) lio" where
  "os_Stat H p = os_call H p (\<lambda>fs. (case map_of fs p of
       None \<Rightarrow> Inl (no_such_file p) | Some n \<Rightarrow> Inr (n, fs)))"

text \<open>The entries of a directory, sorted by name, each with whether it is a directory itself.\<close>

definition entry_name :: "string \<Rightarrow> string \<Rightarrow> string option" where
  "entry_name p q =
     (if HasPrefix q (p @ ''/'') \<and> CHR ''/'' \<notin> set (drop (length p + 1) q) \<and> drop (length p + 1) q \<noteq> []
      then Some (drop (length p + 1) q) else None)"

definition dir_entries :: "string \<Rightarrow> file_system \<Rightarrow> (string \<times> bool) list" where
  "dir_entries p fs =
     sort_by (\<lambda>a b. fst a < fst b)
       (List.map_filter (\<lambda>q. map_option (\<lambda>n. (n, map_of fs q = Some Dir)) (entry_name p q))
         (remdups (map fst fs)))"

definition os_ReadDir :: "'o Host \<Rightarrow> string \<Rightarrow> ('o, (string \<times> bool) list) lio" where
  "os_ReadDir H p = os_call H p (\<lambda>fs.
     if map_of fs p = Some Dir then Inr (dir_entries p fs, fs) else Inl (no_such_file p))"

text \<open>The lines a \<^verbatim>\<open>bufio.Scanner\<close> delivers: without their line feed and a carriage return before it.\<close>

definition drop_cr :: "string \<Rightarrow> string" where
  "drop_cr l = (if l \<noteq> [] \<and> last l = CHR 0x0D then butlast l else l)"

definition scan_lines :: "string \<Rightarrow> string list" where
  "scan_lines s =
     (let ps = SplitByte (CHR 0x0A) s in
      map drop_cr (if last ps = [] then butlast ps else ps))"

subsection \<open>lock.go\<close>

text \<open>
  A lock file is held through an open file description, so a second \<^verbatim>\<open>Flock\<close> of the same path
  waits even within one goroutine; after \<^verbatim>\<open>DefaultLockWaitTimeout\<close> it gives up.
\<close>

definition lock_path :: "LetConfig \<Rightarrow> string \<Rightarrow> string" where
  "lock_path cfg sandboxID = filepath_Join [LockDir cfg, sandboxID @ ''.lock'']"

definition acquireSandboxLock :: "'o Host \<Rightarrow> LetConfig \<Rightarrow> string \<Rightarrow> ('o, unit) lio" where
  "acquireSandboxLock H cfg sandboxID =
     (if sandboxID = [] then fail (Errorf ''sandbox id is required'')
      else let p = lock_path cfg sandboxID in
        check (os_OpenCreate H p) (\<lambda>_. do {
          other \<leftarrow> outside (ho_lock_timeout H p);
          held \<leftarrow> gets_let lw_locks;
          (if p \<in> set held \<or> other then fail (Errorf (''lock timeout for '' @ sandboxID))
           else do { modify_let (\<lambda>w. w\<lparr>lw_locks := p # lw_locks w\<rparr>); ok () }) }))"

definition unlock :: "LetConfig \<Rightarrow> string \<Rightarrow> ('o, unit) lact" where
  "unlock cfg sandboxID = modify_let (\<lambda>w. w\<lparr>lw_locks := remove1 (lock_path cfg sandboxID) (lw_locks w)\<rparr>)"

definition isSandboxLockHeld :: "'o Host \<Rightarrow> LetConfig \<Rightarrow> string \<Rightarrow> ('o, bool) lact" where
  "isSandboxLockHeld H cfg sandboxID =
     (if sandboxID = [] then ret False
      else let p = lock_path cfg sandboxID in do {
        r \<leftarrow> os_OpenCreate H p;
        (case r of
           Inl _ \<Rightarrow> ret False
         | Inr _ \<Rightarrow> do {
             other \<leftarrow> outside (ho_lock_timeout H p);
             held \<leftarrow> gets_let lw_locks;
             ret (p \<in> set held \<or> other) }) })"

text \<open>\<^verbatim>\<open>unlock, err := acquire(...); if err != nil { return err }; defer unlock()\<close>.\<close>

definition with_lock :: "'o Host \<Rightarrow> LetConfig \<Rightarrow> string \<Rightarrow> ('o, 'a) lio \<Rightarrow> ('o, 'a) lio" where
  "with_lock H cfg sandboxID m =
     check (acquireSandboxLock H cfg sandboxID) (\<lambda>_. do { r \<leftarrow> m; unlock cfg sandboxID; ret r })"

subsection \<open>file_store.go\<close>

definition store_dir :: "LetConfig \<Rightarrow> string \<Rightarrow> string" where
  "store_dir cfg i = filepath_Join [StateBaseDir cfg, i]"

definition state_file :: "LetConfig \<Rightarrow> string \<Rightarrow> string" where
  "state_file cfg i = filepath_Join [StateBaseDir cfg, i, ''state.json'']"

definition store_NewFileStore :: "'o Host \<Rightarrow> LetConfig \<Rightarrow> ('o, unit) lio" where
  "store_NewFileStore H cfg = os_MkdirAll H (StateBaseDir cfg)"

definition store_Save :: "'o Host \<Rightarrow> LetConfig \<Rightarrow> LetSandbox \<Rightarrow> ('o, unit) lio" where
  "store_Save H cfg sb =
     check (os_MkdirAll H (store_dir cfg (ls_ID sb)))
       (\<lambda>_. os_WriteFile H (filepath_Join [store_dir cfg (ls_ID sb), ''state.json'']) (StateJSON sb))"

definition json_Unmarshal :: "'o Host \<Rightarrow> FileData \<Rightarrow> GoError + LetSandbox" where
  "json_Unmarshal H d = (case d of Bytes b \<Rightarrow> ho_Unmarshal H b | StateJSON sb \<Rightarrow> Inr sb)"

definition store_Load :: "'o Host \<Rightarrow> LetConfig \<Rightarrow> string \<Rightarrow> ('o, LetSandbox) lio" where
  "store_Load H cfg i = check (os_ReadFile H (state_file cfg i)) (\<lambda>d. ret (json_Unmarshal H d))"

definition store_Delete :: "'o Host \<Rightarrow> LetConfig \<Rightarrow> string \<Rightarrow> ('o, unit) lio" where
  "store_Delete H cfg i = do {
     r \<leftarrow> os_RemoveAll H (store_dir cfg i);
     (case r of
        Inl e \<Rightarrow> if errors_Is e ErrNotExist then ok () else fail e
      | Inr _ \<Rightarrow> ok ()) }"

fun load_all :: "'o Host \<Rightarrow> LetConfig \<Rightarrow> (string \<times> bool) list \<Rightarrow> ('o, LetSandbox list) lact" where
  "load_all H cfg [] = ret []"
| "load_all H cfg ((name, isDir) # es) =
     (if \<not> isDir then load_all H cfg es
      else do {
        r \<leftarrow> store_Load H cfg name;
        rest \<leftarrow> load_all H cfg es;
        ret (case r of Inl _ \<Rightarrow> rest | Inr sb \<Rightarrow> sb # rest) })"

definition store_List :: "'o Host \<Rightarrow> LetConfig \<Rightarrow> ('o, LetSandbox list) lio" where
  "store_List H cfg =
     check (os_ReadDir H (StateBaseDir cfg)) (\<lambda>es. do { xs \<leftarrow> load_all H cfg es; ok xs })"

subsection \<open>A concrete configuration\<close>

definition sample_let_config :: LetConfig where
  "sample_let_config = WithConfigDefaults \<lparr>Getenv = (\<lambda>_. []), ParseDuration = (\<lambda>_. None), ParseFloat = (\<lambda>_. None)\<rparr>
     (DefaultConfig \<lparr>Getenv = (\<lambda>_. []), ParseDuration = (\<lambda>_. None), ParseFloat = (\<lambda>_. None)\<rparr>)"

lemma sample_base: "StateBaseDir sample_let_config = ''/var/lib/sandboxd/sandboxes''"
  by (simp add: sample_let_config_def WithConfigDefaults_def DefaultConfig_def or_default_def DefaultStateBaseDir_def)

lemma sample_base_clean: "clean_abs (StateBaseDir sample_let_config)"
  unfolding sample_base by (simp add: clean_abs_def is_rooted_def Clean_def clean_comps_def)

end
