(* ===== verification/Let_Resources.thy ===== *)
theory Let_Resources
  imports Let_World
begin

section \<open>sbxlet: resource quantities, admission and capacity\<close>

text \<open>
  \<^verbatim>\<open>sandboxd-let/sandbox/resources.go\<close> and the phase names of \<^verbatim>\<open>state.go\<close>.  Sums and products
  of 64-bit quantities wrap, as in Go.  The sums over the containers of a sandbox do not depend
  on the iteration order of the map, so they are taken in the order of the association list.
\<close>

definition LetPhaseCreating :: string where "LetPhaseCreating = ''creating''"
definition LetPhaseRunning :: string where "LetPhaseRunning = ''running''"
definition LetPhaseDeleting :: string where "LetPhaseDeleting = ''deleting''"
definition LetPhaseError :: string where "LetPhaseError = ''error''"
definition ContainerPhaseCreating :: string where "ContainerPhaseCreating = ''creating''"
definition ContainerPhaseRunning :: string where "ContainerPhaseRunning = ''running''"
definition ContainerPhaseStopped :: string where "ContainerPhaseStopped = ''stopped''"
definition ContainerPhaseError :: string where "ContainerPhaseError = ''error''"

lemmas let_phases = LetPhaseCreating_def LetPhaseRunning_def LetPhaseDeleting_def LetPhaseError_def
  ContainerPhaseCreating_def ContainerPhaseRunning_def ContainerPhaseStopped_def ContainerPhaseError_def

record parsedResource =
  pr_CPUMilli :: int
  pr_MemoryBytes :: int

definition parseCPUMilli :: "'o Host \<Rightarrow> string \<Rightarrow> GoError + int" where
  "parseCPUMilli H raw =
     (let v = TrimSpace raw in
      if v = [] then Inl (Errorf ''cpu is required'')
      else (case ho_ParseQuantity H v of
              Inl _ \<Rightarrow> Inl (Errorf (''invalid cpu: '' @ raw))
            | Inr q \<Rightarrow> if q_MilliValue q \<le> 0 then Inl (Errorf (''invalid cpu: '' @ raw)) else Inr (q_MilliValue q)))"

definition parseMemoryBytes :: "'o Host \<Rightarrow> string \<Rightarrow> GoError + int" where
  "parseMemoryBytes H raw =
     (let v = TrimSpace raw in
      if v = [] then Inl (Errorf ''memory is required'')
      else (case ho_ParseQuantity H v of
              Inl _ \<Rightarrow> Inl (Errorf (''invalid memory: '' @ raw))
            | Inr q \<Rightarrow> if q_Value q \<le> 0 then Inl (Errorf (''invalid memory: '' @ raw)) else Inr (q_Value q)))"

definition parseContainerResource :: "'o Host \<Rightarrow> ResourceSpec \<Rightarrow> GoError + parsedResource" where
  "parseContainerResource H r =
     (case parseCPUMilli H (rs_CPU r) of
        Inl e \<Rightarrow> Inl e
      | Inr cpu \<Rightarrow>
          (case parseMemoryBytes H (rs_Memory r) of
             Inl e \<Rightarrow> Inl e
           | Inr mem \<Rightarrow> Inr \<lparr>pr_CPUMilli = cpu, pr_MemoryBytes = mem\<rparr>))"

definition parsedResourceToLimits :: "parsedResource \<Rightarrow> ResourceLimits" where
  "parsedResourceToLimits r =
     \<lparr>lim_MemoryBytes = pr_MemoryBytes r,
      lim_CPUQuota = max (go_div (i64 (pr_CPUMilli r * 100000)) 1000) 1000,
      lim_CPUPeriod = 100000,
      lim_PidsLimit = 128\<rparr>"

definition add_resource :: "parsedResource \<Rightarrow> parsedResource \<Rightarrow> parsedResource" where
  "add_resource t r =
     \<lparr>pr_CPUMilli = i64 (pr_CPUMilli t + pr_CPUMilli r), pr_MemoryBytes = i64 (pr_MemoryBytes t + pr_MemoryBytes r)\<rparr>"

definition zero_resource :: parsedResource where
  "zero_resource = \<lparr>pr_CPUMilli = 0, pr_MemoryBytes = 0\<rparr>"

text \<open>
  The sum over the containers of a request.  \<^verbatim>\<open>enforceAdmission\<close> and
  \<^verbatim>\<open>podSandboxResourcesFromRequests\<close> differ in the text around a parse error, which is \<open>wrap\<close>.
\<close>

fun sum_request :: "'o Host \<Rightarrow> (string \<Rightarrow> string) \<Rightarrow> parsedResource \<Rightarrow> CreateContainerRequest list
    \<Rightarrow> GoError + parsedResource" where
  "sum_request H wrap t [] = Inr t"
| "sum_request H wrap t (c # cs) =
     (case parseContainerResource H (cc_Resource c) of
        Inl e \<Rightarrow> Inl (Errorf_w (wrap (cc_Name c)) e)
      | Inr r \<Rightarrow> sum_request H wrap (add_resource t r) cs)"

fun add_containers :: "'o Host \<Rightarrow> parsedResource \<Rightarrow> ContainerState list \<Rightarrow> parsedResource" where
  "add_containers H t [] = t"
| "add_containers H t (c # cs) =
     (case parseContainerResource H (cs_Resource c) of
        Inl _ \<Rightarrow> add_containers H t cs
      | Inr r \<Rightarrow> add_containers H (add_resource t r) cs)"

definition counted :: "string \<Rightarrow> LetSandbox \<Rightarrow> bool" where
  "counted exceptID sbx \<longleftrightarrow>
     \<not> (ls_ID sbx = exceptID \<or> ls_Phase sbx = LetPhaseDeleting \<or> ls_Phase sbx = LetPhaseError)"

fun add_sandboxes :: "'o Host \<Rightarrow> string \<Rightarrow> parsedResource \<Rightarrow> LetSandbox list \<Rightarrow> parsedResource" where
  "add_sandboxes H exceptID t [] = t"
| "add_sandboxes H exceptID t (sbx # rest) =
     (if \<not> counted exceptID sbx then add_sandboxes H exceptID t rest
      else add_sandboxes H exceptID (add_containers H t (map snd (ls_Containers sbx))) rest)"

definition currentAllocatedResources :: "'o Host \<Rightarrow> LetConfig \<Rightarrow> string \<Rightarrow> ('o, parsedResource) lio" where
  "currentAllocatedResources H cfg exceptID =
     check (store_List H cfg) (\<lambda>all. ok (add_sandboxes H exceptID zero_resource all))"

subsection \<open>The memory of the host\<close>

definition mem_total :: "string \<Rightarrow> GoError + int" where
  "mem_total content =
     (case find (\<lambda>l. HasPrefix l ''MemTotal:'') (scan_lines content) of
        None \<Rightarrow> Inl (Errorf ''MemTotal not found'')
      | Some line \<Rightarrow>
          let parts = Fields line in
          if length parts < 2 then Inl (Errorf ''MemTotal not found'')
          else (case Atoi (parts ! 1) of
                  None \<Rightarrow> Inl (Errorf (''strconv.ParseInt: parsing '' @ parts ! 1))
                | Some v \<Rightarrow> Inr (i64 (v * 1024))))"

definition hostTotalMemoryBytes :: "'o Host \<Rightarrow> ('o, int) lio" where
  "hostTotalMemoryBytes H = check (os_ReadFile H ''/proc/meminfo'') (\<lambda>d. ret (mem_total (file_text d)))"

definition percent_of :: "int \<Rightarrow> int \<Rightarrow> int" where
  "percent_of n p = go_div (i64 (n * p)) 100"

definition hostCPU :: "'o Host \<Rightarrow> int" where
  "hostCPU H = i64 (ho_NumCPU H * 1000)"

subsection \<open>Admission\<close>

definition admits :: "LetConfig \<Rightarrow> int \<Rightarrow> int \<Rightarrow> parsedResource \<Rightarrow> parsedResource \<Rightarrow> GoError option" where
  "admits cfg cpus mem used request =
     (let maxCPU = percent_of cpus (MaxAllocPercent cfg); maxMem = percent_of mem (MaxAllocPercent cfg) in
      if i64 (pr_CPUMilli used + pr_CPUMilli request) > maxCPU then
        Some (Errorf (''insufficient cpu allocatable: requested='' @ show_int (pr_CPUMilli request) @ ''m used='' @
          show_int (pr_CPUMilli used) @ ''m limit='' @ show_int maxCPU @ ''m ('' @
          show_int (MaxAllocPercent cfg) @ ''% of host)''))
      else if i64 (pr_MemoryBytes used + pr_MemoryBytes request) > maxMem then
        Some (Errorf (''insufficient memory allocatable: requested='' @ show_int (pr_MemoryBytes request) @ '' used='' @
          show_int (pr_MemoryBytes used) @ '' limit='' @ show_int maxMem @ '' ('' @
          show_int (MaxAllocPercent cfg) @ ''% of host)''))
      else None)"

definition enforceAdmission :: "'o Host \<Rightarrow> LetConfig \<Rightarrow> CreateSandboxRequest \<Rightarrow> ('o, unit) lio" where
  "enforceAdmission H cfg req =
     (case sum_request H (\<lambda>n. ''container '' @ n @ '' resource parse failed'') zero_resource (cr_Containers req) of
        Inl e \<Rightarrow> fail e
      | Inr request \<Rightarrow>
          check (currentAllocatedResources H cfg (cr_ID req)) (\<lambda>used.
            check (hostTotalMemoryBytes H) (\<lambda>hostMem.
              (case admits cfg (hostCPU H) hostMem used request of
                 Some e \<Rightarrow> fail e
               | None \<Rightarrow> ok ()))))"

definition let_NodeResourceSnapshot :: "'o Host \<Rightarrow> LetConfig \<Rightarrow> ('o, NodeResourceSnapshot) lio" where
  "let_NodeResourceSnapshot H cfg =
     check (hostTotalMemoryBytes H) (\<lambda>hostMem.
       check (currentAllocatedResources H cfg []) (\<lambda>used. do {
         now \<leftarrow> let_Now H;
         let allocCPU = percent_of (hostCPU H) (MaxAllocPercent cfg);
         let allocMem = percent_of hostMem (MaxAllocPercent cfg);
         ok \<lparr>snap_CapacityCPUMilli = hostCPU H, snap_CapacityMemoryBytes = hostMem,
             snap_AllocatableCPUMilli = allocCPU, snap_AllocatableMemory = allocMem,
             snap_UsedCPUMilli = pr_CPUMilli used, snap_UsedMemoryBytes = pr_MemoryBytes used,
             snap_AvailableCPUMilli = max (i64 (allocCPU - pr_CPUMilli used)) 0,
             snap_AvailableMemory = max (i64 (allocMem - pr_MemoryBytes used)) 0,
             snap_MaxAllocPercent = MaxAllocPercent cfg, snap_UpdatedAt = now\<rparr> }))"

definition usable_addresses :: "string \<Rightarrow> GoError + nat" where
  "usable_addresses cidr =
     (case ParseCIDR_mask cidr of
        None \<Rightarrow> Inl (Errorf_w ''invalid subnet cidr'' (Errorf (''invalid CIDR address: '' @ cidr)))
      | Some (ones, bits) \<Rightarrow>
          if bits \<noteq> 32 then Inl (Errorf ''only ipv4 subnet is supported'')
          else let hostBits = bits - ones in
            if hostBits \<le> 2 then Inl (Errorf (''subnet too small: '' @ cidr))
            else let usable = 2 ^ hostBits - 2 in
              if usable \<le> 0 then Inl (Errorf (''subnet has no usable addresses: '' @ cidr)) else Inr usable)"

definition ensureIPCapacity :: "'o Host \<Rightarrow> LetConfig \<Rightarrow> string \<Rightarrow> ('o, unit) lio" where
  "ensureIPCapacity H cfg nextID =
     (case usable_addresses (SubnetCIDR cfg) of
        Inl e \<Rightarrow> fail e
      | Inr usable \<Rightarrow>
          check (store_List H cfg) (\<lambda>all.
            let active = length (filter (counted nextID) all) in
            if usable \<le> active then
              fail (Errorf (''insufficient ip addresses in subnet '' @ SubnetCIDR cfg @ '': in_use='' @
                show_nat active @ '' usable='' @ show_nat usable))
            else ok ()))"

end
