(* ===== verification/Let_Cri.thy ===== *)
theory Let_Cri
  imports Let_Resources
begin

section \<open>sbxlet: the container runtime interface\<close>

text \<open>
  \<^verbatim>\<open>sandboxd-let/sandbox/cri_client.go\<close>.  The gRPC stubs of the CRI are third-party: a record
  \<open>CriStubs\<close> of operations on the outside state, with the part of each request and answer the
  code fills in or reads.  \<open>cri_pid\<close> is the field \<^verbatim>\<open>pid\<close> that \<^verbatim>\<open>json.Unmarshal\<close> finds in one
  entry of the verbose information, if it is a JSON object.
\<close>

datatype CtrState = CONTAINER_CREATED | CONTAINER_RUNNING | CONTAINER_EXITED | CONTAINER_UNKNOWN | CONTAINER_OTHER int

record LinuxResources =
  lr_MemoryLimitInBytes :: int
  lr_MemorySwapLimitInBytes :: int
  lr_CpuPeriod :: int
  lr_CpuQuota :: int
  lr_Unified :: "(string \<times> string) list"

record PodSandboxConfig =
  pc_Name :: string
  pc_Namespace :: string
  pc_Uid :: string
  pc_Attempt :: int
  pc_Hostname :: string
  pc_LogDirectory :: string
  pc_Labels :: "(string \<times> string) list"
  pc_CgroupParent :: string
  pc_Resources :: LinuxResources
  pc_DnsServers :: "string list"

record ContainerConfig =
  kc_Name :: string
  kc_Image :: string
  kc_Command :: "string list"
  kc_Envs :: "(string \<times> string) list"
  kc_WorkingDir :: string
  kc_LogPath :: string
  kc_Labels :: "(string \<times> string) list"
  kc_Resources :: LinuxResources
  kc_Privileged :: bool
  kc_ReadonlyRootfs :: bool
  kc_NoNewPrivs :: bool
  kc_SeccompRuntimeDefault :: bool
  kc_MaskedPaths :: "string list"
  kc_ReadonlyPaths :: "string list"

record PodMetadata =
  md_Name :: string
  md_Uid :: string

record PodSandbox =
  pod_Id :: string
  pod_Metadata :: "PodMetadata option"
  pod_Labels :: "(string \<times> string) list"

record PodSandboxStatus =
  pst_Metadata :: "PodMetadata option"
  pst_Ip :: string

record ContainerStatusResponse =
  csr_Id :: string
  csr_State :: CtrState
  csr_Info :: "string list"

record criContainerDetails =
  det_ID :: string
  det_State :: CtrState
  det_PID :: int

record 'o CriStubs =
  cri_ImageStatus :: "string \<Rightarrow> 'o \<Rightarrow> (GoError + bool) \<times> 'o"
  cri_PullImage :: "string \<Rightarrow> 'o \<Rightarrow> GoError option \<times> 'o"
  cri_RunPodSandbox :: "PodSandboxConfig \<Rightarrow> string \<Rightarrow> 'o \<Rightarrow> (GoError + string) \<times> 'o"
  cri_PodSandboxStatus :: "string \<Rightarrow> 'o \<Rightarrow> (GoError + PodSandboxStatus) \<times> 'o"
  cri_CreateContainer :: "string \<Rightarrow> ContainerConfig \<Rightarrow> PodSandboxConfig \<Rightarrow> 'o \<Rightarrow> (GoError + string) \<times> 'o"
  cri_StartContainer :: "string \<Rightarrow> 'o \<Rightarrow> GoError option \<times> 'o"
  cri_ContainerStatus :: "string \<Rightarrow> 'o \<Rightarrow> (GoError + ContainerStatusResponse) \<times> 'o"
  cri_StopPodSandbox :: "string \<Rightarrow> 'o \<Rightarrow> GoError option \<times> 'o"
  cri_RemovePodSandbox :: "string \<Rightarrow> 'o \<Rightarrow> GoError option \<times> 'o"
  cri_ListPodSandbox :: "'o \<Rightarrow> (GoError + PodSandbox list) \<times> 'o"
  cri_pid :: "string \<Rightarrow> int option"

text \<open>An outside call that returns only an error.\<close>

definition outside_err :: "('o \<Rightarrow> GoError option \<times> 'o) \<Rightarrow> ('o, unit) lio" where
  "outside_err f = do { e \<leftarrow> outside f; (case e of Some err \<Rightarrow> fail err | None \<Rightarrow> ok ()) }"

definition pullImage :: "'o CriStubs \<Rightarrow> string \<Rightarrow> ('o, unit) lio" where
  "pullImage C img = do {
     st \<leftarrow> outside (cri_ImageStatus C img);
     (if st = Inr True then ok () else outside_err (cri_PullImage C img)) }"

definition runPodSandbox :: "'o CriStubs \<Rightarrow> PodSandboxConfig \<Rightarrow> string \<Rightarrow> ('o, string) lio" where
  "runPodSandbox C cfg handler = outside (cri_RunPodSandbox C cfg handler)"

definition podSandboxStatus :: "'o CriStubs \<Rightarrow> string \<Rightarrow> ('o, PodSandboxStatus) lio" where
  "podSandboxStatus C podID = outside (cri_PodSandboxStatus C podID)"

definition createContainer :: "'o CriStubs \<Rightarrow> string \<Rightarrow> ContainerConfig \<Rightarrow> PodSandboxConfig \<Rightarrow> ('o, string) lio" where
  "createContainer C podID cfg pod = outside (cri_CreateContainer C podID cfg pod)"

definition startContainer :: "'o CriStubs \<Rightarrow> string \<Rightarrow> ('o, unit) lio" where
  "startContainer C i = outside_err (cri_StartContainer C i)"

fun parseContainerPID :: "'o CriStubs \<Rightarrow> string list \<Rightarrow> int" where
  "parseContainerPID C [] = 0"
| "parseContainerPID C (raw # rest) =
     (case cri_pid C raw of
        None \<Rightarrow> parseContainerPID C rest
      | Some pid \<Rightarrow> if 0 < pid then pid mod 2 ^ 32 else parseContainerPID C rest)"

definition containerStatus :: "'o CriStubs \<Rightarrow> string \<Rightarrow> ('o, criContainerDetails) lio" where
  "containerStatus C i =
     check (outside (cri_ContainerStatus C i))
       (\<lambda>st. ok \<lparr>det_ID = csr_Id st, det_State = csr_State st, det_PID = parseContainerPID C (csr_Info st)\<rparr>)"

definition stopAndRemovePodSandbox :: "'o CriStubs \<Rightarrow> string \<Rightarrow> ('o, unit) lact" where
  "stopAndRemovePodSandbox C podID =
     (if podID = [] then ret ()
      else do { outside (cri_StopPodSandbox C podID); outside (cri_RemovePodSandbox C podID); ret () })"

definition listPodSandboxes :: "'o CriStubs \<Rightarrow> ('o, PodSandbox list) lio" where
  "listPodSandboxes C = outside (cri_ListPodSandbox C)"

definition normalizeCRIEndpoint :: "string \<Rightarrow> string" where
  "normalizeCRIEndpoint addr = TrimPrefix (TrimPrefix (TrimSpace addr) ''unix://'') ''unix:''"

end
