(* ===== verification/Let_Firewall.thy ===== *)
theory Let_Firewall
  imports Let_Cri "HOL-Library.Word"
begin

unbundle bit_operations_syntax

section \<open>sbxlet: packet filter rules, bridge flags and the CNI result cache\<close>

text \<open>
  \<^verbatim>\<open>sandboxd-let/network\<close>.  The go-iptables package is third-party: a record \<open>IptOps\<close> of the
  calls the code makes, on the outside state.  A rule is the argument list the code passes.
  Debug logging is left out.
\<close>

type_synonym rule = "string list"

record 'o IptOps =
  ipt_NewChain :: "string \<Rightarrow> string \<Rightarrow> 'o \<Rightarrow> GoError option \<times> 'o"
  ipt_AppendUnique :: "string \<Rightarrow> string \<Rightarrow> rule \<Rightarrow> 'o \<Rightarrow> GoError option \<times> 'o"
  ipt_Delete :: "string \<Rightarrow> string \<Rightarrow> rule \<Rightarrow> 'o \<Rightarrow> GoError option \<times> 'o"
  ipt_Insert :: "string \<Rightarrow> string \<Rightarrow> int \<Rightarrow> rule \<Rightarrow> 'o \<Rightarrow> GoError option \<times> 'o"
  ipt_ClearChain :: "string \<Rightarrow> string \<Rightarrow> 'o \<Rightarrow> GoError option \<times> 'o"
  ipt_DeleteChain :: "string \<Rightarrow> string \<Rightarrow> 'o \<Rightarrow> GoError option \<times> 'o"
  ipt_List :: "string \<Rightarrow> string \<Rightarrow> 'o \<Rightarrow> (GoError + string list) \<times> 'o"
  ipt_ListChains :: "string \<Rightarrow> 'o \<Rightarrow> (GoError + string list) \<times> 'o"

record PublishedPort =
  pp_ContainerPort :: int
  pp_Protocol :: string

record HostPortForward =
  hf_HostPort :: int
  hf_ContainerPort :: int
  hf_Protocol :: string

definition hostPortCommentPrefix :: string where "hostPortCommentPrefix = ''SBX:''"

subsection \<open>Names of the chains of a sandbox\<close>

text \<open>\<^verbatim>\<open>fnv.New32a\<close> over the bytes of the id, printed with \<^verbatim>\<open>%08x\<close>.\<close>

definition fnv1a :: "string \<Rightarrow> 32 word" where
  "fnv1a s = foldl (\<lambda>h c. (h XOR word_of_nat (of_char c)) * 16777619) 2166136261 s"

definition lower_hex_digit :: "nat \<Rightarrow> char" where
  "lower_hex_digit d = (if d < 10 then char_of (48 + d) else char_of (87 + d))"

definition hex8 :: "32 word \<Rightarrow> string" where
  "hex8 h = map (\<lambda>i. lower_hex_digit ((unat h div 16 ^ i) mod 16)) (rev [0..<8])"

definition shortID :: "string \<Rightarrow> string" where
  "shortID i = hex8 (fnv1a i)"

definition fwd_chain :: "string \<Rightarrow> string" where "fwd_chain i = ''SBX-'' @ shortID i @ ''-FWD''"
definition in_chain :: "string \<Rightarrow> string" where "in_chain i = ''SBX-'' @ shortID i @ ''-IN''"

subsection \<open>Global chains\<close>

definition insertFirst :: "'o IptOps \<Rightarrow> string \<Rightarrow> rule \<Rightarrow> ('o, unit) lio" where
  "insertFirst I parent r = do {
     outside (ipt_Delete I ''filter'' parent r);
     e \<leftarrow> outside (ipt_Insert I ''filter'' parent 1 r);
     (case e of Some err \<Rightarrow> fail (Errorf_w ''insert rule'' err) | None \<Rightarrow> ok ()) }"

definition hasChain :: "'o IptOps \<Rightarrow> string \<Rightarrow> ('o, bool) lact" where
  "hasChain I chain = do {
     r \<leftarrow> outside (ipt_ListChains I ''filter'');
     ret (case r of Inl _ \<Rightarrow> False | Inr cs \<Rightarrow> chain \<in> set cs) }"

definition containsChain :: "string list \<Rightarrow> string \<Rightarrow> bool" where
  "containsChain names target \<longleftrightarrow>
     ToUpper (TrimSpace target) \<in> (\<lambda>c. ToUpper (TrimSpace c)) ` set names"

definition forward_hooks :: "string list \<Rightarrow> string list" where
  "forward_hooks cs =
     (let cs1 = (if cs = [] then [''FORWARD''] else cs) in
      if containsChain cs1 ''FORWARD'' then cs1 else ''FORWARD'' # cs1)"

definition hook_chain :: "'o IptOps \<Rightarrow> string \<Rightarrow> ('o, unit) lio" where
  "hook_chain I hook =
     (let name = TrimSpace (ToUpper hook) in
      if name = [] then ok ()
      else do {
        b \<leftarrow> hasChain I name;
        (if \<not> b then ok () else insertFirst I name [''-j'', ''SANDBOX-FWD'']) })"

definition EnsureGlobalChains :: "'o IptOps \<Rightarrow> string list \<Rightarrow> ('o, unit) lio" where
  "EnsureGlobalChains I forwardHookChains = do {
     outside (ipt_NewChain I ''filter'' ''SANDBOX-FWD'');
     outside (ipt_NewChain I ''filter'' ''SANDBOX-IN'');
     check (insertFirst I ''FORWARD'' [''-m'', ''mark'', ''--mark'', ''0x2000/0x2000'', ''-j'', ''ACCEPT''])
       (\<lambda>_. check (insertFirst I ''FORWARD''
                [''-m'', ''conntrack'', ''--ctstate'', ''ESTABLISHED,RELATED'', ''-j'', ''ACCEPT''])
       (\<lambda>_. check (for_each_err (hook_chain I) (forward_hooks forwardHookChains))
       (\<lambda>_. insertFirst I ''INPUT'' [''-j'', ''SANDBOX-IN'']))) }"

subsection \<open>Rules of one sandbox\<close>

definition proto_or_tcp :: "string \<Rightarrow> string" where
  "proto_or_tcp p = (let q = ToLower p in if q = [] then ''tcp'' else q)"

definition forward_accept :: "string \<Rightarrow> string \<Rightarrow> int \<Rightarrow> rule" where
  "forward_accept ip proto dport =
     [''-d'', ip @ ''/32'', ''-p'', proto, ''--dport'', show_int dport, ''-j'', ''ACCEPT'']"

definition insertForwardAcceptEarly :: "'o IptOps \<Rightarrow> string \<Rightarrow> string \<Rightarrow> int \<Rightarrow> ('o, unit) lio" where
  "insertForwardAcceptEarly I ip proto dport = do {
     outside (ipt_Delete I ''filter'' ''FORWARD'' (forward_accept ip proto dport));
     outside_err (ipt_Insert I ''filter'' ''FORWARD'' 2 (forward_accept ip proto dport)) }"

definition private_cidrs :: "string list" where
  "private_cidrs =
     [''10.0.0.0/8'', ''172.16.0.0/12'', ''192.168.0.0/16'', ''127.0.0.0/8'', ''169.254.0.0/16'',
      ''100.64.0.0/10'', ''198.18.0.0/15'', ''224.0.0.0/4'', ''240.0.0.0/4'']"

text \<open>\<^verbatim>\<open>systemNameservers\<close>: the IPv4 name servers of the host's resolver file, each once.\<close>

definition nameserver_of_line :: "'o Host \<Rightarrow> string \<Rightarrow> string option" where
  "nameserver_of_line H raw =
     (let line = TrimSpace raw; fs = Fields line in
      if line = [] \<or> HasPrefix line ''#'' then None
      else if length fs < 2 \<or> fs ! 0 \<noteq> ''nameserver'' then None
      else if is_ipv4 (fs ! 1) then Some (fs ! 1 @ ''/32'')
      else if ParseIP_ok (fs ! 1) then map_option (\<lambda>a. a @ ''/32'') (ho_mapped_ipv4 H (fs ! 1))
      else None)"

fun dedup_from :: "string list \<Rightarrow> string list \<Rightarrow> string list" where
  "dedup_from seen [] = []"
| "dedup_from seen (x # xs) = (if x \<in> set seen then dedup_from seen xs else x # dedup_from (x # seen) xs)"

definition systemNameservers :: "'o Host \<Rightarrow> ('o, string list) lact" where
  "systemNameservers H = do {
     st \<leftarrow> os_Stat H ''/run/systemd/resolve/resolv.conf'';
     r \<leftarrow> os_ReadFile H (case st of
        Inr (File _) \<Rightarrow> ''/run/systemd/resolve/resolv.conf'' | _ \<Rightarrow> ''/etc/resolv.conf'');
     ret (case r of
        Inl _ \<Rightarrow> []
      | Inr d \<Rightarrow> dedup_from [] (List.map_filter (nameserver_of_line H) (scan_lines (file_text d)))) }"

definition dns_rules :: "string \<Rightarrow> rule list" where
  "dns_rules ns =
     [[''-d'', ns, ''-p'', ''udp'', ''--dport'', ''53'', ''-j'', ''ACCEPT''],
      [''-d'', ns, ''-p'', ''tcp'', ''--dport'', ''53'', ''-j'', ''ACCEPT'']]"

definition established_rule :: rule where
  "established_rule = [''-m'', ''conntrack'', ''--ctstate'', ''ESTABLISHED,RELATED'', ''-j'', ''ACCEPT'']"

definition fwd_rules :: "bool \<Rightarrow> string \<Rightarrow> string list \<Rightarrow> rule list" where
  "fwd_rules egress bridgeCIDR nameservers =
     [established_rule] @
     (if egress then concat (map dns_rules nameservers) @
        [[''-p'', ''udp'', ''--dport'', ''53'', ''-j'', ''ACCEPT''], [''-p'', ''tcp'', ''--dport'', ''53'', ''-j'', ''ACCEPT'']]
      else []) @
     [[''-m'', ''addrtype'', ''--dst-type'', ''LOCAL'', ''-j'', ''REJECT'']] @
     map (\<lambda>cidr. [''-d'', cidr, ''-j'', ''REJECT'']) (bridgeCIDR # private_cidrs) @
     [if egress then [''-j'', ''ACCEPT''] else [''-j'', ''REJECT'']]"

definition in_rules :: "PublishedPort list \<Rightarrow> rule list" where
  "in_rules ports =
     [established_rule] @
     map (\<lambda>p. [''-p'', proto_or_tcp (pp_Protocol p), ''--sport'', show_int (pp_ContainerPort p), ''-j'', ''ACCEPT'']) ports @
     [[''-j'', ''REJECT'']]"

definition fwd_jump :: "string \<Rightarrow> string \<Rightarrow> rule" where
  "fwd_jump ip chain = [''-s'', ip @ ''/32'', ''-j'', chain]"

definition in_jump :: "string \<Rightarrow> string \<Rightarrow> string \<Rightarrow> rule" where
  "in_jump bridgeIF ip chain = [''-i'', bridgeIF, ''-s'', ip @ ''/32'', ''-j'', chain]"

definition ApplySandboxRules :: "'o Host \<Rightarrow> 'o IptOps \<Rightarrow> string \<Rightarrow> string \<Rightarrow> string \<Rightarrow> string \<Rightarrow> bool
    \<Rightarrow> PublishedPort list \<Rightarrow> ('o, unit) lio" where
  "ApplySandboxRules H I sandboxID ip bridgeCIDR bridgeIF egress ports = do {
     let fwd = fwd_chain sandboxID;
     let inc = in_chain sandboxID;
     outside (ipt_NewChain I ''filter'' fwd);
     outside (ipt_NewChain I ''filter'' inc);
     check (outside_err (ipt_AppendUnique I ''filter'' ''SANDBOX-FWD'' (fwd_jump ip fwd))) (\<lambda>_.
       check (outside_err (ipt_AppendUnique I ''filter'' ''SANDBOX-IN'' (in_jump bridgeIF ip inc))) (\<lambda>_. do {
         for_each (\<lambda>p. insertForwardAcceptEarly I ip (proto_or_tcp (pp_Protocol p)) (pp_ContainerPort p)) ports;
         nameservers \<leftarrow> (if egress then systemNameservers H else ret []);
         for_each (\<lambda>r. outside (ipt_AppendUnique I ''filter'' fwd r)) (fwd_rules egress bridgeCIDR nameservers);
         for_each (\<lambda>r. outside (ipt_AppendUnique I ''filter'' inc r)) (in_rules ports);
         ok () })) }"

definition DeleteSandboxRules :: "'o IptOps \<Rightarrow> string \<Rightarrow> string \<Rightarrow> string \<Rightarrow> PublishedPort list \<Rightarrow> ('o, unit) lact" where
  "DeleteSandboxRules I sandboxID ip bridgeIF ports = do {
     let fwd = fwd_chain sandboxID;
     let inc = in_chain sandboxID;
     for_each (\<lambda>p. outside (ipt_Delete I ''filter'' ''FORWARD''
       (forward_accept ip (proto_or_tcp (pp_Protocol p)) (pp_ContainerPort p)))) ports;
     outside (ipt_Delete I ''filter'' ''SANDBOX-FWD'' (fwd_jump ip fwd));
     outside (ipt_Delete I ''filter'' ''SANDBOX-IN'' (in_jump bridgeIF ip inc));
     outside (ipt_ClearChain I ''filter'' fwd);
     outside (ipt_ClearChain I ''filter'' inc);
     outside (ipt_DeleteChain I ''filter'' fwd);
     outside (ipt_DeleteChain I ''filter'' inc);
     ret () }"

subsection \<open>Published host ports\<close>

definition dnat_proto :: "string \<Rightarrow> string" where
  "dnat_proto p = (let q = ToLower (TrimSpace p) in if q = [] then ''tcp'' else q)"

definition dnat_tail :: "string \<Rightarrow> string \<Rightarrow> HostPortForward \<Rightarrow> rule" where
  "dnat_tail sandboxID ip f =
     [''-p'', dnat_proto (hf_Protocol f), ''--dport'', show_int (hf_HostPort f), ''-m'', ''comment'', ''--comment'',
      hostPortCommentPrefix @ sandboxID, ''-j'', ''DNAT'', ''--to-destination'',
      ip @ '':'' @ show_int (hf_ContainerPort f)]"

definition prerouting_rule :: "string \<Rightarrow> string \<Rightarrow> HostPortForward \<Rightarrow> rule" where
  "prerouting_rule sandboxID ip f = dnat_tail sandboxID ip f"

definition output_rule :: "string \<Rightarrow> string \<Rightarrow> HostPortForward \<Rightarrow> rule" where
  "output_rule sandboxID ip f =
     [''-m'', ''addrtype'', ''--dst-type'', ''LOCAL''] @ dnat_tail sandboxID ip f"

definition ApplyHostPortDNAT :: "'o IptOps \<Rightarrow> string \<Rightarrow> string \<Rightarrow> HostPortForward list \<Rightarrow> ('o, unit) lio" where
  "ApplyHostPortDNAT I sandboxID sandboxIP forwards =
     for_each_err (\<lambda>f.
       check (outside_err (ipt_AppendUnique I ''nat'' ''PREROUTING'' (prerouting_rule sandboxID sandboxIP f)))
         (\<lambda>_. outside_err (ipt_AppendUnique I ''nat'' ''OUTPUT'' (output_rule sandboxID sandboxIP f)))) forwards"

definition DeleteHostPortDNAT :: "'o IptOps \<Rightarrow> string \<Rightarrow> string \<Rightarrow> HostPortForward list \<Rightarrow> ('o, unit) lact" where
  "DeleteHostPortDNAT I sandboxID sandboxIP forwards =
     for_each (\<lambda>f. do {
       outside (ipt_Delete I ''nat'' ''PREROUTING'' (prerouting_rule sandboxID sandboxIP f));
       outside (ipt_Delete I ''nat'' ''OUTPUT'' (output_rule sandboxID sandboxIP f)) }) forwards"

text \<open>What both cleanups do with one chain: delete the listed rules a test picks.\<close>

definition listed_rule :: "string \<Rightarrow> rule option" where
  "listed_rule line =
     (let fs = Fields (TrimSpace line) in
      if length fs < 3 \<or> fs ! 0 \<noteq> ''-A'' then None else Some fs)"

definition delete_listed :: "'o IptOps \<Rightarrow> string \<Rightarrow> (string \<Rightarrow> bool) \<Rightarrow> (rule \<Rightarrow> bool) \<Rightarrow> ('o, unit) lact" where
  "delete_listed I chain pick_line pick = do {
     r \<leftarrow> outside (ipt_List I ''nat'' chain);
     (case r of
        Inl _ \<Rightarrow> ret ()
      | Inr lines \<Rightarrow> for_each (\<lambda>line.
          if \<not> pick_line line then ret ()
          else (case listed_rule line of
                  None \<Rightarrow> ret ()
                | Some fs \<Rightarrow>
                    if \<not> pick fs then ret ()
                    else do { outside (ipt_Delete I ''nat'' chain (drop 2 fs)); ret () })) lines) }"

definition DeleteHostPortDNATBySandbox :: "'o IptOps \<Rightarrow> string \<Rightarrow> ('o, unit) lact" where
  "DeleteHostPortDNATBySandbox I sandboxID = do {
     let tag = ''--comment '' @ hostPortCommentPrefix @ sandboxID;
     delete_listed I ''PREROUTING'' (\<lambda>line. Contains line tag) (\<lambda>_. True);
     delete_listed I ''OUTPUT'' (\<lambda>line. Contains line tag) (\<lambda>_. True) }"

definition trim_quotes :: "string \<Rightarrow> string" where
  "trim_quotes s = TrimRightByte (CHR 0x22) (dropWhile (\<lambda>c. c = CHR 0x22) s)"

fun sandboxIDFromRule :: "string list \<Rightarrow> string" where
  "sandboxIDFromRule (f # v # fs) =
     (if f = ''--comment'' \<and> HasPrefix (trim_quotes v) hostPortCommentPrefix
      then drop (length hostPortCommentPrefix) (trim_quotes v)
      else sandboxIDFromRule (v # fs))"
| "sandboxIDFromRule _ = []"

definition DeleteOrphanHostPortDNAT :: "'o IptOps \<Rightarrow> string list \<Rightarrow> ('o, unit) lact" where
  "DeleteOrphanHostPortDNAT I keep = do {
     let orphan = (\<lambda>fs. sandboxIDFromRule fs \<noteq> [] \<and> sandboxIDFromRule fs \<notin> set keep);
     delete_listed I ''PREROUTING'' (\<lambda>_. True) orphan;
     delete_listed I ''OUTPUT'' (\<lambda>_. True) orphan }"

subsection \<open>bridge_nf.go\<close>

definition ensureProcFlag :: "'o Host \<Rightarrow> string \<Rightarrow> string \<Rightarrow> ('o, unit) lio" where
  "ensureProcFlag H path want = do {
     st \<leftarrow> os_Stat H path;
     present \<leftarrow> (case st of
        Inr _ \<Rightarrow> ok ()
      | Inl _ \<Rightarrow> do {
          m \<leftarrow> outside (ho_modprobe H);
          (case m of
             Some e \<Rightarrow> fail (Errorf_w (''load br_netfilter for '' @ path) e)
           | None \<Rightarrow> do {
               st2 \<leftarrow> os_Stat H path;
               (case st2 of Inl e \<Rightarrow> fail (Errorf_w (''missing '' @ path @ '' after modprobe'') e) | Inr _ \<Rightarrow> ok ()) }) });
     (case present of
        Inl e \<Rightarrow> fail e
      | Inr _ \<Rightarrow> do {
          b \<leftarrow> os_ReadFile H path;
          (if (case b of Inr d \<Rightarrow> TrimSpace (file_text d) = want | Inl _ \<Rightarrow> False) then ok ()
           else do {
             r \<leftarrow> os_WriteFile H path (Bytes (want @ [CHR 0x0A]));
             (case r of Inl e \<Rightarrow> fail (Errorf_w (''set '' @ path @ ''='' @ want) e) | Inr _ \<Rightarrow> ok ()) }) }) }"

definition EnsureBridgeNetfilter :: "'o Host \<Rightarrow> ('o, unit) lio" where
  "EnsureBridgeNetfilter H =
     check (ensureProcFlag H ''/proc/sys/net/bridge/bridge-nf-call-iptables'' ''1'')
       (\<lambda>_. ensureProcFlag H ''/proc/sys/net/bridge/bridge-nf-call-ip6tables'' ''1'')"

subsection \<open>cni_cache.go\<close>

definition parseIPv4FromCNIResultFile :: "'o Host \<Rightarrow> string \<Rightarrow> ('o, string) lio" where
  "parseIPv4FromCNIResultFile H path =
     check (os_ReadFile H path) (\<lambda>d.
       (case ho_cni_Unmarshal H (file_text d) of
          Inl e \<Rightarrow> fail (Errorf_w (''parse cni cache '' @ path) e)
        | Inr addrs \<Rightarrow>
            (case List.map_filter prefix_ipv4 addrs of
               [] \<Rightarrow> fail (Errorf (''no ipv4 in '' @ path))
             | a # _ \<Rightarrow> ok a)))"

definition files_in :: "'o Host \<Rightarrow> string \<Rightarrow> (string \<Rightarrow> bool) \<Rightarrow> ('o, string list) lact" where
  "files_in H dir keep = do {
     r \<leftarrow> os_ReadDir H dir;
     ret (case r of
        Inl _ \<Rightarrow> []
      | Inr es \<Rightarrow> map (\<lambda>e. filepath_Join [dir, fst e]) (filter (\<lambda>e. \<not> snd e \<and> keep (fst e)) es)) }"

fun first_ipv4 :: "'o Host \<Rightarrow> string \<Rightarrow> string list \<Rightarrow> ('o, string) lio" where
  "first_ipv4 H i [] = fail (Errorf (''no ipv4 cni cache found for sandbox: '' @ i))"
| "first_ipv4 H i (p # ps) = do {
     r \<leftarrow> parseIPv4FromCNIResultFile H p;
     (case r of Inr ip \<Rightarrow> ok ip | Inl _ \<Rightarrow> first_ipv4 H i ps) }"

definition LookupSandboxIPv4FromResultCache :: "'o Host \<Rightarrow> string \<Rightarrow> ('o, string) lio" where
  "LookupSandboxIPv4FromResultCache H sandboxID =
     (if sandboxID = [] then fail (Errorf ''sandbox id is required'')
      else do {
        own \<leftarrow> files_in H (filepath_Join [''/var/lib/cni'', sandboxID, ''results'']) (\<lambda>_. True);
        shared \<leftarrow> files_in H ''/var/lib/cni/results'' (\<lambda>name. Contains name sandboxID);
        first_ipv4 H sandboxID (own @ shared) })"

end
