(* ===== verification/Let_Runtime.thy ===== *)
theory Let_Runtime
  imports Let_Firewall
begin

section \<open>sbxlet: the runtime objects behind a sandbox\<close>

text \<open>
  \<^verbatim>\<open>sandboxd-let/sandbox/runtime.go\<close>: the cgroup of a sandbox, its pod and containers, its rules
  and published ports, the removal of all of them, and the refresh of a stored state from what
  the runtime reports.  \<open>LetService\<close> is what \<^verbatim>\<open>sandbox.Service\<close> holds and never changes; its maps
  and locks are in \<open>let_world\<close>.  The order in which a map of containers is visited is the order
  of its association list.
\<close>

record 'o LetService =
  sv_host :: "'o Host"
  sv_cri :: "'o CriStubs"
  sv_ipt :: "'o IptOps"
  sv_cfg :: LetConfig

definition criContainerdNamespace :: string where "criContainerdNamespace = ''k8s.io''"

subsection \<open>cgroups\<close>

definition safe_cgroup_char :: "char \<Rightarrow> bool" where
  "safe_cgroup_char c \<longleftrightarrow> is_digit c \<or> c \<in> set ''ABCDEFGHIJKLMNOPQRSTUVWXYZ'' \<or> c \<in> set ''abcdefghijklmnopqrstuvwxyz''"

text \<open>\<^verbatim>\<open>^[A-Za-z0-9][A-Za-z0-9_.-]{0,127}$\<close>\<close>

definition safeCgroupName :: "string \<Rightarrow> bool" where
  "safeCgroupName s \<longleftrightarrow> s \<noteq> [] \<and> length s \<le> 128 \<and> safe_cgroup_char (hd s) \<and>
     list_all (\<lambda>c. safe_cgroup_char c \<or> c = CHR ''_'' \<or> c = CHR ''.'' \<or> c = CHR ''-'') s"

definition validateSandboxIDCgroupSafe :: "string \<Rightarrow> GoError option" where
  "validateSandboxIDCgroupSafe i =
     (if TrimSpace i = [] then Some (Errorf ''sandbox id is empty'')
      else if Contains i ''/'' \<or> Contains i ''..'' then
        Some (Errorf (''sandbox id \"'' @ i @ ''\" is not a safe cgroup name''))
      else if \<not> safeCgroupName i then
        Some (Errorf (''sandbox id \"'' @ i @ ''\" is not a safe cgroup name''))
      else None)"

fun write_attempts :: "nat \<Rightarrow> 'o Host \<Rightarrow> string \<Rightarrow> string \<Rightarrow> GoError \<Rightarrow> ('o, unit) lio" where
  "write_attempts 0 H path v lastErr = fail (Errorf_w (''write '' @ path @ ''=\"'' @ v @ ''\" failed'') lastErr)"
| "write_attempts (Suc n) H path v lastErr = do {
     r \<leftarrow> os_WriteFile H path (Bytes v);
     (case r of Inr _ \<Rightarrow> ok () | Inl e \<Rightarrow> write_attempts n H path v e) }"

definition writeCgroupValue :: "'o Host \<Rightarrow> string \<Rightarrow> string \<Rightarrow> ('o, unit) lio" where
  "writeCgroupValue H path value =
     (let v = TrimSpace value in if v = [] then ok () else write_attempts 10 H path v (Errorf []))"

definition cgroup_words :: "'o Host \<Rightarrow> string \<Rightarrow> string \<Rightarrow> ('o, string list) lio" where
  "cgroup_words H dir file = do {
     r \<leftarrow> os_ReadFile H (filepath_Join [dir, file]);
     (case r of
        Inl e \<Rightarrow> fail (Errorf_w (''read '' @ dir @ ''/'' @ file) e)
      | Inr d \<Rightarrow> ok (Fields (file_text d))) }"

definition ensureCgroupSubtreeControllers :: "'o Host \<Rightarrow> string \<Rightarrow> string list \<Rightarrow> ('o, unit) lio" where
  "ensureCgroupSubtreeControllers H dir controllers =
     check (cgroup_words H dir ''cgroup.controllers'') (\<lambda>available.
       check (cgroup_words H dir ''cgroup.subtree_control'') (\<lambda>enabled.
         for_each_err (\<lambda>c.
           if c \<notin> set available \<or> c \<in> set enabled then ok ()
           else do {
             r \<leftarrow> writeCgroupValue H (filepath_Join [dir, ''cgroup.subtree_control'']) (''+'' @ c);
             (case r of
                Inl e \<Rightarrow> fail (Errorf_w (''enable cgroup controller \"'' @ c @ ''\" under '' @ dir) e)
              | Inr _ \<Rightarrow> ok ()) }) controllers))"

text \<open>The control files a set of limits is written to, with the values; \<open>swap\<close> says whether swap is.\<close>

definition limit_writes :: "bool \<Rightarrow> LinuxResources \<Rightarrow> (string \<times> string) list" where
  "limit_writes swap r =
     (if lr_MemoryLimitInBytes r > 0 then [(''memory.max'', show_int (lr_MemoryLimitInBytes r))] else []) @
     (if swap \<and> lr_MemorySwapLimitInBytes r > 0
      then [(''memory.swap.max'', show_int (lr_MemorySwapLimitInBytes r))] else []) @
     (if lr_CpuPeriod r > 0 \<and> lr_CpuQuota r > 0
      then [(''cpu.max'', show_int (lr_CpuQuota r) @ '' '' @ show_int (lr_CpuPeriod r))] else []) @
     (case map_of (lr_Unified r) ''pids.max'' of
        Some v \<Rightarrow> if TrimSpace v \<noteq> [] then [(''pids.max'', v)] else []
      | None \<Rightarrow> [])"

definition write_limits :: "'o Host \<Rightarrow> string \<Rightarrow> (string \<times> string) list \<Rightarrow> ('o, unit) lio" where
  "write_limits H dir ws = for_each_err (\<lambda>(f, v). writeCgroupValue H (filepath_Join [dir, f]) v) ws"

definition cgroup_base :: "string \<Rightarrow> string" where
  "cgroup_base baseParent =
     (let parent = TrimSpace baseParent;
          parent1 = (if parent = [] then ''/k8s.io'' else parent) in
      if HasPrefix parent1 ''/'' then parent1 else ''/'' @ parent1)"

definition cgroup_fs :: "string \<Rightarrow> string" where
  "cgroup_fs p = filepath_Join [''/sys/fs/cgroup'', TrimPrefix p ''/'']"

definition sandbox_cgroup :: "string \<Rightarrow> string \<Rightarrow> string" where
  "sandbox_cgroup parent i = Clean (parent @ ''/'' @ ''sbx-'' @ i)"

definition make_cgroup_dir :: "'o Host \<Rightarrow> string \<Rightarrow> ('o, unit) lio" where
  "make_cgroup_dir H dir = do {
     m \<leftarrow> os_MkdirAll H dir;
     (case m of Inl e \<Rightarrow> fail (Errorf_w (''create cgroup parent '' @ dir) e) | Inr _ \<Rightarrow> ok ()) }"

definition make_sandbox_cgroup :: "'o Host \<Rightarrow> string \<Rightarrow> string \<Rightarrow> LinuxResources \<Rightarrow> ('o, string) lio" where
  "make_sandbox_cgroup H parentFsPath path r =
     check (make_cgroup_dir H parentFsPath) (\<lambda>_.
     check (ensureCgroupSubtreeControllers H parentFsPath [''memory'', ''cpu'', ''pids'']) (\<lambda>_.
     check (make_cgroup_dir H (cgroup_fs path)) (\<lambda>_.
     check (write_limits H (cgroup_fs path) (limit_writes False r)) (\<lambda>_. ok path))))"

definition ensureSandboxParentCgroup :: "'o Host \<Rightarrow> string \<Rightarrow> string \<Rightarrow> LinuxResources option \<Rightarrow> ('o, string) lio" where
  "ensureSandboxParentCgroup H baseParent i limits =
     (case limits of
        None \<Rightarrow> fail (Errorf (''nil linux container resources for sandbox '' @ i))
      | Some r \<Rightarrow>
          (case validateSandboxIDCgroupSafe i of
             Some e \<Rightarrow> fail e
           | None \<Rightarrow>
               let parent = Clean (cgroup_base baseParent) in
               if parent = ''/'' then
                 fail (Errorf (''invalid cgroup parent \"'' @ baseParent @ ''\": root is not allowed''))
               else
                 let parentFsPath = Clean (cgroup_fs parent) in
                 if \<not> HasPrefix parentFsPath ''/sys/fs/cgroup/'' then
                   fail (Errorf (''invalid cgroup parent \"'' @ baseParent @ ''\": escapes /sys/fs/cgroup''))
                 else make_sandbox_cgroup H parentFsPath (sandbox_cgroup parent i) r))"

definition cleanupSandboxParentCgroup :: "'o Host \<Rightarrow> string \<Rightarrow> string \<Rightarrow> ('o, unit) lact" where
  "cleanupSandboxParentCgroup H baseParent i =
     (case validateSandboxIDCgroupSafe i of
        Some _ \<Rightarrow> ret ()
      | None \<Rightarrow>
          ignore (os_Remove H (cgroup_fs (sandbox_cgroup (TrimSuffix (cgroup_base baseParent) ''/'') i))))"

text \<open>\<^verbatim>\<open>filepath.Glob\<close> of \<^verbatim>\<open>sbx-*/id\<close> below a directory; \<open>id\<close> is matched literally.\<close>

definition glob_sandboxes :: "string \<Rightarrow> string \<Rightarrow> file_system \<Rightarrow> string list" where
  "glob_sandboxes base i fs =
     filter (\<lambda>p. map_of fs p \<noteq> None)
       (map (\<lambda>e. filepath_Join [base, fst e, i]) (filter (\<lambda>e. snd e \<and> HasPrefix (fst e) ''sbx-'') (dir_entries base fs)))"

fun first_existing :: "'o Host \<Rightarrow> string list \<Rightarrow> ('o, string) lio" where
  "first_existing H [] = ok []"
| "first_existing H (p # ps) = do {
     st \<leftarrow> os_Stat H p;
     (case st of
        Inr _ \<Rightarrow> ok p
      | Inl e \<Rightarrow> if errors_Is e ErrNotExist then first_existing H ps
          else fail (Errorf_w (''stat cgroup path '' @ p) e)) }"

definition findCgroupV2PathByID :: "'o Host \<Rightarrow> string \<Rightarrow> ('o, string) lio" where
  "findCgroupV2PathByID H i =
     (if TrimSpace i = [] then ok []
      else let direct = filepath_Join [''/sys/fs/cgroup/k8s.io'', i] in do {
        st \<leftarrow> os_Stat H direct;
        (case st of
           Inr _ \<Rightarrow> ok direct
         | Inl e \<Rightarrow>
             if \<not> errors_Is e ErrNotExist then fail (Errorf_w (''stat cgroup path '' @ direct) e)
             else do {
               fs \<leftarrow> gets_let lw_fs;
               first_existing H (glob_sandboxes ''/sys/fs/cgroup/k8s.io'' i fs) }) })"

definition enforceCgroupV2Limits :: "'o Host \<Rightarrow> string \<Rightarrow> LinuxResources option \<Rightarrow> ('o, unit) lio" where
  "enforceCgroupV2Limits H i limits =
     (if TrimSpace i = [] then ok ()
      else (case limits of
              None \<Rightarrow> ok ()
            | Some r \<Rightarrow>
                check (findCgroupV2PathByID H i) (\<lambda>base.
                  if base = [] then ok () else write_limits H base (limit_writes True r))))"

definition linux_resources :: "ResourceLimits \<Rightarrow> LinuxResources" where
  "linux_resources l =
     \<lparr>lr_MemoryLimitInBytes = lim_MemoryBytes l, lr_MemorySwapLimitInBytes = 0, lr_CpuPeriod = lim_CPUPeriod l,
      lr_CpuQuota = lim_CPUQuota l, lr_Unified = [(''pids.max'', show_int (lim_PidsLimit l))]\<rparr>"

definition podSandboxResourcesFromRequests :: "'o Host \<Rightarrow> CreateContainerRequest list \<Rightarrow> GoError + LinuxResources" where
  "podSandboxResourcesFromRequests H cs =
     (case sum_request H (\<lambda>n. ''container '' @ n) zero_resource cs of
        Inl e \<Rightarrow> Inl e
      | Inr t \<Rightarrow> Inr (linux_resources (parsedResourceToLimits t)))"

subsection \<open>Name servers for the pod\<close>

definition re_space :: "char \<Rightarrow> bool" where
  "re_space c \<longleftrightarrow> c \<in> {CHR 0x09, CHR 0x0A, CHR 0x0C, CHR 0x0D, CHR 0x20}"

text \<open>\<^verbatim>\<open>^\s*nameserver\s+([0-9a-fA-F\.:]+)\s*$\<close>\<close>

definition nameserver_match :: "string \<Rightarrow> string option" where
  "nameserver_match line =
     (let s = dropWhile re_space line in
      if \<not> HasPrefix s ''nameserver'' then None
      else let r = drop 10 s;
               v = rev (dropWhile re_space (rev (dropWhile re_space r))) in
        if r \<noteq> [] \<and> re_space (hd r) \<and> v \<noteq> [] \<and> list_all (\<lambda>c. is_hex c \<or> c = CHR ''.'' \<or> c = CHR '':'') v
        then Some v else None)"

definition usable_nameserver :: "string \<Rightarrow> bool" where
  "usable_nameserver ip \<longleftrightarrow> \<not> (HasPrefix ip ''127.'' \<or> ip = ''::1'')"

definition parseNameServers :: "'o Host \<Rightarrow> string \<Rightarrow> ('o, string list) lact" where
  "parseNameServers H path = do {
     r \<leftarrow> os_ReadFile H (Clean path);
     ret (case r of
        Inl _ \<Rightarrow> []
      | Inr d \<Rightarrow> dedup_from [] (filter usable_nameserver
          (map TrimSpace (List.map_filter nameserver_match (scan_lines (file_text d)))))) }"

fun first_servers :: "'o Host \<Rightarrow> string list \<Rightarrow> ('o, string list) lact" where
  "first_servers H [] = ret []"
| "first_servers H (p # ps) = do {
     servers \<leftarrow> parseNameServers H p;
     (if servers \<noteq> [] then ret servers else first_servers H ps) }"

definition sandboxDNSServers :: "'o Host \<Rightarrow> ('o, string list) lact" where
  "sandboxDNSServers H = first_servers H [''/run/systemd/resolve/resolv.conf'', ''/etc/resolv.conf'']"

subsection \<open>Pod and containers\<close>

definition managed_pod :: "string \<Rightarrow> PodSandbox \<Rightarrow> bool" where
  "managed_pod i p \<longleftrightarrow> pod_Id p \<noteq> [] \<and>
     ((case map_of (pod_Labels p) ''sandbox-id'' of Some v \<Rightarrow> v | None \<Rightarrow> []) = i \<or>
      (case pod_Metadata p of Some m \<Rightarrow> md_Uid m = i \<and> md_Name m = i | None \<Rightarrow> False))"

definition findManagedPodSandboxID :: "'o CriStubs \<Rightarrow> string \<Rightarrow> ('o, string option) lact" where
  "findManagedPodSandboxID C i = do {
     r \<leftarrow> listPodSandboxes C;
     ret (case r of Inl _ \<Rightarrow> None | Inr items \<Rightarrow> map_option pod_Id (find (managed_pod i) items)) }"

definition createPodSandboxCRI :: "'o LetService \<Rightarrow> LetSandbox \<Rightarrow> CreateContainerRequest list
    \<Rightarrow> ('o, string \<times> string \<times> PodSandboxConfig) lio" where
  "createPodSandboxCRI S sbx reqContainers = do {
     let H = sv_host S;
     let C = sv_cri S;
     old \<leftarrow> findManagedPodSandboxID C (ls_ID sbx);
     (case old of Some podID \<Rightarrow> stopAndRemovePodSandbox C podID | None \<Rightarrow> ret ());
     (case podSandboxResourcesFromRequests H reqContainers of
        Inl e \<Rightarrow> fail e
      | Inr podRes \<Rightarrow>
          check (ensureSandboxParentCgroup H (CgroupParent (sv_cfg S)) (ls_ID sbx) (Some podRes)) (\<lambda>cgroupParent. do {
            dns \<leftarrow> sandboxDNSServers H;
            let cfg = \<lparr>pc_Name = ls_ID sbx, pc_Namespace = ''default'', pc_Uid = ls_ID sbx, pc_Attempt = 1,
              pc_Hostname = ls_ID sbx, pc_LogDirectory = StateBaseDir (sv_cfg S) @ ''/'' @ ls_ID sbx @ ''/logs'',
              pc_Labels = [(''sandbox-id'', ls_ID sbx)], pc_CgroupParent = cgroupParent, pc_Resources = podRes,
              pc_DnsServers = dns\<rparr>;
            check (runPodSandbox C cfg (RuntimeBinary (sv_cfg S))) (\<lambda>podID.
              check (enforceCgroupV2Limits H podID (Some podRes)) (\<lambda>_.
                check (podSandboxStatus C podID) (\<lambda>status. ok (podID, pst_Ip status, cfg)))) })) }"

definition normalizeImage :: "string \<Rightarrow> string" where
  "normalizeImage img =
     (if Contains img ''/'' then
        (if Contains img ''.'' \<or> HasPrefix img ''localhost/'' then img else ''docker.io/'' @ img)
      else ''docker.io/library/'' @ img)"

definition container_config :: "string \<Rightarrow> CreateContainerRequest \<Rightarrow> ResourceLimits \<Rightarrow> ContainerConfig" where
  "container_config sandboxID c l =
     \<lparr>kc_Name = cc_Name c, kc_Image = normalizeImage (cc_Image c), kc_Command = cc_Args c,
      kc_Envs = List.map_filter (split_first (CHR ''='')) (cc_Env c), kc_WorkingDir = cc_WorkDir c,
      kc_LogPath = cc_Name c @ ''.log'', kc_Labels = [(''sandbox-id'', sandboxID), (''container'', cc_Name c)],
      kc_Resources = linux_resources l, kc_Privileged = False, kc_ReadonlyRootfs = False, kc_NoNewPrivs = True,
      kc_SeccompRuntimeDefault = True,
      kc_MaskedPaths = [''/proc/acpi'', ''/proc/kcore'', ''/proc/keys'', ''/proc/timer_list'', ''/sys/firmware''],
      kc_ReadonlyPaths = [''/proc/bus'', ''/proc/fs'', ''/proc/irq'', ''/proc/sys'', ''/proc/sysrq-trigger'']\<rparr>"

definition createAndStartCRIContainer :: "'o LetService \<Rightarrow> LetSandbox \<Rightarrow> string \<Rightarrow> PodSandboxConfig
    \<Rightarrow> CreateContainerRequest \<Rightarrow> ResourceLimits \<Rightarrow> ('o, ContainerState) lio" where
  "createAndStartCRIContainer S sbx podID sbxCfg c l =
     (let C = sv_cri S; ctrCfg = container_config (ls_ID sbx) c l in
      check (createContainer C podID ctrCfg sbxCfg) (\<lambda>containerID.
        check (startContainer C containerID) (\<lambda>_.
          check (enforceCgroupV2Limits (sv_host S) containerID (Some (kc_Resources ctrCfg))) (\<lambda>_.
            check (containerStatus C containerID) (\<lambda>details.
              ok \<lparr>cs_ID = det_ID details, cs_Name = cc_Name c, cs_Phase = ContainerPhaseRunning, cs_Error = [],
                  cs_Image = normalizeImage (cc_Image c), cs_Args = cc_Args c, cs_Env = cc_Env c,
                  cs_Resource = cc_Resource c, cs_TaskPID = det_PID details,
                  cs_Runtime = RuntimeBinary (sv_cfg S), cs_TaskStatus = ''running''\<rparr>)))))"

definition listCRISandboxIDs :: "'o CriStubs \<Rightarrow> ('o, string list) lio" where
  "listCRISandboxIDs C =
     check (listPodSandboxes C) (\<lambda>items. ok (filter (\<lambda>i. i \<noteq> []) (map pod_Id items)))"

end
