(* ===== verification/Let_Artifacts.thy ===== *)
theory Let_Artifacts
  imports Let_Runtime
begin

section \<open>sbxlet: publishing, cleaning up and refreshing a sandbox\<close>

text \<open>
  The second half of \<^verbatim>\<open>sandboxd-let/sandbox/runtime.go\<close>: what connects a stored sandbox to its
  rules, its runtime objects and its state file.  \<open>refreshSandboxRuntimeState\<close> returns the
  sandbox it updates; \<open>refresh_containers\<close> is its loop, with the loop's local variables as
  accumulators.
\<close>

definition toPublishedPorts :: "PortMapping list \<Rightarrow> PublishedPort list" where
  "toPublishedPorts pm =
     map (\<lambda>p. \<lparr>pp_ContainerPort = pm_ContainerPort p, pp_Protocol = normalizeProto (pm_Protocol p)\<rparr>) pm"

definition toHostPortForwards :: "PortMapping list \<Rightarrow> HostPortForward list" where
  "toHostPortForwards pm =
     map (\<lambda>p. \<lparr>hf_HostPort = pm_HostPort p, hf_ContainerPort = pm_ContainerPort p,
               hf_Protocol = normalizeProto (pm_Protocol p)\<rparr>) pm"

definition applySandboxNetworkPolicy :: "'o LetService \<Rightarrow> LetSandbox \<Rightarrow> ('o, unit) lio" where
  "applySandboxNetworkPolicy S sbx =
     ApplySandboxRules (sv_host S) (sv_ipt S) (ls_ID sbx) (ls_IP sbx) (SubnetCIDR (sv_cfg S))
       (BridgeInterface (sv_cfg S)) (ls_Egress sbx) (toPublishedPorts (ls_Ports sbx))"

definition applyHostPortPublish :: "'o LetService \<Rightarrow> LetSandbox \<Rightarrow> ('o, unit) lio" where
  "applyHostPortPublish S sbx =
     ApplyHostPortDNAT (sv_ipt S) (ls_ID sbx) (ls_IP sbx) (toHostPortForwards (ls_Ports sbx))"

definition cleanupHostPortPublish :: "'o LetService \<Rightarrow> LetSandbox \<Rightarrow> ('o, unit) lact" where
  "cleanupHostPortPublish S sbx = do {
     (if ls_IP sbx \<noteq> []
      then DeleteHostPortDNAT (sv_ipt S) (ls_ID sbx) (ls_IP sbx) (toHostPortForwards (ls_Ports sbx)) else ret ());
     DeleteHostPortDNATBySandbox (sv_ipt S) (ls_ID sbx) }"

definition cleanupSandboxNetworkPolicy :: "'o LetService \<Rightarrow> LetSandbox \<Rightarrow> ('o, unit) lact" where
  "cleanupSandboxNetworkPolicy S sbx =
     (if ls_IP sbx = [] then ret ()
      else DeleteSandboxRules (sv_ipt S) (ls_ID sbx) (ls_IP sbx) (ls_BridgeName sbx) (toPublishedPorts (ls_Ports sbx)))"

text \<open>The path is concatenated here, not joined and cleaned.\<close>

definition cleanupCNICache :: "'o LetService \<Rightarrow> string \<Rightarrow> ('o, unit) lact" where
  "cleanupCNICache S i =
     (if i = [] then ret () else ignore (os_RemoveAll (sv_host S) (''/var/lib/cni/'' @ i)))"

definition deleteSandboxRuntimeArtifacts :: "'o LetService \<Rightarrow> LetSandbox \<Rightarrow> ('o, unit) lio" where
  "deleteSandboxRuntimeArtifacts S sbx = do {
     (if ls_PauseID sbx \<noteq> [] then stopAndRemovePodSandbox (sv_cri S) (ls_PauseID sbx) else ret ());
     cleanupHostPortPublish S sbx;
     cleanupSandboxNetworkPolicy S sbx;
     cleanupCNICache S (ls_ID sbx);
     cleanupSandboxParentCgroup (sv_host S) (CgroupParent (sv_cfg S)) (ls_ID sbx);
     ok () }"

definition deleteSandboxFromState :: "'o LetService \<Rightarrow> LetSandbox \<Rightarrow> ('o, unit) lio" where
  "deleteSandboxFromState S sbx = do {
     r \<leftarrow> deleteSandboxRuntimeArtifacts S sbx;
     store_Delete (sv_host S) (sv_cfg S) (ls_ID sbx);
     ret r }"

subsection \<open>Refreshing\<close>

definition ctr_state_text :: "CtrState \<Rightarrow> string" where
  "ctr_state_text s =
     (case s of
        CONTAINER_CREATED \<Rightarrow> ''CONTAINER_CREATED'' | CONTAINER_RUNNING \<Rightarrow> ''CONTAINER_RUNNING''
      | CONTAINER_EXITED \<Rightarrow> ''CONTAINER_EXITED'' | CONTAINER_UNKNOWN \<Rightarrow> ''CONTAINER_UNKNOWN''
      | CONTAINER_OTHER n \<Rightarrow> show_int n)"

definition isPlaceholderContainerID :: "string \<Rightarrow> string \<Rightarrow> string \<Rightarrow> bool" where
  "isPlaceholderContainerID sandboxID containerName containerID \<longleftrightarrow>
     sandboxID \<noteq> [] \<and> containerName \<noteq> [] \<and> containerID \<noteq> [] \<and>
     containerID = sandboxID @ ''-'' @ containerName"

text \<open>The state of a container after the runtime's answer about it.\<close>

definition runtime_view :: "GoError + criContainerDetails \<Rightarrow> ContainerState \<Rightarrow> ContainerState" where
  "runtime_view r st =
     (case r of
        Inl _ \<Rightarrow> st\<lparr>cs_TaskStatus := ''not_found'', cs_Phase := ContainerPhaseError, cs_Error := ''container not found''\<rparr>
      | Inr d \<Rightarrow>
          (let st1 = st\<lparr>cs_TaskPID := det_PID d\<rparr> in
           (case det_State d of
              CONTAINER_RUNNING \<Rightarrow> st1\<lparr>cs_TaskStatus := ''running'', cs_Phase := ContainerPhaseRunning, cs_Error := []\<rparr>
            | CONTAINER_CREATED \<Rightarrow> st1\<lparr>cs_TaskStatus := ''created'', cs_Phase := ContainerPhaseCreating, cs_Error := []\<rparr>
            | CONTAINER_EXITED \<Rightarrow> st1\<lparr>cs_TaskStatus := ToLower (ctr_state_text CONTAINER_EXITED),
                cs_Phase := ContainerPhaseStopped, cs_Error := []\<rparr>
            | CONTAINER_UNKNOWN \<Rightarrow> st1\<lparr>cs_TaskStatus := ToLower (ctr_state_text CONTAINER_UNKNOWN),
                cs_Phase := ContainerPhaseStopped, cs_Error := []\<rparr>
            | CONTAINER_OTHER _ \<Rightarrow> st1\<lparr>cs_TaskStatus := ''unknown'', cs_Phase := ContainerPhaseError,
                cs_Error := ''failed to read container state''\<rparr>)))"

definition fillContainerRuntimeState :: "'o LetService \<Rightarrow> ContainerState \<Rightarrow> ('o, ContainerState) lact" where
  "fillContainerRuntimeState S st = do {
     r \<leftarrow> containerStatus (sv_cri S) (cs_ID st);
     ret (runtime_view r st) }"

text \<open>
  Placeholder ids are set before the runtime objects exist: while the sandbox is still creating,
  a container not found under one is still creating too.
\<close>

definition settle_placeholder :: "LetSandbox \<Rightarrow> ContainerState \<Rightarrow> ContainerState" where
  "settle_placeholder sbx next =
     (if ls_Phase sbx = LetPhaseCreating \<and> cs_TaskStatus next = ''not_found'' \<and>
         isPlaceholderContainerID (ls_ID sbx) (cs_Name next) (cs_ID next)
      then next\<lparr>cs_Phase := ContainerPhaseCreating, cs_Error := [], cs_TaskStatus := ''creating''\<rparr>
      else next)"

record refresh_vars =
  rv_hasError :: bool
  rv_sandboxErr :: string
  rv_allRunning :: bool

definition note_container :: "ContainerState \<Rightarrow> refresh_vars \<Rightarrow> refresh_vars" where
  "note_container next v =
     (let v1 = (if cs_Phase next = ContainerPhaseError
                then v\<lparr>rv_hasError := True,
                       rv_sandboxErr := (if rv_sandboxErr v = [] \<and> cs_Error next \<noteq> [] then cs_Error next
                                         else rv_sandboxErr v)\<rparr>
                else v) in
      if cs_Phase next \<noteq> ContainerPhaseRunning then v1\<lparr>rv_allRunning := False\<rparr> else v1)"

fun refresh_containers :: "'o LetService \<Rightarrow> LetSandbox \<Rightarrow> refresh_vars \<Rightarrow> (string \<times> ContainerState) list
    \<Rightarrow> ('o, (string \<times> ContainerState) list \<times> refresh_vars) lact" where
  "refresh_containers S sbx v [] = ret ([], v)"
| "refresh_containers S sbx v ((name, st) # rest) = do {
     filled \<leftarrow> fillContainerRuntimeState S st;
     let next = settle_placeholder sbx filled;
     r \<leftarrow> refresh_containers S sbx (note_container next v) rest;
     ret ((name, next) # fst r, snd r) }"

definition pod_vars :: "'o LetService \<Rightarrow> LetSandbox \<Rightarrow> ('o, refresh_vars) lact" where
  "pod_vars S sbx =
     (if ls_PauseID sbx = [] then ret \<lparr>rv_hasError = False, rv_sandboxErr = [], rv_allRunning = True\<rparr>
      else do {
        st \<leftarrow> podSandboxStatus (sv_cri S) (ls_PauseID sbx);
        ret (case st of
           Inl _ \<Rightarrow> \<lparr>rv_hasError = True, rv_sandboxErr = ''pause container is not running'', rv_allRunning = False\<rparr>
         | Inr _ \<Rightarrow> \<lparr>rv_hasError = False, rv_sandboxErr = [], rv_allRunning = True\<rparr>) })"

definition settle_phase :: "refresh_vars \<Rightarrow> LetSandbox \<Rightarrow> LetSandbox" where
  "settle_phase v sbx =
     (if ls_Phase sbx = LetPhaseDeleting then sbx
      else if rv_hasError v then sbx\<lparr>ls_Phase := LetPhaseError, ls_Error := rv_sandboxErr v\<rparr>
      else if rv_allRunning v then sbx\<lparr>ls_Phase := LetPhaseRunning, ls_Error := []\<rparr>
      else sbx\<lparr>ls_Phase := LetPhaseCreating\<rparr>)"

definition touch :: "'o LetService \<Rightarrow> LetSandbox \<Rightarrow> ('o, LetSandbox) lact" where
  "touch S sbx = do { now \<leftarrow> let_Now (sv_host S); ret (sbx\<lparr>ls_UpdatedAt := now\<rparr>) }"

definition refreshSandboxRuntimeState :: "'o LetService \<Rightarrow> LetSandbox \<Rightarrow> ('o, LetSandbox) lact" where
  "refreshSandboxRuntimeState S sbx =
     (if ls_Phase sbx = LetPhaseError \<and> ls_Error sbx \<noteq> [] then touch S sbx
      else if ls_Containers sbx = [] then touch S sbx
      else do {
        v \<leftarrow> pod_vars S sbx;
        r \<leftarrow> refresh_containers S sbx v (ls_Containers sbx);
        touch S (settle_phase (snd r) (sbx\<lparr>ls_Containers := fst r\<rparr>)) })"

end
