(* ===== verification/Let_Service.thy ===== *)
theory Let_Service
  imports Let_Artifacts
begin

section \<open>sbxlet: creating, deleting and listing sandboxes\<close>

text \<open>
  \<^verbatim>\<open>sandboxd-let/sandbox/service.go\<close> and \<^verbatim>\<open>state.go\<close>.  A goroutine started by an asynchronous
  create is appended to \<open>lw_jobs\<close> and runs as \<open>provisionSandbox\<close>.  A function that changes the
  sandbox it was given a pointer to returns the changed sandbox, on its error path too.
  \<^verbatim>\<open>copySandbox\<close> is the identity on values.
\<close>

subsection \<open>state.go\<close>

definition setSandboxPhase :: "'o LetService \<Rightarrow> LetSandbox \<Rightarrow> string \<Rightarrow> string \<Rightarrow> ('o, LetSandbox) lact" where
  "setSandboxPhase S sbx phase errMsg = do {
     now \<leftarrow> let_Now (sv_host S);
     ret (sbx\<lparr>ls_Phase := phase,
              ls_Error := (if errMsg \<noteq> [] then errMsg else if phase \<noteq> LetPhaseError then [] else ls_Error sbx),
              ls_UpdatedAt := now\<rparr>) }"

definition placeholder_container :: "LetConfig \<Rightarrow> string \<Rightarrow> CreateContainerRequest \<Rightarrow> ContainerState" where
  "placeholder_container cfg i c =
     \<lparr>cs_ID = i @ ''-'' @ cc_Name c, cs_Name = cc_Name c, cs_Phase = ContainerPhaseCreating, cs_Error = [],
      cs_Image = cc_Image c, cs_Args = cc_Args c, cs_Env = cc_Env c, cs_Resource = cc_Resource c,
      cs_TaskPID = 0, cs_Runtime = RuntimeBinary cfg, cs_TaskStatus = []\<rparr>"

definition new_state :: "LetConfig \<Rightarrow> CreateSandboxRequest \<Rightarrow> int \<Rightarrow> LetSandbox" where
  "new_state cfg req now =
     \<lparr>ls_ID = cr_ID req, ls_Phase = LetPhaseCreating, ls_Error = [], ls_Namespace = criContainerdNamespace,
      ls_IP = [], ls_SubnetCIDR = SubnetCIDR cfg, ls_BridgeName = BridgeInterface cfg, ls_Egress = cr_Egress req,
      ls_Ports = cr_Ports req,
      ls_Containers = foldl (\<lambda>m c. AList.update (cc_Name c) (placeholder_container cfg (cr_ID req) c) m) []
        (cr_Containers req),
      ls_PauseID = [], ls_CNIConfPath = CNIConfPath cfg, ls_CreatedAt = now, ls_UpdatedAt = now\<rparr>"

definition newSandboxState :: "'o LetService \<Rightarrow> CreateSandboxRequest \<Rightarrow> ('o, LetSandbox) lact" where
  "newSandboxState S req = do { now \<leftarrow> let_Now (sv_host S); ret (new_state (sv_cfg S) req now) }"

subsection \<open>Host ports\<close>

definition portKey :: "int \<Rightarrow> string \<Rightarrow> string" where
  "portKey port proto = show_int port @ ''/'' @ normalizeProto proto"

definition mapping_key :: "PortMapping \<Rightarrow> string" where
  "mapping_key p = portKey (pm_HostPort p) (normalizeProto (pm_Protocol p))"

text \<open>The map \<^verbatim>\<open>used\<close>: a later sandbox with the same host port replaces an earlier one.\<close>

definition used_ports :: "string \<Rightarrow> LetSandbox list \<Rightarrow> (int \<times> string \<times> string) list" where
  "used_ports sandboxID all =
     foldl (\<lambda>m (hp, owner). AList.update hp owner m) []
       (concat (map (\<lambda>sb. map (\<lambda>p. (pm_HostPort p, ls_ID sb, normalizeProto (pm_Protocol p))) (ls_Ports sb))
         (filter (\<lambda>sb. ls_ID sb \<noteq> sandboxID) all)))"

definition ensureLocalPortFree :: "'o LetService \<Rightarrow> int \<Rightarrow> string \<Rightarrow> ('o, unit) lio" where
  "ensureLocalPortFree S port proto =
     outside_err (ho_Listen (sv_host S) (if proto = ''udp'' then ''udp'' else ''tcp'') port)"

definition port_text :: "PortMapping \<Rightarrow> string" where
  "port_text p = show_int (pm_HostPort p) @ ''/'' @ normalizeProto (pm_Protocol p)"

definition check_local :: "'o LetService \<Rightarrow> PortMapping \<Rightarrow> ('o, unit) lio" where
  "check_local S p = do {
     r \<leftarrow> ensureLocalPortFree S (pm_HostPort p) (normalizeProto (pm_Protocol p));
     (case r of
        Inl e \<Rightarrow> fail (Errorf (''host port already in use: '' @ port_text p @ '' ('' @ err_text e @ '')''))
      | Inr _ \<Rightarrow> ok ()) }"

definition check_reserved :: "'o LetService \<Rightarrow> string \<Rightarrow> PortMapping \<Rightarrow> ('o, unit) lio" where
  "check_reserved S sandboxID p = do {
     r \<leftarrow> gets_let (\<lambda>w. map_of (lw_reserved w) (mapping_key p));
     (case r of
        Some owner \<Rightarrow>
          if owner \<noteq> sandboxID
          then fail (Errorf (''host port already reserved: '' @ port_text p @ '' (sandbox '' @ owner @ '')''))
          else check_local S p
      | None \<Rightarrow> check_local S p) }"

definition check_port :: "'o LetService \<Rightarrow> string \<Rightarrow> (int \<times> string \<times> string) list \<Rightarrow> PortMapping \<Rightarrow> ('o, unit) lio" where
  "check_port S sandboxID used p =
     (case map_of used (pm_HostPort p) of
        Some (owner, proto) \<Rightarrow>
          if proto = normalizeProto (pm_Protocol p)
          then fail (Errorf (''host port already in use: '' @ port_text p @ '' (sandbox '' @ owner @ '')''))
          else check_reserved S sandboxID p
      | None \<Rightarrow> check_reserved S sandboxID p)"

definition ensureHostPortsAvailable :: "'o LetService \<Rightarrow> string \<Rightarrow> PortMapping list \<Rightarrow> ('o, unit) lio" where
  "ensureHostPortsAvailable S sandboxID requested =
     (if requested = [] then ok ()
      else check (store_List (sv_host S) (sv_cfg S))
        (\<lambda>all. for_each_err (check_port S sandboxID (used_ports sandboxID all)) requested))"

definition reserve_keys :: "string \<Rightarrow> string list \<Rightarrow> (string \<times> string) list \<Rightarrow> (string \<times> string) list" where
  "reserve_keys sandboxID ks m = foldl (\<lambda>m k. AList.update k sandboxID m) m ks"

definition release_keys :: "string \<Rightarrow> string list \<Rightarrow> (string \<times> string) list \<Rightarrow> (string \<times> string) list" where
  "release_keys sandboxID ks m = foldl (\<lambda>m k. if map_of m k = Some sandboxID then AList.delete k m else m) m ks"

definition reserveRequestedPorts :: "string \<Rightarrow> PortMapping list \<Rightarrow> ('o, unit) lact" where
  "reserveRequestedPorts sandboxID requested =
     modify_let (\<lambda>w. w\<lparr>lw_reserved := reserve_keys sandboxID (map mapping_key requested) (lw_reserved w)\<rparr>)"

text \<open>The function \<^verbatim>\<open>reserveRequestedPorts\<close> returns to undo it.\<close>

definition releaseRequestedPorts :: "string \<Rightarrow> PortMapping list \<Rightarrow> ('o, unit) lact" where
  "releaseRequestedPorts sandboxID requested =
     modify_let (\<lambda>w. w\<lparr>lw_reserved := release_keys sandboxID (map mapping_key requested) (lw_reserved w)\<rparr>)"

definition releaseReservedPorts :: "string \<Rightarrow> ('o, unit) lact" where
  "releaseReservedPorts sandboxID =
     modify_let (\<lambda>w. w\<lparr>lw_reserved := filter (\<lambda>(_, v). v \<noteq> sandboxID) (lw_reserved w)\<rparr>)"

definition clearUnhealthy :: "string \<Rightarrow> ('o, unit) lact" where
  "clearUnhealthy sandboxID =
     modify_let (\<lambda>w. w\<lparr>lw_since := AList.delete sandboxID (lw_since w), lw_hits := AList.delete sandboxID (lw_hits w)\<rparr>)"

subsection \<open>Waiting for a sandbox to come up\<close>

text \<open>
  Each round of \<^verbatim>\<open>waitSandboxReady\<close> that does not return sleeps 200 ms, so the deadline of its
  context leaves room for at most \<open>ready_rounds\<close> of them; after that the context is done.  The
  loop of \<^verbatim>\<open>waitPublishedTCPReady\<close> sleeps 150 ms of its 10 s.
\<close>

datatype poll = AllRunning | NotYet | Dead GoError

fun poll_containers :: "'o LetService \<Rightarrow> string \<Rightarrow> (string \<times> ContainerState) list \<Rightarrow> ('o, poll) lact" where
  "poll_containers S i [] = ret AllRunning"
| "poll_containers S i ((_, c) # rest) = do {
     r \<leftarrow> containerStatus (sv_cri S) (cs_ID c);
     (case r of
        Inl _ \<Rightarrow> ret NotYet
      | Inr d \<Rightarrow>
          if det_State d = CONTAINER_EXITED \<or> det_State d = CONTAINER_UNKNOWN then
            ret (Dead (Errorf (''sandbox '' @ i @ '' container '' @ cs_Name c @ '' became '' @
              ToLower (ctr_state_text (det_State d)) @ '' before ready'')))
          else if det_State d \<noteq> CONTAINER_RUNNING then ret NotYet
          else poll_containers S i rest) }"

definition readiness_canceled :: "string \<Rightarrow> GoError \<Rightarrow> GoError" where
  "readiness_canceled i e = Errorf_w (''sandbox '' @ i @ '' readiness canceled'') e"

fun wait_ready :: "nat \<Rightarrow> 'o LetService \<Rightarrow> LetSandbox \<Rightarrow> ('o, unit) lio" where
  "wait_ready 0 S sbx = fail (readiness_canceled (ls_ID sbx) (Errorf ''context deadline exceeded''))"
| "wait_ready (Suc n) S sbx = do {
     e \<leftarrow> outside (ho_ctx_Err (sv_host S));
     (case e of
        Some err \<Rightarrow> fail (readiness_canceled (ls_ID sbx) err)
      | None \<Rightarrow> do {
          st \<leftarrow> podSandboxStatus (sv_cri S) (ls_PauseID sbx);
          (case st of
             Inl _ \<Rightarrow> wait_ready n S sbx
           | Inr _ \<Rightarrow> do {
               p \<leftarrow> poll_containers S (ls_ID sbx) (ls_Containers sbx);
               (case p of AllRunning \<Rightarrow> ok () | Dead err \<Rightarrow> fail err | NotYet \<Rightarrow> wait_ready n S sbx) }) }) }"

definition ready_rounds :: "LetConfig \<Rightarrow> nat" where
  "ready_rounds cfg =
     nat ((if ContainerCreateTimeout cfg \<le> 0 then DefaultContainerCreateTimeout else ContainerCreateTimeout cfg)
       div 200000000) + 1"

definition waitSandboxReady :: "'o LetService \<Rightarrow> LetSandbox \<Rightarrow> ('o, unit) lio" where
  "waitSandboxReady S sbx = wait_ready (ready_rounds (sv_cfg S)) S sbx"

fun dial_all :: "'o LetService \<Rightarrow> string \<Rightarrow> PortMapping list \<Rightarrow> ('o, bool) lact" where
  "dial_all S ip [] = ret True"
| "dial_all S ip (p # ps) =
     (if normalizeProto (pm_Protocol p) \<noteq> ''tcp'' then dial_all S ip ps
      else do {
        e \<leftarrow> outside (ho_Dial (sv_host S) ip (pm_ContainerPort p));
        (if e \<noteq> None then ret False else dial_all S ip ps) })"

fun tcp_rounds :: "nat \<Rightarrow> 'o LetService \<Rightarrow> LetSandbox \<Rightarrow> int \<Rightarrow> nat \<Rightarrow> ('o, unit) lio" where
  "tcp_rounds 0 S sbx deadline consecutive =
     fail (Errorf (''sandbox '' @ ls_ID sbx @ '' tcp ports not ready before timeout''))"
| "tcp_rounds (Suc n) S sbx deadline consecutive = do {
     now \<leftarrow> let_Now (sv_host S);
     (if deadline \<le> now then fail (Errorf (''sandbox '' @ ls_ID sbx @ '' tcp ports not ready before timeout''))
      else do {
        allReady \<leftarrow> dial_all S (ls_IP sbx) (ls_Ports sbx);
        (if \<not> allReady then tcp_rounds n S sbx deadline 0
         else if consecutive + 1 \<ge> 4 then ok ()
         else tcp_rounds n S sbx deadline (consecutive + 1)) }) }"

definition waitPublishedTCPReady :: "'o LetService \<Rightarrow> LetSandbox \<Rightarrow> ('o, unit) lio" where
  "waitPublishedTCPReady S sbx = do {
     now \<leftarrow> let_Now (sv_host S);
     tcp_rounds 67 S sbx (now + 10 * ns_second) 0 }"

end
