(* ===== verification/Let_Lifecycle.thy ===== *)
theory Let_Lifecycle
  imports Let_Service
begin

section \<open>sbxlet: the life of a sandbox\<close>

text \<open>
  The operations of \<^verbatim>\<open>sandboxd-let/sandbox/service.go\<close> and the cleanup part of
  \<^verbatim>\<open>reconcile.go\<close>.  \<open>provision_steps\<close> is the body of \<^verbatim>\<open>provisionSandboxSync\<close>: it returns the
  sandbox as it stands at the return, with the error if there is one, because the deferred
  function saves it and removes what was built.
\<close>

subsection \<open>Provisioning\<close>

type_synonym 'o step = "('o, (GoError \<times> LetSandbox) + LetSandbox) lact"

text \<open>A call whose error is returned as it is, or stored in \<^verbatim>\<open>sbx.Error\<close> first.\<close>

definition or_return :: "LetSandbox \<Rightarrow> ('o, 'a) lio \<Rightarrow> ('a \<Rightarrow> 'o step) \<Rightarrow> 'o step" where
  "or_return sbx m k = do { r \<leftarrow> m; (case r of Inl e \<Rightarrow> ret (Inl (e, sbx)) | Inr x \<Rightarrow> k x) }"

definition or_record :: "LetSandbox \<Rightarrow> (GoError \<Rightarrow> GoError) \<Rightarrow> ('o, 'a) lio \<Rightarrow> ('a \<Rightarrow> 'o step) \<Rightarrow> 'o step" where
  "or_record sbx wrap m k = do {
     r \<leftarrow> m;
     (case r of
        Inl e \<Rightarrow> ret (Inl (wrap e, sbx\<lparr>ls_Error := err_text (wrap e)\<rparr>))
      | Inr x \<Rightarrow> k x) }"

fun provision_containers :: "'o LetService \<Rightarrow> LetSandbox \<Rightarrow> string \<Rightarrow> PodSandboxConfig
    \<Rightarrow> CreateContainerRequest list \<Rightarrow> (LetSandbox \<Rightarrow> 'o step) \<Rightarrow> 'o step" where
  "provision_containers S sbx podID podCfg [] k = k sbx"
| "provision_containers S sbx podID podCfg (c # cs) k =
     or_record sbx (Errorf_w (''container '' @ cc_Name c)) (ret (parseContainerResource (sv_host S) (cc_Resource c)))
       (\<lambda>parsedRes.
         or_record sbx (Errorf_w (''pull image \"'' @ normalizeImage (cc_Image c) @ ''\"''))
           (pullImage (sv_cri S) (normalizeImage (cc_Image c)))
         (\<lambda>_. or_record sbx (\<lambda>e. e)
           (createAndStartCRIContainer S sbx podID podCfg c (parsedResourceToLimits parsedRes))
         (\<lambda>st. provision_containers S (sbx\<lparr>ls_Containers := AList.update (cc_Name c) st (ls_Containers sbx)\<rparr>)
                 podID podCfg cs k)))"

definition publish_steps :: "'o LetService \<Rightarrow> LetSandbox \<Rightarrow> 'o step" where
  "publish_steps S sbx =
     (if ls_IP sbx = [] then ret (Inl (Errorf ''sandbox ip not assigned by cni'', sbx))
      else or_return sbx (applySandboxNetworkPolicy S sbx)
        (\<lambda>_. or_return sbx (waitSandboxReady S sbx)
        (\<lambda>_. or_return sbx (applyHostPortPublish S sbx)
        (\<lambda>_. do {
           waitPublishedTCPReady S sbx;
           sbx1 \<leftarrow> refreshSandboxRuntimeState S sbx;
           sbx2 \<leftarrow> setSandboxPhase S sbx1 LetPhaseRunning [];
           or_return sbx2 (store_Save (sv_host S) (sv_cfg S) sbx2) (\<lambda>_. ret (Inr sbx2)) }))))"

definition provision_steps :: "'o LetService \<Rightarrow> LetSandbox \<Rightarrow> CreateSandboxRequest \<Rightarrow> 'o step" where
  "provision_steps S sbx req =
     or_record sbx (\<lambda>e. e) (createPodSandboxCRI S sbx (cr_Containers req))
       (\<lambda>(podID, assignedIP, podCfg).
         provision_containers S (sbx\<lparr>ls_PauseID := podID, ls_IP := assignedIP\<rparr>) podID podCfg (cr_Containers req)
           (publish_steps S))"

text \<open>The deferred function of a run that did not create the sandbox.\<close>

definition provision_failed :: "'o LetService \<Rightarrow> LetSandbox \<Rightarrow> ('o, unit) lact" where
  "provision_failed S sbx = do {
     sbx1 \<leftarrow> setSandboxPhase S sbx LetPhaseError (ls_Error sbx);
     let sbx2 = (if ls_Error sbx1 = [] then sbx1\<lparr>ls_Error := ''provision failed''\<rparr> else sbx1);
     store_Save (sv_host S) (sv_cfg S) sbx2;
     deleteSandboxRuntimeArtifacts S sbx2;
     ret () }"

definition provisionSandboxSync :: "'o LetService \<Rightarrow> LetSandbox \<Rightarrow> CreateSandboxRequest \<Rightarrow> ('o, LetSandbox) lio" where
  "provisionSandboxSync S sbx req = do {
     r \<leftarrow> provision_steps S sbx req;
     (case r of
        Inl (e, sbx') \<Rightarrow> do { provision_failed S sbx'; fail e }
      | Inr sbx' \<Rightarrow> ok sbx') }"

definition markSandboxError :: "'o LetService \<Rightarrow> string \<Rightarrow> GoError \<Rightarrow> ('o, unit) lact" where
  "markSandboxError S sandboxID e = do {
     r \<leftarrow> store_Load (sv_host S) (sv_cfg S) sandboxID;
     (case r of
        Inl _ \<Rightarrow> ret ()
      | Inr sbx \<Rightarrow> do {
          sbx1 \<leftarrow> setSandboxPhase S sbx LetPhaseError (err_text e);
          ignore (store_Save (sv_host S) (sv_cfg S) sbx1) }) }"

definition provision_locked :: "'o LetService \<Rightarrow> string \<Rightarrow> CreateSandboxRequest \<Rightarrow> ('o, unit) lact" where
  "provision_locked S sandboxID req = do {
     r \<leftarrow> store_Load (sv_host S) (sv_cfg S) sandboxID;
     (case r of
        Inl _ \<Rightarrow> ret ()
      | Inr sbx \<Rightarrow> do {
          p \<leftarrow> provisionSandboxSync S sbx req;
          (case p of Inl e \<Rightarrow> markSandboxError S sandboxID e | Inr _ \<Rightarrow> ret ()) }) }"

text \<open>The goroutine of an asynchronous create.\<close>

definition provisionSandbox :: "'o LetService \<Rightarrow> string \<Rightarrow> CreateSandboxRequest \<Rightarrow> ('o, unit) lact" where
  "provisionSandbox S sandboxID req = do {
     r \<leftarrow> acquireSandboxLock (sv_host S) (sv_cfg S) sandboxID;
     (case r of
        Inl e \<Rightarrow> markSandboxError S sandboxID e
      | Inr _ \<Rightarrow> do { provision_locked S sandboxID req; unlock (sv_cfg S) sandboxID }) }"

subsection \<open>Leftovers of a sandbox that has no state\<close>

definition cni_ip :: "'o LetService \<Rightarrow> string \<Rightarrow> ('o, string) lact" where
  "cni_ip S sandboxID = do {
     r \<leftarrow> LookupSandboxIPv4FromResultCache (sv_host S) sandboxID;
     ret (case r of Inl _ \<Rightarrow> [] | Inr ip \<Rightarrow> ip) }"

definition orphan_state :: "'o LetService \<Rightarrow> string \<Rightarrow> string \<Rightarrow> string \<Rightarrow> LetSandbox" where
  "orphan_state S sandboxID ip podID =
     \<lparr>ls_ID = sandboxID, ls_Phase = [], ls_Error = [], ls_Namespace = criContainerdNamespace, ls_IP = ip,
      ls_SubnetCIDR = [], ls_BridgeName = BridgeInterface (sv_cfg S), ls_Egress = False, ls_Ports = [],
      ls_Containers = [], ls_PauseID = podID, ls_CNIConfPath = [], ls_CreatedAt = 0, ls_UpdatedAt = 0\<rparr>"

definition cleanupOrphanRuntimeSandbox :: "'o LetService \<Rightarrow> string \<Rightarrow> ('o, unit) lio" where
  "cleanupOrphanRuntimeSandbox S sandboxID = do {
     ip \<leftarrow> cni_ip S sandboxID;
     pod \<leftarrow> findManagedPodSandboxID (sv_cri S) sandboxID;
     let tmp = orphan_state S sandboxID ip (case pod of Some p \<Rightarrow> p | None \<Rightarrow> []);
     (if ls_Containers tmp = [] \<and> ls_IP tmp = [] \<and> ls_PauseID tmp = []
      then do { cleanupHostPortPublish S tmp; ok () }
      else deleteSandboxFromState S tmp) }"

definition CleanupSandboxResources :: "'o LetService \<Rightarrow> string \<Rightarrow> ('o, unit) lio" where
  "CleanupSandboxResources S sandboxID = do {
     r \<leftarrow> store_Load (sv_host S) (sv_cfg S) sandboxID;
     (case r of
        Inr sbx \<Rightarrow> deleteSandboxFromState S sbx
      | Inl e \<Rightarrow> if \<not> errors_Is e ErrNotExist then fail e else cleanupOrphanRuntimeSandbox S sandboxID) }"

definition hasRuntimeArtifacts :: "'o LetService \<Rightarrow> string \<Rightarrow> ('o, bool) lact" where
  "hasRuntimeArtifacts S sandboxID =
     (if sandboxID = [] then ret False
      else do {
        st \<leftarrow> os_Stat (sv_host S) (filepath_Join [''/var/lib/cni'', sandboxID]);
        (case st of
           Inr _ \<Rightarrow> ret True
         | Inl _ \<Rightarrow> do {
             r \<leftarrow> listPodSandboxes (sv_cri S);
             ret (case r of
                Inl _ \<Rightarrow> False
              | Inr items \<Rightarrow> \<exists>p \<in> set items.
                  (case pod_Metadata p of Some m \<Rightarrow> md_Name m = sandboxID | None \<Rightarrow> False)) }) })"

subsection \<open>Creating\<close>

definition claim_ports :: "'o LetService \<Rightarrow> string \<Rightarrow> PortMapping list \<Rightarrow> ('o, unit) lio" where
  "claim_ports S i ps =
     with_lock (sv_host S) (sv_cfg S) ''_ports''
       (check (ensureHostPortsAvailable S i ps) (\<lambda>_. do { reserveRequestedPorts i ps; ok () }))"

definition save_new :: "'o LetService \<Rightarrow> CreateSandboxRequest \<Rightarrow> ('o, LetSandbox) lio" where
  "save_new S req = do {
     sbx \<leftarrow> newSandboxState S req;
     check (store_Save (sv_host S) (sv_cfg S) sbx) (\<lambda>_. ok sbx) }"

definition start_sandbox :: "'o LetService \<Rightarrow> CreateSandboxRequest \<Rightarrow> bool \<Rightarrow> LetSandbox \<Rightarrow> ('o, LetSandbox) lio" where
  "start_sandbox S req async sbx =
     (if async then do { modify_let (\<lambda>w. w\<lparr>lw_jobs := lw_jobs w @ [(cr_ID req, req)]\<rparr>); ok sbx }
      else provisionSandboxSync S sbx req)"

definition admit_and_save :: "'o LetService \<Rightarrow> CreateSandboxRequest \<Rightarrow> bool \<Rightarrow> ('o, LetSandbox) lio" where
  "admit_and_save S req async =
     with_lock (sv_host S) (sv_cfg S) ''_admission''
       (check (enforceAdmission (sv_host S) (sv_cfg S) req)
         (\<lambda>_. check (ensureIPCapacity (sv_host S) (sv_cfg S) (cr_ID req))
         (\<lambda>_. check (save_new S req) (start_sandbox S req async))))"

definition clear_leftovers :: "'o LetService \<Rightarrow> string \<Rightarrow> ('o, unit) lact" where
  "clear_leftovers S i = do {
     b \<leftarrow> hasRuntimeArtifacts S i;
     (if b then do { cleanupOrphanRuntimeSandbox S i; cleanupCNICache S i } else ret ()) }"

definition create_locked :: "'o LetService \<Rightarrow> CreateSandboxRequest \<Rightarrow> bool \<Rightarrow> ('o, LetSandbox) lio" where
  "create_locked S req async =
     (case Validate req of
        Some e \<Rightarrow> fail e
      | None \<Rightarrow> do {
          r \<leftarrow> store_Load (sv_host S) (sv_cfg S) (cr_ID req);
          (case r of
             Inr _ \<Rightarrow> fail (Errorf (''sandbox already exists: '' @ cr_ID req))
           | Inl e \<Rightarrow>
               if \<not> errors_Is e ErrNotExist then fail e
               else do {
                 clear_leftovers S (cr_ID req);
                 check (claim_ports S (cr_ID req) (cr_Ports req)) (\<lambda>_. do {
                   r \<leftarrow> admit_and_save S req async;
                   releaseRequestedPorts (cr_ID req) (cr_Ports req);
                   ret r }) }) })"

definition let_createSandbox :: "'o LetService \<Rightarrow> CreateSandboxRequest \<Rightarrow> bool \<Rightarrow> ('o, LetSandbox) lio" where
  "let_createSandbox S req async =
     with_lock (sv_host S) (sv_cfg S) (cr_ID req) (create_locked S req async)"

definition let_CreateSandbox :: "'o LetService \<Rightarrow> CreateSandboxRequest \<Rightarrow> ('o, LetSandbox) lio" where
  "let_CreateSandbox S req = let_createSandbox S req False"

definition CreateSandboxAsync :: "'o LetService \<Rightarrow> CreateSandboxRequest \<Rightarrow> ('o, LetSandbox) lio" where
  "CreateSandboxAsync S req = check (let_createSandbox S req True) ok"

subsection \<open>Deleting and reading\<close>

definition delete_locked :: "'o LetService \<Rightarrow> string \<Rightarrow> ('o, unit) lio" where
  "delete_locked S sandboxID = do {
     r \<leftarrow> store_Load (sv_host S) (sv_cfg S) sandboxID;
     (case r of
        Inl e \<Rightarrow>
          if errors_Is e ErrNotExist then do { releaseReservedPorts sandboxID; ok () } else fail e
      | Inr sbx \<Rightarrow> do {
          sbx1 \<leftarrow> setSandboxPhase S sbx LetPhaseDeleting [];
          store_Save (sv_host S) (sv_cfg S) sbx1;
          res \<leftarrow> deleteSandboxFromState S sbx1;
          releaseReservedPorts sandboxID;
          clearUnhealthy sandboxID;
          ret res }) }"

definition let_DeleteSandbox :: "'o LetService \<Rightarrow> string \<Rightarrow> ('o, unit) lio" where
  "let_DeleteSandbox S sandboxID =
     with_lock (sv_host S) (sv_cfg S) sandboxID (delete_locked S sandboxID)"

fun refresh_all :: "'o LetService \<Rightarrow> LetSandbox list \<Rightarrow> ('o, LetSandbox list) lact" where
  "refresh_all S [] = ret []"
| "refresh_all S (sbx # rest) = do {
     cp \<leftarrow> refreshSandboxRuntimeState S sbx;
     out \<leftarrow> refresh_all S rest;
     ret (cp # out) }"

definition let_ListSandboxes :: "'o LetService \<Rightarrow> ('o, LetSandbox list) lio" where
  "let_ListSandboxes S =
     check (store_List (sv_host S) (sv_cfg S)) (\<lambda>all. do { out \<leftarrow> refresh_all S all; ok out })"

definition page_limit :: "int \<Rightarrow> nat" where
  "page_limit n = nat (let l = (if n \<le> 0 then 20 else n) in if l > 200 then 200 else l)"

text \<open>Where the page starts: at the first id after the cursor, at the end if there is none.\<close>

definition page_start :: "string \<Rightarrow> LetSandbox list \<Rightarrow> nat" where
  "page_start cursor all =
     (if cursor = [] then 0 else length (takeWhile (\<lambda>s. \<not> cursor < ls_ID s) all))"

definition by_id :: "LetSandbox \<Rightarrow> LetSandbox \<Rightarrow> bool" where
  "by_id a b \<longleftrightarrow> ls_ID a < ls_ID b"

definition let_ListSandboxesPage :: "'o LetService \<Rightarrow> string \<Rightarrow> int \<Rightarrow> ('o, LetSandbox list \<times> string) lio" where
  "let_ListSandboxesPage S cursor n =
     check (store_List (sv_host S) (sv_cfg S)) (\<lambda>listed. do {
       let all = sort_by by_id listed;
       let start = page_start cursor all;
       page \<leftarrow> refresh_all S (take (page_limit n) (drop start all));
       ok (page, if start + length page < length all \<and> page \<noteq> [] then ls_ID (last page) else []) })"

definition let_GetSandbox :: "'o LetService \<Rightarrow> string \<Rightarrow> ('o, LetSandbox) lio" where
  "let_GetSandbox S i =
     check (store_Load (sv_host S) (sv_cfg S) i) (\<lambda>sbx. do { cp \<leftarrow> refreshSandboxRuntimeState S sbx; ok cp })"

subsection \<open>Starting the service\<close>

definition let_New :: "Environment \<Rightarrow> 'o Host \<Rightarrow> 'o CriStubs \<Rightarrow> 'o IptOps \<Rightarrow> LetConfig \<Rightarrow> ('o, 'o LetService) lio" where
  "let_New env H C I cfg0 =
     (let cfg = WithConfigDefaults env cfg0 in
      check (do {
          e \<leftarrow> outside (ho_dial_cri H (''unix://'' @ normalizeCRIEndpoint (ContainerdAddress cfg)));
          (case e of
             Some err \<Rightarrow> fail (Errorf_w (''dial cri endpoint \"'' @ ContainerdAddress cfg @ ''\"'') err)
           | None \<Rightarrow> ok ()) }) (\<lambda>_.
      check (outside_err (ho_new_iptables H)) (\<lambda>_.
      check (EnsureBridgeNetfilter H) (\<lambda>_.
      check (store_NewFileStore H cfg) (\<lambda>_.
      check (EnsureGlobalChains I (CSVEnv env ''SANDBOX_FORWARD_HOOK_CHAINS'' [''FORWARD'', ''DOCKER-USER''])) (\<lambda>_. do {
        modify_let (\<lambda>w. w\<lparr>lw_reserved := [], lw_since := [], lw_hits := []\<rparr>);
        check (os_MkdirAll H (LockDir cfg)) (\<lambda>_.
          ok \<lparr>sv_host = H, sv_cri = C, sv_ipt = I, sv_cfg = cfg\<rparr>) }))))))"

end
