(* ===== verification/Let_Evolve.thy ===== *)
theory Let_Evolve
  imports Let_Lifecycle
begin

section \<open>sbxlet: how calls move the file system\<close>

text \<open>
  \<open>fs_rel P\<close> relates two states of the agent whose file systems are related by \<open>P\<close>.  Every call
  moves the state along \<open>fs_rel P\<close> for a preorder \<open>P\<close> that the change it makes to the file
  system respects; calls that only read, and calls to the outside, do for any \<open>P\<close>.
\<close>

definition fs_rel :: "(file_system \<Rightarrow> file_system \<Rightarrow> bool) \<Rightarrow> 'o let_world \<Rightarrow> 'o let_world \<Rightarrow> bool" where
  "fs_rel P w w' \<longleftrightarrow> P (lw_fs w) (lw_fs w')"

lemma io_relD: "state_io_rel R m \<Longrightarrow> run_state m w = (r, w') \<Longrightarrow> R w w'"
  by (drule state_io_relD) simp_all

lemma preorder_fs_rel [evolve_intros]: "preorder_rel P \<Longrightarrow> preorder_rel (fs_rel P)"
  by (auto simp: preorder_rel_def reflp_def transp_def fs_rel_def)

lemma fs_same: "preorder_rel P \<Longrightarrow> lw_fs w = lw_fs w' \<Longrightarrow> fs_rel P w w'"
  by (simp add: fs_rel_def preorder_rel_refl)

lemma fs_outside [evolve_intros]: "preorder_rel P \<Longrightarrow> state_io_rel (fs_rel P) (outside f)"
  by (auto simp: state_io_rel_def outside_def fs_same)

lemma fs_gets [evolve_intros]: "preorder_rel P \<Longrightarrow> state_io_rel (fs_rel P) (gets_let f)"
  by (auto simp: state_io_rel_def gets_let_def fs_same)

lemma fs_modify: "preorder_rel P \<Longrightarrow> (\<And>w. lw_fs (f w) = lw_fs w) \<Longrightarrow> state_io_rel (fs_rel P) (modify_let f)"
  by (auto simp: state_io_rel_def modify_let_def fs_same)

lemma fs_Now [evolve_intros]: "preorder_rel P \<Longrightarrow> state_io_rel (fs_rel P) (let_Now H)"
  unfolding let_Now_def by (rule fs_outside)

lemma fs_outside_err [evolve_intros]: "preorder_rel P \<Longrightarrow> state_io_rel (fs_rel P) (outside_err f)"
  unfolding outside_err_def by (intro evolve_intros)

lemma fs_os_call:
  assumes "preorder_rel P" "\<And>fs x fs'. f fs = Inr (x, fs') \<Longrightarrow> P fs fs'"
  shows "state_io_rel (fs_rel P) (os_call H p f)"
  unfolding os_call_def using assms
  by (intro evolve_intros)
    (auto simp: state_io_rel_def fs_rel_def preorder_rel_refl split: sum.splits prod.splits)

lemma fs_read [evolve_intros]:
  assumes "preorder_rel P"
  shows "state_io_rel (fs_rel P) (os_ReadFile H p)" "state_io_rel (fs_rel P) (os_Stat H p)"
    "state_io_rel (fs_rel P) (os_ReadDir H p)"
  unfolding os_ReadFile_def os_Stat_def os_ReadDir_def
  by (intro fs_os_call assms; auto split: option.splits FsNode.splits if_splits simp: preorder_rel_refl [OF assms])+

lemma fs_write_case: "fs_write p d fs = Inr (x, fs') \<Longrightarrow> map_of fs p \<noteq> Some Dir \<and> fs' = AList.update p (File d) fs"
  by (auto simp: fs_write_def split: if_splits)

lemma fs_WriteFile:
  assumes "preorder_rel P" "\<And>fs d. map_of fs p \<noteq> Some Dir \<Longrightarrow> P fs (AList.update p (File d) fs)"
  shows "state_io_rel (fs_rel P) (os_WriteFile H p d)"
  unfolding os_WriteFile_def
  by (intro evolve_intros io_rel_case_option assms fs_os_call) (auto dest!: fs_write_case simp: assms)

lemma fs_MkdirAll:
  assumes "preorder_rel P" "\<And>fs. P fs (fs @ missing_dirs (ancestors p @ [p]) fs)"
  shows "state_io_rel (fs_rel P) (os_MkdirAll H p)"
  unfolding os_MkdirAll_def by (intro fs_os_call assms) (auto split: if_splits simp: assms)

lemma fs_OpenCreate:
  assumes "preorder_rel P" "\<And>fs. map_of fs p = None \<Longrightarrow> P fs (AList.update p (File (Bytes [])) fs)"
  shows "state_io_rel (fs_rel P) (os_OpenCreate H p)"
  unfolding os_OpenCreate_def
  by (intro fs_os_call assms)
    (auto split: if_splits option.splits FsNode.splits simp: assms preorder_rel_refl [OF assms(1)])

subsection \<open>Directories stay\<close>

definition dirs_kept :: "file_system \<Rightarrow> file_system \<Rightarrow> bool" where
  "dirs_kept fs fs' \<longleftrightarrow> (\<forall>p. map_of fs p = Some Dir \<longrightarrow> map_of fs' p = Some Dir)"

lemma preorder_dirs_kept [evolve_intros]: "preorder_rel dirs_kept"
  by (auto simp: preorder_rel_def reflp_def transp_def dirs_kept_def)

lemma map_of_missing_dirs:
  "map_of (fs @ missing_dirs ps fs) q =
     (case map_of fs q of Some n \<Rightarrow> Some n | None \<Rightarrow> if q \<in> set ps then Some Dir else None)"
proof -
  have "map_of (map (\<lambda>p. (p, Dir)) xs) q = (if q \<in> set xs then Some Dir else None)" for xs
    by (induction xs) auto
  then show ?thesis by (auto simp: missing_dirs_def map_add_def split: option.splits)
qed

lemma dirs_kept_MkdirAll [evolve_intros]: "state_io_rel (fs_rel dirs_kept) (os_MkdirAll H p)"
  by (rule fs_MkdirAll) (auto intro: preorder_dirs_kept simp: dirs_kept_def map_of_missing_dirs)

lemma dirs_kept_WriteFile [evolve_intros]: "state_io_rel (fs_rel dirs_kept) (os_WriteFile H p d)"
  by (rule fs_WriteFile) (auto intro: preorder_dirs_kept simp: dirs_kept_def update_conv')

lemma run_os_call_Inr:
  assumes "run_state (os_call H p f) w = (Inr x, w')"
  shows "f (lw_fs w) = Inr (x, lw_fs w')"
  using assms unfolding os_call_def outside_def
  by (cases "fst (ho_fault H p (lw_out w))"; cases "f (lw_fs w)") auto

lemma run_MkdirAll_Inr:
  assumes "run_state (os_MkdirAll H p) w = (Inr (), w')"
  shows "map_of (lw_fs w') p = Some Dir"
proof -
  let ?bad = "\<exists>q \<in> set (ancestors p @ [p]). (case map_of (lw_fs w) q of Some (File _) \<Rightarrow> True | _ \<Rightarrow> False)"
  have "(if ?bad then Inl (Errorf (''mkdir '' @ p @ '': not a directory''))
      else Inr ((), lw_fs w @ missing_dirs (ancestors p @ [p]) (lw_fs w))) = Inr ((), lw_fs w')"
    using run_os_call_Inr assms unfolding os_MkdirAll_def by fastforce
  then have "\<not> ?bad" "lw_fs w' = lw_fs w @ missing_dirs (ancestors p @ [p]) (lw_fs w)"
    by (auto split: if_splits)
  then show ?thesis
    by (auto simp: map_of_missing_dirs simp del: map_of_append split: option.splits FsNode.splits)
qed

subsection \<open>What calls to the system and the store leave alone\<close>

text \<open>A part of the state that does not depend on the file system, the locks or the outside.\<close>

definition inner :: "('o let_world \<Rightarrow> 'a) \<Rightarrow> bool" where
  "inner f \<longleftrightarrow> (\<forall>w x. f (w\<lparr>lw_out := x\<rparr>) = f w) \<and> (\<forall>w x. f (w\<lparr>lw_fs := x\<rparr>) = f w) \<and>
     (\<forall>w x. f (w\<lparr>lw_locks := x\<rparr>) = f w)"

definition keeps :: "('o let_world \<Rightarrow> 'a) \<Rightarrow> 'o let_world \<Rightarrow> 'o let_world \<Rightarrow> bool" where
  "keeps f w w' \<longleftrightarrow> f w' = f w"

lemma inner_fields: "inner lw_reserved" "inner lw_since" "inner lw_hits" "inner lw_jobs"
  by (simp_all add: inner_def)

lemma preorder_keeps [evolve_intros]: "preorder_rel (keeps f)"
  by (auto simp: preorder_rel_def reflp_def transp_def keeps_def)

lemma keeps_outside [evolve_intros]: "inner f \<Longrightarrow> state_io_rel (keeps f) (outside g)"
  by (simp add: state_io_rel_def outside_def keeps_def inner_def)

lemma keeps_gets [evolve_intros]: "state_io_rel (keeps f) (gets_let g)"
  by (simp add: state_io_rel_def gets_let_def keeps_def)

lemma keeps_os_call [evolve_intros]:
  assumes "inner f"
  shows "state_io_rel (keeps f) (os_call H p k)"
  unfolding os_call_def using assms
  by (intro evolve_intros) (auto simp: state_io_rel_def keeps_def inner_def split: sum.splits prod.splits)

lemma keeps_os [evolve_intros]:
  assumes "inner f"
  shows "state_io_rel (keeps f) (let_Now H)" "state_io_rel (keeps f) (outside_err g)"
    "state_io_rel (keeps f) (os_ReadFile H p)" "state_io_rel (keeps f) (os_ReadDir H p)"
    "state_io_rel (keeps f) (os_Stat H p)" "state_io_rel (keeps f) (os_MkdirAll H p)"
    "state_io_rel (keeps f) (os_OpenCreate H p)" "state_io_rel (keeps f) (os_WriteFile H p d)"
    "state_io_rel (keeps f) (os_RemoveAll H p)" "state_io_rel (keeps f) (os_Remove H p)"
  unfolding let_Now_def outside_err_def os_ReadFile_def os_ReadDir_def os_Stat_def os_MkdirAll_def
    os_OpenCreate_def os_WriteFile_def os_RemoveAll_def os_Remove_def Let_def
  by (intro evolve_intros assms)+

lemma keeps_load_all: "inner f \<Longrightarrow> state_io_rel (keeps f) (load_all H cfg es)"
  by (induction H cfg es rule: load_all.induct) (auto simp: store_Load_def intro!: evolve_intros)

lemma keeps_store [evolve_intros]:
  assumes "inner f"
  shows "state_io_rel (keeps f) (store_Load H cfg i)" "state_io_rel (keeps f) (store_List H cfg)"
    "state_io_rel (keeps f) (store_Save H cfg sb)" "state_io_rel (keeps f) (store_Delete H cfg i)"
    "state_io_rel (keeps f) (acquireSandboxLock H cfg i)" "state_io_rel (keeps f) (unlock cfg i)"
proof -
  have m: "state_io_rel (keeps f) (modify_let (\<lambda>w. w\<lparr>lw_locks := g w\<rparr>))" for g
    using assms by (simp add: state_io_rel_def modify_let_def keeps_def inner_def)
  show "state_io_rel (keeps f) (store_Load H cfg i)" "state_io_rel (keeps f) (store_List H cfg)"
    "state_io_rel (keeps f) (store_Save H cfg sb)" "state_io_rel (keeps f) (store_Delete H cfg i)"
    "state_io_rel (keeps f) (acquireSandboxLock H cfg i)" "state_io_rel (keeps f) (unlock cfg i)"
    unfolding store_Load_def store_List_def store_Save_def store_Delete_def acquireSandboxLock_def unlock_def Let_def
    by (intro evolve_intros assms keeps_load_all m)+
qed

lemma keeps_with_lock [evolve_intros]:
  "inner f \<Longrightarrow> state_io_rel (keeps f) m \<Longrightarrow> state_io_rel (keeps f) (with_lock H cfg i m)"
  unfolding with_lock_def by (intro evolve_intros; assumption)

end
