(* ===== verification/Let_Reconcile.thy ===== *)
theory Let_Reconcile
  imports Let_Lifecycle
begin

section \<open>sbxlet: reconciliation\<close>

text \<open>
  \<^verbatim>\<open>sandboxd-let/sandbox/reconcile.go\<close>: one pass over the stored sandboxes that removes those
  whose runtime objects have been missing or down for long enough, gives up on creations that
  are stuck, and drops the published ports of sandboxes without a state.  The loop of
  \<^verbatim>\<open>StartReconcileLoop\<close> runs \<open>ReconcileOnce\<close> at each tick and only logs its error.
\<close>

definition shouldFinalizeUnhealthy :: "'o LetService \<Rightarrow> string \<Rightarrow> ('o, bool) lact" where
  "shouldFinalizeUnhealthy S sandboxID = do {
     now \<leftarrow> let_Now (sv_host S);
     since \<leftarrow> gets_let lw_since;
     (case map_of since sandboxID of
        None \<Rightarrow> do {
          modify_let (\<lambda>w. w\<lparr>lw_since := AList.update sandboxID now (lw_since w),
                            lw_hits := AList.update sandboxID 1 (lw_hits w)\<rparr>);
          ret False }
      | Some t0 \<Rightarrow> do {
          modify_let (\<lambda>w. w\<lparr>lw_hits := AList.update sandboxID
            ((case map_of (lw_hits w) sandboxID of Some n \<Rightarrow> n | None \<Rightarrow> 0) + 1) (lw_hits w)\<rparr>);
          hits \<leftarrow> gets_let lw_hits;
          (if now - t0 < ReconcileGrace (sv_cfg S) then ret False
           else ret (ReconcileHits (sv_cfg S) \<le>
             (case map_of hits sandboxID of Some n \<Rightarrow> n | None \<Rightarrow> 0))) }) }"

definition isContainerRunning :: "'o LetService \<Rightarrow> string \<Rightarrow> ('o, bool) lact" where
  "isContainerRunning S i = do {
     r \<leftarrow> containerStatus (sv_cri S) i;
     ret (case r of Inl _ \<Rightarrow> False | Inr d \<Rightarrow> det_State d = CONTAINER_RUNNING) }"

fun all_running :: "'o LetService \<Rightarrow> (string \<times> ContainerState) list \<Rightarrow> ('o, bool) lact" where
  "all_running S [] = ret True"
| "all_running S ((_, c) # rest) = do {
     b \<leftarrow> isContainerRunning S (cs_ID c);
     (if \<not> b then ret False else all_running S rest) }"

definition pod_exists :: "'o LetService \<Rightarrow> LetSandbox \<Rightarrow> ('o, bool) lact" where
  "pod_exists S sbx =
     (if ls_PauseID sbx = [] then ret False
      else do {
        r \<leftarrow> podSandboxStatus (sv_cri S) (ls_PauseID sbx);
        ret (case r of Inl _ \<Rightarrow> False | Inr _ \<Rightarrow> True) })"

definition strike :: "'o LetService \<Rightarrow> LetSandbox \<Rightarrow> ('o, unit) lact" where
  "strike S sbx = do {
     b \<leftarrow> shouldFinalizeUnhealthy S (ls_ID sbx);
     (if b then do { deleteSandboxFromState S sbx; clearUnhealthy (ls_ID sbx) } else ret ()) }"

definition reconcile_runtime :: "'o LetService \<Rightarrow> LetSandbox \<Rightarrow> ('o, unit) lact" where
  "reconcile_runtime S sbx = do {
     exists \<leftarrow> pod_exists S sbx;
     (if \<not> exists then strike S sbx
      else do {
        healthy \<leftarrow> all_running S (ls_Containers sbx);
        (if \<not> healthy then strike S sbx else clearUnhealthy (ls_ID sbx)) }) }"

definition provisioning_window :: int where "provisioning_window = 2 * ns_minute"

definition give_up :: "'o LetService \<Rightarrow> LetSandbox \<Rightarrow> ('o, unit) lact" where
  "give_up S sbx = do {
     sbx1 \<leftarrow> setSandboxPhase S sbx LetPhaseError ''provisioning timeout'';
     ignore (store_Save (sv_host S) (sv_cfg S) sbx1) }"

definition let_reconcile_one :: "'o LetService \<Rightarrow> LetSandbox \<Rightarrow> ('o, unit) lact" where
  "let_reconcile_one S sbx = do {
     held \<leftarrow> isSandboxLockHeld (sv_host S) (sv_cfg S) (ls_ID sbx);
     (if held \<or> ls_Phase sbx = LetPhaseDeleting then ret ()
      else if ls_Phase sbx = LetPhaseCreating then do {
        now1 \<leftarrow> let_Now (sv_host S);
        (if now1 - ls_CreatedAt sbx < provisioning_window then ret ()
         else do {
           now2 \<leftarrow> let_Now (sv_host S);
           (if provisioning_window \<le> now2 - ls_CreatedAt sbx then give_up S sbx else reconcile_runtime S sbx) }) }
      else reconcile_runtime S sbx) }"

definition ReconcileOnce :: "'o LetService \<Rightarrow> ('o, unit) lio" where
  "ReconcileOnce S =
     check (store_List (sv_host S) (sv_cfg S)) (\<lambda>stateList. do {
       for_each (let_reconcile_one S) stateList;
       DeleteOrphanHostPortDNAT (sv_ipt S) (map ls_ID stateList);
       ok () })"

subsection \<open>What runs and whether it is healthy\<close>

definition runtime_sandbox_id :: "PodSandboxStatus \<Rightarrow> string option" where
  "runtime_sandbox_id st =
     (case pst_Metadata st of
        None \<Rightarrow> None
      | Some m \<Rightarrow>
          if HasPrefix (md_Uid m) ''sbx-'' \<or> HasPrefix (md_Name m) ''sbx-'' then
            (let i = (if TrimSpace (md_Uid m) = [] then TrimSpace (md_Name m) else TrimSpace (md_Uid m)) in
             if i = [] then None else Some i)
          else None)"

fun runtime_ids :: "'o LetService \<Rightarrow> string list \<Rightarrow> ('o, string list) lact" where
  "runtime_ids S [] = ret []"
| "runtime_ids S (i # rest) =
     (if i = [] then runtime_ids S rest
      else do {
        st \<leftarrow> podSandboxStatus (sv_cri S) i;
        out \<leftarrow> runtime_ids S rest;
        ret (case st of
           Inl _ \<Rightarrow> out
         | Inr s \<Rightarrow> (case runtime_sandbox_id s of None \<Rightarrow> out | Some j \<Rightarrow> List.insert j out)) })"

definition ListRuntimeSandboxIDs :: "'o LetService \<Rightarrow> ('o, string list) lio" where
  "ListRuntimeSandboxIDs S =
     check (listCRISandboxIDs (sv_cri S)) (\<lambda>pods. do { ids \<leftarrow> runtime_ids S pods; ok (sort_by (<) ids) })"

definition IsSandboxHealthy :: "'o LetService \<Rightarrow> string \<Rightarrow> ('o, bool) lio" where
  "IsSandboxHealthy S sandboxID =
     check (store_Load (sv_host S) (sv_cfg S) sandboxID)
       (\<lambda>sbx. do { b \<leftarrow> all_running S (ls_Containers sbx); ok b })"

end
