(* ===== verification/Let_Logs.thy ===== *)
theory Let_Logs
  imports Let_World
begin

section \<open>sbxlet: container logs\<close>

text \<open>
  \<^verbatim>\<open>sandboxd-let/sandbox/logs.go\<close>: a page of the lines of a log file from a byte offset.  The file
  is read at one point in time: \<open>log_lines\<close> takes what a buffered reader positioned at the offset
  delivers.  An offset beyond the end of the file reads nothing.
\<close>

record LogsPage =
  lp_Lines :: "string list"
  lp_NextCursor :: string
  lp_HasMore :: bool

definition validatePathToken :: "string \<Rightarrow> GoError option" where
  "validatePathToken v =
     (if v = [] then Some (Errorf ''empty path token'')
      else if Contains v ''/'' \<or> Contains v [CHR 0x5C] \<or> Contains v ''..'' then Some (Errorf ''invalid path token'')
      else None)"

definition containerLogPath :: "LetConfig \<Rightarrow> string \<Rightarrow> string \<Rightarrow> GoError + string" where
  "containerLogPath cfg sandboxID containerName =
     (if validatePathToken sandboxID \<noteq> None then Inl (Errorf ''invalid sandbox id'')
      else if validatePathToken containerName \<noteq> None then Inl (Errorf ''invalid container name'')
      else
        let logDir = filepath_Join [StateBaseDir cfg, sandboxID, ''logs''];
            path = Clean (filepath_Join [logDir, containerName @ ''.log'']);
            logDirClean = Clean logDir in
        if path \<noteq> logDirClean \<and> \<not> HasPrefix path (logDirClean @ ''/'') then Inl (Errorf ''invalid log path'')
        else Inr path)"

definition trim_line :: "string \<Rightarrow> string" where
  "trim_line l = rev (dropWhile (\<lambda>c. c = CHR 0x0A \<or> c = CHR 0x0D) (rev l))"

text \<open>\<^verbatim>\<open>ReadString('\n')\<close>: up to and including the line feed, or the rest with end of file.\<close>

definition read_string :: "string \<Rightarrow> string \<times> string \<times> bool" where
  "read_string s =
     (let l = takeWhile (\<lambda>c. c \<noteq> CHR 0x0A) s; r = dropWhile (\<lambda>c. c \<noteq> CHR 0x0A) s in
      if r = [] then (l, [], True) else (l @ [CHR 0x0A], tl r, False))"

text \<open>The loop: \<open>n\<close> lines are still wanted; the result is the lines, the next offset and whether more follows.\<close>

fun read_lines :: "nat \<Rightarrow> string \<Rightarrow> int \<Rightarrow> string list \<Rightarrow> string list \<times> int \<times> bool" where
  "read_lines 0 s next lines = (lines, next, s \<noteq> [])"
| "read_lines (Suc n) s next lines =
     (let (line, rest, eof) = read_string s;
          next1 = (if line \<noteq> [] then next + int (length line) else next);
          lines1 = (if line \<noteq> [] then lines @ [trim_line line] else lines) in
      if eof then (lines1, next1, False) else read_lines n rest next1 lines1)"

definition log_limit :: "int \<Rightarrow> nat" where
  "log_limit n = nat (let l = (if n \<le> 0 then 100 else n) in if l > 1000 then 1000 else l)"

definition log_offset :: "string \<Rightarrow> GoError + int" where
  "log_offset cursor =
     (if TrimSpace cursor = [] then Inr 0
      else (case Atoi cursor of
              None \<Rightarrow> Inl (sentinel_err ErrInvalidCursor)
            | Some v \<Rightarrow> if v < 0 then Inl (sentinel_err ErrInvalidCursor) else Inr v))"

definition log_page :: "string \<Rightarrow> int \<Rightarrow> int \<Rightarrow> LogsPage" where
  "log_page content offset n =
     (let (lines, next, more) = read_lines (log_limit n) (drop (nat offset) content) offset [] in
      \<lparr>lp_Lines = lines, lp_NextCursor = show_int next, lp_HasMore = more\<rparr>)"

definition GetContainerLogs :: "'o Host \<Rightarrow> LetConfig \<Rightarrow> string \<Rightarrow> string \<Rightarrow> string \<Rightarrow> int \<Rightarrow> ('o, LogsPage) lio" where
  "GetContainerLogs H cfg sandboxID containerName cursor n =
     (if sandboxID = [] \<or> containerName = [] then
        fail (Errorf ''sandbox id and container name are required'')
      else (case log_offset cursor of
              Inl e \<Rightarrow> fail e
            | Inr offset \<Rightarrow>
                (case containerLogPath cfg sandboxID containerName of
                   Inl e \<Rightarrow> fail e
                 | Inr path \<Rightarrow>
                     check (os_ReadFile H path) (\<lambda>d. ok (log_page (file_text d) offset n)))))"

end
