(* ===== verification/Go_Time.thy ===== *)
theory Go_Time
  imports GoLib
begin

section \<open>The part of time that is printed\<close>

text \<open>
  Times are nanoseconds since the epoch, in UTC.  \<open>civil_date\<close> turns a number of days since the
  epoch into year, month and day of the proleptic Gregorian calendar that \<^verbatim>\<open>time.Format\<close> prints;
  \<open>decimal k n\<close> are the last \<open>k\<close> decimal digits of \<open>n\<close>.
\<close>

fun decimal :: "nat \<Rightarrow> int \<Rightarrow> string" where
  "decimal 0 n = []"
| "decimal (Suc k) n = decimal k (n div 10) @ [char_of (48 + nat (n mod 10))]"

definition civil_date :: "int \<Rightarrow> int \<times> int \<times> int" where
  "civil_date days =
     (let z = days + 719468;
          era = z div 146097;
          doe = z mod 146097;
          yoe = (doe - doe div 1460 + doe div 36524 - doe div 146096) div 365;
          doy = doe - (365 * yoe + yoe div 4 - yoe div 100);
          mp = (5 * doy + 2) div 153;
          d = doy - (153 * mp + 2) div 5 + 1;
          m = (if mp < 10 then mp + 3 else mp - 9) in
      (yoe + era * 400 + (if m \<le> 2 then 1 else 0), m, d))"

text \<open>\<^verbatim>\<open>Truncate(time.Hour)\<close>: hours since the zero time are hours since the epoch.\<close>

definition time_Hour :: int where "time_Hour = 3600 * 1000000000"

definition truncateToHour :: "int \<Rightarrow> int" where
  "truncateToHour t = t - t mod time_Hour"

lemma truncate_idem [simp]: "truncateToHour (truncateToHour t) = truncateToHour t"
  by (simp add: truncateToHour_def time_Hour_def)

lemma length_decimal [simp]: "length (decimal k n) = k"
  by (induction k arbitrary: n) simp_all

end
