(* ===== verification/Let_Http.thy ===== *)
theory Let_Http
  imports Let_Reconcile Let_Logs Go_Time
begin

section \<open>sbxlet: the HTTP handlers\<close>

text \<open>
  \<^verbatim>\<open>sandboxd-let/http\<close>: \<^verbatim>\<open>handlers.go\<close>, \<^verbatim>\<open>dto.go\<close>, \<^verbatim>\<open>response.go\<close> and the route table of
  \<^verbatim>\<open>router.go\<close>.  What gin's \<^verbatim>\<open>ShouldBindJSON\<close> makes of a body is an argument, and path and
  query parameters arrive decoded.  The static page at the root and the swagger route
  are left out; the logging middleware is in \<open>Pkg_Httplog\<close>.
\<close>

record ContainerSyncStatus =
  csy_Name :: string
  csy_Phase :: string
  csy_Error :: string
  csy_TaskStatus :: string

record LetSyncStatus =
  lsy_ID :: string
  lsy_IP :: string
  lsy_Phase :: string
  lsy_Error :: string
  lsy_UnhealthyContainers :: "ContainerSyncStatus list"

datatype LetBody =
    LetErrorResponse string
  | LetHealthResponse bool
  | NodeStatusResponse bool NodeResourceSnapshot
  | CreateSandboxResponse LetSandbox
  | GetSandboxResponse LetSandbox
  | ListSandboxesResponse "LetSandbox list" string
  | LetStatusesResponse "LetSyncStatus list" "string list"
  | DeleteSandboxResponse string string
  | ReconcileResponse bool
  | ContainerLogsResponse string string LogsPage
  | NoRoute

record LetResponse =
  lr_code :: int
  lr_body :: LetBody

definition reply :: "int \<Rightarrow> LetBody \<Rightarrow> ('o, LetResponse) lact" where
  "reply code b = ret \<lparr>lr_code = code, lr_body = b\<rparr>"

definition respondErrorMessage :: "int \<Rightarrow> string \<Rightarrow> ('o, LetResponse) lact" where
  "respondErrorMessage code msg = reply code (LetErrorResponse msg)"

definition respondError :: "int \<Rightarrow> GoError \<Rightarrow> ('o, LetResponse) lact" where
  "respondError code e = respondErrorMessage code (err_text e)"

definition healthz :: "('o, LetResponse) lact" where
  "healthz = reply StatusOK (LetHealthResponse True)"

definition nodeStatus :: "'o LetService \<Rightarrow> ('o, LetResponse) lact" where
  "nodeStatus S = do {
     r \<leftarrow> let_NodeResourceSnapshot (sv_host S) (sv_cfg S);
     (case r of
        Inl e \<Rightarrow> respondError StatusInternalServerError e
      | Inr snap \<Rightarrow> reply StatusOK (NodeStatusResponse True snap)) }"

subsection \<open>Create\<close>

text \<open>\<^verbatim>\<open>Format("20060102-150405")\<close> of a time in nanoseconds since the epoch, in UTC.\<close>

definition time_stamp :: "int \<Rightarrow> string" where
  "time_stamp t =
     (let secs = t div 1000000000; (y, m, d) = civil_date (secs div 86400); s = secs mod 86400 in
      decimal 4 y @ decimal 2 m @ decimal 2 d @ ''-'' @
      decimal 2 (s div 3600) @ decimal 2 (s div 60 mod 60) @ decimal 2 (s mod 60))"

lemma time_stamp_examples:
  "time_stamp 0 = ''19700101-000000''" "time_stamp 1709209845000000001 = ''20240229-123045''"
  by code_simp+

definition createSandbox :: "'o LetService \<Rightarrow> GoError + CreateSandboxRequest \<Rightarrow> ('o, LetResponse) lact" where
  "createSandbox S bound =
     (case bound of
        Inl e \<Rightarrow> respondError StatusBadRequest e
      | Inr req0 \<Rightarrow> do {
          req \<leftarrow> (if cr_ID req0 = [] then do {
              now \<leftarrow> let_Now (sv_host S);
              ret (req0\<lparr>cr_ID := ''sbx-'' @ time_stamp now\<rparr>) } else ret req0);
          r \<leftarrow> CreateSandboxAsync S req;
          (case r of
             Inl e \<Rightarrow> respondError StatusBadRequest e
           | Inr sbx \<Rightarrow> reply StatusAccepted (CreateSandboxResponse sbx)) })"

subsection \<open>Read\<close>

definition getSandbox :: "'o LetService \<Rightarrow> string \<Rightarrow> ('o, LetResponse) lact" where
  "getSandbox S i = do {
     r \<leftarrow> let_GetSandbox S i;
     (case r of
        Inl e \<Rightarrow> if errors_Is e ErrNotExist then respondErrorMessage StatusNotFound ''not found''
          else respondError StatusInternalServerError e
      | Inr sbx \<Rightarrow> reply StatusOK (GetSandboxResponse sbx)) }"

definition listSandboxes :: "'o LetService \<Rightarrow> string option \<Rightarrow> string option \<Rightarrow> ('o, LetResponse) lact" where
  "listSandboxes S cursor_query limit_query = do {
     r \<leftarrow> let_ListSandboxesPage S (DefaultQuery cursor_query []) (Atoi_value (DefaultQuery limit_query ''20''));
     (case r of
        Inl e \<Rightarrow> respondError StatusInternalServerError e
      | Inr (items, nextCursor) \<Rightarrow> reply StatusOK (ListSandboxesResponse items nextCursor)) }"

definition unhealthy :: "ContainerState \<Rightarrow> bool" where
  "unhealthy st \<longleftrightarrow>
     (let phase = ToLower (TrimSpace (cs_Phase st)) in
      \<not> ((phase = ''running'' \<or> phase = ''creating'') \<and> TrimSpace (cs_Error st) = []))"

definition toSandboxSyncStatus :: "LetSandbox \<Rightarrow> LetSyncStatus" where
  "toSandboxSyncStatus sbx =
     \<lparr>lsy_ID = ls_ID sbx, lsy_IP = ls_IP sbx, lsy_Phase = ls_Phase sbx, lsy_Error = ls_Error sbx,
      lsy_UnhealthyContainers =
        map (\<lambda>st. \<lparr>csy_Name = cs_Name st, csy_Phase = cs_Phase st, csy_Error = cs_Error st,
                    csy_TaskStatus = cs_TaskStatus st\<rparr>)
          (filter unhealthy (map snd (ls_Containers sbx)))\<rparr>"

fun wanted_ids :: "string list \<Rightarrow> string list \<Rightarrow> string list" where
  "wanted_ids seen [] = []"
| "wanted_ids seen (raw # rest) =
     (let i = TrimSpace raw in
      if i = [] \<or> i \<in> set seen then wanted_ids seen rest else i # wanted_ids (i # seen) rest)"

fun collect_statuses :: "'o LetService \<Rightarrow> string list \<Rightarrow> LetSyncStatus list \<Rightarrow> string list
    \<Rightarrow> ('o, LetResponse) lact" where
  "collect_statuses S [] items missing =
     reply StatusOK (LetStatusesResponse items (sort_by (<) missing))"
| "collect_statuses S (i # rest) items missing = do {
     r \<leftarrow> let_GetSandbox S i;
     (case r of
        Inl e \<Rightarrow> if errors_Is e ErrNotExist then collect_statuses S rest items (missing @ [i])
          else respondError StatusInternalServerError e
      | Inr sbx \<Rightarrow> collect_statuses S rest (items @ [toSandboxSyncStatus sbx]) missing) }"

definition sandboxStatuses :: "'o LetService \<Rightarrow> GoError + string list \<Rightarrow> ('o, LetResponse) lact" where
  "sandboxStatuses S bound =
     (case bound of
        Inl e \<Rightarrow> respondError StatusBadRequest e
      | Inr raw \<Rightarrow>
          if raw = [] then reply StatusOK (LetStatusesResponse [] [])
          else let ids = wanted_ids [] raw in
            if 200 < length ids then respondErrorMessage StatusBadRequest ''too many ids (max 200)''
            else collect_statuses S ids [] [])"

subsection \<open>Delete, reconcile, logs\<close>

definition deleteSandbox :: "'o LetService \<Rightarrow> string \<Rightarrow> ('o, LetResponse) lact" where
  "deleteSandbox S i = do {
     r \<leftarrow> let_DeleteSandbox S i;
     (case r of
        Inl e \<Rightarrow> respondError StatusInternalServerError e
      | Inr _ \<Rightarrow> reply StatusOK (DeleteSandboxResponse i ''deleted'')) }"

definition reconcile :: "'o LetService \<Rightarrow> ('o, LetResponse) lact" where
  "reconcile S = do {
     r \<leftarrow> ReconcileOnce S;
     (case r of
        Inl e \<Rightarrow> respondError StatusInternalServerError e
      | Inr _ \<Rightarrow> reply StatusOK (ReconcileResponse True)) }"

definition logs_missing :: "'o LetService \<Rightarrow> string \<Rightarrow> string \<Rightarrow> ('o, LetResponse) lact" where
  "logs_missing S sandboxID containerName = do {
     r \<leftarrow> let_GetSandbox S sandboxID;
     (case r of
        Inr sbx \<Rightarrow>
          if map_of (ls_Containers sbx) containerName \<noteq> None
          then reply StatusOK (ContainerLogsResponse sandboxID containerName
            \<lparr>lp_Lines = [], lp_NextCursor = ''0'', lp_HasMore = False\<rparr>)
          else respondErrorMessage StatusNotFound ''logs not found''
      | Inl _ \<Rightarrow> respondErrorMessage StatusNotFound ''logs not found'') }"

definition getContainerLogs :: "'o LetService \<Rightarrow> string \<Rightarrow> string \<Rightarrow> string option \<Rightarrow> string option
    \<Rightarrow> ('o, LetResponse) lact" where
  "getContainerLogs S sandboxID containerName cursor_query limit_query =
     (let limitRaw = DefaultQuery limit_query []; n = (if limitRaw = [] then Some 100 else Atoi limitRaw) in
      case n of
        None \<Rightarrow> respondErrorMessage StatusBadRequest ''invalid limit''
      | Some l \<Rightarrow>
          if l < 0 then respondErrorMessage StatusBadRequest ''invalid limit''
          else do {
            r \<leftarrow> GetContainerLogs (sv_host S) (sv_cfg S) sandboxID containerName (DefaultQuery cursor_query []) l;
            (case r of
               Inl e \<Rightarrow>
                 if errors_Is e ErrNotExist then logs_missing S sandboxID containerName
                 else if errors_Is e ErrInvalidCursor then respondErrorMessage StatusBadRequest ''invalid cursor''
                 else respondErrorMessage StatusInternalServerError ''failed to read logs''
             | Inr page \<Rightarrow> reply StatusOK (ContainerLogsResponse sandboxID containerName page)) })"

subsection \<open>Routes\<close>

record HttpRequest =
  rq_Method :: string
  rq_Segments :: "string list"
  rq_Query :: "(string \<times> string) list"
  rq_Create :: "GoError + CreateSandboxRequest"
  rq_IDs :: "GoError + string list"

datatype LetRoute =
    RHealthz | RNodeStatus | RList | RGet string | RLogs string string | RStatuses | RCreate
  | RDelete string | RReconcile

text \<open>A path parameter matches one non-empty segment.\<close>

definition let_route :: "string \<Rightarrow> string list \<Rightarrow> LetRoute option" where
  "let_route meth segs =
     (if meth = ''GET'' then
        (case segs of
           [a] \<Rightarrow> if a = ''healthz'' then Some RHealthz else None
         | [a, b] \<Rightarrow> if a = ''v1'' \<and> b = ''sandboxes'' then Some RList else None
         | [a, b, c] \<Rightarrow>
             if a = ''v1'' \<and> b = ''node'' \<and> c = ''status'' then Some RNodeStatus
             else if a = ''v1'' \<and> b = ''sandboxes'' \<and> c \<noteq> [] then Some (RGet c) else None
         | [a, b, c, d, e, f] \<Rightarrow>
             if a = ''v1'' \<and> b = ''sandboxes'' \<and> c \<noteq> [] \<and> d = ''containers'' \<and> e \<noteq> [] \<and> f = ''logs''
             then Some (RLogs c e) else None
         | _ \<Rightarrow> None)
      else if meth = ''POST'' then
        (if segs = [''v1'', ''sandboxes'', ''statuses''] then Some RStatuses
         else if segs = [''v1'', ''sandboxes''] then Some RCreate
         else if segs = [''v1'', ''reconcile''] then Some RReconcile else None)
      else if meth = ''DELETE'' then
        (case segs of
           [a, b, c] \<Rightarrow> if a = ''v1'' \<and> b = ''sandboxes'' \<and> c \<noteq> [] then Some (RDelete c) else None
         | _ \<Rightarrow> None)
      else None)"

definition let_serve :: "'o LetService \<Rightarrow> HttpRequest \<Rightarrow> ('o, LetResponse) lact" where
  "let_serve S rq =
     (case let_route (rq_Method rq) (rq_Segments rq) of
        None \<Rightarrow> reply StatusNotFound NoRoute
      | Some RHealthz \<Rightarrow> healthz
      | Some RNodeStatus \<Rightarrow> nodeStatus S
      | Some RList \<Rightarrow> listSandboxes S (map_of (rq_Query rq) ''cursor'') (map_of (rq_Query rq) ''limit'')
      | Some (RGet i) \<Rightarrow> getSandbox S i
      | Some (RLogs i c) \<Rightarrow>
          getContainerLogs S i c (map_of (rq_Query rq) ''cursor'') (map_of (rq_Query rq) ''limit'')
      | Some RStatuses \<Rightarrow> sandboxStatuses S (rq_IDs rq)
      | Some RCreate \<Rightarrow> createSandbox S (rq_Create rq)
      | Some (RDelete i) \<Rightarrow> deleteSandbox S i
      | Some RReconcile \<Rightarrow> reconcile S)"

end
