(* ===== verification/Let_Reads.thy ===== *)
theory Let_Reads
  imports Let_Evolve Let_Http
begin

section \<open>sbxlet: what leaves the file system alone\<close>

text \<open>
  The calls to the container runtime, to the packet filter, to the clock and those that only
  read files move the state along \<open>fs_rel P\<close> for every preorder \<open>P\<close>.
\<close>

lemma fs_cri [evolve_intros]:
  assumes "preorder_rel P"
  shows "state_io_rel (fs_rel P) (pullImage C img)" "state_io_rel (fs_rel P) (runPodSandbox C c h)"
    "state_io_rel (fs_rel P) (podSandboxStatus C i)" "state_io_rel (fs_rel P) (createContainer C i k c)"
    "state_io_rel (fs_rel P) (startContainer C i)" "state_io_rel (fs_rel P) (containerStatus C i)"
    "state_io_rel (fs_rel P) (stopAndRemovePodSandbox C i)" "state_io_rel (fs_rel P) (listPodSandboxes C)"
    "state_io_rel (fs_rel P) (findManagedPodSandboxID C i)"
  unfolding pullImage_def runPodSandbox_def podSandboxStatus_def createContainer_def startContainer_def
    containerStatus_def stopAndRemovePodSandbox_def listPodSandboxes_def findManagedPodSandboxID_def
  by (intro evolve_intros assms)+

lemma fs_filter [evolve_intros]:
  assumes "preorder_rel P"
  shows "state_io_rel (fs_rel P) (ApplySandboxRules H I i ip cidr br eg pp)"
    "state_io_rel (fs_rel P) (DeleteSandboxRules I i ip br pp)"
    "state_io_rel (fs_rel P) (ApplyHostPortDNAT I i ip hf)" "state_io_rel (fs_rel P) (DeleteHostPortDNAT I i ip hf)"
    "state_io_rel (fs_rel P) (DeleteHostPortDNATBySandbox I i)"
  unfolding ApplySandboxRules_def DeleteSandboxRules_def ApplyHostPortDNAT_def DeleteHostPortDNAT_def
    DeleteHostPortDNATBySandbox_def delete_listed_def insertForwardAcceptEarly_def systemNameservers_def Let_def
  by (intro evolve_intros assms)+

lemma fs_first_ipv4: "preorder_rel P \<Longrightarrow> state_io_rel (fs_rel P) (first_ipv4 H i ps)"
  by (induction H i ps rule: first_ipv4.induct)
    (auto simp: parseIPv4FromCNIResultFile_def Let_def intro!: evolve_intros)

lemma fs_first_servers: "preorder_rel P \<Longrightarrow> state_io_rel (fs_rel P) (first_servers H ps)"
  by (induction H ps rule: first_servers.induct) (auto simp: parseNameServers_def intro!: evolve_intros)

lemma fs_first_existing: "preorder_rel P \<Longrightarrow> state_io_rel (fs_rel P) (first_existing H ps)"
  by (induction H ps rule: first_existing.induct) (auto intro!: evolve_intros)

lemma fs_lookups [evolve_intros]:
  assumes "preorder_rel P"
  shows "state_io_rel (fs_rel P) (LookupSandboxIPv4FromResultCache H i)" "state_io_rel (fs_rel P) (cni_ip S i)"
    "state_io_rel (fs_rel P) (sandboxDNSServers H)" "state_io_rel (fs_rel P) (findCgroupV2PathByID H i)"
    "state_io_rel (fs_rel P) (hasRuntimeArtifacts S i)"
  unfolding LookupSandboxIPv4FromResultCache_def cni_ip_def files_in_def sandboxDNSServers_def
    findCgroupV2PathByID_def hasRuntimeArtifacts_def Let_def
  by (intro evolve_intros assms fs_first_ipv4 fs_first_servers fs_first_existing)+

lemma fs_load_all: "preorder_rel P \<Longrightarrow> state_io_rel (fs_rel P) (load_all H cfg es)"
  by (induction H cfg es rule: load_all.induct) (auto simp: store_Load_def intro!: evolve_intros)

lemma fs_store_reads [evolve_intros]:
  assumes "preorder_rel P"
  shows "state_io_rel (fs_rel P) (store_Load H cfg i)" "state_io_rel (fs_rel P) (store_List H cfg)"
    "state_io_rel (fs_rel P) (enforceAdmission H cfg req)" "state_io_rel (fs_rel P) (ensureIPCapacity H cfg i)"
    "state_io_rel (fs_rel P) (ensureHostPortsAvailable S i ps)"
  unfolding store_Load_def store_List_def enforceAdmission_def ensureIPCapacity_def currentAllocatedResources_def
    hostTotalMemoryBytes_def ensureHostPortsAvailable_def check_port_def check_reserved_def check_local_def
    ensureLocalPortFree_def Let_def
  by (intro evolve_intros assms fs_load_all)+

lemma fs_refresh_containers: "preorder_rel P \<Longrightarrow> state_io_rel (fs_rel P) (refresh_containers S sbx v cs)"
  by (induction S sbx v cs rule: refresh_containers.induct)
    (auto simp: fillContainerRuntimeState_def Let_def intro!: evolve_intros)

lemma fs_refresh [evolve_intros]:
  assumes "preorder_rel P"
  shows "state_io_rel (fs_rel P) (refreshSandboxRuntimeState S sbx)"
    "state_io_rel (fs_rel P) (setSandboxPhase S sbx ph e)" "state_io_rel (fs_rel P) (newSandboxState S req)"
  unfolding refreshSandboxRuntimeState_def touch_def pod_vars_def setSandboxPhase_def newSandboxState_def Let_def
  by (intro evolve_intros assms fs_refresh_containers)+

lemma fs_poll: "preorder_rel P \<Longrightarrow> state_io_rel (fs_rel P) (poll_containers S i cs)"
  by (induction S i cs rule: poll_containers.induct) (auto simp: Let_def intro!: evolve_intros)

lemma fs_wait_ready: "preorder_rel P \<Longrightarrow> state_io_rel (fs_rel P) (wait_ready n S sbx)"
  by (induction n) (auto intro!: evolve_intros fs_poll split: poll.split)

lemma fs_dial_all: "preorder_rel P \<Longrightarrow> state_io_rel (fs_rel P) (dial_all S ip ps)"
  by (induction S ip ps rule: dial_all.induct) (auto intro!: evolve_intros)

lemma fs_tcp_rounds: "preorder_rel P \<Longrightarrow> state_io_rel (fs_rel P) (tcp_rounds n S sbx d c)"
  by (induction n arbitrary: c) (auto intro!: evolve_intros fs_dial_all)

lemma fs_waits [evolve_intros]:
  assumes "preorder_rel P"
  shows "state_io_rel (fs_rel P) (waitSandboxReady S sbx)" "state_io_rel (fs_rel P) (waitPublishedTCPReady S sbx)"
  unfolding waitSandboxReady_def waitPublishedTCPReady_def
  by (intro evolve_intros assms fs_wait_ready fs_tcp_rounds)+

lemma fs_maps [evolve_intros]:
  assumes "preorder_rel P"
  shows "state_io_rel (fs_rel P) (unlock cfg i)" "state_io_rel (fs_rel P) (reserveRequestedPorts i ps)"
    "state_io_rel (fs_rel P) (releaseRequestedPorts i ps)" "state_io_rel (fs_rel P) (releaseReservedPorts i)"
    "state_io_rel (fs_rel P) (clearUnhealthy i)"
  unfolding unlock_def reserveRequestedPorts_def releaseRequestedPorts_def releaseReservedPorts_def clearUnhealthy_def
  by (intro fs_modify assms; simp)+

lemma fs_publish [evolve_intros]:
  assumes "preorder_rel P"
  shows "state_io_rel (fs_rel P) (applySandboxNetworkPolicy S sbx)" "state_io_rel (fs_rel P) (applyHostPortPublish S sbx)"
    "state_io_rel (fs_rel P) (cleanupHostPortPublish S sbx)" "state_io_rel (fs_rel P) (cleanupSandboxNetworkPolicy S sbx)"
  unfolding applySandboxNetworkPolicy_def applyHostPortPublish_def cleanupHostPortPublish_def cleanupSandboxNetworkPolicy_def
  by (intro evolve_intros assms)+

subsection \<open>Which sandbox a call returns\<close>

text \<open>\<open>yields Q m\<close>: every value the computation may return satisfies \<open>Q\<close>.\<close>

definition yields :: "('a \<Rightarrow> bool) \<Rightarrow> ('s, 'a) state \<Rightarrow> bool" where
  "yields Q m \<longleftrightarrow> (\<forall>s. Q (fst (run_state m s)))"

lemma yields_ret: "Q x \<Longrightarrow> yields Q (ret x)"
  by (simp add: yields_def)

lemma yields_bind: "yields P m \<Longrightarrow> (\<And>x. P x \<Longrightarrow> yields Q (f x)) \<Longrightarrow> yields Q (m \<bind> f)"
  by (auto simp: yields_def split: prod.splits) (metis fst_conv)

lemma yields_last: "(\<And>x. yields Q (f x)) \<Longrightarrow> yields Q (m \<bind> f)"
  by (rule yields_bind [where P = "\<lambda>_. True"]) (simp_all add: yields_def)

lemma io_rel_bind_yields:
  assumes "preorder_rel R" "state_io_rel R m" "yields Q m" "\<And>x. Q x \<Longrightarrow> state_io_rel R (f x)"
  shows "state_io_rel R (m \<bind> f)"
proof -
  have "R s (snd (run_state (m \<bind> f) s))" for s
  proof -
    obtain x s1 where m: "run_state m s = (x, s1)" by fastforce
    then have "Q x" using assms(3) by (metis yields_def fst_conv)
    then have "state_io_rel R (f x)" by (rule assms(4))
    then have "R s1 (snd (run_state (f x) s1))" by (simp add: state_io_rel_def)
    moreover have "R s s1" using assms(2) m by (metis state_io_rel_def snd_conv)
    ultimately show ?thesis using m preorder_rel_trans [OF assms(1)] by simp
  qed
  then show ?thesis by (simp add: state_io_rel_def)
qed

lemma yields_touch: "yields (\<lambda>s. ls_ID s = ls_ID sbx) (touch S sbx)"
  unfolding touch_def by (intro yields_last yields_ret) simp

lemma yields_refresh: "yields (\<lambda>s. ls_ID s = ls_ID sbx) (refreshSandboxRuntimeState S sbx)"
proof -
  have "ls_ID (settle_phase v s) = ls_ID s" for v s by (simp add: settle_phase_def)
  then have "yields (\<lambda>s. ls_ID s = ls_ID sbx) (touch S (settle_phase v (sbx\<lparr>ls_Containers := c\<rparr>)))" for v c
    using yields_touch [of "settle_phase v (sbx\<lparr>ls_Containers := c\<rparr>)" S] by simp
  then show ?thesis
    unfolding refreshSandboxRuntimeState_def using yields_touch [of sbx S] by (auto intro!: yields_last)
qed

lemma yields_set_phase: "yields (\<lambda>s. ls_ID s = ls_ID sbx) (setSandboxPhase S sbx ph e)"
  unfolding setSandboxPhase_def by (intro yields_last yields_ret) simp

lemma yields_new: "yields (\<lambda>s. ls_ID s = cr_ID req) (newSandboxState S req)"
  unfolding newSandboxState_def by (intro yields_last yields_ret) (simp add: new_state_def)

end
