(* ===== verification/Let_Samples.thy ===== *)
theory Let_Samples
  imports Let_Http
begin

section \<open>sbxlet: a reference packet filter and concrete states\<close>

text \<open>
  \<open>list_ipt\<close> is a packet filter whose state is the list of rules of each chain, with the
  documented behaviour of the go-iptables calls: appending a rule that is there does nothing,
  deleting removes its first occurrence or fails, listing prints a rule as \<^verbatim>\<open>-A chain args\<close>.
  With a host on which no call fails and a runtime without pods it instantiates the parameters of
  the model in the witnesses.
\<close>

type_synonym chains = "((string \<times> string) \<times> rule list) list"

definition chain_rules :: "chains \<Rightarrow> string \<times> string \<Rightarrow> rule list" where
  "chain_rules o0 k = (case map_of o0 k of None \<Rightarrow> [] | Some rs \<Rightarrow> rs)"

definition no_chain :: GoError where "no_chain = Errorf ''iptables: No chain/target/match by that name.''"
definition bad_rule :: GoError where "bad_rule = Errorf ''iptables: Bad rule (does a matching rule exist in that chain?).''"

definition list_ipt :: "chains IptOps" where
  "list_ipt =
     \<lparr>ipt_NewChain = (\<lambda>t c o0. if map_of o0 (t, c) \<noteq> None then (Some (Errorf ''iptables: Chain already exists.''), o0)
        else (None, ((t, c), []) # o0)),
      ipt_AppendUnique = (\<lambda>t c r o0. case map_of o0 (t, c) of
          None \<Rightarrow> (Some no_chain, o0)
        | Some rs \<Rightarrow> (None, if r \<in> set rs then o0 else AList.update (t, c) (rs @ [r]) o0)),
      ipt_Delete = (\<lambda>t c r o0. case map_of o0 (t, c) of
          None \<Rightarrow> (Some no_chain, o0)
        | Some rs \<Rightarrow> if r \<in> set rs then (None, AList.update (t, c) (remove1 r rs) o0) else (Some bad_rule, o0)),
      ipt_Insert = (\<lambda>t c n r o0. case map_of o0 (t, c) of
          None \<Rightarrow> (Some no_chain, o0)
        | Some rs \<Rightarrow> if 1 \<le> n \<and> nat n \<le> Suc (length rs)
            then (None, AList.update (t, c) (take (nat n - 1) rs @ [r] @ drop (nat n - 1) rs) o0)
            else (Some (Errorf ''iptables: Index of insertion too big.''), o0)),
      ipt_ClearChain = (\<lambda>t c o0. (None, AList.update (t, c) [] o0)),
      ipt_DeleteChain = (\<lambda>t c o0. if map_of o0 (t, c) = Some [] then (None, AList.delete (t, c) o0) else (Some no_chain, o0)),
      ipt_List = (\<lambda>t c o0. (case map_of o0 (t, c) of
          None \<Rightarrow> Inl no_chain
        | Some rs \<Rightarrow> Inr ((''-P '' @ c @ '' ACCEPT'') # map (\<lambda>r. ''-A '' @ c @ '' '' @ Join r '' '') rs), o0)),
      ipt_ListChains = (\<lambda>t o0. (Inr (map (\<lambda>k. snd (fst k)) (filter (\<lambda>k. fst (fst k) = t) o0)), o0))\<rparr>"

definition sample_let_quantity :: "string \<Rightarrow> GoError + Quantity" where
  "sample_let_quantity s =
     (case Atoi s of None \<Rightarrow> Inl (Errorf ''invalid quantity'')
      | Some n \<Rightarrow> Inr \<lparr>q_MilliValue = i64 (1000 * n), q_Value = n\<rparr>)"

definition calm_host :: "'o Host" where
  "calm_host =
     \<lparr>ho_fault = (\<lambda>p o0. (None, o0)), ho_torn = (\<lambda>p o0. (None, o0)), ho_Unmarshal = (\<lambda>b. Inl (Errorf ''invalid character'')),
      ho_lock_timeout = (\<lambda>p o0. (False, o0)), ho_Now = (\<lambda>o0. (1000, o0)), ho_ctx_Err = (\<lambda>o0. (None, o0)),
      ho_Listen = (\<lambda>t p o0. (None, o0)), ho_Dial = (\<lambda>a p o0. (None, o0)), ho_dial_cri = (\<lambda>a o0. (None, o0)),
      ho_new_iptables = (\<lambda>o0. (None, o0)), ho_modprobe = (\<lambda>o0. (None, o0)), ho_NumCPU = 4,
      ho_ParseQuantity = sample_let_quantity, ho_cni_Unmarshal = (\<lambda>b. Inr []), ho_mapped_ipv4 = (\<lambda>s. None)\<rparr>"

definition empty_cri :: "'o CriStubs" where
  "empty_cri =
     \<lparr>cri_ImageStatus = (\<lambda>i o0. (Inr True, o0)), cri_PullImage = (\<lambda>i o0. (None, o0)),
      cri_RunPodSandbox = (\<lambda>c h o0. (Inr ''pod'', o0)),
      cri_PodSandboxStatus = (\<lambda>i o0. (Inl (Errorf ''not found''), o0)),
      cri_CreateContainer = (\<lambda>p c s o0. (Inr ''ctr'', o0)), cri_StartContainer = (\<lambda>i o0. (None, o0)),
      cri_ContainerStatus = (\<lambda>i o0. (Inl (Errorf ''not found''), o0)), cri_StopPodSandbox = (\<lambda>i o0. (None, o0)),
      cri_RemovePodSandbox = (\<lambda>i o0. (None, o0)), cri_ListPodSandbox = (\<lambda>o0. (Inr [], o0)), cri_pid = (\<lambda>s. None)\<rparr>"

definition sample_service :: "chains LetService" where
  "sample_service = \<lparr>sv_host = calm_host, sv_cri = empty_cri, sv_ipt = list_ipt, sv_cfg = sample_let_config\<rparr>"

definition sample_container :: "string \<Rightarrow> CreateContainerRequest" where
  "sample_container n = \<lparr>cc_Name = n, cc_Image = ''nginx'', cc_Args = [], cc_Env = [], cc_WorkDir = [],
     cc_Resource = \<lparr>rs_CPU = ''1'', rs_Memory = ''1000''\<rparr>\<rparr>"

definition sample_mapping :: "int \<Rightarrow> PortMapping" where
  "sample_mapping hp = \<lparr>pm_HostPort = hp, pm_ContainerPort = 80, pm_Protocol = ''TCP''\<rparr>"

definition sample_let_request :: "string \<Rightarrow> int \<Rightarrow> CreateSandboxRequest" where
  "sample_let_request i hp = \<lparr>cr_ID = i, cr_Egress = True, cr_Containers = [sample_container ''web''],
     cr_Ports = [sample_mapping hp]\<rparr>"

definition sample_stored :: "string \<Rightarrow> int \<Rightarrow> LetSandbox" where
  "sample_stored i hp = (new_state sample_let_config (sample_let_request i hp) 500)\<lparr>ls_Phase := LetPhaseRunning\<rparr>"

definition state_entry :: "string \<Rightarrow> int \<Rightarrow> file_system" where
  "state_entry i hp =
     [(''/var/lib/sandboxd/sandboxes/'' @ i, Dir),
      (''/var/lib/sandboxd/sandboxes/'' @ i @ ''/state.json'', File (StateJSON (sample_stored i hp)))]"

definition sample_fs :: file_system where
  "sample_fs =
     [(''/var/lib/sandboxd/sandboxes'', Dir), (''/var/lib/sandboxd/locks'', Dir), (''/var/lib/cni'', Dir),
      (''/sys/fs/cgroup'', Dir),
      (''/sys/fs/cgroup/k8s.io'', Dir),
      (''/sys/fs/cgroup/k8s.io/cgroup.controllers'', File (Bytes ''cpu memory pids'')),
      (''/sys/fs/cgroup/k8s.io/cgroup.subtree_control'', File (Bytes ''cpu'')),
      (''/proc/meminfo'', File (Bytes ''MemTotal:       8000 kB''))] @ state_entry ''a'' 30000 @ state_entry ''b'' 30001"

definition sample_chains :: chains where
  "sample_chains = [((''nat'', ''PREROUTING''), []), ((''nat'', ''OUTPUT''), []), ((''filter'', ''FORWARD''), []),
     ((''filter'', ''INPUT''), []), ((''filter'', ''SANDBOX-FWD''), []), ((''filter'', ''SANDBOX-IN''), [])]"

definition sample_let_world :: "chains let_world" where
  "sample_let_world = \<lparr>lw_fs = sample_fs, lw_locks = [], lw_reserved = [], lw_since = [], lw_hits = [], lw_jobs = [],
     lw_out = sample_chains\<rparr>"

lemmas let_sample_defs = sample_service_def calm_host_def empty_cri_def list_ipt_def sample_let_world_def

end
