(* ===== verification/Let_Cgroup_Props.thy ===== *)
theory Let_Cgroup_Props
  imports Let_Evolve Let_Samples
begin

section \<open>sbxlet: where the cgroup of a sandbox lies\<close>

text \<open>
  The directory \<^verbatim>\<open>ensureSandboxParentCgroup\<close> makes for a sandbox, whatever the configured
  parent is, and the one \<^verbatim>\<open>cleanupSandboxParentCgroup\<close> computes, on another way, to remove it.
\<close>

lemma cgroup_base_rooted: "is_rooted (cgroup_base b)"
  by (auto simp: cgroup_base_def Let_def is_rooted_def HasPrefix_iff)

abbreviation cgroup_root :: "string list" where
  "cgroup_root \<equiv> [''sys'', ''fs'', ''cgroup'']"

lemma comps_cgroup_root: "comps ''/sys/fs/cgroup'' = cgroup_root"
  by code_simp

lemma Join_nonempty: "st \<noteq> [] \<Longrightarrow> \<forall>c \<in> set st. safe_name c \<Longrightarrow> Join st ''/'' \<noteq> []"
  by (cases st rule: remdups_adj.cases) (simp_all add: safe_name_def)

lemma render_cgroup: "st \<noteq> [] \<Longrightarrow> render (cgroup_root @ st) = ''/sys/fs/cgroup'' @ render st"
  by (subst render_append) (simp_all add: render_def)

lemma Clean_render: "\<forall>c \<in> set st. safe_name c \<Longrightarrow> Clean (render st) = render st"
  by (simp add: Clean_rooted comps_render)

lemma cgroup_fs_render:
  assumes "st \<noteq> []" "\<forall>c \<in> set st. safe_name c"
  shows "cgroup_fs (render st) = ''/sys/fs/cgroup'' @ render st" "clean_abs (cgroup_fs (render st))"
proof -
  have t: "TrimPrefix (render st) ''/'' = Join st ''/''"
    by (simp add: TrimPrefix_def render_def HasPrefix_def)
  have "cgroup_fs (render st) = Clean (''/sys/fs/cgroup'' @ ''/'' @ Join st ''/'')"
    using Join_nonempty [OF assms] unfolding cgroup_fs_def t filepath_Join_def by simp
  moreover have "is_rooted (''/sys/fs/cgroup'' @ ''/'' @ Join st ''/'')"
    by (rule is_rooted_append) (simp add: is_rooted_def)
  ultimately have "cgroup_fs (render st) = render (cgroup_root @ st)"
    using comps_below [OF assms, of "''/sys/fs/cgroup''"] by (simp only: Clean_rooted comps_cgroup_root)
  moreover have "Clean (render (cgroup_root @ st)) = render (cgroup_root @ st)"
    using assms(2) by (intro Clean_render) (auto simp: safe_name_def)
  moreover note render_cgroup [OF assms(1)]
  ultimately show "cgroup_fs (render st) = ''/sys/fs/cgroup'' @ render st" "clean_abs (cgroup_fs (render st))"
    by (simp_all add: clean_abs_def is_rooted_def)
qed

lemma safe_id_name: "validateSandboxIDCgroupSafe i = None \<Longrightarrow> safe_name (''sbx-'' @ i)"
proof -
  have "Contains s [c] \<longleftrightarrow> c \<in> set s" for s c by (induction s) (auto simp: HasPrefix_def)
  then show "validateSandboxIDCgroupSafe i = None \<Longrightarrow> safe_name (''sbx-'' @ i)"
    by (auto simp: validateSandboxIDCgroupSafe_def safe_name_def split: if_splits)
qed

lemma sandbox_cgroup_eq:
  assumes "is_rooted p" "safe_name (''sbx-'' @ i)"
  shows "sandbox_cgroup p i = render (comps p @ [''sbx-'' @ i])"
  using Clean_rooted [OF is_rooted_append [OF assms(1)]] comps_child [OF assms(2), of p]
  by (simp add: sandbox_cgroup_def)

lemma sandbox_cgroup_trimmed:
  assumes "is_rooted p" "safe_name (''sbx-'' @ i)"
  shows "sandbox_cgroup (TrimSuffix p ''/'') i = sandbox_cgroup p i"
proof (cases "HasSuffix p ''/''")
  case True
  then obtain q where q: "p = q @ ''/''"
    unfolding HasSuffix_def HasPrefix_iff by (metis rev_append rev_rev_ident rev.simps append_Nil)
  then have t: "TrimSuffix p ''/'' = q" using True by (simp add: TrimSuffix_def)
  have "is_rooted (q @ ''/'' @ ''sbx-'' @ i)" using assms(1) q by (cases q) (auto simp: is_rooted_def)
  then have "sandbox_cgroup q i = render (comps q @ [''sbx-'' @ i])"
    using Clean_rooted comps_child [OF assms(2), of q] by (simp add: sandbox_cgroup_def)
  then show ?thesis
    using sandbox_cgroup_eq [OF assms] comps_trailing [of q] unfolding t by (simp add: q)
qed (simp add: TrimSuffix_def)

lemma dirs_kept_cgroup [evolve_intros]:
  "state_io_rel (fs_rel dirs_kept) (write_attempts n H p v e)"
  "state_io_rel (fs_rel dirs_kept) (writeCgroupValue H p v)"
  "state_io_rel (fs_rel dirs_kept) (write_limits H p ws)"
proof -
  show a: "state_io_rel (fs_rel dirs_kept) (write_attempts n H p v e)" for n p v e
    by (induction n arbitrary: e) (auto intro!: evolve_intros)
  show b: "state_io_rel (fs_rel dirs_kept) (writeCgroupValue H p v)" for p v
    unfolding writeCgroupValue_def Let_def by (intro evolve_intros a)
  show "state_io_rel (fs_rel dirs_kept) (write_limits H p ws)"
    unfolding write_limits_def by (intro evolve_intros b)
qed

lemma dirs_keptD:
  assumes "state_io_rel (fs_rel dirs_kept) m" "map_of (lw_fs w) p = Some Dir"
  shows "map_of (lw_fs (snd (run_state m w))) p = Some Dir"
  using assms unfolding state_io_rel_def fs_rel_def dirs_kept_def by (auto split: prod.splits)

lemma run_make_dir:
  assumes "run_state (make_cgroup_dir H p) w = (Inr (), w')"
  shows "map_of (lw_fs w') p = Some Dir"
proof -
  obtain m w1 where m: "run_state (os_MkdirAll H p) w = (m, w1)" by fastforce
  with assms have "m = Inr ()" "w1 = w'"
    by (auto simp: make_cgroup_dir_def split: sum.splits)
  with m run_MkdirAll_Inr show ?thesis by blast
qed

lemma ensure_cgroup_steps:
  assumes "run_state (ensureSandboxParentCgroup H b i limits) w = (Inr path, w')"
  obtains r where "validateSandboxIDCgroupSafe i = None" "comps (cgroup_base b) \<noteq> []"
    "run_state (make_sandbox_cgroup H (Clean (cgroup_fs (Clean (cgroup_base b))))
       (sandbox_cgroup (Clean (cgroup_base b)) i) r) w = (Inr path, w')"
proof -
  have c: "Clean (cgroup_base b) \<noteq> ''/'' \<Longrightarrow> comps (cgroup_base b) \<noteq> []"
    using Clean_rooted [OF cgroup_base_rooted, of b] by (auto simp: render_def)
  show ?thesis
    using assms that c unfolding ensureSandboxParentCgroup_def Let_def
    by (cases limits; cases "validateSandboxIDCgroupSafe i"; cases "Clean (cgroup_base b) = ''/''";
        cases "HasPrefix (Clean (cgroup_fs (Clean (cgroup_base b)))) ''/sys/fs/cgroup/''") simp_all
qed

lemma make_sandbox_cgroup_steps:
  assumes "run_state (make_sandbox_cgroup H parent path0 r) w = (Inr path, w')"
  shows "path = path0" "map_of (lw_fs w') (cgroup_fs path0) = Some Dir"
proof -
  note step = check_InrE [where y = path and s' = w']
  obtain u1 v1 where 1: "run_state (check (ensureCgroupSubtreeControllers H parent [''memory'', ''cpu'', ''pids'']) (\<lambda>_.
      check (make_cgroup_dir H (cgroup_fs path0)) (\<lambda>_.
      check (write_limits H (cgroup_fs path0) (limit_writes False r)) (\<lambda>_. ok path0)))) v1 = (Inr path, w')"
    using assms unfolding make_sandbox_cgroup_def by (rule step)
  obtain u2 v2 where 2: "run_state (check (make_cgroup_dir H (cgroup_fs path0)) (\<lambda>_.
      check (write_limits H (cgroup_fs path0) (limit_writes False r)) (\<lambda>_. ok path0))) v2 = (Inr path, w')"
    using 1 by (rule step)
  obtain u3 v3 where 3: "run_state (make_cgroup_dir H (cgroup_fs path0)) v2 = (Inr (u3 :: unit), v3)"
    "run_state (check (write_limits H (cgroup_fs path0) (limit_writes False r)) (\<lambda>_. ok path0)) v3 = (Inr path, w')"
    using 2 by (rule step)
  have w: "run_state (make_cgroup_dir H (cgroup_fs path0)) v2 = (Inr (), v3)"
    "run_state (write_limits H (cgroup_fs path0) (limit_writes False r)) v3 = (Inr (), w')" "path = path0"
    using 3 by (auto simp: run_check split: prod.splits sum.splits)
  then show "path = path0" by simp
  have "map_of (lw_fs (snd (run_state (write_limits H (cgroup_fs path0) (limit_writes False r)) v3))) (cgroup_fs path0)
      = Some Dir"
    by (rule dirs_keptD [OF dirs_kept_cgroup(3) run_make_dir [OF w(1)]])
  with w(2) show "map_of (lw_fs w') (cgroup_fs path0) = Some Dir" by simp
qed


definition cgroup_world :: "chains let_world" where
  "cgroup_world = sample_let_world\<lparr>lw_fs :=
     [(''/sys/fs/cgroup/k8s.io'', Dir),
      (''/sys/fs/cgroup/k8s.io/cgroup.controllers'', File (Bytes ''cpu memory pids'')),
      (''/sys/fs/cgroup/k8s.io/cgroup.subtree_control'', File (Bytes ''cpu memory pids''))]\<rparr>"

definition no_limits :: LinuxResources where
  "no_limits = \<lparr>lr_MemoryLimitInBytes = 0, lr_MemorySwapLimitInBytes = 0, lr_CpuPeriod = 0, lr_CpuQuota = 0,
     lr_Unified = []\<rparr>"

lemma cgroup_sample_run:
  "fst (run_state (ensureSandboxParentCgroup calm_host ''k8s.io/'' ''c'' (Some no_limits)) cgroup_world) =
   Inr ''/k8s.io/sbx-c''"
  by code_simp


end
