(* ===== verification/Let_Isolation.thy ===== *)
theory Let_Isolation
  imports Let_Reads Let_Cgroup_Props Let_Samples
begin

section \<open>sbxlet: a sandbox leaves the state of the others alone\<close>

text \<open>
  What the operations on a sandbox do to the state file of another one.  \<open>own_ids\<close> says that
  each state file holds the sandbox it is named after; \<open>spares j\<close> relates two file systems where
  that still holds in the later one and the file of \<open>j\<close> is what it was.
\<close>

definition own_ids :: "'o Host \<Rightarrow> LetConfig \<Rightarrow> file_system \<Rightarrow> bool" where
  "own_ids H cfg fs \<longleftrightarrow> (\<forall>k d sb. safe_name k \<longrightarrow> map_of fs (state_file cfg k) = Some (File d) \<longrightarrow>
     json_Unmarshal H d = Inr sb \<longrightarrow> ls_ID sb = k)"

definition spares :: "'o Host \<Rightarrow> LetConfig \<Rightarrow> string \<Rightarrow> file_system \<Rightarrow> file_system \<Rightarrow> bool" where
  "spares H cfg j fs fs' \<longleftrightarrow> own_ids H cfg fs \<longrightarrow> own_ids H cfg fs' \<and>
     (\<forall>d. map_of fs (state_file cfg j) = Some (File d) \<longrightarrow> map_of fs' (state_file cfg j) = Some (File d))"

text \<open>The state directory is neither inside nor around the directories of cgroups and of CNI.\<close>

definition apart :: "string \<Rightarrow> string \<Rightarrow> bool" where
  "apart p q \<longleftrightarrow> \<not> below p q \<and> \<not> below q p"

definition store_apart :: "'o Host \<Rightarrow> LetConfig \<Rightarrow> bool" where
  "store_apart H cfg \<longleftrightarrow> clean_abs (StateBaseDir cfg) \<and> apart (StateBaseDir cfg) ''/sys/fs/cgroup'' \<and>
     apart (StateBaseDir cfg) ''/var/lib/cni'' \<and> (\<forall>b sb. ho_Unmarshal H b \<noteq> Inr sb)"

lemma preorder_spares [evolve_intros]: "preorder_rel (spares H cfg j)"
  by (auto simp: preorder_rel_def reflp_def transp_def spares_def)

subsection \<open>Paths\<close>

lemma safe_state_json: "safe_name ''state.json''"
  by (simp add: safe_name_def)

lemma state_file_eq:
  "clean_abs (StateBaseDir cfg) \<Longrightarrow> safe_name k \<Longrightarrow> state_file cfg k = StateBaseDir cfg @ ''/'' @ k @ ''/state.json''"
  using Join_grandchild [OF _ _ safe_state_json] by (simp add: state_file_def)

lemma state_file_inj:
  assumes "clean_abs (StateBaseDir cfg)" "safe_name k" "safe_name m" "state_file cfg k = state_file cfg m"
  shows "k = m"
  using path_names_inj [OF assms(2,3), of "StateBaseDir cfg" "''state.json''" "''state.json''"] assms
  by (simp add: state_file_eq)

lemma state_file_iff:
  "clean_abs (StateBaseDir cfg) \<Longrightarrow> safe_name k \<Longrightarrow> safe_name m \<Longrightarrow>
     state_file cfg k = state_file cfg m \<longleftrightarrow> k = m"
  using state_file_inj by blast

lemma below_both:
  assumes "below p q" "below p' q"
  shows "below p p' \<or> below p' p"
proof -
  have "\<exists>s. q @ ''/'' = p @ ''/'' @ s" if "below p q" for p
    using that by (auto simp: below_def HasPrefix_iff)
  then obtain s s' where "q @ ''/'' = p @ ''/'' @ s" "q @ ''/'' = p' @ ''/'' @ s'"
    using assms by meson
  then have "(p @ ''/'') @ s = (p' @ ''/'') @ s'" by simp
  then obtain u where "p @ ''/'' = (p' @ ''/'') @ u \<or> (p @ ''/'') @ u = p' @ ''/''"
    unfolding append_eq_append_conv2 by blast
  then show ?thesis
  proof
    assume a: "p @ ''/'' = (p' @ ''/'') @ u"
    then show ?thesis
      by (cases u rule: rev_cases) (auto simp: below_def HasPrefix_iff)
  next
    assume "(p @ ''/'') @ u = p' @ ''/''"
    then show ?thesis
      by (cases u rule: rev_cases) (auto simp: below_def HasPrefix_iff)
  qed
qed

lemma below_trans: "below p q \<Longrightarrow> below q r \<Longrightarrow> below p r"
  by (auto simp: below_def HasPrefix_iff)

lemma apart_state_file:
  assumes "clean_abs (StateBaseDir cfg)" "safe_name j" "apart (StateBaseDir cfg) p" "below p q"
  shows "\<not> below q (state_file cfg j)"
proof
  assume "below q (state_file cfg j)"
  then have "below p (state_file cfg j)" using assms(4) below_trans by blast
  moreover have "below (StateBaseDir cfg) (state_file cfg j)"
    using state_file_eq [OF assms(1,2)] by (simp add: below_def HasPrefix_iff)
  ultimately show False using below_both assms(3) unfolding apart_def by blast
qed

lemma not_below_store_dir:
  assumes "clean_abs (StateBaseDir cfg)" "safe_name i" "safe_name j" "i \<noteq> j"
  shows "\<not> below (store_dir cfg i) (state_file cfg j)"
proof
  have d: "store_dir cfg i = StateBaseDir cfg @ ''/'' @ i"
    unfolding store_dir_def by (rule Join_child [OF assms(1,2)])
  assume "below (store_dir cfg i) (state_file cfg j)"
  then consider "j @ ''/state.json'' = i" | t where "j @ ''/state.json'' = i @ ''/'' @ t"
    unfolding d state_file_eq [OF assms(1,3)] below_def HasPrefix_iff by auto
  then show False
  proof cases
    case 1
    then show ?thesis using assms(2) by (auto simp: safe_name_def)
  next
    case (2 t)
    then show ?thesis using path_names_inj [OF assms(3,2), of "[]" "''state.json''" t] assms(4) by simp
  qed
qed

text \<open>A file in a directory has the name of the file as its last component.\<close>

lemma Join_rooted:
  assumes "is_rooted dir" "safe_name f"
  shows "filepath_Join [dir, f] = render (comps dir @ [f])"
proof -
  have "dir \<noteq> []" using assms(1) by (auto simp: is_rooted_def)
  then have "filepath_Join [dir, f] = Clean (dir @ ''/'' @ f)" by (simp add: filepath_Join_def)
  then show ?thesis
    using Clean_rooted [OF is_rooted_append [OF assms(1)]] comps_child [OF assms(2)] by simp
qed

lemma control_file_not_state:
  assumes "clean_abs (StateBaseDir cfg)" "safe_name k" "is_rooted dir" "safe_name f" "f \<noteq> ''state.json''"
  shows "filepath_Join [dir, f] \<noteq> state_file cfg k"
proof
  assume eq: "filepath_Join [dir, f] = state_file cfg k"
  have "comps (filepath_Join [dir, f]) = comps dir @ [f]"
    unfolding Join_rooted [OF assms(3,4)] using comps_safe assms(4) by (intro comps_render) auto
  moreover have "comps (state_file cfg k) = comps (StateBaseDir cfg @ ''/'' @ k) @ [''state.json'']"
    unfolding state_file_eq [OF assms(1,2)]
    using comps_child [OF safe_state_json, of "StateBaseDir cfg @ ''/'' @ k"] by simp
  ultimately show False using eq assms(5) by simp
qed

subsection \<open>System calls\<close>

lemma map_of_filter_key: "map_of (filter (\<lambda>(q, _). P q) fs) x = (if P x then map_of fs x else None)"
  by (induction fs) auto

lemma spares_MkdirAll [evolve_intros]: "state_io_rel (fs_rel (spares H cfg j)) (os_MkdirAll H' p)"
  by (rule fs_MkdirAll [OF preorder_spares])
    (auto simp: spares_def own_ids_def map_of_missing_dirs simp del: map_of_append split: option.splits if_splits)

lemma spares_OpenCreate [evolve_intros]:
  assumes "store_apart H cfg"
  shows "state_io_rel (fs_rel (spares H cfg j)) (os_OpenCreate H' p)"
proof (rule fs_OpenCreate [OF preorder_spares])
  fix fs :: file_system
  assume "map_of fs p = None"
  with assms show "spares H cfg j fs (AList.update p (File (Bytes [])) fs)"
    by (auto simp: spares_def own_ids_def update_conv' json_Unmarshal_def store_apart_def split: if_splits)
qed

lemma spares_RemoveAll:
  assumes "\<not> below (Clean p) (state_file cfg j)"
  shows "state_io_rel (fs_rel (spares H cfg j)) (os_RemoveAll H' p)"
proof -
  have f: "spares H cfg j fs (filter (\<lambda>(q, _). P q) fs)" if "P (state_file cfg j)" for fs P
    using that by (auto simp: spares_def own_ids_def map_of_filter_key split: if_splits)
  show ?thesis
    unfolding os_RemoveAll_def Let_def
    by (intro evolve_intros preorder_spares fs_os_call)
      (use assms f preorder_rel_refl [OF preorder_spares] in \<open>auto split: if_splits\<close>)
qed

lemma spares_Remove:
  assumes "\<not> below p (state_file cfg j)"
  shows "state_io_rel (fs_rel (spares H cfg j)) (os_Remove H' p)"
  unfolding os_Remove_def
  by (intro fs_os_call preorder_spares)
    (use assms in \<open>auto simp: spares_def own_ids_def map_of_filter_key split: if_splits\<close>)

text \<open>Written is either a control file, or the state of another sandbox.\<close>

lemma spares_control:
  assumes "store_apart H cfg" "safe_name j" "is_rooted dir" "safe_name f" "f \<noteq> ''state.json''"
  shows "state_io_rel (fs_rel (spares H cfg j)) (os_WriteFile H' (filepath_Join [dir, f]) d)"
proof (rule fs_WriteFile [OF preorder_spares])
  fix fs :: file_system and d
  have n: "state_file cfg k \<noteq> filepath_Join [dir, f]" if "safe_name k" for k
    using control_file_not_state [OF _ that assms(3-5)] assms(1) unfolding store_apart_def by metis
  show "spares H cfg j fs (AList.update (filepath_Join [dir, f]) (File d) fs)"
    using n [OF assms(2)] by (simp add: spares_def own_ids_def update_conv' n)
qed

lemma os_WriteFile_cases:
  assumes "preorder_rel R" "state_io_rel R (os_call H p (fs_write p d))"
    "\<And>b. state_io_rel R (os_call H p (fs_write p (Bytes b)))" "state_io_rel R (outside (ho_torn H p))"
  shows "state_io_rel R (os_WriteFile H p d)"
  unfolding os_WriteFile_def using assms by (intro evolve_intros io_rel_case_option) auto

lemma spares_Save:
  assumes "store_apart H cfg" "safe_name j" "ls_ID sbx = i" "safe_name i" "i \<noteq> j"
  shows "state_io_rel (fs_rel (spares H cfg j)) (store_Save H' cfg sbx)"
proof -
  have c: "clean_abs (StateBaseDir cfg)" using assms(1) by (simp add: store_apart_def)
  have p: "filepath_Join [store_dir cfg (ls_ID sbx), ''state.json''] = state_file cfg i"
    using Join_child [OF clean_abs_child [OF c assms(4)] safe_state_json] Join_child [OF c assms(4)] assms(3)
    by (simp add: store_dir_def state_file_eq [OF c assms(4)])
  have "spares H cfg j fs (AList.update (state_file cfg i) (File d) fs)"
    if "d = StateJSON sbx \<or> (\<exists>b. d = Bytes b)" for fs d
    using that assms
    by (auto simp: spares_def own_ids_def update_conv' json_Unmarshal_def store_apart_def state_file_iff [OF c])
  then have "state_io_rel (fs_rel (spares H cfg j)) (os_WriteFile H' (state_file cfg i) (StateJSON sbx))"
    by (intro os_WriteFile_cases evolve_intros preorder_spares fs_os_call) (auto dest!: fs_write_case)
  then show ?thesis
    unfolding store_Save_def p by (intro evolve_intros preorder_spares)
qed

lemma spares_Delete:
  assumes "store_apart H cfg" "safe_name j" "safe_name i" "i \<noteq> j"
  shows "state_io_rel (fs_rel (spares H cfg j)) (store_Delete H' cfg i)"
proof -
  have c: "clean_abs (StateBaseDir cfg)" using assms(1) by (simp add: store_apart_def)
  have "Clean (store_dir cfg i) = store_dir cfg i"
    unfolding store_dir_def Join_child [OF c assms(3)] by (rule Clean_child [OF c assms(3)])
  then have "state_io_rel (fs_rel (spares H cfg j)) (os_RemoveAll H' (store_dir cfg i))"
    using not_below_store_dir [OF c assms(3,2,4)] by (intro spares_RemoveAll) simp
  then show ?thesis unfolding store_Delete_def by (intro evolve_intros preorder_spares)
qed

lemma spares_Load_then:
  assumes "safe_name i" "\<And>r. (\<And>sb. r = Inr sb \<Longrightarrow> ls_ID sb = i) \<Longrightarrow> state_io_rel (fs_rel (spares H cfg j)) (f r)"
  shows "state_io_rel (fs_rel (spares H cfg j)) (store_Load H cfg i \<bind> f)"
proof -
  have "fs_rel (spares H cfg j) w (snd (run_state (store_Load H cfg i \<bind> f) w))" for w
  proof (cases "own_ids H cfg (lw_fs w)")
    case True
    obtain r w1 where l: "run_state (store_Load H cfg i) w = (r, w1)" by fastforce
    have "ls_ID sb = i" if "r = Inr sb" for sb
    proof -
      from l that obtain d w2 where d: "run_state (os_ReadFile H (state_file cfg i)) w = (Inr d, w2)" "json_Unmarshal H d = Inr sb"
        unfolding store_Load_def by (auto elim!: check_InrE)
      have "(case map_of (lw_fs w) (state_file cfg i) of None \<Rightarrow> Inl (no_such_file (state_file cfg i))
         | Some Dir \<Rightarrow> Inl (Errorf (''read '' @ state_file cfg i @ '': is a directory''))
         | Some (File d) \<Rightarrow> Inr (d, lw_fs w)) = Inr (d, lw_fs w2)"
        using run_os_call_Inr d(1) unfolding os_ReadFile_def by fastforce
      then have "map_of (lw_fs w) (state_file cfg i) = Some (File d)"
        by (auto split: option.splits FsNode.splits)
      then show ?thesis using True assms(1) d(2) unfolding own_ids_def by blast
    qed
    then have "fs_rel (spares H cfg j) w1 (snd (run_state (f r) w1))"
      using assms(2) by (simp add: state_io_rel_def)
    moreover have "fs_rel (spares H cfg j) w w1"
      by (rule io_relD [OF fs_store_reads(1) [OF preorder_spares] l])
    ultimately show ?thesis
      using l preorder_rel_trans [OF preorder_fs_rel [OF preorder_spares]] by simp
  qed (simp add: fs_rel_def spares_def)
  then show ?thesis by (simp add: state_io_rel_def)
qed

subsection \<open>Cgroups and leftovers\<close>

lemma spares_write_attempts:
  assumes "store_apart H cfg" "safe_name j" "is_rooted dir" "safe_name f" "f \<noteq> ''state.json''"
  shows "state_io_rel (fs_rel (spares H cfg j)) (write_attempts n H' (filepath_Join [dir, f]) v e)"
  by (induction n arbitrary: e) (auto intro!: evolve_intros preorder_spares spares_control [OF assms])

lemma spares_writeCgroupValue:
  assumes "store_apart H cfg" "safe_name j" "is_rooted dir" "safe_name f" "f \<noteq> ''state.json''"
  shows "state_io_rel (fs_rel (spares H cfg j)) (writeCgroupValue H' (filepath_Join [dir, f]) v)"
  unfolding writeCgroupValue_def Let_def
  by (intro evolve_intros preorder_spares spares_write_attempts [OF assms])

lemma limit_writes_names: "(f, v) \<in> set (limit_writes b r) \<Longrightarrow> safe_name f \<and> f \<noteq> ''state.json''"
  by (auto simp: limit_writes_def safe_name_def split: if_splits option.splits)

lemma spares_write_limits:
  assumes "store_apart H cfg" "safe_name j" "is_rooted dir"
    "\<forall>(f, v) \<in> set ws. safe_name f \<and> f \<noteq> ''state.json''"
  shows "state_io_rel (fs_rel (spares H cfg j)) (write_limits H' dir ws)"
  using assms(4) unfolding write_limits_def
  by (induction ws)
    (auto intro!: evolve_intros preorder_spares spares_writeCgroupValue [OF assms(1-3)])

lemma spares_limits:
  assumes "store_apart H cfg" "safe_name j" "is_rooted dir"
  shows "state_io_rel (fs_rel (spares H cfg j)) (write_limits H' dir (limit_writes b r))"
  using limit_writes_names by (intro spares_write_limits assms) auto

lemma Clean_is_rooted: "is_rooted p \<Longrightarrow> is_rooted (Clean p)"
  by (simp add: Clean_rooted)

lemma Join_is_rooted: "is_rooted p \<Longrightarrow> is_rooted (filepath_Join (p # es))"
proof -
  assume p: "is_rooted p"
  then have "p \<noteq> []" by (auto simp: is_rooted_def)
  then show ?thesis
    using p by (cases es) (simp_all add: filepath_Join_def Clean_is_rooted)
qed

lemma cgroup_fs_rooted: "is_rooted (cgroup_fs p)"
  unfolding cgroup_fs_def by (rule Join_is_rooted) (simp add: is_rooted_def)

lemma spares_ensure_cgroup [evolve_intros]:
  assumes "store_apart H cfg" "safe_name j"
  shows "state_io_rel (fs_rel (spares H cfg j)) (ensureSandboxParentCgroup H' b i l)"
proof -
  have f: "safe_name ''cgroup.subtree_control''" "''cgroup.subtree_control'' \<noteq> ''state.json''"
    by (simp_all add: safe_name_def)
  have c: "state_io_rel (fs_rel (spares H cfg j)) (ensureCgroupSubtreeControllers H' dir cs)"
    if "is_rooted dir" for dir cs
    unfolding ensureCgroupSubtreeControllers_def cgroup_words_def
    by (intro evolve_intros preorder_spares spares_writeCgroupValue [OF assms that f])
  have m: "state_io_rel (fs_rel (spares H cfg j)) (make_sandbox_cgroup H' dir path r)" if "is_rooted dir" for dir path r
    unfolding make_sandbox_cgroup_def make_cgroup_dir_def
    by (intro evolve_intros preorder_spares c that spares_limits assms cgroup_fs_rooted)
  show ?thesis
    unfolding ensureSandboxParentCgroup_def Let_def
    by (intro evolve_intros preorder_spares m Clean_is_rooted cgroup_fs_rooted)
qed

lemma yields_first_existing:
  "\<forall>p \<in> set ps. is_rooted p \<Longrightarrow> yields (\<lambda>r. \<forall>p. r = Inr p \<longrightarrow> p \<noteq> [] \<longrightarrow> is_rooted p) (first_existing H ps)"
  by (induction H ps rule: first_existing.induct)
    (auto intro!: yields_last yields_ret split: sum.split)

lemma yields_find_cgroup:
  "yields (\<lambda>r. \<forall>p. r = Inr p \<longrightarrow> p \<noteq> [] \<longrightarrow> is_rooted p) (findCgroupV2PathByID H i)"
proof -
  have j: "is_rooted (filepath_Join (''/sys/fs/cgroup/k8s.io'' # es))" for es
    by (rule Join_is_rooted) (simp add: is_rooted_def)
  have "\<forall>p \<in> set (glob_sandboxes ''/sys/fs/cgroup/k8s.io'' i fs). is_rooted p" for fs
    by (auto simp: glob_sandboxes_def j)
  then show ?thesis
    unfolding findCgroupV2PathByID_def Let_def
    by (auto intro!: yields_last yields_ret yields_first_existing j split: sum.split)
qed

lemma io_rel_check_yields:
  assumes "preorder_rel R" "state_io_rel R m" "yields (\<lambda>r. \<forall>x. r = Inr x \<longrightarrow> Q x) m"
    "\<And>x. Q x \<Longrightarrow> state_io_rel R (k x)"
  shows "state_io_rel R (check m k)"
  unfolding check_def
  by (rule io_rel_bind_yields [OF assms(1-3)]) (auto intro!: evolve_intros assms(1,4) split: sum.split)

lemma spares_enforce [evolve_intros]:
  assumes "store_apart H cfg" "safe_name j"
  shows "state_io_rel (fs_rel (spares H cfg j)) (enforceCgroupV2Limits H' i l)"
  unfolding enforceCgroupV2Limits_def
  by (intro evolve_intros preorder_spares io_rel_check_yields [OF _ _ yields_find_cgroup] spares_limits assms) auto

lemma spares_cleanup_cgroup [evolve_intros]:
  assumes "store_apart H cfg" "safe_name j"
  shows "state_io_rel (fs_rel (spares H cfg j)) (cleanupSandboxParentCgroup H' b i)"
proof (cases "validateSandboxIDCgroupSafe i")
  case None
  let ?st = "comps (cgroup_base b) @ [''sbx-'' @ i]"
  note n = safe_id_name [OF None]
  have "\<forall>c \<in> set ?st. safe_name c" using comps_safe n by auto
  then have "cgroup_fs (sandbox_cgroup (TrimSuffix (cgroup_base b) ''/'') i) = ''/sys/fs/cgroup'' @ render ?st"
    unfolding sandbox_cgroup_trimmed [OF cgroup_base_rooted n] sandbox_cgroup_eq [OF cgroup_base_rooted n]
    by (intro cgroup_fs_render(1)) simp
  then have "below ''/sys/fs/cgroup'' (cgroup_fs (sandbox_cgroup (TrimSuffix (cgroup_base b) ''/'') i))"
    by (simp add: below_def HasPrefix_iff render_def)
  then have "\<not> below (cgroup_fs (sandbox_cgroup (TrimSuffix (cgroup_base b) ''/'') i)) (state_file cfg j)"
    using assms unfolding store_apart_def by (intro apart_state_file) auto
  then show ?thesis
    unfolding cleanupSandboxParentCgroup_def None by (simp add: evolve_intros preorder_spares spares_Remove)
qed (simp add: cleanupSandboxParentCgroup_def evolve_intros preorder_spares)

lemma spares_cleanup_cni:
  assumes "store_apart (sv_host S) cfg" "safe_name j" "safe_name i"
  shows "state_io_rel (fs_rel (spares (sv_host S) cfg j)) (cleanupCNICache S i)"
proof -
  have c: "clean_abs ''/var/lib/cni''"
    by (simp add: clean_abs_def is_rooted_def Clean_def clean_comps_def)
  have p: "Clean (''/var/lib/cni/'' @ i) = ''/var/lib/cni/'' @ i"
    using Clean_child [OF c assms(3)] by simp
  have "\<not> below (''/var/lib/cni/'' @ i) (state_file cfg j)"
    using assms(1,2) unfolding store_apart_def
    by (intro apart_state_file [of _ _ "''/var/lib/cni''"]) (auto simp: below_def HasPrefix_iff)
  then show ?thesis
    unfolding cleanupCNICache_def by (intro evolve_intros preorder_spares spares_RemoveAll) (subst p, assumption)
qed

subsection \<open>Creating and deleting\<close>

definition apart_from :: "'o LetService \<Rightarrow> string \<Rightarrow> string \<Rightarrow> bool" where
  "apart_from S j i \<longleftrightarrow> store_apart (sv_host S) (sv_cfg S) \<and> safe_name j \<and> safe_name i \<and> i \<noteq> j"

abbreviation sparing :: "'o LetService \<Rightarrow> string \<Rightarrow> 'o let_world \<Rightarrow> 'o let_world \<Rightarrow> bool" where
  "sparing S j \<equiv> fs_rel (spares (sv_host S) (sv_cfg S) j)"

lemma apart_fromD:
  assumes "apart_from S j i"
  shows "store_apart (sv_host S) (sv_cfg S)" "safe_name j" "safe_name i" "i \<noteq> j"
  using assms by (simp_all add: apart_from_def)

lemma sparing_Save [evolve_intros]:
  "apart_from S j (ls_ID sbx) \<Longrightarrow> state_io_rel (sparing S j) (store_Save (sv_host S) (sv_cfg S) sbx)"
  unfolding apart_from_def by (intro spares_Save) auto

lemma sparing_artifacts [evolve_intros]:
  assumes "apart_from S j (ls_ID sbx)"
  shows "state_io_rel (sparing S j) (deleteSandboxRuntimeArtifacts S sbx)"
  unfolding deleteSandboxRuntimeArtifacts_def
  by (intro evolve_intros preorder_spares spares_cleanup_cni apart_fromD [OF assms])

lemma sparing_delete_state [evolve_intros]:
  assumes "apart_from S j (ls_ID sbx)"
  shows "state_io_rel (sparing S j) (deleteSandboxFromState S sbx)"
  unfolding deleteSandboxFromState_def
  by (intro evolve_intros preorder_spares spares_Delete apart_fromD [OF assms] assms)

lemma sparing_lock [evolve_intros]:
  assumes "store_apart (sv_host S) (sv_cfg S)"
  shows "state_io_rel (sparing S j) (acquireSandboxLock (sv_host S) (sv_cfg S) i)"
    "state_io_rel (sparing S j) m \<Longrightarrow> state_io_rel (sparing S j) (with_lock (sv_host S) (sv_cfg S) i m)"
proof -
  show a: "state_io_rel (sparing S j) (acquireSandboxLock (sv_host S) (sv_cfg S) i)"
    unfolding acquireSandboxLock_def Let_def
    by (intro evolve_intros preorder_spares assms fs_modify) simp
  show "state_io_rel (sparing S j) m \<Longrightarrow> state_io_rel (sparing S j) (with_lock (sv_host S) (sv_cfg S) i m)"
    unfolding with_lock_def by (intro evolve_intros preorder_spares a)
qed

text \<open>Provisioning: the sandbox it works on keeps its id.\<close>

definition of_id :: "string \<Rightarrow> (GoError \<times> LetSandbox) + LetSandbox \<Rightarrow> bool" where
  "of_id i r \<longleftrightarrow> (case r of Inl (e, sbx) \<Rightarrow> ls_ID sbx = i | Inr sbx \<Rightarrow> ls_ID sbx = i)"

definition good_step :: "'o LetService \<Rightarrow> string \<Rightarrow> string \<Rightarrow> 'o step \<Rightarrow> bool" where
  "good_step S j i m \<longleftrightarrow> state_io_rel (sparing S j) m \<and> yields (of_id i) m"

lemma good_ret: "ls_ID sbx = i \<Longrightarrow> good_step S j i (ret (Inl (e, sbx)))" "ls_ID sbx = i \<Longrightarrow> good_step S j i (ret (Inr sbx))"
  by (simp_all add: good_step_def of_id_def yields_ret evolve_intros preorder_spares)

lemma good_bind:
  assumes "state_io_rel (sparing S j) m" "\<And>x. good_step S j i (f x)"
  shows "good_step S j i (m \<bind> f)"
  using assms unfolding good_step_def by (intro conjI evolve_intros preorder_spares yields_last) auto

lemma good_bind_id:
  assumes "state_io_rel (sparing S j) m" "yields Q m" "\<And>x. Q x \<Longrightarrow> good_step S j i (f x)"
  shows "good_step S j i (m \<bind> f)"
  using assms(3) unfolding good_step_def
  by (intro conjI io_rel_bind_yields [OF _ assms(1,2)] yields_bind [OF assms(2)] evolve_intros preorder_spares) auto

lemma good_or:
  assumes "state_io_rel (sparing S j) m" "ls_ID sbx = i" "\<And>x. good_step S j i (k x)"
  shows "good_step S j i (or_return sbx m k)" "good_step S j i (or_record sbx wrap m k)"
  unfolding or_return_def or_record_def using assms
  by (auto intro!: good_bind good_ret split: sum.split)

lemma good_publish:
  assumes "apart_from S j i" "ls_ID sbx = i"
  shows "good_step S j i (publish_steps S sbx)"
proof -
  have r: "yields (\<lambda>s. ls_ID s = i) (refreshSandboxRuntimeState S sbx)"
    using yields_refresh assms(2) by metis
  have p: "yields (\<lambda>s. ls_ID s = i) (setSandboxPhase S s ph e)" if "ls_ID s = i" for s ph e
    using yields_set_phase that by metis
  have s: "good_step S j i (or_return s (store_Save (sv_host S) (sv_cfg S) s) (\<lambda>_. ret (Inr s)))" if "ls_ID s = i" for s
    using that assms(1) by (intro good_or(1) good_ret sparing_Save) simp_all
  have "good_step S j i (do {
      waitPublishedTCPReady S sbx;
      sbx1 \<leftarrow> refreshSandboxRuntimeState S sbx;
      sbx2 \<leftarrow> setSandboxPhase S sbx1 LetPhaseRunning [];
      or_return sbx2 (store_Save (sv_host S) (sv_cfg S) sbx2) (\<lambda>_. ret (Inr sbx2)) })"
    by (rule good_bind, intro evolve_intros preorder_spares, rule good_bind_id [OF _ r], intro evolve_intros preorder_spares,
        rule good_bind_id [OF _ p], intro evolve_intros preorder_spares, assumption, rule s)
  then show ?thesis
    unfolding publish_steps_def using assms(2)
    by (auto intro!: good_ret good_or evolve_intros preorder_spares)
qed

lemma good_containers:
  assumes "ls_ID sbx = i" "\<And>s. ls_ID s = i \<Longrightarrow> good_step S j i (k s)" "apart_from S j i"
  shows "good_step S j i (provision_containers S sbx podID podCfg cs k)"
  using assms(1)
proof (induction cs arbitrary: sbx)
  case (Cons c cs)
  have "state_io_rel (sparing S j) (createAndStartCRIContainer S sbx podID podCfg c l)" for l
    unfolding createAndStartCRIContainer_def Let_def
    by (intro evolve_intros preorder_spares apart_fromD [OF assms(3)])
  with Cons show ?case
    by (auto intro!: good_or evolve_intros preorder_spares)
qed (simp add: assms(2))

lemma good_provision:
  assumes "apart_from S j i" "ls_ID sbx = i"
  shows "good_step S j i (provision_steps S sbx req)"
proof -
  have "state_io_rel (sparing S j) (createPodSandboxCRI S sbx cs)" for cs
    unfolding createPodSandboxCRI_def Let_def
    by (intro evolve_intros preorder_spares apart_fromD [OF assms(1)])
  then show ?thesis
    unfolding provision_steps_def using assms
    by (auto intro!: good_or good_containers good_publish split: prod.split)
qed

lemma sparing_provisionSync:
  assumes "apart_from S j i" "ls_ID sbx = i"
  shows "state_io_rel (sparing S j) (provisionSandboxSync S sbx req)"
proof -
  have g: "state_io_rel (sparing S j) (provision_steps S sbx req)" "yields (of_id i) (provision_steps S sbx req)"
    using good_provision [OF assms] by (simp_all add: good_step_def)
  have pf: "state_io_rel (sparing S j) (provision_failed S s)" if "ls_ID s = i" for s
  proof -
    have p: "yields (\<lambda>s'. ls_ID s' = i) (setSandboxPhase S s ph e)" for ph e
      using yields_set_phase that by metis
    have t: "state_io_rel (sparing S j) (do { store_Save (sv_host S) (sv_cfg S) t; deleteSandboxRuntimeArtifacts S t; ret () })"
      if "ls_ID t = i" for t
      using that assms(1) by (intro evolve_intros preorder_spares) simp_all
    show ?thesis
      unfolding provision_failed_def Let_def
      by (rule io_rel_bind_yields [OF _ _ p], intro evolve_intros preorder_spares,
          intro evolve_intros preorder_spares, rule t, simp)
  qed
  show ?thesis
    unfolding provisionSandboxSync_def
    by (rule io_rel_bind_yields [OF preorder_fs_rel [OF preorder_spares] g])
      (auto simp: of_id_def pf split: sum.splits prod.splits intro!: evolve_intros preorder_spares)
qed

lemma sparing_markError [evolve_intros]:
  assumes "apart_from S j i"
  shows "state_io_rel (sparing S j) (markSandboxError S i e)"
proof -
  have "state_io_rel (sparing S j) (do { s \<leftarrow> setSandboxPhase S sbx ph m; ignore (store_Save (sv_host S) (sv_cfg S) s) })"
    if "ls_ID sbx = i" for sbx ph m
    using assms that
    by (intro io_rel_bind_yields [OF _ _ yields_set_phase] evolve_intros preorder_spares) simp
  then show ?thesis
    unfolding markSandboxError_def
    by (intro spares_Load_then apart_fromD [OF assms]) (auto intro!: evolve_intros preorder_spares split: sum.split)
qed

lemma sparing_provision:
  assumes "apart_from S j i"
  shows "state_io_rel (sparing S j) (provisionSandbox S i req)"
proof -
  have "state_io_rel (sparing S j) (provision_locked S i req)"
    unfolding provision_locked_def
    by (intro spares_Load_then apart_fromD [OF assms])
      (auto intro!: evolve_intros preorder_spares sparing_provisionSync assms split: sum.split)
  then show ?thesis
    unfolding provisionSandbox_def
    by (intro evolve_intros preorder_spares apart_fromD [OF assms] assms)
qed

lemma sparing_orphan [evolve_intros]:
  assumes "apart_from S j i"
  shows "state_io_rel (sparing S j) (cleanupOrphanRuntimeSandbox S i)"
  unfolding cleanupOrphanRuntimeSandbox_def Let_def using assms
  by (intro evolve_intros preorder_spares) (simp_all add: orphan_state_def)

lemma yields_save_new: "yields (\<lambda>r. \<forall>s. r = Inr s \<longrightarrow> ls_ID s = cr_ID req) (save_new (S :: 'o LetService) req)"
proof -
  have "yields (\<lambda>r. \<forall>s. r = Inr s \<longrightarrow> ls_ID s = cr_ID req) (check (store_Save H cfg sbx) (\<lambda>_. ok sbx))"
    if "ls_ID sbx = cr_ID req" for H :: "'o Host" and cfg sbx
    unfolding check_def using that by (auto intro!: yields_last yields_ret split: sum.split)
  then show ?thesis unfolding save_new_def by (intro yields_bind [OF yields_new])
qed

lemma sparing_create:
  assumes "apart_from S j (cr_ID req)"
  shows "state_io_rel (sparing S j) (let_createSandbox S req async)"
proof -
  note a = apart_fromD [OF assms]
  have st: "state_io_rel (sparing S j) (start_sandbox S req async sbx)" if "ls_ID sbx = cr_ID req" for sbx
    unfolding start_sandbox_def
    by (intro evolve_intros preorder_spares sparing_provisionSync [OF assms that] fs_modify) simp
  have n: "state_io_rel (sparing S j) (save_new S req)"
    unfolding save_new_def using assms
    by (intro io_rel_bind_yields [OF _ _ yields_new] evolve_intros preorder_spares) simp
  define t where "t = check (save_new S req) (start_sandbox S req async)"
  have "state_io_rel (sparing S j) t"
    unfolding t_def by (rule io_rel_check_yields [OF preorder_fs_rel [OF preorder_spares] n yields_save_new st])
  then have "state_io_rel (sparing S j) (admit_and_save S req async)"
    unfolding admit_and_save_def t_def [symmetric] by (intro sparing_lock evolve_intros preorder_spares a)
  moreover have "state_io_rel (sparing S j) (claim_ports S (cr_ID req) (cr_Ports req))"
    unfolding claim_ports_def by (intro sparing_lock evolve_intros preorder_spares a)
  moreover have "state_io_rel (sparing S j) (clear_leftovers S (cr_ID req))"
    unfolding clear_leftovers_def by (intro evolve_intros preorder_spares spares_cleanup_cni a assms)
  ultimately show ?thesis
    unfolding let_createSandbox_def create_locked_def
    by (intro sparing_lock evolve_intros preorder_spares a)
qed

lemma sparing_delete:
  assumes "apart_from S j i"
  shows "state_io_rel (sparing S j) (let_DeleteSandbox S i)"
proof -
  have d: "state_io_rel (sparing S j) (do {
      sbx1 \<leftarrow> setSandboxPhase S sbx LetPhaseDeleting [];
      store_Save (sv_host S) (sv_cfg S) sbx1;
      res \<leftarrow> deleteSandboxFromState S sbx1;
      releaseReservedPorts i; clearUnhealthy i; ret res })" if "ls_ID sbx = i" for sbx
    using assms that
    by (intro io_rel_bind_yields [OF _ _ yields_set_phase] evolve_intros preorder_spares) simp_all
  have "state_io_rel (sparing S j) (delete_locked S i)"
    unfolding delete_locked_def
    by (intro spares_Load_then apart_fromD [OF assms])
      (auto intro!: d evolve_intros preorder_spares split: sum.split)
  then show ?thesis
    unfolding let_DeleteSandbox_def by (intro sparing_lock apart_fromD [OF assms])
qed

subsection \<open>Any sequence of operations\<close>

datatype let_op = OpCreate CreateSandboxRequest bool | OpProvision string CreateSandboxRequest | OpDelete string

fun op_target :: "let_op \<Rightarrow> string" where
  "op_target (OpCreate req async) = cr_ID req"
| "op_target (OpProvision i req) = i"
| "op_target (OpDelete i) = i"

fun run_let_op :: "'o LetService \<Rightarrow> let_op \<Rightarrow> 'o let_world \<Rightarrow> 'o let_world" where
  "run_let_op S (OpCreate req async) w = snd (run_state (let_createSandbox S req async) w)"
| "run_let_op S (OpProvision i req) w = snd (run_state (provisionSandbox S i req) w)"
| "run_let_op S (OpDelete i) w = snd (run_state (let_DeleteSandbox S i) w)"

lemma run_let_op_sparing: "apart_from S j (op_target x) \<Longrightarrow> sparing S j w (run_let_op S x w)"
  using sparing_create sparing_provision sparing_delete by (cases x) (fastforce simp: state_io_rel_def)+

lemma run_let_ops_sparing:
  assumes "\<forall>x \<in> set xs. apart_from S j (op_target x)"
  shows "sparing S j w (fold (run_let_op S) xs w)"
  using assms
proof (induction xs arbitrary: w)
  case (Cons x xs)
  have "sparing S j w (run_let_op S x w)"
    using Cons.prems by (intro run_let_op_sparing) simp
  moreover have "sparing S j (run_let_op S x w) (fold (run_let_op S) xs (run_let_op S x w))"
    using Cons.prems by (intro Cons.IH) simp
  ultimately show ?case
    using preorder_rel_trans [OF preorder_fs_rel [OF preorder_spares]] by simp
qed (simp add: preorder_rel_refl [OF preorder_fs_rel [OF preorder_spares]])


lemma sample_store_apart: "store_apart (sv_host sample_service) (sv_cfg sample_service)"
  using sample_base_clean
  by (simp add: store_apart_def apart_def sample_service_def calm_host_def sample_base below_def HasPrefix_def)

lemma sample_state_file: "safe_name k \<Longrightarrow> state_file sample_let_config k = ''/var/lib/sandboxd/sandboxes/'' @ k @ ''/state.json''"
  using state_file_eq [OF sample_base_clean] by (simp add: sample_base)

lemma sample_own_ids: "own_ids (sv_host sample_service) (sv_cfg sample_service) (lw_fs sample_let_world)"
proof -
  have "ls_ID sb = k" if k: "safe_name k" and m: "map_of sample_fs (state_file sample_let_config k) = Some (File d)"
    and u: "json_Unmarshal calm_host d = Inr sb" for k d sb
  proof -
    obtain x where x: "d = StateJSON x"
      using u by (cases d) (auto simp: json_Unmarshal_def calm_host_def)
    then have "(''/var/lib/sandboxd/sandboxes/'' @ k @ ''/state.json'', File (StateJSON x)) \<in> set sample_fs"
      using map_of_SomeD [OF m] sample_state_file [OF k] by simp
    then show ?thesis
      using u x by (auto simp: sample_fs_def state_entry_def sample_stored_def new_state_def sample_let_request_def json_Unmarshal_def)
  qed
  then show ?thesis unfolding own_ids_def by (simp add: sample_service_def sample_let_world_def) blast
qed


subsection \<open>An id that is not a path component\<close>

text \<open>
  C40: the restriction to ids that are path components is needed, and nothing in the agent checks
  it.  \<^verbatim>\<open>Validate\<close> accepts a request whose id is \<^verbatim>\<open>..\<close>, \<^verbatim>\<open>hasRuntimeArtifacts\<close> finds leftovers of it
  because \<^verbatim>\<open>/var/lib\<close> exists, and clearing them removes everything below \<^verbatim>\<open>/var/lib\<close>, the state
  files of all sandboxes included.
\<close>

theorem dotdot_wipes_var_lib:
  assumes "\<And>p x. fst (ho_fault (sv_host S) p x) = None" "map_of (lw_fs w) ''/var/lib/cni'' = Some Dir"
    and "map_of (lw_fs w) ''/var/lib'' = Some Dir" "HasPrefix q ''/var/lib/''"
  shows "Validate (sample_let_request ''..'' 30005) = None \<and>
    fst (run_state (hasRuntimeArtifacts S ''..'') w) \<and>
    map_of (lw_fs (snd (run_state (cleanupCNICache S ''..'') w))) q = None"
proof (intro conjI)
  have c: "Clean ''/var/lib/cni/..'' = ''/var/lib''" "filepath_Join [''/var/lib/cni'', ''..''] = ''/var/lib''"
      "parent_dir ''/var/lib/cni/..'' = ''/var/lib/cni''"
    by code_simp+
  show "Validate (sample_let_request ''..'' 30005) = None"
    by code_simp
  show "fst (run_state (hasRuntimeArtifacts S ''..'') w)"
    using assms(1,3) c(2) by (simp add: hasRuntimeArtifacts_def os_Stat_def os_call_def outside_def)
  have q: "below ''/var/lib'' q" "q \<noteq> ''/var/lib''"
    using assms(4) by (auto simp: below_def HasPrefix_iff)
  have "lw_fs (snd (run_state (cleanupCNICache S ''..'') w)) =
      filter (\<lambda>(q, _). q = ''/var/lib'' \<or> \<not> below ''/var/lib'' q) (lw_fs w)"
    using assms(1,2) c(1,3)
    by (simp add: cleanupCNICache_def os_RemoveAll_def os_call_def outside_def Let_def run_check ignore_def HasSuffix_def
        HasPrefix_def)
  with q show "map_of (lw_fs (snd (run_state (cleanupCNICache S ''..'') w))) q = None"
    by (simp add: map_of_filter_key)
qed

theorem dotdot_wipes_var_lib_witness:
  "map_of (lw_fs sample_let_world) ''/var/lib/sandboxd/sandboxes/a/state.json'' \<noteq> None \<and>
   map_of (lw_fs (snd (run_state (cleanupCNICache sample_service ''..'')
     (sample_let_world\<lparr>lw_fs := (''/var/lib'', Dir) # sample_fs\<rparr>)))) ''/var/lib/sandboxd/sandboxes/a/state.json'' = None"
proof -
  have "\<And>p x. fst (ho_fault (sv_host sample_service) p x) = None"
    by (simp add: sample_service_def calm_host_def)
  from dotdot_wipes_var_lib [OF this, of "sample_let_world\<lparr>lw_fs := (''/var/lib'', Dir) # sample_fs\<rparr>"
      "''/var/lib/sandboxd/sandboxes/a/state.json''"]
  show ?thesis
    by (simp add: sample_let_world_def sample_fs_def state_entry_def HasPrefix_def)
qed

end
