(* ===== verification/Map_Store.thy ===== *)
theory Map_Store
  imports Main
begin

section \<open>The contract of a keyed store\<close>

text \<open>
  What the service of a node agent relies on in its store of sandbox states: saving, deleting and
  loading behave as update, removal and lookup of a map from ids to states, for the keys that are
  usable as names.  \<open>run\<close> executes a sequence of calls, \<open>run_spec\<close> the same calls on the map; the
  lemmas of the locale carry the single laws over to sequences.
\<close>

datatype ('k, 'v) store_op = Put 'v | Drop 'k

locale map_store =
  fixes inv :: "'s \<Rightarrow> bool"
    and abs :: "'s \<Rightarrow> 'k \<Rightarrow> 'v option"
    and usable :: "'k \<Rightarrow> bool"
    and key :: "'v \<Rightarrow> 'k"
    and save :: "'v \<Rightarrow> 's \<Rightarrow> 's"
    and drop_key :: "'k \<Rightarrow> 's \<Rightarrow> 's"
    and load :: "'k \<Rightarrow> 's \<Rightarrow> 'v option"
  assumes save_inv: "inv s \<Longrightarrow> usable (key v) \<Longrightarrow> inv (save v s)"
    and save_abs: "inv s \<Longrightarrow> usable (key v) \<Longrightarrow> abs (save v s) = (abs s)(key v \<mapsto> v)"
    and drop_inv: "inv s \<Longrightarrow> usable k \<Longrightarrow> inv (drop_key k s)"
    and drop_abs: "inv s \<Longrightarrow> usable k \<Longrightarrow> abs (drop_key k s) = (abs s)(k := None)"
    and load_abs: "inv s \<Longrightarrow> usable k \<Longrightarrow> load k s = abs s k"
begin

fun run_op :: "('k, 'v) store_op \<Rightarrow> 's \<Rightarrow> 's" where
  "run_op (Put v) s = save v s"
| "run_op (Drop k) s = drop_key k s"

fun spec_op :: "('k, 'v) store_op \<Rightarrow> ('k \<Rightarrow> 'v option) \<Rightarrow> 'k \<Rightarrow> 'v option" where
  "spec_op (Put v) m = m(key v \<mapsto> v)"
| "spec_op (Drop k) m = m(k := None)"

fun op_key :: "('k, 'v) store_op \<Rightarrow> 'k" where
  "op_key (Put v) = key v"
| "op_key (Drop k) = k"

lemma run_op_refines:
  assumes "inv s" "usable (op_key x)"
  shows "inv (run_op x s)" "abs (run_op x s) = spec_op x (abs s)"
  using assms by (cases x; simp add: save_inv save_abs drop_inv drop_abs)+

lemma run_refines:
  assumes "inv s" "\<forall>x \<in> set xs. usable (op_key x)"
  shows "inv (fold run_op xs s) \<and> abs (fold run_op xs s) = fold spec_op xs (abs s)"
  using assms
proof (induction xs arbitrary: s)
  case (Cons x xs)
  then show ?case using run_op_refines [of s x] by simp
qed simp

lemma load_after:
  assumes "inv s" "\<forall>x \<in> set xs. usable (op_key x)" "usable k"
  shows "load k (fold run_op xs s) = fold spec_op xs (abs s) k"
  using run_refines [OF assms(1,2)] load_abs [OF _ assms(3)] by simp

lemma load_untouched:
  assumes "inv s" "\<forall>x \<in> set xs. usable (op_key x)" "usable k" "k \<notin> op_key ` set xs"
  shows "load k (fold run_op xs s) = load k s"
proof -
  have "fold spec_op xs m k = m k" for m
    using assms(4)
  proof (induction xs arbitrary: m)
    case (Cons x xs)
    then show ?case by (cases x) auto
  qed simp
  then show ?thesis using load_after [OF assms(1-3)] load_abs [OF assms(1,3)] by simp
qed

end

end
