(* ===== verification/Let_Store_Props.thy ===== *)
theory Let_Store_Props
  imports Let_Isolation Map_Store
begin

section \<open>sbxlet: the file store is a map\<close>

text \<open>
  The store of \<^verbatim>\<open>file_store.go\<close> on a host where no call fails, as a map from ids to states.
  \<open>store_fs\<close> says what the file system must look like for that: the state directory is there, and
  what lies where the store puts directories and files is a directory, or a file.
\<close>

definition quiet_host :: "'o Host \<Rightarrow> bool" where
  "quiet_host H \<longleftrightarrow> (\<forall>p x. fst (ho_fault H p x) = None \<and> fst (ho_torn H p x) = None)"

definition stored :: "'o Host \<Rightarrow> LetConfig \<Rightarrow> file_system \<Rightarrow> string \<Rightarrow> LetSandbox option" where
  "stored H cfg fs i =
     (if \<not> safe_name i then None
      else case map_of fs (state_file cfg i) of
        Some (File d) \<Rightarrow> (case json_Unmarshal H d of Inr sb \<Rightarrow> Some sb | Inl _ \<Rightarrow> None)
      | _ \<Rightarrow> None)"

definition not_file :: "file_system \<Rightarrow> string \<Rightarrow> bool" where
  "not_file fs q \<longleftrightarrow> map_of fs q = None \<or> map_of fs q = Some Dir"

definition store_fs :: "LetConfig \<Rightarrow> file_system \<Rightarrow> bool" where
  "store_fs cfg fs \<longleftrightarrow> map_of fs (StateBaseDir cfg) = Some Dir \<and>
     (\<forall>q \<in> set (ancestors (StateBaseDir cfg)). not_file fs q) \<and>
     (\<forall>k. safe_name k \<longrightarrow> not_file fs (StateBaseDir cfg @ ''/'' @ k) \<and>
        map_of fs (state_file cfg k) \<noteq> Some Dir \<and>
        (map_of fs (state_file cfg k) \<noteq> None \<longrightarrow> map_of fs (StateBaseDir cfg @ ''/'' @ k) = Some Dir))"

definition store_ready :: "'o Host \<Rightarrow> LetConfig \<Rightarrow> 'o let_world \<Rightarrow> bool" where
  "store_ready H cfg w \<longleftrightarrow> quiet_host H \<and> clean_abs (StateBaseDir cfg) \<and> store_fs cfg (lw_fs w)"

subsection \<open>Paths\<close>

lemma dropWhile_to: "c \<notin> set xs \<Longrightarrow> dropWhile (\<lambda>x. x \<noteq> c) (xs @ c # ys) = c # ys"
  by (induction xs) auto

lemma parent_dir_child:
  assumes "CHR ''/'' \<notin> set n"
  shows "parent_dir (p @ ''/'' @ n) = p"
proof -
  have r: "rev (p @ ''/'' @ n) = rev n @ CHR ''/'' # rev p" by simp
  have "CHR ''/'' \<notin> set (rev n)" using assms by simp
  from dropWhile_to [OF this] show ?thesis unfolding parent_dir_def r by simp
qed

lemma take_until_child:
  assumes "p \<noteq> []" "c \<notin> set n"
  shows "map (\<lambda>i. take i (p @ c # n)) (filter (\<lambda>i. (p @ c # n) ! i = c) [1..<length (p @ c # n)]) =
     map (\<lambda>i. take i p) (filter (\<lambda>i. p ! i = c) [1..<length p]) @ [p]"
proof -
  let ?q = "p @ c # n"
  have "1 \<le> length p" using assms(1) by (cases p) auto
  then have "[1..<length ?q] = [1..<length p] @ [length p..<length ?q]"
    using upt_add_eq_append [of 1 "length p" "Suc (length n)"] by simp
  also have "[length p..<length ?q] = length p # [Suc (length p)..<length ?q]"
    by (rule upt_conv_Cons) simp
  finally have s: "[1..<length ?q] = [1..<length p] @ length p # [Suc (length p)..<length ?q]" .
  have "?q ! i \<noteq> c" if "Suc (length p) \<le> i" "i < length ?q" for i
  proof -
    have "?q ! i = n ! (i - Suc (length p))" using that by (simp add: nth_append nth_Cons')
    moreover have "i - Suc (length p) < length n" using that by simp
    ultimately have "?q ! i \<in> set n" by simp
    then show ?thesis using assms(2) by metis
  qed
  then have e: "filter (\<lambda>i. ?q ! i = c) [Suc (length p)..<length ?q] = []"
    by (auto simp only: filter_empty_conv set_upt atLeastLessThan_iff)
  have f: "filter (\<lambda>i. ?q ! i = c) [1..<length p] = filter (\<lambda>i. p ! i = c) [1..<length p]"
    by (rule filter_cong) (auto simp: nth_append)
  have m: "map (\<lambda>i. take i ?q) (filter (\<lambda>i. p ! i = c) [1..<length p]) =
      map (\<lambda>i. take i p) (filter (\<lambda>i. p ! i = c) [1..<length p])"
    by (rule map_cong) auto
  show ?thesis
    unfolding s filter_append map_append filter.simps nth_append_length e f m by simp
qed

lemma ancestors_child:
  "p \<noteq> [] \<Longrightarrow> CHR ''/'' \<notin> set n \<Longrightarrow> ancestors (p @ ''/'' @ n) = ancestors p @ [p]"
  using take_until_child [of p "CHR ''/''" n] unfolding ancestors_def append_Cons append_Nil .

lemma ancestor_length: "q \<in> set (ancestors p) \<Longrightarrow> length q < length p"
  by (auto simp: ancestors_def)

lemma store_paths:
  assumes "clean_abs (StateBaseDir cfg)" "safe_name k"
  shows "store_dir cfg k = StateBaseDir cfg @ ''/'' @ k"
    "filepath_Join [store_dir cfg k, ''state.json''] = state_file cfg k"
    "parent_dir (state_file cfg k) = store_dir cfg k"
    "ancestors (store_dir cfg k) = ancestors (StateBaseDir cfg) @ [StateBaseDir cfg]"
proof -
  show d: "store_dir cfg k = StateBaseDir cfg @ ''/'' @ k"
    unfolding store_dir_def by (rule Join_child [OF assms])
  show "filepath_Join [store_dir cfg k, ''state.json''] = state_file cfg k"
    unfolding d using Join_child [OF clean_abs_child [OF assms] safe_state_json] state_file_eq [OF assms] by simp
  show "parent_dir (state_file cfg k) = store_dir cfg k"
    using parent_dir_child [of "''state.json''" "StateBaseDir cfg @ ''/'' @ k"] state_file_eq [OF assms] d by simp
  show "ancestors (store_dir cfg k) = ancestors (StateBaseDir cfg) @ [StateBaseDir cfg]"
    unfolding d using assms by (intro ancestors_child) (auto simp: safe_name_def clean_abs_def is_rooted_def)
qed

text \<open>The paths of the store are told apart by their lengths and their names.\<close>

lemma store_path_neq:
  assumes "clean_abs (StateBaseDir cfg)" "safe_name k" "safe_name m"
  shows "StateBaseDir cfg @ ''/'' @ m \<noteq> state_file cfg k" "StateBaseDir cfg \<noteq> state_file cfg k"
    "q \<in> set (ancestors (StateBaseDir cfg)) \<Longrightarrow> q \<noteq> state_file cfg k"
    "q \<in> set (ancestors (StateBaseDir cfg)) \<Longrightarrow> q \<noteq> StateBaseDir cfg @ ''/'' @ m"
proof -
  show "StateBaseDir cfg @ ''/'' @ m \<noteq> state_file cfg k"
    using assms(3) unfolding state_file_eq [OF assms(1,2)] by (auto simp: safe_name_def)
  show "StateBaseDir cfg \<noteq> state_file cfg k"
    unfolding state_file_eq [OF assms(1,2)] by simp
  show "q \<noteq> state_file cfg k" "q \<noteq> StateBaseDir cfg @ ''/'' @ m" if "q \<in> set (ancestors (StateBaseDir cfg))"
    using ancestor_length [OF that] unfolding state_file_eq [OF assms(1,2)] by auto
qed

subsection \<open>System calls that do not fail\<close>

lemma run_quiet_call:
  assumes "quiet_host H"
  shows "\<exists>x. run_state (os_call H p f) w =
    (case f (lw_fs w) of Inl e \<Rightarrow> (Inl e, w\<lparr>lw_out := x\<rparr>) | Inr (y, fs) \<Rightarrow> (Inr y, w\<lparr>lw_out := x, lw_fs := fs\<rparr>))"
  using assms unfolding os_call_def outside_def quiet_host_def
  by (auto split: sum.split prod.split)

lemma run_quiet_ok:
  "quiet_host H \<Longrightarrow> f (lw_fs w) = Inr (y, fs) \<Longrightarrow>
     \<exists>x. run_state (os_call H p f) w = (Inr y, w\<lparr>lw_out := x, lw_fs := fs\<rparr>)"
  using run_quiet_call [of H p f w] by simp

lemma run_quiet_write:
  assumes "quiet_host H"
  shows "\<exists>x. run_state (os_WriteFile H p d) w =
    (case fs_write p d (lw_fs w) of Inl e \<Rightarrow> (Inl e, w\<lparr>lw_out := x\<rparr>) | Inr (y, fs) \<Rightarrow> (Inr y, w\<lparr>lw_out := x, lw_fs := fs\<rparr>))"
proof -
  have "fst (ho_torn H p (lw_out w)) = None" using assms by (simp add: quiet_host_def)
  then have "run_state (os_WriteFile H p d) w =
      run_state (os_call H p (fs_write p d)) (w\<lparr>lw_out := snd (ho_torn H p (lw_out w))\<rparr>)"
    by (simp add: os_WriteFile_def outside_def)
  then show ?thesis
    using run_quiet_call [OF assms, of p "fs_write p d" "w\<lparr>lw_out := snd (ho_torn H p (lw_out w))\<rparr>"]
    by (cases "fs_write p d (lw_fs w)") auto
qed

lemma run_store_Save:
  assumes "store_ready H cfg w" "safe_name (ls_ID sb)"
  shows "fst (run_state (store_Save H cfg sb) w) = Inr ()"
    "lw_fs (snd (run_state (store_Save H cfg sb) w)) = AList.update (state_file cfg (ls_ID sb)) (File (StateJSON sb))
       (lw_fs w @ missing_dirs (ancestors (StateBaseDir cfg) @ [StateBaseDir cfg, store_dir cfg (ls_ID sb)]) (lw_fs w))"
proof -
  let ?k = "ls_ID sb" and ?fs = "lw_fs w"
  let ?ps = "ancestors (StateBaseDir cfg) @ [StateBaseDir cfg, store_dir cfg ?k]"
  let ?fs1 = "?fs @ missing_dirs ?ps ?fs"
  have q: "quiet_host H" and c: "clean_abs (StateBaseDir cfg)" and f: "store_fs cfg ?fs"
    using assms(1) by (simp_all add: store_ready_def)
  note p = store_paths [OF c assms(2)]
  have ps: "ancestors (store_dir cfg ?k) @ [store_dir cfg ?k] = ?ps" unfolding p(4) by simp
  have nf: "not_file ?fs q" if "q \<in> set ?ps" for q
    using that f assms(2) p(1) by (auto simp: store_fs_def not_file_def)
  have "\<not> (case map_of ?fs q of Some (File _) \<Rightarrow> True | _ \<Rightarrow> False)" if "q \<in> set ?ps" for q
    using nf [OF that] by (auto simp: not_file_def)
  then have ok1: "\<not> (\<exists>q \<in> set ?ps. case map_of ?fs q of Some (File _) \<Rightarrow> True | _ \<Rightarrow> False)"
    by blast
  have "\<exists>x. run_state (os_MkdirAll H (store_dir cfg ?k)) w = (Inr (), w\<lparr>lw_out := x, lw_fs := ?fs1\<rparr>)"
    unfolding os_MkdirAll_def ps by (rule run_quiet_ok [OF q]) (rule if_not_P [OF ok1])
  then obtain x where m: "run_state (os_MkdirAll H (store_dir cfg ?k)) w = (Inr (), w\<lparr>lw_out := x, lw_fs := ?fs1\<rparr>)" ..
  have d: "map_of ?fs1 (store_dir cfg ?k) = Some Dir" "map_of ?fs1 (state_file cfg ?k) \<noteq> Some Dir"
    using nf [of "store_dir cfg ?k"] f assms(2) store_path_neq [OF c assms(2,2)] p(1)
    by (auto simp: map_of_missing_dirs not_file_def store_fs_def simp del: map_of_append split: option.split)
  then have fw: "fs_write (state_file cfg ?k) (StateJSON sb) ?fs1 =
      Inr ((), AList.update (state_file cfg ?k) (File (StateJSON sb)) ?fs1)"
    by (simp add: fs_write_def p(3))
  obtain y where "run_state (os_WriteFile H (state_file cfg ?k) (StateJSON sb)) (w\<lparr>lw_out := x, lw_fs := ?fs1\<rparr>) =
      (Inr (), w\<lparr>lw_out := y, lw_fs := AList.update (state_file cfg ?k) (File (StateJSON sb)) ?fs1\<rparr>)"
    using run_quiet_write [OF q, of "state_file cfg ?k" "StateJSON sb" "w\<lparr>lw_out := x, lw_fs := ?fs1\<rparr>"] fw by auto
  then have "run_state (store_Save H cfg sb) w =
      (Inr (), w\<lparr>lw_out := y, lw_fs := AList.update (state_file cfg ?k) (File (StateJSON sb)) ?fs1\<rparr>)"
    unfolding store_Save_def p(2) by (simp add: run_check m)
  then show "fst (run_state (store_Save H cfg sb) w) = Inr ()"
    "lw_fs (snd (run_state (store_Save H cfg sb) w)) = AList.update (state_file cfg ?k) (File (StateJSON sb)) ?fs1"
    by simp_all
qed

subsection \<open>Saving\<close>

definition saved_fs :: "LetConfig \<Rightarrow> LetSandbox \<Rightarrow> file_system \<Rightarrow> file_system" where
  "saved_fs cfg sb fs = AList.update (state_file cfg (ls_ID sb)) (File (StateJSON sb))
     (fs @ missing_dirs (ancestors (StateBaseDir cfg) @ [StateBaseDir cfg, store_dir cfg (ls_ID sb)]) fs)"

lemma map_of_saved:
  "map_of (saved_fs cfg sb fs) q =
     (if q = state_file cfg (ls_ID sb) then Some (File (StateJSON sb))
      else case map_of fs q of Some n \<Rightarrow> Some n
      | None \<Rightarrow> if q \<in> set (ancestors (StateBaseDir cfg)) \<or> q = StateBaseDir cfg \<or> q = store_dir cfg (ls_ID sb)
          then Some Dir else None)"
  by (simp add: saved_fs_def update_conv' map_of_missing_dirs del: map_of_append)

lemma not_file_saved: "not_file fs q \<Longrightarrow> q \<noteq> state_file cfg (ls_ID sb) \<Longrightarrow> not_file (saved_fs cfg sb fs) q"
  by (auto simp: not_file_def map_of_saved)

lemma saved_other:
  assumes "clean_abs (StateBaseDir cfg)" "safe_name (ls_ID sb)" "safe_name i" "i \<noteq> ls_ID sb"
  shows "map_of (saved_fs cfg sb fs) (state_file cfg i) = map_of fs (state_file cfg i)"
  using store_path_neq [OF assms(1,3,2)] store_path_neq(3) [OF assms(1,3,2)] store_paths(1) [OF assms(1,2)]
    state_file_iff [OF assms(1,3,2)] assms(4)
  by (auto simp: map_of_saved split: option.split)

lemma store_fs_saved:
  assumes "clean_abs (StateBaseDir cfg)" "safe_name (ls_ID sb)" "store_fs cfg fs"
  shows "store_fs cfg (saved_fs cfg sb fs)"
proof -
  note d = store_paths(1) [OF assms(1,2)]
  have kept: "map_of (saved_fs cfg sb fs) q = Some Dir" if "map_of fs q = Some Dir" "q \<noteq> state_file cfg (ls_ID sb)" for q
    using that by (simp add: map_of_saved)
  have "not_file (saved_fs cfg sb fs) (StateBaseDir cfg @ ''/'' @ k) \<and>
      map_of (saved_fs cfg sb fs) (state_file cfg k) \<noteq> Some Dir \<and>
      (map_of (saved_fs cfg sb fs) (state_file cfg k) \<noteq> None \<longrightarrow>
        map_of (saved_fs cfg sb fs) (StateBaseDir cfg @ ''/'' @ k) = Some Dir)" if k: "safe_name k" for k
  proof -
    have f: "not_file fs (StateBaseDir cfg @ ''/'' @ k)" "map_of fs (state_file cfg k) \<noteq> Some Dir"
      "map_of fs (state_file cfg k) \<noteq> None \<longrightarrow> map_of fs (StateBaseDir cfg @ ''/'' @ k) = Some Dir"
      using assms(3) k unfolding store_fs_def by blast+
    note n = store_path_neq(1) [OF assms(1,2) k]
    show ?thesis
    proof (cases "k = ls_ID sb")
      case True
      have "map_of (saved_fs cfg sb fs) (StateBaseDir cfg @ ''/'' @ k) = Some Dir"
        using f(1) n d True by (auto simp: map_of_saved not_file_def)
      then show ?thesis using True by (simp add: not_file_def map_of_saved)
    next
      case False
      then show ?thesis
        using not_file_saved [OF f(1) n] saved_other [OF assms(1,2) k False, of fs] f(2,3) kept n by auto
    qed
  qed
  moreover have "map_of (saved_fs cfg sb fs) (StateBaseDir cfg) = Some Dir"
    using kept assms(3) store_path_neq(2) [OF assms(1,2,2)] unfolding store_fs_def by blast
  moreover have "\<forall>q \<in> set (ancestors (StateBaseDir cfg)). not_file (saved_fs cfg sb fs) q"
    using not_file_saved assms(3) store_path_neq(3) [OF assms(1,2,2)] unfolding store_fs_def by blast
  ultimately show ?thesis unfolding store_fs_def by blast
qed

lemma stored_saved:
  assumes "clean_abs (StateBaseDir cfg)" "safe_name (ls_ID sb)"
  shows "stored H cfg (saved_fs cfg sb fs) = (stored H cfg fs)(ls_ID sb \<mapsto> sb)"
proof
  fix i
  show "stored H cfg (saved_fs cfg sb fs) i = ((stored H cfg fs)(ls_ID sb \<mapsto> sb)) i"
    using saved_other [OF assms, of i fs] assms(2)
    by (cases "i = ls_ID sb") (simp_all add: stored_def map_of_saved json_Unmarshal_def)
qed

subsection \<open>Deleting and loading\<close>

definition removed_fs :: "LetConfig \<Rightarrow> string \<Rightarrow> file_system \<Rightarrow> file_system" where
  "removed_fs cfg k fs = filter (\<lambda>(q, _). \<not> below (store_dir cfg k) q) fs"

lemma HasSuffix_iff: "HasSuffix s u \<longleftrightarrow> (\<exists>t. s = t @ u)"
proof
  assume "HasSuffix s u"
  then obtain v where "rev s = rev u @ v" by (auto simp: HasSuffix_def HasPrefix_iff)
  then have "s = rev v @ u" by (simp add: rev_swap)
  then show "\<exists>t. s = t @ u" ..
qed (auto simp: HasSuffix_def HasPrefix_iff)

lemma last_name_eq: "(c :: char) \<notin> set k \<Longrightarrow> c \<notin> set s \<Longrightarrow> p @ c # k = t @ c # s \<Longrightarrow> k = s"
proof -
  assume k: "c \<notin> set k" "c \<notin> set s" and "p @ c # k = t @ c # s"
  then have "SplitByte c (p @ c # k) = SplitByte c (t @ c # s)" by (rule_tac arg_cong)
  then have "last (SplitByte c p @ [k]) = last (SplitByte c t @ [s])"
    unfolding Split_append_sep Split_no_sep [OF k(1)] Split_no_sep [OF k(2)] by (rule arg_cong)
  then show ?thesis unfolding last_snoc .
qed

lemma no_dot_suffix:
  assumes "safe_name k"
  shows "\<not> HasSuffix (p @ ''/'' @ k) ''/.''" "\<not> HasSuffix (p @ ''/'' @ k) ''/..''"
proof -
  have k: "CHR ''/'' \<notin> set k" "k \<noteq> ''.''" "k \<noteq> ''..''" using assms by (simp_all add: safe_name_def)
  have "k = s" if "HasSuffix (p @ ''/'' @ k) (CHR ''/'' # s)" "CHR ''/'' \<notin> set s" for s
    using that(1) last_name_eq [OF k(1) that(2)] unfolding HasSuffix_iff by auto
  from this [of "''.''"] this [of "''..''"] k(2,3)
  show "\<not> HasSuffix (p @ ''/'' @ k) ''/.''" "\<not> HasSuffix (p @ ''/'' @ k) ''/..''"
    by auto
qed

lemma run_store_Delete:
  assumes "quiet_host H" "clean_abs (StateBaseDir cfg)" "safe_name k"
  shows "fst (run_state (store_Delete H cfg k) w) = Inr ()"
    "lw_fs (snd (run_state (store_Delete H cfg k) w)) = removed_fs cfg k (lw_fs w)"
proof -
  note q = assms(1) and c = assms(2)
  note d = store_paths(1) [OF c assms(3)]
  have cl: "Clean (store_dir cfg k) = store_dir cfg k"
    unfolding d by (rule Clean_child [OF c assms(3)])
  have nd: "\<not> HasSuffix (store_dir cfg k) ''/.''" "\<not> HasSuffix (store_dir cfg k) ''/..''"
    unfolding d by (rule no_dot_suffix [OF assms(3)])+
  have "\<exists>x. run_state (os_RemoveAll H (store_dir cfg k)) w =
      (Inr (), w\<lparr>lw_out := x, lw_fs := removed_fs cfg k (lw_fs w)\<rparr>)"
    unfolding os_RemoveAll_def Let_def cl if_not_P [OF nd(1)] if_not_P [OF nd(2)]
    by (rule run_quiet_ok [OF q]) (simp add: removed_fs_def)
  then show "fst (run_state (store_Delete H cfg k) w) = Inr ()"
    "lw_fs (snd (run_state (store_Delete H cfg k) w)) = removed_fs cfg k (lw_fs w)"
    by (auto simp: store_Delete_def)
qed

lemma map_of_removed: "map_of (removed_fs cfg k fs) q = (if below (store_dir cfg k) q then None else map_of fs q)"
  by (simp add: removed_fs_def map_of_filter_key)

lemma below_store:
  assumes "clean_abs (StateBaseDir cfg)" "safe_name k" "safe_name i"
  shows "below (store_dir cfg k) (state_file cfg i) \<longleftrightarrow> i = k"
    "below (store_dir cfg k) (StateBaseDir cfg @ ''/'' @ i) \<longleftrightarrow> i = k"
    "\<not> below (store_dir cfg k) (StateBaseDir cfg)"
proof -
  note d = store_paths(1) [OF assms(1,2)]
  show "below (store_dir cfg k) (state_file cfg i) \<longleftrightarrow> i = k"
    using not_below_store_dir [OF assms] state_file_eq [OF assms(1,3)] by (auto simp: d below_def HasPrefix_iff)
  show "below (store_dir cfg k) (StateBaseDir cfg @ ''/'' @ i) \<longleftrightarrow> i = k"
    using assms(3) by (auto simp: d below_def HasPrefix_iff safe_name_def)
  show "\<not> below (store_dir cfg k) (StateBaseDir cfg)"
    by (simp add: d below_def HasPrefix_iff)
qed

lemma store_fs_removed:
  assumes "clean_abs (StateBaseDir cfg)" "safe_name k" "store_fs cfg fs"
  shows "store_fs cfg (removed_fs cfg k fs)"
  using assms(3) below_store [OF assms(1,2)] below_store(3) [OF assms(1,2,2)]
  unfolding store_fs_def not_file_def map_of_removed by auto

lemma stored_removed:
  assumes "clean_abs (StateBaseDir cfg)" "safe_name k"
  shows "stored H cfg (removed_fs cfg k fs) = (stored H cfg fs)(k := None)"
  using below_store(1) [OF assms] by (auto simp: stored_def map_of_removed)

lemma run_store_Load:
  assumes q: "quiet_host H" and "safe_name k"
  shows "(case fst (run_state (store_Load H cfg k) w) of Inr sb \<Rightarrow> Some sb | Inl _ \<Rightarrow> None) = stored H cfg (lw_fs w) k"
proof -
  have "\<exists>x. run_state (os_ReadFile H (state_file cfg k)) w =
      (case (case map_of (lw_fs w) (state_file cfg k) of
          None \<Rightarrow> Inl (no_such_file (state_file cfg k))
        | Some Dir \<Rightarrow> Inl (Errorf (''read '' @ state_file cfg k @ '': is a directory''))
        | Some (File d) \<Rightarrow> Inr (d, lw_fs w)) of
        Inl e \<Rightarrow> (Inl e, w\<lparr>lw_out := x\<rparr>) | Inr (y, fs) \<Rightarrow> (Inr y, w\<lparr>lw_out := x, lw_fs := fs\<rparr>))"
    unfolding os_ReadFile_def by (rule run_quiet_call [OF q])
  then show ?thesis
    using assms(2)
    by (cases "map_of (lw_fs w) (state_file cfg k)")
      (auto simp: store_Load_def run_check stored_def split: FsNode.splits sum.splits)
qed

subsection \<open>The store as a map\<close>

interpretation file_store: map_store
  "store_ready H cfg" "\<lambda>w. stored H cfg (lw_fs w)" safe_name ls_ID
  "\<lambda>sb w. snd (run_state (store_Save H cfg sb) w)" "\<lambda>k w. snd (run_state (store_Delete H cfg k) w)"
  "\<lambda>k w. case fst (run_state (store_Load H cfg k) w) of Inr sb \<Rightarrow> Some sb | Inl _ \<Rightarrow> None"
  for H :: "'o Host" and cfg
proof unfold_locales
  fix s :: "'o let_world" and v :: LetSandbox
  assume r: "store_ready H cfg s" and k: "safe_name (ls_ID v)"
  then have c: "clean_abs (StateBaseDir cfg)" by (simp add: store_ready_def)
  have fs: "lw_fs (snd (run_state (store_Save H cfg v) s)) = saved_fs cfg v (lw_fs s)"
    using run_store_Save(2) [OF r k] by (simp add: saved_fs_def)
  show "store_ready H cfg (snd (run_state (store_Save H cfg v) s))"
    using r store_fs_saved [OF c k] unfolding store_ready_def fs by simp
  show "stored H cfg (lw_fs (snd (run_state (store_Save H cfg v) s))) = (stored H cfg (lw_fs s))(ls_ID v \<mapsto> v)"
    unfolding fs by (rule stored_saved [OF c k])
next
  fix s :: "'o let_world" and k
  assume r: "store_ready H cfg s" and k: "safe_name k"
  then have c: "clean_abs (StateBaseDir cfg)" and q: "quiet_host H" by (simp_all add: store_ready_def)
  show "store_ready H cfg (snd (run_state (store_Delete H cfg k) s))"
    using r store_fs_removed [OF c k] unfolding store_ready_def run_store_Delete(2) [OF q c k] by simp
  show "stored H cfg (lw_fs (snd (run_state (store_Delete H cfg k) s))) = (stored H cfg (lw_fs s))(k := None)"
    unfolding run_store_Delete(2) [OF q c k] by (rule stored_removed [OF c k])
  show "(case fst (run_state (store_Load H cfg k) s) of Inr sb \<Rightarrow> Some sb | Inl _ \<Rightarrow> None) = stored H cfg (lw_fs s) k"
    by (rule run_store_Load [OF q k])
qed

text \<open>
  C11: the file store implements a map from ids to states.  On a host where no call fails, after
  any sequence of saves and deletions a load of an id returns what the same sequence of updates and
  removals leaves in the map that the directory was before; no save and no deletion reports an
  error.  Ids are single path components.
\<close>

theorem store_refines_map:
  assumes "store_ready H cfg w" "\<forall>x \<in> set xs. safe_name (file_store.op_key x)" "safe_name k"
  shows "(case fst (run_state (store_Load H cfg k) (fold (file_store.run_op H cfg) xs w)) of
        Inr sb \<Rightarrow> Some sb | Inl _ \<Rightarrow> None) = fold file_store.spec_op xs (stored H cfg (lw_fs w)) k \<and>
    (\<forall>sb. safe_name (ls_ID sb) \<longrightarrow> fst (run_state (store_Save H cfg sb) (fold (file_store.run_op H cfg) xs w)) = Inr ()) \<and>
    fst (run_state (store_Delete H cfg k) (fold (file_store.run_op H cfg) xs w)) = Inr ()"
proof -
  have r: "store_ready H cfg (fold (file_store.run_op H cfg) xs w)"
    using file_store.run_refines [OF assms(1,2)] by blast
  have d: "quiet_host H" "clean_abs (StateBaseDir cfg)" using r by (simp_all add: store_ready_def)
  show ?thesis
    using file_store.load_after [OF assms] run_store_Save(1) [OF r] run_store_Delete(1) [OF d assms(3)] by simp
qed

lemma sample_store_ready: "store_ready calm_host sample_let_config sample_let_world"
proof -
  have "not_file sample_fs (StateBaseDir sample_let_config @ ''/'' @ k) \<and>
      map_of sample_fs (state_file sample_let_config k) \<noteq> Some Dir \<and>
      (map_of sample_fs (state_file sample_let_config k) \<noteq> None \<longrightarrow>
        map_of sample_fs (StateBaseDir sample_let_config @ ''/'' @ k) = Some Dir)" if k: "safe_name k" for k
  proof -
    have n: "CHR ''/'' \<notin> set k" "k \<noteq> []" using k by (simp_all add: safe_name_def)
    show ?thesis
      using n unfolding sample_state_file [OF k] sample_base not_file_def
      by (auto simp: sample_fs_def state_entry_def append_eq_Cons_conv Cons_eq_append_conv split: if_splits)
  qed
  moreover have "\<forall>q \<in> set (ancestors (StateBaseDir sample_let_config)). not_file sample_fs q"
    unfolding sample_base by code_simp
  moreover have "map_of sample_fs (StateBaseDir sample_let_config) = Some Dir"
    unfolding sample_base by (simp add: sample_fs_def)
  ultimately show ?thesis
    using sample_base_clean
    by (simp add: store_ready_def store_fs_def sample_let_world_def quiet_host_def calm_host_def)
qed

theorem store_refines_map_witness:
  "fst (run_state (store_Load calm_host sample_let_config ''c'') (fold (file_store.run_op calm_host sample_let_config)
     [Put (sample_stored ''c'' 30002), Drop ''a''] sample_let_world)) = Inr (sample_stored ''c'' 30002)"
proof -
  have c: "safe_name ''c''" "safe_name ''a''" "ls_ID (sample_stored ''c'' 30002) = ''c''"
    by (simp_all add: safe_name_def sample_stored_def new_state_def sample_let_request_def)
  from store_refines_map [OF sample_store_ready _ c(1), of "[Put (sample_stored ''c'' 30002), Drop ''a'']"]
  show ?thesis using c by (simp split: sum.splits)
qed

end
