(* ===== verification/Port_Registry.thy ===== *)
theory Port_Registry
  imports Main
begin

section \<open>The contract of a port registry\<close>

text \<open>
  Two parts of the system hand out host ports: the orchestrator, in its table
  \<^verbatim>\<open>sandbox_ports\<close>, and each node agent, in its map \<^verbatim>\<open>reservedPorts\<close>.  What their callers rely
  on is the same: a reservation is granted whole or not at all, nothing another owner holds is
  ever granted, and a release gives up what its owner holds and nothing else.  Reservation and
  release report by a boolean whether they took effect; one that did not leaves every holding
  as it was.

  \<open>run_ops\<close> is any interleaving of such calls.  The lemmas of the locale say what a holder keeps
  through it.
\<close>

datatype ('o, 'r) registry_op = Reserve 'o 'r | Release 'o

locale port_registry =
  fixes inv :: "'s \<Rightarrow> bool"
    and holds :: "'s \<Rightarrow> 'o \<Rightarrow> 'k \<Rightarrow> bool"
    and keys :: "'r \<Rightarrow> 'k set"
    and reserve :: "'o \<Rightarrow> 'r \<Rightarrow> 's \<Rightarrow> bool \<times> 's"
    and release :: "'o \<Rightarrow> 's \<Rightarrow> bool \<times> 's"
  assumes holds_unique: "inv s \<Longrightarrow> holds s a k \<Longrightarrow> holds s b k \<Longrightarrow> a = b"
    and reserve_inv: "inv s \<Longrightarrow> inv (snd (reserve a r s))"
    and reserve_ok: "inv s \<Longrightarrow> reserve a r s = (True, s') \<Longrightarrow>
          holds s' b k \<longleftrightarrow> holds s b k \<or> b = a \<and> k \<in> keys r"
    and reserve_failed: "inv s \<Longrightarrow> reserve a r s = (False, s') \<Longrightarrow> holds s' b k \<longleftrightarrow> holds s b k"
    and release_inv: "inv s \<Longrightarrow> inv (snd (release a s))"
    and release_ok: "inv s \<Longrightarrow> release a s = (True, s') \<Longrightarrow> holds s' b k \<longleftrightarrow> holds s b k \<and> b \<noteq> a"
    and release_failed: "inv s \<Longrightarrow> release a s = (False, s') \<Longrightarrow> holds s' b k \<longleftrightarrow> holds s b k"
begin

lemma reserve_free:
  assumes "inv s" "reserve a r s = (True, s')" "k \<in> keys r" "holds s b k"
  shows "b = a"
proof -
  have "inv s'" using reserve_inv [OF assms(1)] assms(2) by (metis snd_conv)
  moreover have "holds s' a k" "holds s' b k"
    using reserve_ok [OF assms(1,2)] assms(3,4) by blast+
  ultimately show ?thesis using holds_unique by blast
qed

lemma reserve_taken:
  assumes "inv s" "holds s b k" "b \<noteq> a" "k \<in> keys r"
  shows "\<not> fst (reserve a r s)"
  using reserve_free [OF assms(1) _ assms(4,2)] assms(3) by (metis (full_types) prod.collapse)

lemma reserve_keeps: "inv s \<Longrightarrow> holds s b k \<Longrightarrow> holds (snd (reserve a r s)) b k"
  by (metis (full_types) prod.collapse reserve_failed reserve_ok)

lemma release_keeps: "inv s \<Longrightarrow> holds s b k \<Longrightarrow> b \<noteq> a \<Longrightarrow> holds (snd (release a s)) b k"
  by (metis (full_types) prod.collapse release_failed release_ok)

lemma reserve_release:
  assumes "inv s" "\<And>k. \<not> holds s a k" "reserve a r s = (True, s1)" "release a s1 = (True, s2)"
  shows "holds s2 b k \<longleftrightarrow> holds s b k"
proof -
  have "inv s1" using reserve_inv [OF assms(1)] assms(3) by (metis snd_conv)
  then show ?thesis using release_ok [OF _ assms(4)] reserve_ok [OF assms(1,3)] assms(2) by blast
qed

fun run_op :: "('o, 'r) registry_op \<Rightarrow> 's \<Rightarrow> 's" where
  "run_op (Reserve a r) s = snd (reserve a r s)"
| "run_op (Release a) s = snd (release a s)"

fun run_ops :: "('o, 'r) registry_op list \<Rightarrow> 's \<Rightarrow> 's" where
  "run_ops [] s = s"
| "run_ops (x # xs) s = run_ops xs (run_op x s)"

lemma run_op_inv: "inv s \<Longrightarrow> inv (run_op x s)"
  by (cases x) (auto intro: reserve_inv release_inv)

lemma run_ops_inv: "inv s \<Longrightarrow> inv (run_ops xs s)"
  by (induction xs arbitrary: s) (auto intro: run_op_inv)

lemma run_ops_holds:
  assumes "inv s" "holds s b k" "Release b \<notin> set xs"
  shows "holds (run_ops xs s) b k"
  using assms
proof (induction xs arbitrary: s)
  case Nil
  then show ?case by simp
next
  case (Cons x xs)
  have "holds (run_op x s) b k"
    using Cons.prems by (cases x) (auto intro: reserve_keeps release_keeps)
  with Cons run_op_inv show ?case by simp
qed

lemma run_ops_excludes:
  assumes "inv s" "holds s b k" "Release b \<notin> set xs" "a \<noteq> b" "k \<in> keys r"
  shows "\<not> fst (reserve a r (run_ops xs s))"
proof -
  have "inv (run_ops xs s)"
    using assms(1) by (rule run_ops_inv)
  moreover have "holds (run_ops xs s) b k"
    using assms(1-3) by (rule run_ops_holds)
  ultimately show ?thesis
    by (rule reserve_taken) (use assms(4,5) in auto)
qed

end

end
