(* ===== verification/Let_Port_Props.thy ===== *)
theory Let_Port_Props
  imports Let_Evolve Let_Samples Port_Registry
begin

section \<open>sbxlet: what holds of the ports handed out while sandboxes are created\<close>

text \<open>
  The map \<^verbatim>\<open>reservedPorts\<close> of the service as a port registry: \<open>claim_ports\<close> is the part of
  \<^verbatim>\<open>createSandbox\<close> under the lock \<^verbatim>\<open>_ports\<close>, \<open>releaseReservedPorts\<close> what deletion does.
\<close>

definition let_holds :: "'o let_world \<Rightarrow> string \<Rightarrow> string \<Rightarrow> bool" where
  "let_holds w i k \<longleftrightarrow> map_of (lw_reserved w) k = Some i"

lemma map_of_reserve_keys:
  "map_of (reserve_keys i ks m) k = (if k \<in> set ks then Some i else map_of m k)"
  unfolding reserve_keys_def
  by (induction ks arbitrary: m) (auto simp: update_conv')

lemma distinct_reserve_keys: "distinct (map fst m) \<Longrightarrow> distinct (map fst (reserve_keys i ks m))"
  unfolding reserve_keys_def
  by (induction ks arbitrary: m) (auto simp: distinct_update)

lemma map_of_filter_value:
  "distinct (map fst m) \<Longrightarrow> map_of (filter (\<lambda>(_, v). v \<noteq> i) m) k = (case map_of m k of
     Some v \<Rightarrow> if v = i then None else Some v | None \<Rightarrow> None)"
  by (induction m) (auto simp: map_of_eq_None_iff split: option.splits)

lemma run_reserve:
  "run_state (reserveRequestedPorts i ps) w =
     ((), w\<lparr>lw_reserved := reserve_keys i (map mapping_key ps) (lw_reserved w)\<rparr>)"
  by (simp add: reserveRequestedPorts_def modify_let_def)

lemma run_release_all:
  "run_state (releaseReservedPorts i) w =
     ((), w\<lparr>lw_reserved := filter (\<lambda>(_, v). v \<noteq> i) (lw_reserved w)\<rparr>)"
  by (simp add: releaseReservedPorts_def modify_let_def)

subsection \<open>The check before a reservation\<close>

lemma keeps_check_port [evolve_intros]:
  assumes "inner f"
  shows "state_io_rel (keeps f) (check_port S i u p)"
  unfolding check_port_def check_reserved_def check_local_def ensureLocalPortFree_def
  by (intro evolve_intros assms)

lemma keeps_available [evolve_intros]:
  "inner f \<Longrightarrow> state_io_rel (keeps f) (ensureHostPortsAvailable S i ps)"
  unfolding ensureHostPortsAvailable_def by (intro evolve_intros)

lemma check_port_Inr:
  assumes "run_state (check_port S i u p) w = (Inr x, w')"
  shows "map_of (lw_reserved w) (mapping_key p) \<in> {None, Some i}"
  using assms unfolding check_port_def check_reserved_def gets_let_def
  by (auto split: option.splits prod.splits if_splits)

lemma check_ports_Inr:
  assumes "run_state (for_each_err (check_port S i u) ps) w = (Inr x, w')"
  shows "\<forall>p \<in> set ps. map_of (lw_reserved w) (mapping_key p) \<in> {None, Some i}"
  using assms
proof (induction ps arbitrary: w)
  case (Cons p ps)
  from Cons.prems obtain y w1 where p: "run_state (check_port S i u p) w = (Inr y, w1)"
    and r: "run_state (for_each_err (check_port S i u) ps) w1 = (Inr x, w')"
    unfolding for_each_err.simps by (rule check_InrE)
  have "lw_reserved w1 = lw_reserved w"
    using io_relD [OF keeps_check_port p, of lw_reserved] by (simp add: keeps_def inner_fields)
  with Cons.IH [OF r] check_port_Inr [OF p] show ?case by simp
qed simp

lemma available_Inr:
  assumes "run_state (ensureHostPortsAvailable S i ps) w = (Inr x, w')"
  shows "\<forall>p \<in> set ps. map_of (lw_reserved w) (mapping_key p) \<in> {None, Some i}"
proof (cases "ps = []")
  case False
  with assms obtain all w1 where l: "run_state (store_List (sv_host S) (sv_cfg S)) w = (Inr all, w1)"
    and c: "run_state (for_each_err (check_port S i (used_ports i all)) ps) w1 = (Inr x, w')"
    unfolding ensureHostPortsAvailable_def by (simp, elim check_InrE) blast
  have "lw_reserved w1 = lw_reserved w"
    using io_relD [OF keeps_store(2) l, of lw_reserved] by (simp add: keeps_def inner_fields)
  with check_ports_Inr [OF c] show ?thesis by simp
qed simp

subsection \<open>The registry\<close>

lemma with_lock_InrE:
  assumes "run_state (with_lock H cfg l m) w = (Inr x, w')"
  obtains w1 w2 where "run_state (acquireSandboxLock H cfg l) w = (Inr (), w1)"
    "run_state m w1 = (Inr x, w2)" "w' = snd (run_state (unlock cfg l) w2)"
  using assms unfolding with_lock_def
  by (elim check_InrE) (auto split: prod.splits)

lemma claim_ports_Inr:
  assumes "run_state (claim_ports S i ps) w = (Inr x, w')"
  shows "\<forall>p \<in> set ps. map_of (lw_reserved w) (mapping_key p) \<in> {None, Some i}"
    "lw_reserved w' = reserve_keys i (map mapping_key ps) (lw_reserved w)"
proof -
  obtain w1 w2 where 1: "run_state (acquireSandboxLock (sv_host S) (sv_cfg S) ''_ports'') w = (Inr (), w1)"
    and 2: "run_state (check (ensureHostPortsAvailable S i ps) (\<lambda>_. do { reserveRequestedPorts i ps; ok () })) w1 = (Inr x, w2)"
    and 3: "w' = snd (run_state (unlock (sv_cfg S) ''_ports'') w2)"
    using assms unfolding claim_ports_def by (rule with_lock_InrE)
  from 2 obtain y w3 where 4: "run_state (ensureHostPortsAvailable S i ps) w1 = (Inr y, w3)"
    and 5: "w2 = w3\<lparr>lw_reserved := reserve_keys i (map mapping_key ps) (lw_reserved w3)\<rparr>"
    by (elim check_InrE) (auto simp: run_reserve)
  have r: "lw_reserved w1 = lw_reserved w" "lw_reserved w3 = lw_reserved w1" "lw_reserved w' = lw_reserved w2"
    using io_relD [OF keeps_store(5) 1, of lw_reserved] io_relD [OF keeps_available 4, of lw_reserved] 3
    by (simp_all add: keeps_def inner_fields unlock_def modify_let_def)
  from available_Inr [OF 4] r show "\<forall>p \<in> set ps. map_of (lw_reserved w) (mapping_key p) \<in> {None, Some i}"
    by simp
  from 5 r show "lw_reserved w' = reserve_keys i (map mapping_key ps) (lw_reserved w)" by simp
qed

lemma claim_ports_Inl:
  assumes "run_state (claim_ports S i ps) w = (Inl e, w')"
  shows "lw_reserved w' = lw_reserved w"
proof -
  let ?m = "check (ensureHostPortsAvailable S i ps) (\<lambda>_. do { reserveRequestedPorts i ps; ok () })"
  obtain a w1 where 1: "run_state (acquireSandboxLock (sv_host S) (sv_cfg S) ''_ports'') w = (a, w1)" by fastforce
  obtain b w2 where 2: "run_state (ensureHostPortsAvailable S i ps) w1 = (b, w2)" by fastforce
  have r: "lw_reserved w1 = lw_reserved w" "lw_reserved w2 = lw_reserved w1"
    using io_relD [OF keeps_store(5) 1, of lw_reserved] io_relD [OF keeps_available 2, of lw_reserved]
    by (simp_all add: keeps_def inner_fields)
  show ?thesis
    using assms 1 2 r unfolding claim_ports_def with_lock_def
    by (cases a; cases b) (auto simp: run_check run_reserve unlock_def modify_let_def)
qed

interpretation let_ports: port_registry
  "\<lambda>w. distinct (map fst (lw_reserved w))" let_holds "\<lambda>ps. mapping_key ` set ps"
  "\<lambda>i ps w. succeeded (run_state (claim_ports S i ps) w)"
  "\<lambda>i w. (True, snd (run_state (releaseReservedPorts i) w))"
  for S :: "'o LetService"
proof unfold_locales
  fix s s' :: "'o let_world" and a b k ps
  assume "succeeded (run_state (claim_ports S a ps) s) = (True, s')"
  then have "run_state (claim_ports S a ps) s = (Inr (), s')" by simp
  from claim_ports_Inr [OF this] show "let_holds s' b k \<longleftrightarrow> let_holds s b k \<or> b = a \<and> k \<in> mapping_key ` set ps"
    by (auto simp: let_holds_def map_of_reserve_keys)
next
  fix s :: "'o let_world" and a ps
  assume "distinct (map fst (lw_reserved s))"
  moreover obtain r s' where r: "run_state (claim_ports S a ps) s = (r, s')" by fastforce
  ultimately show "distinct (map fst (lw_reserved (snd (succeeded (run_state (claim_ports S a ps) s)))))"
    using claim_ports_Inr(2) claim_ports_Inl by (cases r) (fastforce simp: distinct_reserve_keys)+
qed (auto simp: let_holds_def run_release_all map_of_filter_value distinct_map_filter dest: claim_ports_Inl
    split: option.splits if_splits)

text \<open>
  C13: two creations in flight never share a host port.  Once sandbox \<open>b\<close> has claimed a port, a
  claim of the same port and protocol (however the protocol is spelled) by another sandbox is
  refused after any sequence of claims and releases in which \<open>b\<close> releases nothing, whatever the
  file system, the listener probe and the other locks answer.
\<close>

theorem claims_exclude:
  assumes "distinct (map fst (lw_reserved w))" "map_of (lw_reserved w) (portKey hp proto) = Some b"
    and "Release b \<notin> set ops" "a \<noteq> b"
    and "p \<in> set ps" "pm_HostPort p = hp" "normalizeProto (pm_Protocol p) = normalizeProto proto"
  shows "\<exists>e. fst (run_state (claim_ports S a ps) (let_ports.run_ops S ops w)) = Inl e"
proof -
  have "mapping_key p = portKey hp proto"
    using assms(6,7) by (simp add: mapping_key_def portKey_def)
  then have k: "portKey hp proto \<in> mapping_key ` set ps" using assms(5) by force
  have h: "let_holds w b (portKey hp proto)" using assms(2) by (simp add: let_holds_def)
  from let_ports.run_ops_excludes [OF assms(1) h assms(3,4) k, of S] show ?thesis
    by (cases "fst (run_state (claim_ports S a ps) (let_ports.run_ops S ops w))") (auto simp: succeeded_def)
qed

definition claimed_world :: "chains let_world" where
  "claimed_world = sample_let_world\<lparr>lw_reserved := [(portKey 30000 ''tcp'', ''b'')]\<rparr>"

theorem claims_exclude_witness:
  "\<exists>e. fst (run_state (claim_ports sample_service ''a'' [sample_mapping 30001, sample_mapping 30000])
     (let_ports.run_ops sample_service [Reserve ''c'' [sample_mapping 30002], Release ''c''] claimed_world)) = Inl e"
proof -
  have n: "normalizeProto (pm_Protocol (sample_mapping 30000)) = normalizeProto ''tcp''"
    by code_simp
  show ?thesis
    by (rule claims_exclude [of claimed_world 30000 "''tcp''" "''b''" _ _ "sample_mapping 30000"])
      (simp_all add: n claimed_world_def, simp_all add: sample_mapping_def)
qed

end
