(* ===== verification/Let_Admission_Props.thy ===== *)
theory Let_Admission_Props
  imports Let_Samples
begin

section \<open>sbxlet: what admission guarantees\<close>

text \<open>
  \<^verbatim>\<open>enforceAdmission\<close> against exact sums.  \<open>demand\<close> is what a list of resource specifications asks
  for as whole numbers; a specification that does not parse counts as nothing, as in the code.
\<close>

definition spec_of :: "'o Host \<Rightarrow> ResourceSpec \<Rightarrow> parsedResource" where
  "spec_of H r = (case parseContainerResource H r of Inl _ \<Rightarrow> zero_resource | Inr p \<Rightarrow> p)"

definition cpu_demand :: "'o Host \<Rightarrow> ResourceSpec list \<Rightarrow> int" where
  "cpu_demand H rs = (\<Sum>r \<leftarrow> rs. pr_CPUMilli (spec_of H r))"

definition mem_demand :: "'o Host \<Rightarrow> ResourceSpec list \<Rightarrow> int" where
  "mem_demand H rs = (\<Sum>r \<leftarrow> rs. pr_MemoryBytes (spec_of H r))"

lemmas demand_defs = cpu_demand_def mem_demand_def

text \<open>The specifications of the stored sandboxes that count.\<close>

definition held_specs :: "string \<Rightarrow> LetSandbox list \<Rightarrow> ResourceSpec list" where
  "held_specs exceptID all = concat (map (\<lambda>sb. map (\<lambda>c. cs_Resource (snd c)) (ls_Containers sb)) (filter (counted exceptID) all))"

definition requested_specs :: "CreateSandboxRequest \<Rightarrow> ResourceSpec list" where
  "requested_specs req = map cc_Resource (cr_Containers req)"

lemma parse_positive:
  "parseContainerResource H r = Inr p \<Longrightarrow> 0 < pr_CPUMilli p \<and> 0 < pr_MemoryBytes p"
  unfolding parseContainerResource_def parseCPUMilli_def parseMemoryBytes_def Let_def
  by (auto split: sum.splits if_splits)

lemma spec_nonneg: "0 \<le> pr_CPUMilli (spec_of H r)" "0 \<le> pr_MemoryBytes (spec_of H r)"
  using parse_positive [of H r] by (auto simp: spec_of_def zero_resource_def split: sum.split)

lemma demand_simps [simp]:
  "cpu_demand H [] = 0" "mem_demand H [] = 0"
  "cpu_demand H (r # rs) = pr_CPUMilli (spec_of H r) + cpu_demand H rs"
  "mem_demand H (r # rs) = pr_MemoryBytes (spec_of H r) + mem_demand H rs"
  "cpu_demand H (rs @ ss) = cpu_demand H rs + cpu_demand H ss"
  "mem_demand H (rs @ ss) = mem_demand H rs + mem_demand H ss"
  by (simp_all add: demand_defs)

lemma demand_nonneg: "0 \<le> cpu_demand H rs" "0 \<le> mem_demand H rs"
  by (induction rs) (simp_all add: spec_nonneg)

text \<open>Below the bound of 64-bit integers the accumulator of a loop is the exact sum.\<close>

definition adds_up :: "'o Host \<Rightarrow> parsedResource \<Rightarrow> ResourceSpec list \<Rightarrow> parsedResource" where
  "adds_up H t rs = \<lparr>pr_CPUMilli = pr_CPUMilli t + cpu_demand H rs, pr_MemoryBytes = pr_MemoryBytes t + mem_demand H rs\<rparr>"

definition fits :: "'o Host \<Rightarrow> parsedResource \<Rightarrow> ResourceSpec list \<Rightarrow> bool" where
  "fits H t rs \<longleftrightarrow> 0 \<le> pr_CPUMilli t \<and> pr_CPUMilli t + cpu_demand H rs < 2 ^ 63 \<and>
     0 \<le> pr_MemoryBytes t \<and> pr_MemoryBytes t + mem_demand H rs < 2 ^ 63"

lemma i64_exact: "0 \<le> x \<Longrightarrow> x < 2 ^ 63 \<Longrightarrow> i64 x = x"
  by (simp add: i64_def)

lemma add_exact:
  assumes "fits H t (r # rs)"
  shows "add_resource t (spec_of H r) = adds_up H t [r]" "fits H (adds_up H t [r]) rs"
  using assms spec_nonneg [of H r] demand_nonneg [of H rs]
  by (simp_all add: fits_def adds_up_def add_resource_def i64_exact)

lemma adds_up_simps [simp]: "adds_up H t [] = t" "adds_up H (adds_up H t rs) ss = adds_up H t (rs @ ss)"
  by (simp_all add: adds_up_def)

definition parses :: "'o Host \<Rightarrow> ResourceSpec \<Rightarrow> bool" where
  "parses H r \<longleftrightarrow> (\<exists>p. parseContainerResource H r = Inr p)"

lemma parses_cases:
  obtains "parses H r" "parseContainerResource H r = Inr (spec_of H r)"
  | e where "\<not> parses H r" "parseContainerResource H r = Inl e" "spec_of H r = zero_resource"
  by (cases "parseContainerResource H r") (auto simp: parses_def spec_of_def)

lemma sum_request_exact:
  assumes "fits H t (map cc_Resource cs)"
  shows "case sum_request H wrap t cs of
      Inr s \<Rightarrow> (\<forall>c \<in> set cs. parses H (cc_Resource c)) \<and> s = adds_up H t (map cc_Resource cs)
    | Inl _ \<Rightarrow> \<not> (\<forall>c \<in> set cs. parses H (cc_Resource c))"
  using assms
proof (induction cs arbitrary: t)
  case (Cons c cs)
  have f: "fits H t (cc_Resource c # map cc_Resource cs)" using Cons.prems by simp
  show ?case
  proof (cases H "cc_Resource c" rule: parses_cases)
    case 1
    from Cons.IH [OF add_exact(2) [OF f]] show ?thesis
      using 1 add_exact(1) [OF f] by (simp split: sum.splits)
  qed simp
qed simp

lemma add_containers_exact:
  assumes "fits H t (map cs_Resource cs)"
  shows "add_containers H t cs = adds_up H t (map cs_Resource cs)"
  using assms
proof (induction cs arbitrary: t)
  case (Cons c cs)
  show ?case
  proof (cases "parseContainerResource H (cs_Resource c)")
    case (Inl e)
    then have "spec_of H (cs_Resource c) = zero_resource" by (simp add: spec_of_def)
    with Cons Inl show ?thesis by (simp add: adds_up_def fits_def zero_resource_def)
  next
    case (Inr p)
    then have "spec_of H (cs_Resource c) = p" by (simp add: spec_of_def)
    with Cons add_exact [of H t "cs_Resource c" "map cs_Resource cs"] Inr show ?thesis by simp
  qed
qed simp

lemma fits_append: "fits H t (rs @ ss) \<Longrightarrow> fits H t rs \<and> fits H (adds_up H t rs) ss"
  using demand_nonneg [of H rs] demand_nonneg [of H ss] by (simp add: fits_def adds_up_def)

lemma add_sandboxes_exact:
  assumes "fits H t (held_specs i all)"
  shows "add_sandboxes H i t all = adds_up H t (held_specs i all)"
  using assms
proof (induction all arbitrary: t)
  case Nil
  then show ?case by (simp add: held_specs_def)
next
  case (Cons sb all)
  show ?case
  proof (cases "counted i sb")
    case True
    let ?rs = "map (\<lambda>c. cs_Resource (snd c)) (ls_Containers sb)"
    have h: "held_specs i (sb # all) = ?rs @ held_specs i all" using True by (simp add: held_specs_def)
    have "fits H t ?rs" "fits H (adds_up H t ?rs) (held_specs i all)"
      using Cons.prems fits_append unfolding h by blast+
    then show ?thesis
      using Cons.IH True add_containers_exact [of H t "map snd (ls_Containers sb)"] h by (simp add: o_def)
  next
    case False
    then show ?thesis using Cons by (simp add: held_specs_def)
  qed
qed

subsection \<open>The decision\<close>

lemma percent_bound:
  assumes "0 \<le> n * p" "n * p < 2 ^ 63"
  shows "x \<le> percent_of n p \<longleftrightarrow> 100 * x \<le> n * p"
  using assms by (auto simp: percent_of_def i64_exact go_div_nonneg)

text \<open>
  C14: admission is exact as long as nothing overflows.  When the states and the memory of the
  host can be read and the sums stay below the bound of 64-bit integers, a request is admitted
  iff each of its containers has a readable resource specification and the whole demand, that of
  every other sandbox which is neither deleting nor failed included, is at most the configured
  percentage of the processors and of the memory.
\<close>

theorem admission_exact:
  assumes "run_state (store_List H cfg) w = (Inr stored_sandboxes, w1)" "run_state (hostTotalMemoryBytes H) w1 = (Inr mem, w2)"
    and "fits H zero_resource (held_specs (cr_ID req) stored_sandboxes @ requested_specs req)"
    and "0 \<le> ho_NumCPU H * 1000" "ho_NumCPU H * 1000 < 2 ^ 63"
    and "0 \<le> ho_NumCPU H * 1000 * MaxAllocPercent cfg" "ho_NumCPU H * 1000 * MaxAllocPercent cfg < 2 ^ 63"
    and "0 \<le> mem * MaxAllocPercent cfg" "mem * MaxAllocPercent cfg < 2 ^ 63"
  shows "(\<exists>u. fst (run_state (enforceAdmission H cfg req) w) = Inr u) \<longleftrightarrow>
    (\<forall>c \<in> set (cr_Containers req). parses H (cc_Resource c)) \<and>
    100 * cpu_demand H (held_specs (cr_ID req) stored_sandboxes @ requested_specs req) \<le> ho_NumCPU H * 1000 * MaxAllocPercent cfg \<and>
    100 * mem_demand H (held_specs (cr_ID req) stored_sandboxes @ requested_specs req) \<le> mem * MaxAllocPercent cfg"
proof -
  let ?held = "held_specs (cr_ID req) stored_sandboxes" and ?req = "requested_specs req"
  have f: "fits H zero_resource ?held" "fits H zero_resource ?req"
    using assms(3) demand_nonneg [of H ?held] demand_nonneg [of H ?req] by (simp_all add: fits_def)
  have used: "run_state (currentAllocatedResources H cfg (cr_ID req)) w = (Inr (adds_up H zero_resource ?held), w1)"
    using assms(1) add_sandboxes_exact [OF f(1)] by (simp add: currentAllocatedResources_def run_check)
  have hc: "hostCPU H = ho_NumCPU H * 1000"
    using assms(4,5) by (simp add: hostCPU_def i64_exact)
  have sums: "i64 (pr_CPUMilli (adds_up H zero_resource ?held) + pr_CPUMilli (adds_up H zero_resource ?req)) = cpu_demand H (?held @ ?req)"
    "i64 (pr_MemoryBytes (adds_up H zero_resource ?held) + pr_MemoryBytes (adds_up H zero_resource ?req)) = mem_demand H (?held @ ?req)"
    using assms(3) demand_nonneg [of H "?held @ ?req"] by (simp_all add: adds_up_def zero_resource_def fits_def i64_exact)
  have adm: "admits cfg (hostCPU H) mem (adds_up H zero_resource ?held) (adds_up H zero_resource ?req) = None \<longleftrightarrow>
      100 * cpu_demand H (?held @ ?req) \<le> ho_NumCPU H * 1000 * MaxAllocPercent cfg \<and>
      100 * mem_demand H (?held @ ?req) \<le> mem * MaxAllocPercent cfg"
    unfolding admits_def Let_def sums hc percent_bound [OF assms(6,7), symmetric] percent_bound [OF assms(8,9), symmetric]
    by auto
  have r: "case sum_request H (\<lambda>n. ''container '' @ n @ '' resource parse failed'') zero_resource (cr_Containers req) of
      Inr s \<Rightarrow> (\<forall>c \<in> set (cr_Containers req). parses H (cc_Resource c)) \<and> s = adds_up H zero_resource ?req
    | Inl _ \<Rightarrow> \<not> (\<forall>c \<in> set (cr_Containers req). parses H (cc_Resource c))"
    using sum_request_exact f(2) unfolding requested_specs_def by blast
  show ?thesis
  proof (cases "sum_request H (\<lambda>n. ''container '' @ n @ '' resource parse failed'') zero_resource (cr_Containers req)")
    case (Inl e)
    with r show ?thesis by (simp add: enforceAdmission_def)
  next
    case (Inr s)
    with r have s: "s = adds_up H zero_resource ?req" "\<forall>c \<in> set (cr_Containers req). parses H (cc_Resource c)" by simp_all
    have "run_state (enforceAdmission H cfg req) w =
        (case admits cfg (hostCPU H) mem (adds_up H zero_resource ?held) (adds_up H zero_resource ?req) of
           Some e \<Rightarrow> (Inl e, w2) | None \<Rightarrow> (Inr (), w2))"
      unfolding enforceAdmission_def Inr s(1) by (simp add: run_check used assms(2) split: option.split)
    then show ?thesis using adm s(2)
      by (cases "admits cfg (hostCPU H) mem (adds_up H zero_resource ?held) (adds_up H zero_resource ?req)") simp_all
  qed
qed

subsection \<open>Witness and overflow\<close>

definition idle_world :: "chains let_world" where
  "idle_world = sample_let_world\<lparr>lw_fs := [(''/var/lib/sandboxd/sandboxes'', Dir), (''/var/lib/sandboxd/locks'', Dir),
     (''/proc/meminfo'', File (Bytes ''MemTotal: 8000 kB''))]\<rparr>"

lemma idle_runs:
  "fst (run_state (store_List calm_host sample_let_config) idle_world) = Inr []"
  "snd (run_state (store_List calm_host sample_let_config) idle_world) = idle_world"
  "fst (run_state (hostTotalMemoryBytes calm_host) idle_world) = Inr 8192000"
  "MaxAllocPercent sample_let_config = 90"
  by code_simp+

theorem admission_exact_witness:
  "\<exists>u. fst (run_state (enforceAdmission calm_host sample_let_config (sample_let_request ''c'' 30005)) idle_world) = Inr u"
proof -
  have l: "run_state (store_List calm_host sample_let_config) idle_world = (Inr [], idle_world)"
    "run_state (hostTotalMemoryBytes calm_host) idle_world = (Inr 8192000, snd (run_state (hostTotalMemoryBytes calm_host) idle_world))"
    using idle_runs by (simp_all add: prod_eq_iff)
  have r: "parseContainerResource (calm_host :: chains Host) \<lparr>rs_CPU = ''1'', rs_Memory = ''1000''\<rparr> = Inr \<lparr>pr_CPUMilli = 1000, pr_MemoryBytes = 1000\<rparr>"
    by code_simp
  then have p: "parses (calm_host :: chains Host) \<lparr>rs_CPU = ''1'', rs_Memory = ''1000''\<rparr>"
    "spec_of (calm_host :: chains Host) \<lparr>rs_CPU = ''1'', rs_Memory = ''1000''\<rparr> = \<lparr>pr_CPUMilli = 1000, pr_MemoryBytes = 1000\<rparr>"
    by (simp_all add: parses_def spec_of_def)
  have d: "held_specs i [] = []" "requested_specs (sample_let_request ''c'' 30005) = [\<lparr>rs_CPU = ''1'', rs_Memory = ''1000''\<rparr>]" for i
    by (simp_all add: held_specs_def requested_specs_def sample_let_request_def sample_container_def)
  have n: "ho_NumCPU (calm_host :: chains Host) = 4" by (simp add: calm_host_def)
  from admission_exact [OF l, of "sample_let_request ''c'' 30005"]
  show ?thesis
    unfolding d n idle_runs(4)
    by (simp add: fits_def p zero_resource_def) (simp add: sample_let_request_def sample_container_def p)
qed

definition huge_request :: CreateSandboxRequest where
  "huge_request = (sample_let_request ''c'' 30005)\<lparr>cr_Containers :=
     [(sample_container ''a'')\<lparr>cc_Resource := \<lparr>rs_CPU = ''1'', rs_Memory = ''4611686018427387904''\<rparr>\<rparr>,
      (sample_container ''b'')\<lparr>cc_Resource := \<lparr>rs_CPU = ''1'', rs_Memory = ''4611686018427387904''\<rparr>\<rparr>]\<rparr>"


end
