(* ===== verification/Orch_Repo.thy ===== *)
theory Orch_Repo
  imports Orch_World
begin

section \<open>sbxorch: the node and sandbox repositories\<close>

text \<open>
  \<^verbatim>\<open>sandboxd-orch/repo/node_repo.go\<close> and \<^verbatim>\<open>sandbox_repo.go\<close>: one definition per method, in the
  order of the file, over the statements of \<open>Orch_Db\<close>.  A method that issues several statements
  can stop between any two of them; only \<open>repo_SetNodeExternal\<close> and
  \<open>repo_ReserveSandboxPortsAndSchedule\<close> run in a transaction.
\<close>

subsection \<open>Nodes\<close>

definition repo_UpsertNode :: "string \<Rightarrow> string \<Rightarrow> int \<Rightarrow> string \<Rightarrow> ('e, unit) io" where
  "repo_UpsertNode id0 ip port source = do {
     now \<leftarrow> time_Now;
     check (exec (sql_upsert_node id0 ip port source now)) (\<lambda>_.
     check (exec (sql_init_status id0 now)) (\<lambda>_.
     exec (sql_init_resources id0 now))) }"

definition repo_DeleteNode :: "string \<Rightarrow> ('e, unit) io" where
  "repo_DeleteNode id0 =
     check (exec (sql_delete_ports_of_node id0)) (\<lambda>_.
     check (exec (sql_delete_resources id0)) (\<lambda>_.
     check (exec (sql_delete_status id0)) (\<lambda>_.
     exec (sql_delete_node id0))))"

definition repo_GetNode :: "string \<Rightarrow> ('e, Node) io" where
  "repo_GetNode id0 = query_row (sql_get_node id0)"

definition repo_ListNodes :: "('e, Node list) io" where
  "repo_ListNodes = query sql_list_nodes"

definition repo_UpdateHeartbeat ::
  "string \<Rightarrow> NodeState \<Rightarrow> int \<Rightarrow> int \<Rightarrow> string \<Rightarrow> int option \<Rightarrow> ('e, unit) io" where
  "repo_UpdateHeartbeat id0 st ss fs lastError beatAt = do {
     updated \<leftarrow> time_Now;
     exec (sql_upsert_heartbeat id0 st ss fs lastError beatAt updated) }"

definition repo_UpdateNodeResources :: "string \<Rightarrow> NodeResources \<Rightarrow> ('e, unit) io" where
  "repo_UpdateNodeResources id0 res = do {
     updated \<leftarrow> time_Now;
     exec (sql_upsert_resources id0 res updated) }"

definition repo_AdjustNodeResourceUsage :: "string \<Rightarrow> int \<Rightarrow> int \<Rightarrow> ('e, unit) io" where
  "repo_AdjustNodeResourceUsage id0 cpuDelta memDelta = do {
     now \<leftarrow> time_Now;
     exec (sql_adjust_usage id0 cpuDelta memDelta now) }"

subsection \<open>Externals\<close>

text \<open>\<^verbatim>\<open>Scan\<close> into a zero string with \<^verbatim>\<open>sql.ErrNoRows\<close> ignored: no row reads as the empty string.\<close>

definition scan_or_empty :: "(database \<Rightarrow> string option) \<Rightarrow> ('e, string) io" where
  "scan_or_empty q = do {
     r \<leftarrow> query_row q;
     (case r of
        Inl err \<Rightarrow> if errors_Is err ErrNoRows then ok [] else fail err
      | Inr x \<Rightarrow> ok x) }"

definition bind_external :: "string \<Rightarrow> string \<Rightarrow> string \<Rightarrow> int \<Rightarrow> ('e, unit) io" where
  "bind_external externalID nodeID external now =
     check (scan_or_empty (\<lambda>d. map_option ext_NodeID (sql_get_external externalID d))) (\<lambda>byIDNode.
     if byIDNode \<noteq> [] \<and> byIDNode \<noteq> nodeID
     then fail (Errorf_s ErrExternalConflict
            (''external id '' @ externalID @ '' already bound to node '' @ byIDNode))
     else
     check (scan_or_empty (\<lambda>d. map_option ext_ID (sql_external_of_node nodeID d))) (\<lambda>byNodeID.
     if byNodeID \<noteq> [] \<and> byNodeID \<noteq> externalID
     then fail (Errorf_s ErrExternalConflict
            (''node '' @ nodeID @ '' already bound to external id '' @ byNodeID))
     else
     check (if byIDNode \<noteq> [] then exec (sql_update_external externalID external now)
            else exec_c (sql_insert_external \<lparr>ex_external_id = externalID, ex_node_id = nodeID,
                   ex_external = external, ex_created_at = now, ex_updated_at = now\<rparr>)) (\<lambda>_.
     exec (sql_set_resources_external external nodeID now))))"

definition repo_SetNodeExternal :: "string \<Rightarrow> string \<Rightarrow> string \<Rightarrow> ('e, unit) io" where
  "repo_SetNodeExternal externalID nodeID external = do {
     now \<leftarrow> time_Now;
     transaction (bind_external externalID nodeID external now) }"

definition repo_DeleteNodeExternal :: "string \<Rightarrow> ('e, unit) io" where
  "repo_DeleteNodeExternal nodeID =
     check (exec (sql_delete_external_of_node nodeID)) (\<lambda>_. do {
       now \<leftarrow> time_Now;
       exec (sql_set_resources_external ''(none)'' nodeID now) })"

definition repo_DeleteExternal :: "string \<Rightarrow> ('e, unit) io" where
  "repo_DeleteExternal id0 =
     check (query_row (\<lambda>d. map_option ext_NodeID (sql_get_external id0 d))) (\<lambda>nodeID.
     check (exec (sql_delete_external id0)) (\<lambda>_. do {
       now \<leftarrow> time_Now;
       exec (sql_set_resources_external ''(none)'' nodeID now) }))"

definition repo_ListExternals :: "('e, External list) io" where
  "repo_ListExternals = query sql_list_externals"

definition repo_GetExternal :: "string \<Rightarrow> ('e, External) io" where
  "repo_GetExternal id0 = query_row (sql_get_external id0)"

subsection \<open>Sandboxes\<close>

text \<open>The zero time of Go in \<^verbatim>\<open>sbx.CreatedAt.IsZero()\<close>, in nanoseconds since the Unix epoch.\<close>

definition zero_time :: int where
  "zero_time = - 62135596800 * 10 ^ 9"

definition repo_CreateSandbox :: "Sandbox \<Rightarrow> ('e, unit) io" where
  "repo_CreateSandbox sbx = do {
     now \<leftarrow> time_Now;
     exec_c (sql_insert_sandbox \<lparr>sb_id = sbx_ID sbx, sb_spec = sbx_Spec sbx,
       sb_status = status_json (sbx_Status sbx),
       sb_created_at = (if sbx_CreatedAt sbx = zero_time then now else sbx_CreatedAt sbx),
       sb_updated_at = now\<rparr>) }"

definition repo_GetSandbox :: "string \<Rightarrow> ('e, Sandbox) io" where
  "repo_GetSandbox id0 = query_row (sql_get_sandbox id0)"

definition repo_ListSandboxes :: "('e, Sandbox list) io" where
  "repo_ListSandboxes = query sql_list_sandboxes"

definition repo_UpdateSandboxStatus :: "string \<Rightarrow> SandboxStatus \<Rightarrow> ('e, unit) io" where
  "repo_UpdateSandboxStatus id0 st = do {
     now \<leftarrow> time_Now;
     exec (sql_update_status id0 st now) }"

definition repo_UpdateSandboxStatusIfUnchanged :: "string \<Rightarrow> SandboxStatus \<Rightarrow> int \<Rightarrow> ('e, bool) io" where
  "repo_UpdateSandboxStatusIfUnchanged id0 st expectedUpdatedAt = do {
     now \<leftarrow> time_Now;
     check (exec_rows (sql_update_status_if id0 st now expectedUpdatedAt)) (\<lambda>affected.
       ok (affected = 1)) }"

definition repo_DeleteSandbox :: "string \<Rightarrow> ('e, unit) io" where
  "repo_DeleteSandbox id0 =
     check (exec (sql_delete_ports_of_sandbox id0)) (\<lambda>_. exec (sql_delete_sandbox id0))"

definition reserve_port :: "string \<Rightarrow> string \<Rightarrow> SandboxPortAssign \<Rightarrow> ('e, unit) io" where
  "reserve_port sandboxID nodeName p = do {
     now \<leftarrow> time_Now;
     r \<leftarrow> exec_c (sql_insert_port \<lparr>pt_sandbox_id = sandboxID, pt_node_name = nodeName,
            pt_host_port = pa_HostPort p, pt_container_port = pa_ContainerPort p,
            pt_protocol = pa_Protocol p, pt_created_at = now\<rparr>);
     (case r of
        Inl err \<Rightarrow> fail (Errorf_s ErrPortReservationConflict (err_text err))
      | Inr _ \<Rightarrow> ok ()) }"

definition port_free :: "string \<Rightarrow> SandboxPortAssign \<Rightarrow> ('e, unit) io" where
  "port_free nodeName p =
     check (query (sql_count_port nodeName (pa_HostPort p))) (\<lambda>cnt.
       if 0 < cnt
       then fail (Errorf_s ErrPortReservationConflict (''host port already reserved on node '' @ nodeName
              @ '': '' @ show_int (pa_HostPort p)))
       else ok ())"

definition repo_ReserveSandboxPortsAndSchedule ::
  "string \<Rightarrow> string \<Rightarrow> SandboxPortAssign list \<Rightarrow> ('e, unit) io" where
  "repo_ReserveSandboxPortsAndSchedule sandboxID nodeName ports = transaction (
     check (for_each_err (port_free nodeName) ports) (\<lambda>_.
     check (for_each_err (reserve_port sandboxID nodeName) ports) (\<lambda>_.
     check (query_row (sql_get_sandbox sandboxID)) (\<lambda>sbx.
       let st = (sbx_Status sbx)\<lparr>st_NodeName := nodeName, st_Phase := SandboxPhaseScheduled,
                  st_AssignedPorts := ports\<rparr> in
       do { now \<leftarrow> time_Now; exec (sql_update_status sandboxID st now) }))))"

definition repo_ReleaseSandboxPorts :: "string \<Rightarrow> ('e, unit) io" where
  "repo_ReleaseSandboxPorts sandboxID = exec (sql_delete_ports_of_sandbox sandboxID)"

definition repo_NodeUsedHostPorts :: "string \<Rightarrow> ('e, int list) io" where
  "repo_NodeUsedHostPorts nodeName = query (sql_ports_of_node nodeName)"

subsection \<open>Every method evolves the world\<close>

lemmas repo_defs =
  repo_UpsertNode_def repo_DeleteNode_def repo_GetNode_def repo_ListNodes_def
  repo_UpdateHeartbeat_def repo_UpdateNodeResources_def repo_AdjustNodeResourceUsage_def
  scan_or_empty_def bind_external_def repo_SetNodeExternal_def repo_DeleteNodeExternal_def repo_DeleteExternal_def
  repo_ListExternals_def repo_GetExternal_def repo_CreateSandbox_def repo_GetSandbox_def
  repo_ListSandboxes_def repo_UpdateSandboxStatus_def repo_UpdateSandboxStatusIfUnchanged_def
  repo_DeleteSandbox_def reserve_port_def port_free_def repo_ReserveSandboxPortsAndSchedule_def
  repo_ReleaseSandboxPorts_def repo_NodeUsedHostPorts_def

lemma evolve_repo [evolve_intros]:
  "state_io_rel evolves (repo_UpsertNode i ip port src)"
  "state_io_rel evolves (repo_DeleteNode i)"
  "state_io_rel evolves (repo_GetNode i)"
  "state_io_rel evolves repo_ListNodes"
  "state_io_rel evolves (repo_UpdateHeartbeat i s a b e t)"
  "state_io_rel evolves (repo_UpdateNodeResources i res)"
  "state_io_rel evolves (repo_AdjustNodeResourceUsage i cpu mem)"
  "state_io_rel evolves (repo_SetNodeExternal x i ext)"
  "state_io_rel evolves (repo_DeleteNodeExternal i)"
  "state_io_rel evolves (repo_DeleteExternal x)"
  "state_io_rel evolves repo_ListExternals"
  "state_io_rel evolves (repo_GetExternal x)"
  "state_io_rel evolves (repo_CreateSandbox sbx)"
  "state_io_rel evolves (repo_GetSandbox i)"
  "state_io_rel evolves repo_ListSandboxes"
  "state_io_rel evolves (repo_UpdateSandboxStatus i st)"
  "state_io_rel evolves (repo_UpdateSandboxStatusIfUnchanged i st u)"
  "state_io_rel evolves (repo_DeleteSandbox i)"
  "state_io_rel evolves (repo_ReserveSandboxPortsAndSchedule i node ports)"
  "state_io_rel evolves (repo_ReleaseSandboxPorts i)"
  "state_io_rel evolves (repo_NodeUsedHostPorts node)"
  unfolding repo_defs Let_def by (intro evolve_intros; assumption)+

end
