(* ===== verification/Orch_Ports.thy ===== *)
theory Orch_Ports
  imports Orch_Repo Port_Registry
begin

section \<open>sbxorch: reserving host ports\<close>

text \<open>
  What \<open>repo_ReserveSandboxPortsAndSchedule\<close> and \<open>repo_ReleaseSandboxPorts\<close> do to the table
  \<^verbatim>\<open>sandbox_ports\<close>, under any plan of database faults, and that with the constraints of the
  schema they implement the contract \<open>port_registry\<close>.
\<close>

definition port_holds :: "'e world \<Rightarrow> string \<Rightarrow> string \<times> int \<Rightarrow> bool" where
  "port_holds w sid k \<longleftrightarrow> (\<exists>p \<in> set (t_ports (w_db w)). pt_sandbox_id p = sid \<and> port_key p = k)"

definition request_keys :: "string \<times> SandboxPortAssign list \<Rightarrow> (string \<times> int) set" where
  "request_keys r = (\<lambda>p. (fst r, pa_HostPort p)) ` set (snd r)"

subsection \<open>What a database call leaves\<close>

lemma run_exec_Inr:
  "run_state (exec f) w = (Inr u, w') \<Longrightarrow> w_db w' = f (w_db w)"
  by (auto simp: exec_def run_next_fault run_modify split: option.splits)

lemma run_exec_Inl:
  "run_state (exec f) w = (Inl e, w') \<Longrightarrow> w_db w' = w_db w"
  by (auto simp: exec_def run_next_fault run_modify split: option.splits)

lemma run_exec_c_Inr:
  "run_state (exec_c f) w = (Inr u, w') \<Longrightarrow> f (w_db w) = Inr (w_db w')"
  by (auto simp: exec_c_def run_next_fault split: option.splits sum.splits)

lemma run_exec_c_Inl:
  "run_state (exec_c f) w = (Inl e, w') \<Longrightarrow> w_db w' = w_db w"
  by (auto simp: exec_c_def run_next_fault split: option.splits sum.splits)

lemma run_query_Inr:
  "run_state (query q) w = (Inr x, w') \<Longrightarrow> x = q (w_db w) \<and> w_db w' = w_db w"
  by (auto simp: query_def run_next_fault split: option.splits)

lemma run_query_db: "run_state (query q) w = (r, w') \<Longrightarrow> w_db w' = w_db w"
  by (auto simp: query_def run_next_fault split: option.splits)

lemma run_query_row_Inr:
  "run_state (query_row q) w = (Inr x, w') \<Longrightarrow> q (w_db w) = Some x \<and> w_db w' = w_db w"
  by (auto simp: query_row_def run_check split: option.splits sum.splits prod.splits dest!: run_query_Inr)

lemma run_query_row_db: "run_state (query_row q) w = (r, w') \<Longrightarrow> w_db w' = w_db w"
  by (auto simp: query_row_def run_check split: option.splits sum.splits prod.splits dest!: run_query_db)

lemma run_NowE:
  assumes "run_state (time_Now \<bind> f) w = r"
  obtains now w1 where "w_db w1 = w_db w" "run_state (f now) w1 = r"
  using assms
  by (auto intro!: that [of "w\<lparr>w_clock := c, w_ticks := ts\<rparr>" for c ts] simp: run_time_Now)

lemma run_transaction_Inl:
  "run_state (transaction m) w = (Inl e, w') \<Longrightarrow> w_db w' = w_db w"
  by (auto simp: transaction_def run_next_fault run_modify split: option.splits sum.splits prod.splits)

lemma run_transaction_Inr:
  assumes "run_state (transaction m) w = (Inr x, w')"
  obtains w1 where "run_state m (w\<lparr>w_faults := tl (w_faults w)\<rparr>) = (Inr x, w1)" "w_db w' = w_db w1"
  using assms
  by (auto simp: transaction_def run_next_fault run_modify split: option.splits sum.splits prod.splits)

subsection \<open>The loop over the ports\<close>

lemma run_port_free_loop:
  assumes "run_state (for_each_err (port_free node) ps) w = (Inr u, w')"
  shows "w_db w' = w_db w \<and> (\<forall>p \<in> set ps. (node, pa_HostPort p) \<notin> port_key ` set (t_ports (w_db w)))"
  using assms
proof (induction ps arbitrary: w)
  case Nil
  then show ?case by simp
next
  case (Cons p ps)
  obtain x w1 where 1: "run_state (port_free node p) w = (Inr x, w1)"
    and 2: "run_state (for_each_err (port_free node) ps) w1 = (Inr u, w')"
    using Cons.prems by (auto elim: check_InrE)
  obtain cnt w2 where q: "run_state (query (sql_count_port node (pa_HostPort p))) w = (Inr cnt, w2)"
    and z: "\<not> 0 < cnt" "w1 = w2"
    using 1 unfolding port_free_def by (auto elim!: check_InrE split: if_splits)
  have "(node, pa_HostPort p) \<notin> port_key ` set (t_ports (w_db w))" "w_db w1 = w_db w"
    using run_query_Inr [OF q] z count_port_0 by auto
  with Cons.IH [OF 2] show ?case by auto
qed

definition assigned_row :: "string \<Rightarrow> string \<Rightarrow> SandboxPortRow \<Rightarrow> SandboxPortAssign \<Rightarrow> bool" where
  "assigned_row sid node r p \<longleftrightarrow> pt_sandbox_id r = sid \<and> pt_node_name r = node \<and>
     pt_host_port r = pa_HostPort p \<and> pt_container_port r = pa_ContainerPort p \<and>
     pt_protocol r = pa_Protocol p"

lemma run_reserve_port:
  assumes "run_state (reserve_port sid node p) w = (Inr u, w')"
  obtains r where "assigned_row sid node r p" "port_key r \<notin> port_key ` set (t_ports (w_db w))"
    "sid \<in> sb_id ` set (t_sandboxes (w_db w))"
    "w_db w' = (w_db w)\<lparr>t_ports := t_ports (w_db w) @ [r]\<rparr>"
proof -
  obtain now w1 w2 u' where 1: "w_db w1 = w_db w" and 2: "run_state (exec_c (sql_insert_port
      \<lparr>pt_sandbox_id = sid, pt_node_name = node, pt_host_port = pa_HostPort p,
      pt_container_port = pa_ContainerPort p, pt_protocol = pa_Protocol p, pt_created_at = now\<rparr>)) w1 = (Inr u', w')"
    using assms unfolding reserve_port_def
    by (elim run_NowE) (auto split: sum.splits prod.splits)
  let ?r = "\<lparr>pt_sandbox_id = sid, pt_node_name = node, pt_host_port = pa_HostPort p,
      pt_container_port = pa_ContainerPort p, pt_protocol = pa_Protocol p, pt_created_at = now\<rparr>"
  have "sql_insert_port ?r (w_db w) = Inr (w_db w')"
    using run_exec_c_Inr [OF 2] 1 by simp
  then show ?thesis
    by (intro that [of ?r]) (auto simp: sql_insert_port_eq_Inr assigned_row_def)
qed

lemma run_reserve_loop:
  assumes "run_state (for_each_err (reserve_port sid node) ps) w = (Inr u, w')"
  shows "\<exists>rs. list_all2 (assigned_row sid node) rs ps \<and>
           w_db w' = (w_db w)\<lparr>t_ports := t_ports (w_db w) @ rs\<rparr> \<and>
           (\<forall>p \<in> set ps. (node, pa_HostPort p) \<notin> port_key ` set (t_ports (w_db w))) \<and>
           distinct (map pa_HostPort ps)"
  using assms
proof (induction ps arbitrary: w)
  case Nil
  then show ?case by simp
next
  case (Cons p ps)
  obtain x w1 where 1: "run_state (reserve_port sid node p) w = (Inr x, w1)"
    and 2: "run_state (for_each_err (reserve_port sid node) ps) w1 = (Inr u, w')"
    using Cons.prems by (auto elim: check_InrE)
  from 1 obtain r where r: "assigned_row sid node r p" "port_key r \<notin> port_key ` set (t_ports (w_db w))"
    "w_db w1 = (w_db w)\<lparr>t_ports := t_ports (w_db w) @ [r]\<rparr>"
    by (rule run_reserve_port)
  from Cons.IH [OF 2] obtain rs where rs: "list_all2 (assigned_row sid node) rs ps"
    "w_db w' = (w_db w1)\<lparr>t_ports := t_ports (w_db w1) @ rs\<rparr>"
    "\<forall>q \<in> set ps. (node, pa_HostPort q) \<notin> port_key ` set (t_ports (w_db w1))"
    "distinct (map pa_HostPort ps)" by blast
  have k: "port_key r = (node, pa_HostPort p)"
    using r(1) by (simp add: assigned_row_def)
  have "\<forall>q \<in> set ps. (node, pa_HostPort q) \<notin> port_key ` set (t_ports (w_db w)) \<and> pa_HostPort q \<noteq> pa_HostPort p"
    using rs(3) r(3) k by auto
  with r rs k show ?case
    by (intro exI [of _ "r # rs"]) auto
qed

subsection \<open>Reserving and scheduling\<close>

lemma reserve_failed_db:
  "run_state (repo_ReserveSandboxPortsAndSchedule sid node ps) w = (Inl e, w') \<Longrightarrow> w_db w' = w_db w"
  unfolding repo_ReserveSandboxPortsAndSchedule_def by (rule run_transaction_Inl)

lemma reserve_ok_db:
  assumes "run_state (repo_ReserveSandboxPortsAndSchedule sid node ps) w = (Inr u, w')"
  obtains rs sbx now where "list_all2 (assigned_row sid node) rs ps"
    "\<forall>p \<in> set ps. (node, pa_HostPort p) \<notin> port_key ` set (t_ports (w_db w))"
    "distinct (map pa_HostPort ps)" "sql_get_sandbox sid (w_db w) = Some sbx"
    "w_db w' = sql_update_status sid ((sbx_Status sbx)\<lparr>st_NodeName := node,
        st_Phase := SandboxPhaseScheduled, st_AssignedPorts := ps\<rparr>) now
        ((w_db w)\<lparr>t_ports := t_ports (w_db w) @ rs\<rparr>)"
proof -
  obtain w1 where 1: "w_db w' = w_db w1" and "run_state
     (check (for_each_err (port_free node) ps) (\<lambda>_.
     check (for_each_err (reserve_port sid node) ps) (\<lambda>_.
     check (query_row (sql_get_sandbox sid)) (\<lambda>sbx.
       let st = (sbx_Status sbx)\<lparr>st_NodeName := node, st_Phase := SandboxPhaseScheduled,
                  st_AssignedPorts := ps\<rparr> in
       do { now \<leftarrow> time_Now; exec (sql_update_status sid st now) })))) (w\<lparr>w_faults := tl (w_faults w)\<rparr>) = (Inr u, w1)"
    using assms unfolding repo_ReserveSandboxPortsAndSchedule_def
    by (elim run_transaction_Inr) blast
  then obtain u2 w2 u3 w3 sbx w4 now w5 where
    2: "run_state (for_each_err (port_free node) ps) (w\<lparr>w_faults := tl (w_faults w)\<rparr>) = (Inr u2, w2)" and
    3: "run_state (for_each_err (reserve_port sid node) ps) w2 = (Inr u3, w3)" and
    4: "run_state (query_row (sql_get_sandbox sid)) w3 = (Inr sbx, w4)" and
    5: "w_db w5 = w_db w4" "run_state (exec (sql_update_status sid ((sbx_Status sbx)\<lparr>st_NodeName := node,
        st_Phase := SandboxPhaseScheduled, st_AssignedPorts := ps\<rparr>) now)) w5 = (Inr u, w1)"
    unfolding Let_def by (elim check_InrE run_NowE)
  have w2: "w_db w2 = w_db w" using run_port_free_loop [OF 2] by simp
  obtain rs where rs: "list_all2 (assigned_row sid node) rs ps"
    "w_db w3 = (w_db w)\<lparr>t_ports := t_ports (w_db w) @ rs\<rparr>"
    "\<forall>p \<in> set ps. (node, pa_HostPort p) \<notin> port_key ` set (t_ports (w_db w))" "distinct (map pa_HostPort ps)"
    using run_reserve_loop [OF 3] w2 by auto
  have "sql_get_sandbox sid (w_db w3) = Some sbx" "w_db w4 = w_db w3"
    using run_query_row_Inr [OF 4] by simp_all
  moreover have "sql_get_sandbox sid (w_db w3) = sql_get_sandbox sid (w_db w)"
    by (simp add: rs(2) sql_get_sandbox_def)
  ultimately show ?thesis
    using run_exec_Inr [OF 5(2)] 5(1) rs(2) 1
    by (intro that [OF rs(1,3,4), of sbx now]) simp_all
qed

lemma reserve_evolves: "run_state (repo_ReserveSandboxPortsAndSchedule sid node ps) w = (r, w') \<Longrightarrow> evolves w w'"
  by (rule state_io_relD [OF evolve_repo(19)])

lemma t_ports_update_status [simp]: "t_ports (sql_update_status sid st now d) = t_ports d"
  by (simp add: sql_update_status_def)

lemma reserve_ok_holds:
  assumes "run_state (repo_ReserveSandboxPortsAndSchedule sid node ps) w = (Inr u, w')"
  shows "port_holds w' b k \<longleftrightarrow> port_holds w b k \<or> b = sid \<and> k \<in> request_keys (node, ps)"
proof -
  from assms obtain rs where rs: "list_all2 (assigned_row sid node) rs ps"
    "t_ports (w_db w') = t_ports (w_db w) @ rs"
    by (rule reserve_ok_db) auto
  have "(\<exists>p \<in> set rs. pt_sandbox_id p = b \<and> port_key p = k) \<longleftrightarrow> b = sid \<and> k \<in> request_keys (node, ps)"
    using rs(1) by (induction rs ps rule: list_all2_induct) (auto simp: assigned_row_def request_keys_def)
  with rs(2) show ?thesis by (auto simp: port_holds_def)
qed

lemma release_holds:
  "run_state (repo_ReleaseSandboxPorts sid) w = (Inr u, w') \<Longrightarrow>
     port_holds w' b k \<longleftrightarrow> port_holds w b k \<and> b \<noteq> sid"
  unfolding repo_ReleaseSandboxPorts_def
  by (auto simp: port_holds_def sql_delete_ports_of_sandbox_def dest!: run_exec_Inr)

interpretation orch_ports: port_registry
  "\<lambda>w. db_inv (w_db w)" port_holds request_keys
  "\<lambda>sid r w. succeeded (run_state (repo_ReserveSandboxPortsAndSchedule sid (fst r) (snd r)) w)"
  "\<lambda>sid w. succeeded (run_state (repo_ReleaseSandboxPorts sid) w)"
proof unfold_locales
  fix s :: "'e world" and a b k
  assume "db_inv (w_db s)" "port_holds s a k" "port_holds s b k"
  then show "a = b"
    using db_inv_port_owner unfolding port_holds_def by (metis prod.inject)
next
  fix s :: "'e world" and a r
  assume "db_inv (w_db s)"
  then show "db_inv (w_db (snd (succeeded (run_state (repo_ReserveSandboxPortsAndSchedule a (fst r) (snd r)) s))))"
    using reserve_evolves evolves_inv by (metis prod.collapse succeeded_simps(3))
next
  fix s :: "'e world" and a
  assume "db_inv (w_db s)"
  then show "db_inv (w_db (snd (succeeded (run_state (repo_ReleaseSandboxPorts a) s))))"
    using state_io_relD [OF evolve_repo(20)] evolves_inv by (metis prod.collapse succeeded_simps(3))
next
  fix s s' :: "'e world" and a b k r
  assume "succeeded (run_state (repo_ReserveSandboxPortsAndSchedule a (fst r) (snd r)) s) = (True, s')"
  then show "port_holds s' b k \<longleftrightarrow> port_holds s b k \<or> b = a \<and> k \<in> request_keys r"
    using reserve_ok_holds by fastforce
next
  fix s s' :: "'e world" and a b k r
  assume "succeeded (run_state (repo_ReserveSandboxPortsAndSchedule a (fst r) (snd r)) s) = (False, s')"
  then show "port_holds s' b k \<longleftrightarrow> port_holds s b k"
    by (auto simp: port_holds_def dest!: reserve_failed_db)
next
  fix s s' :: "'e world" and a b k
  assume "succeeded (run_state (repo_ReleaseSandboxPorts a) s) = (True, s')"
  then show "port_holds s' b k \<longleftrightarrow> port_holds s b k \<and> b \<noteq> a"
    by (auto simp: release_holds)
next
  fix s s' :: "'e world" and a b k
  assume "succeeded (run_state (repo_ReleaseSandboxPorts a) s) = (False, s')"
  then show "port_holds s' b k \<longleftrightarrow> port_holds s b k"
    by (auto simp: port_holds_def repo_ReleaseSandboxPorts_def dest!: run_exec_Inl)
qed

end
