(* ===== verification/Orch_Samples.thy ===== *)
theory Orch_Samples
  imports Orch_Ports
begin

section \<open>sbxorch: concrete states\<close>

text \<open>
  A small deployment on which properties with hypotheses are applied: two Ready nodes \<open>n1\<close> and
  \<open>n2\<close>, a running sandbox \<open>a\<close> that holds host port 30000 of \<open>n1\<close>, and a pending sandbox \<open>b\<close>.
\<close>

definition sample_resources :: NodeResources where
  "sample_resources = zero_resources\<lparr>res_CapacityCPUMilli := 4000, res_CapacityMemoryBytes := 8000,
     res_AllocatableCPUMilli := 3000, res_AllocatableMemory := 6000, res_UsedCPUMilli := 500,
     res_UsedMemoryBytes := 1000, res_AvailableCPUMilli := 2500, res_AvailableMemory := 5000,
     res_MaxAllocPercent := 75, res_External := ''(none)''\<rparr>"

definition sample_node :: "string \<Rightarrow> NodeRow" where
  "sample_node i = \<lparr>nd_name = i, nd_ip = ''10.0.0.1'', nd_port = 8080, nd_source = ''api'',
     nd_created_at = 0, nd_updated_at = 0\<rparr>"

definition sample_status :: "string \<Rightarrow> NodeStatusRow" where
  "sample_status i = \<lparr>ns_name = i, ns_state = NodeStateReady, ns_success_streak = 2,
     ns_failure_streak = 0, ns_last_error = [], ns_last_heartbeat_at = Some 1, ns_updated_at = 1\<rparr>"

definition sample_spec :: SandboxSpec where
  "sample_spec = \<lparr>spec_Egress = True, spec_TTLSeconds = 0,
     spec_Ports = [\<lparr>ps_HostPort = 0, ps_ContainerPort = 80, ps_Protocol = ''TCP''\<rparr>],
     spec_Containers = [\<lparr>sc_Name = ''web'', sc_Image = ''nginx'', sc_Args = [], sc_Env = [],
        sc_WorkDir = [], sc_Resource = \<lparr>sr_CPU = ''250m'', sr_Memory = ''64Mi''\<rparr>\<rparr>]\<rparr>"

definition sample_assign :: "int \<Rightarrow> SandboxPortAssign" where
  "sample_assign hp = \<lparr>pa_HostPort = hp, pa_ContainerPort = 80, pa_Protocol = ''tcp''\<rparr>"

definition sample_running :: SandboxRow where
  "sample_running = \<lparr>sb_id = ''a'', sb_spec = sample_spec,
     sb_status = zero_status\<lparr>st_Phase := SandboxPhaseRunning, st_NodeName := ''n1'',
       st_External := ''(none)'', st_AssignedPorts := [sample_assign 30000]\<rparr>,
     sb_created_at = 5, sb_updated_at = 6\<rparr>"

definition sample_pending :: SandboxRow where
  "sample_pending = \<lparr>sb_id = ''b'', sb_spec = sample_spec,
     sb_status = zero_status\<lparr>st_Phase := SandboxPhasePending\<rparr>, sb_created_at = 7, sb_updated_at = 7\<rparr>"

definition sample_db :: database where
  "sample_db = \<lparr>t_nodes = [sample_node ''n1'', sample_node ''n2''],
     t_status = [sample_status ''n1'', sample_status ''n2''],
     t_resources = [\<lparr>nr_name = ''n1'', nr_res = sample_resources, nr_updated_at = 1\<rparr>,
        \<lparr>nr_name = ''n2'', nr_res = sample_resources\<lparr>res_AvailableCPUMilli := 2900\<rparr>, nr_updated_at = 1\<rparr>],
     t_sandboxes = [sample_running, sample_pending],
     t_ports = [\<lparr>pt_sandbox_id = ''a'', pt_node_name = ''n1'', pt_host_port = 30000,
        pt_container_port = 80, pt_protocol = ''tcp'', pt_created_at = 6\<rparr>],
     t_externals = [\<lparr>ex_external_id = ''e1'', ex_node_id = ''n1'', ex_external = ''1.2.3.4'',
        ex_created_at = 2, ex_updated_at = 2\<rparr>]\<rparr>"

definition sample_world :: "unit world" where
  "sample_world = \<lparr>w_db = sample_db, w_cache = NewResourceCache, w_clock = 100, w_ticks = [1, 1, 1, 1],
     w_rands = [3, 1, 4, 1, 5], w_faults = [], w_driver_text = (\<lambda>c. c), w_tasks = [], w_env = ()\<rparr>"

lemmas sample_defs = sample_resources_def sample_node_def sample_status_def sample_spec_def
  sample_assign_def sample_running_def sample_pending_def sample_db_def sample_world_def

lemma sample_db_inv: "db_inv (w_db sample_world)"
  by (simp add: db_inv_def sample_defs)

lemma sample_holds: "port_holds sample_world ''a'' (''n1'', 30000)"
  by (simp add: port_holds_def sample_defs)

lemma sample_reserve:
  "fst (run_state (repo_ReserveSandboxPortsAndSchedule ''b'' ''n2'' [sample_assign 30000]) sample_world) = Inr ()"
  by code_simp

end
