(* ===== verification/Agent_Net.thy ===== *)
theory Agent_Net
  imports Orch_Client Let_Store_Props Let_Port_Props Let_Admission_Props Orch_Samples
begin

section \<open>The orchestrator's client talking to a node agent\<close>

text \<open>
  The transport \<open>net\<close> of the orchestrator's client, instantiated with a node agent: the URL is
  split as \<^verbatim>\<open>net/url\<close> and gin split it (query at the first question mark, path unescaped, then
  cut at the slashes), the route table of the agent picks the handler, and its answer comes back.
  How a response is written and what its text decodes to is a parameter \<open>dec\<close>, of which
  \<open>faithful\<close> states what the JSON libraries guarantee: the status arrives, the body is not empty
  and is an object, and a list of statuses decodes to the statuses that were sent.
\<close>

definition hex_value :: "char \<Rightarrow> nat option" where
  "hex_value c = (let n = of_char c :: nat in
     if 48 \<le> n \<and> n \<le> 57 then Some (n - 48)
     else if 65 \<le> n \<and> n \<le> 70 then Some (n - 55)
     else if 97 \<le> n \<and> n \<le> 102 then Some (n - 87) else None)"

fun PathUnescape :: "string \<Rightarrow> string option" where
  "PathUnescape [] = Some []"
| "PathUnescape (c # s) =
     (if c = CHR ''%'' then
        (case s of
           a # b # t \<Rightarrow> (case (hex_value a, hex_value b) of
               (Some x, Some y) \<Rightarrow> map_option ((#) (char_of (16 * x + y))) (PathUnescape t)
             | _ \<Rightarrow> None)
         | _ \<Rightarrow> None)
      else map_option ((#) c) (PathUnescape s))"

definition path_part :: "string \<Rightarrow> string" where
  "path_part u = takeWhile (\<lambda>c. c \<noteq> CHR ''?'') u"

definition query_part :: "string \<Rightarrow> (string \<times> string) list" where
  "query_part u = List.map_filter (split_first (CHR ''=''))
     (SplitByte (CHR ''&'') (tl (dropWhile (\<lambda>c. c \<noteq> CHR ''?'') u)))"

definition agent_request :: "string \<Rightarrow> string \<Rightarrow> RequestBody \<Rightarrow> HttpRequest option" where
  "agent_request meth u body =
     map_option (\<lambda>path.
       \<lparr>rq_Method = meth, rq_Segments = tl (SplitByte (CHR ''/'') path), rq_Query = query_part u,
        rq_Create = (case body of CreateBody r \<Rightarrow> Inr r | _ \<Rightarrow> Inl (Errorf ''EOF'')),
        rq_IDs = (case body of IdsBody ids \<Rightarrow> Inr ids | _ \<Rightarrow> Inl (Errorf ''EOF''))\<rparr>)
     (PathUnescape (path_part u))"

definition agent_net :: "'o LetService \<Rightarrow> (LetResponse \<Rightarrow> Reply) \<Rightarrow> string \<Rightarrow> 'o let_world net" where
  "agent_net S dec b meth url body w =
     (if \<not> HasPrefix url b then (Inl (Errorf ''connection refused''), w)
      else (case agent_request meth (drop (length b) url) body of
          None \<Rightarrow> (Inr (dec \<lparr>lr_code = 400, lr_body = NoRoute\<rparr>), w)
        | Some rq \<Rightarrow> (case run_state (let_serve S rq) w of (r, w1) \<Rightarrow> (Inr (dec r), w1))))"

definition synced :: "LetSyncStatus \<Rightarrow> SandboxSyncStatus" where
  "synced s = \<lparr>sss_ID = lsy_ID s, sss_IP = lsy_IP s, sss_Phase = lsy_Phase s, sss_Error = lsy_Error s,
     sss_UnhealthyContainers = map (\<lambda>c. \<lparr>css_Name = csy_Name c, css_Phase = csy_Phase c, css_Error = csy_Error c,
       css_TaskStatus = csy_TaskStatus c\<rparr>) (lsy_UnhealthyContainers s)\<rparr>"

definition faithful :: "(LetResponse \<Rightarrow> Reply) \<Rightarrow> bool" where
  "faithful dec \<longleftrightarrow> (\<forall>r. rp_StatusCode (dec r) = lr_code r \<and> rp_raw (dec r) \<noteq> [] \<and>
     (\<exists>j. rp_object (dec r) = Inr (Some j)) \<and>
     (\<forall>items missing. lr_body r = LetStatusesResponse items missing \<longrightarrow>
        rp_statuses (dec r) = Inr \<lparr>ssr_Items = map synced items, ssr_Missing = missing\<rparr>))"

subsection \<open>Escaped path segments come back\<close>

lemma hex_value_digit: "n < 16 \<Longrightarrow> hex_value (hex_digit n) = Some n"
proof -
  have "\<forall>n \<in> set [0..<16]. hex_value (hex_digit n) = Some n" by code_simp
  then show "n < 16 \<Longrightarrow> hex_value (hex_digit n) = Some n" by simp
qed

lemma PathUnescape_percent: "PathUnescape (percent c @ t) = map_option ((#) c) (PathUnescape t)"
proof -
  have "(of_char c :: nat) < 256" by simp
  then have d: "(of_char c :: nat) div 16 < 16" "(of_char c :: nat) mod 16 < 16" by presburger+
  have "char_of (16 * (of_char c div 16) + of_char c mod 16 :: nat) = c" by simp
  then show ?thesis
    by (simp add: percent_def hex_value_digit [OF d(1)] hex_value_digit [OF d(2)])
qed

lemma percent_not_plain: "\<not> url_plain (CHR ''%'')"
  by code_simp

lemma PathEscape_Cons:
  "PathEscape (c # s) = (if url_plain c \<or> c \<in> set ''-_.~$&+=:@'' then [c] else percent c) @ PathEscape s"
  by (simp add: PathEscape_def)

lemma PathUnescape_Escape:
  "PathUnescape (PathEscape s @ t) = map_option ((@) s) (PathUnescape t)"
proof (induction s)
  case Nil
  then show ?case by (simp add: PathEscape_def option.map_ident)
next
  case (Cons c s)
  show ?case
  proof (cases "url_plain c \<or> c \<in> set ''-_.~$&+=:@''")
    case True
    then have "c \<noteq> CHR ''%''" using percent_not_plain by auto
    moreover have "PathEscape (c # s) = c # PathEscape s" using True by (simp add: PathEscape_Cons)
    ultimately show ?thesis using Cons.IH by (simp add: option.map_comp o_def)
  next
    case False
    then have "PathEscape (c # s) = percent c @ PathEscape s" by (simp add: PathEscape_Cons)
    then show ?thesis using Cons.IH by (simp add: PathUnescape_percent option.map_comp o_def)
  qed
qed

subsection \<open>Which handler a request reaches\<close>

lemma path_part_all: "CHR ''?'' \<notin> set u \<Longrightarrow> path_part u = u"
  unfolding path_part_def by (subst takeWhile_eq_all_conv) auto

lemma PathUnescape_plain: "CHR ''%'' \<notin> set x \<Longrightarrow> PathUnescape (x @ t) = map_option ((@) x) (PathUnescape t)"
  by (induction x) (cases "PathUnescape t"; auto)+

lemma sandbox_path:
  assumes "safe_name i"
  shows "agent_request meth (''/v1/sandboxes/'' @ PathEscape i) body = Some
     \<lparr>rq_Method = meth, rq_Segments = [''v1'', ''sandboxes'', i],
      rq_Query = query_part (''/v1/sandboxes/'' @ PathEscape i),
      rq_Create = (case body of CreateBody r \<Rightarrow> Inr r | _ \<Rightarrow> Inl (Errorf ''EOF'')),
      rq_IDs = (case body of IdsBody ids \<Rightarrow> Inr ids | _ \<Rightarrow> Inl (Errorf ''EOF''))\<rparr>"
proof -
  have n: "CHR ''/'' \<notin> set i" using assms by (simp add: safe_name_def)
  have "path_part (''/v1/sandboxes/'' @ PathEscape i) = ''/v1/sandboxes/'' @ PathEscape i"
    using PathEscape_no_slash [of i] by (intro path_part_all) simp
  moreover have "PathUnescape (''/v1/sandboxes/'' @ PathEscape i) = Some (''/v1/sandboxes/'' @ i)"
    using PathUnescape_Escape [of i "[]"] by (subst PathUnescape_plain) simp_all
  moreover have "SplitByte (CHR ''/'') (''/v1/sandboxes/'' @ i) = [[], ''v1'', ''sandboxes'', i]"
    by (simp add: Split_no_sep [OF n])
  ultimately show ?thesis by (simp add: agent_request_def)
qed

lemma create_path:
  "agent_request ''POST'' ''/v1/sandboxes'' (CreateBody r) = Some
     \<lparr>rq_Method = ''POST'', rq_Segments = [''v1'', ''sandboxes''], rq_Query = [],
      rq_Create = Inr r, rq_IDs = Inl (Errorf ''EOF'')\<rparr>"
  by code_simp

text \<open>What a call of the client makes of the agent's answer.\<close>

lemma client_do_agent:
  assumes "faithful dec" "agent_request meth path body = Some rq" "cl_baseURL c = b"
    and "run_state (let_serve S rq) (w_env w) = (r, w1)"
  shows "(\<exists>e. run_state (client_do (agent_net S dec b) c meth path body) w = (Inl e, w\<lparr>w_env := w1\<rparr>)) \<and> 400 \<le> lr_code r \<or>
    (\<exists>j. run_state (client_do (agent_net S dec b) c meth path body) w = (Inr j, w\<lparr>w_env := w1\<rparr>)) \<and> lr_code r < 400"
proof -
  have d: "rp_StatusCode (dec r) = lr_code r" "rp_raw (dec r) \<noteq> []" "\<exists>j. rp_object (dec r) = Inr (Some j)"
    using assms(1) by (simp_all add: faithful_def)
  have h: "run_state (http_Do (agent_net S dec b) meth (cl_baseURL c @ path) body) w = (Inr (dec r), w\<lparr>w_env := w1\<rparr>)"
    using assms(2,4) by (simp add: http_Do_def agent_net_def assms(3) HasPrefix_iff)
  show ?thesis
  proof (cases "400 \<le> lr_code r")
    case True
    then show ?thesis
      using h d(1) by (simp add: client_do_def doInto_def run_check Let_def)
  next
    case False
    then show ?thesis
      using h d by (auto simp: client_do_def doInto_def run_check)
  qed
qed

subsection \<open>Deleting through the client\<close>

lemma run_bind: "run_state (m \<bind> f) w = run_state (f (fst (run_state m w))) (snd (run_state m w))"
  by (simp add: split_def)

lemma fs_after_maps:
  "lw_fs (snd (run_state (releaseReservedPorts i) w)) = lw_fs w" "lw_fs (snd (run_state (clearUnhealthy i) w)) = lw_fs w"
  "lw_fs (snd (run_state (unlock cfg i) w)) = lw_fs w"
  by (simp_all add: releaseReservedPorts_def clearUnhealthy_def unlock_def modify_let_def)

lemma delete_locked_gone:
  assumes "quiet_host (sv_host S)" "clean_abs (StateBaseDir (sv_cfg S))" "safe_name i"
    and "own_ids (sv_host S) (sv_cfg S) (lw_fs w)" "run_state (delete_locked S i) w = (Inr u, w')"
  shows "stored (sv_host S) (sv_cfg S) (lw_fs w') i = None"
proof -
  obtain r w1 where l: "run_state (store_Load (sv_host S) (sv_cfg S) i) w = (r, w1)" by fastforce
  have fs1: "lw_fs w1 = lw_fs w"
    using io_relD [OF fs_store_reads(1) l, of "(=)"] by (simp add: fs_rel_def preorder_rel_def reflp_def transp_def)
  note st = run_store_Load [OF assms(1,3), of "sv_cfg S" w, unfolded l fst_conv]
  show ?thesis
  proof (cases r)
    case (Inl e)
    then show ?thesis
      using assms(5) l st fs1 by (auto simp: delete_locked_def fs_after_maps run_release_all split: if_splits)
  next
    case (Inr sbx)
    have "ls_ID sbx = i"
      using st Inr assms(3,4) by (auto simp: stored_def own_ids_def split: option.splits FsNode.splits sum.splits)
    then have id1: "ls_ID (fst (run_state (setSandboxPhase S sbx LetPhaseDeleting []) w1)) = i"
      using yields_set_phase [of sbx S] by (simp add: yields_def)
    define v where "v = snd (run_state (deleteSandboxRuntimeArtifacts S (fst (run_state (setSandboxPhase S sbx LetPhaseDeleting []) w1)))
      (snd (run_state (store_Save (sv_host S) (sv_cfg S) (fst (run_state (setSandboxPhase S sbx LetPhaseDeleting []) w1)))
        (snd (run_state (setSandboxPhase S sbx LetPhaseDeleting []) w1)))))"
    have "w' = snd (run_state (delete_locked S i) w)" using assms(5) by simp
    then have "lw_fs w' = lw_fs (snd (run_state (store_Delete (sv_host S) (sv_cfg S) i) v))"
      by (simp add: delete_locked_def l Inr deleteSandboxFromState_def run_bind fs_after_maps id1 v_def del: run_state_bind)
    then show ?thesis
      using run_store_Delete(2) [OF assms(1-3), of v] stored_removed [OF assms(2,3), of "sv_host S" "lw_fs v"] by simp
  qed
qed

lemma let_delete_gone:
  assumes "quiet_host (sv_host S)" "store_apart (sv_host S) (sv_cfg S)" "safe_name i"
    and "own_ids (sv_host S) (sv_cfg S) (lw_fs w)" "run_state (let_DeleteSandbox S i) w = (Inr u, w')"
  shows "stored (sv_host S) (sv_cfg S) (lw_fs w') i = None"
proof -
  have c: "clean_abs (StateBaseDir (sv_cfg S))" using assms(2) by (simp add: store_apart_def)
  obtain w1 w2 where s: "run_state (acquireSandboxLock (sv_host S) (sv_cfg S) i) w = (Inr (), w1)"
    "run_state (delete_locked S i) w1 = (Inr u, w2)" "w' = snd (run_state (unlock (sv_cfg S) i) w2)"
    using assms(5) unfolding let_DeleteSandbox_def by (rule with_lock_InrE)
  have "own_ids (sv_host S) (sv_cfg S) (lw_fs w1)"
    using io_relD [OF sparing_lock(1) [OF assms(2)] s(1)] assms(4) by (simp add: fs_rel_def spares_def)
  from delete_locked_gone [OF assms(1) c assms(3) this s(2)] show ?thesis
    using s(3) by (simp add: fs_after_maps)
qed


subsection \<open>Creating through the client\<close>

lemma store_Save_Inr:
  assumes "run_state (store_Save H cfg sb) w = (Inr u, w')"
  shows "map_of (lw_fs w') (filepath_Join [store_dir cfg (ls_ID sb), ''state.json'']) = Some (File (StateJSON sb))"
proof -
  let ?p = "filepath_Join [store_dir cfg (ls_ID sb), ''state.json'']"
  obtain u1 w1 where "run_state (os_WriteFile H ?p (StateJSON sb)) w1 = (Inr u, w')"
    using assms unfolding store_Save_def by (rule check_InrE)
  then have "run_state (os_call H ?p (fs_write ?p (StateJSON sb))) (snd (run_state (outside (ho_torn H ?p)) w1)) = (Inr u, w')"
    by (auto simp: os_WriteFile_def outside_def split: option.splits prod.splits)
  from run_os_call_Inr [OF this] show ?thesis
    by (auto dest!: fs_write_case simp: update_conv')
qed

lemma save_new_Inr:
  assumes "run_state (save_new S req) w = (Inr sbx, w')" "clean_abs (StateBaseDir (sv_cfg S))" "safe_name (cr_ID req)"
  shows "\<exists>t. sbx = new_state (sv_cfg S) req t"
    "map_of (lw_fs w') (state_file (sv_cfg S) (cr_ID req)) = Some (File (StateJSON sbx))"
proof -
  obtain n w1 where n: "run_state (newSandboxState S req) w = (n, w1)" by fastforce
  then obtain t where t: "n = new_state (sv_cfg S) req t"
    by (auto simp: newSandboxState_def split: prod.splits)
  have "run_state (check (store_Save (sv_host S) (sv_cfg S) n) (\<lambda>_. ok n)) w1 = (Inr sbx, w')"
    using assms(1) n by (simp add: save_new_def)
  then obtain u w2 where u: "run_state (store_Save (sv_host S) (sv_cfg S) n) w1 = (Inr u, w2)" "sbx = n" "w' = w2"
    by (rule check_InrE) simp
  show "\<exists>t. sbx = new_state (sv_cfg S) req t" using t u(2) by blast
  have i: "ls_ID n = cr_ID req" by (simp add: t new_state_def)
  show "map_of (lw_fs w') (state_file (sv_cfg S) (cr_ID req)) = Some (File (StateJSON sbx))"
    using store_Save_Inr [OF u(1)] u(2,3) store_paths(2) [OF assms(2,3)] by (simp add: i)
qed

lemma admit_async_Inr:
  assumes "run_state (admit_and_save S req True) w = (Inr sbx, w')" "clean_abs (StateBaseDir (sv_cfg S))" "safe_name (cr_ID req)"
  shows "\<exists>t. sbx = new_state (sv_cfg S) req t"
    "map_of (lw_fs w') (state_file (sv_cfg S) (cr_ID req)) = Some (File (StateJSON sbx))"
    "(cr_ID req, req) \<in> set (lw_jobs w')"
proof -
  note step = check_InrE [where y = sbx]
  obtain w1 w2 where 1: "run_state (check (enforceAdmission (sv_host S) (sv_cfg S) req)
         (\<lambda>_. check (ensureIPCapacity (sv_host S) (sv_cfg S) (cr_ID req))
         (\<lambda>_. check (save_new S req) (start_sandbox S req True)))) w1 = (Inr sbx, w2)"
    and u: "w' = snd (run_state (unlock (sv_cfg S) ''_admission'') w2)"
    using assms(1) unfolding admit_and_save_def by (rule with_lock_InrE)
  obtain w3 where 2: "run_state (check (ensureIPCapacity (sv_host S) (sv_cfg S) (cr_ID req))
         (\<lambda>_. check (save_new S req) (start_sandbox S req True))) w3 = (Inr sbx, w2)"
    using 1 by (rule step)
  obtain w4 where 3: "run_state (check (save_new S req) (start_sandbox S req True)) w4 = (Inr sbx, w2)"
    using 2 by (rule step)
  obtain n w5 where 4: "run_state (save_new S req) w4 = (Inr n, w5)" "run_state (start_sandbox S req True n) w5 = (Inr sbx, w2)"
    using 3 by (rule step)
  have w2: "sbx = n" "w2 = w5\<lparr>lw_jobs := lw_jobs w5 @ [(cr_ID req, req)]\<rparr>"
    using 4(2) by (simp_all add: start_sandbox_def modify_let_def)
  show "\<exists>t. sbx = new_state (sv_cfg S) req t"
    "map_of (lw_fs w') (state_file (sv_cfg S) (cr_ID req)) = Some (File (StateJSON sbx))"
    "(cr_ID req, req) \<in> set (lw_jobs w')"
    using save_new_Inr [OF 4(1) assms(2,3)] w2 u by (simp_all add: unlock_def modify_let_def)
qed

lemma let_create_async_Inr:
  assumes "run_state (let_createSandbox S req True) w = (Inr sbx, w')" "clean_abs (StateBaseDir (sv_cfg S))" "safe_name (cr_ID req)"
  shows "Validate req = None" "\<exists>t. sbx = new_state (sv_cfg S) req t"
    "map_of (lw_fs w') (state_file (sv_cfg S) (cr_ID req)) = Some (File (StateJSON sbx))"
    "(cr_ID req, req) \<in> set (lw_jobs w')"
proof -
  obtain w1 w2 where 1: "run_state (create_locked S req True) w1 = (Inr sbx, w2)"
    and u: "w' = snd (run_state (unlock (sv_cfg S) (cr_ID req)) w2)"
    using assms(1) unfolding let_createSandbox_def by (rule with_lock_InrE)
  show v: "Validate req = None"
    using 1 by (cases "Validate req") (simp_all add: create_locked_def)
  obtain r w3 where l: "run_state (store_Load (sv_host S) (sv_cfg S) (cr_ID req)) w1 = (r, w3)" by fastforce
  then obtain e where e: "r = Inl e" "errors_Is e ErrNotExist"
    using 1 v by (cases r) (auto simp: create_locked_def split: if_splits)
  define w4 where "w4 = snd (run_state (clear_leftovers S (cr_ID req)) w3)"
  have "run_state (check (claim_ports S (cr_ID req) (cr_Ports req)) (\<lambda>_. do {
      r \<leftarrow> admit_and_save S req True; releaseRequestedPorts (cr_ID req) (cr_Ports req); ret r })) w4 = (Inr sbx, w2)"
    using 1 v l e by (simp add: create_locked_def w4_def split_def)
  then obtain w5 where c: "run_state (do { r \<leftarrow> admit_and_save S req True; releaseRequestedPorts (cr_ID req) (cr_Ports req); ret r }) w5
      = (Inr sbx, w2)" by (rule check_InrE)
  obtain a w6 where a: "run_state (admit_and_save S req True) w5 = (a, w6)" by fastforce
  have w2: "a = Inr sbx" "lw_fs w2 = lw_fs w6" "lw_jobs w2 = lw_jobs w6"
    using c a by (auto simp: releaseRequestedPorts_def modify_let_def)
  note s = admit_async_Inr [OF a [unfolded w2(1)] assms(2,3)]
  show "\<exists>t. sbx = new_state (sv_cfg S) req t" by (rule s(1))
  show "map_of (lw_fs w') (state_file (sv_cfg S) (cr_ID req)) = Some (File (StateJSON sbx))" "(cr_ID req, req) \<in> set (lw_jobs w')"
    using s(2,3) w2(2,3) u by (simp_all add: unlock_def modify_let_def)
qed

text \<open>
  C3: a creation the orchestrator sees accepted is durable.  If \<^verbatim>\<open>CreateSandbox\<close> of the client returns
  no error, the request passed the agent's validation, the agent's state file of the id holds the
  new sandbox as the request describes it, and its provisioning has been started; the
  orchestrator's own state is untouched.  This holds whatever faults, locks and leftovers the
  agent met.
\<close>

theorem client_create_end_to_end:
  assumes "faithful dec" "clean_abs (StateBaseDir (sv_cfg S))" "safe_name (cr_ID req)"
    and "run_state (client_CreateSandbox (agent_net S dec (cl_baseURL c)) c req) w = (Inr j, w')"
  shows "Validate req = None \<and>
    (\<exists>t. map_of (lw_fs (w_env w')) (state_file (sv_cfg S) (cr_ID req)) = Some (File (StateJSON (new_state (sv_cfg S) req t)))) \<and>
    (cr_ID req, req) \<in> set (lw_jobs (w_env w')) \<and> w' = w\<lparr>w_env := w_env w'\<rparr>"
proof -
  let ?rq = "\<lparr>rq_Method = ''POST'', rq_Segments = [''v1'', ''sandboxes''], rq_Query = [],
      rq_Create = Inr req, rq_IDs = Inl (Errorf ''EOF'')\<rparr>"
  have i: "cr_ID req \<noteq> []" using assms(3) by (simp add: safe_name_def)
  obtain x v where d: "run_state (let_createSandbox S req True) (w_env w) = (x, v)" by fastforce
  have "run_state (let_serve S ?rq) (w_env w) =
      (case x of Inl e \<Rightarrow> (\<lparr>lr_code = 400, lr_body = LetErrorResponse (err_text e)\<rparr>, v)
       | Inr sbx \<Rightarrow> (\<lparr>lr_code = 202, lr_body = CreateSandboxResponse sbx\<rparr>, v))"
    using i by (simp add: let_serve_def let_route_def createSandbox_def CreateSandboxAsync_def run_check d respondError_def
        respondErrorMessage_def reply_def StatusBadRequest_def StatusAccepted_def split: sum.split)
  then obtain r where r: "run_state (let_serve S ?rq) (w_env w) = (r, v)" "lr_code r < 400 \<longleftrightarrow> (\<exists>u. x = Inr u)"
    by (cases x) auto
  have "w' = w\<lparr>w_env := v\<rparr>" and "lr_code r < 400"
    using client_do_agent [OF assms(1) create_path refl r(1), of c] assms(4) unfolding client_CreateSandbox_def by auto
  then obtain sbx where "x = Inr sbx" and w': "w' = w\<lparr>w_env := v\<rparr>" using r(2) by blast
  then have "run_state (let_createSandbox S req True) (w_env w) = (Inr sbx, v)" using d by simp
  from let_create_async_Inr [OF this assms(2,3)] show ?thesis by (auto simp: w')
qed

subsection \<open>A system that runs\<close>

definition plain_dec :: "LetResponse \<Rightarrow> Reply" where
  "plain_dec r = \<lparr>rp_StatusCode = lr_code r, rp_Status = [], rp_raw = ''{}'',
     rp_object = Inr (Some \<lparr>jo_ok = None, jo_node_status = Inl (Errorf ''no node status'')\<rparr>),
     rp_statuses = (case lr_body r of
        LetStatusesResponse items missing \<Rightarrow> Inr \<lparr>ssr_Items = map synced items, ssr_Missing = missing\<rparr>
      | _ \<Rightarrow> Inr \<lparr>ssr_Items = [], ssr_Missing = []\<rparr>)\<rparr>"

lemma plain_dec_faithful: "faithful plain_dec"
  by (simp add: faithful_def plain_dec_def)

definition joint_world :: "chains let_world \<Rightarrow> chains let_world world" where
  "joint_world v = \<lparr>w_db = sample_db, w_cache = NewResourceCache, w_clock = 100, w_ticks = [], w_rands = [],
     w_faults = [], w_driver_text = (\<lambda>c. c), w_tasks = [], w_env = v\<rparr>"

lemma sample_delete_ok: "(case fst (run_state (let_DeleteSandbox sample_service ''b'') sample_let_world) of Inr _ \<Rightarrow> True | Inl _ \<Rightarrow> False)"
  by code_simp

definition small_service :: "chains LetService" where
  "small_service = sample_service\<lparr>sv_cfg := sample_let_config\<lparr>SubnetCIDR := ''10.1.0.0/28''\<rparr>\<rparr>"

definition small_request :: CreateSandboxRequest where
  "small_request = (sample_let_request ''c'' 30005)\<lparr>cr_Ports := []\<rparr>"

lemma small_create_ok:
  "(case fst (run_state (let_createSandbox small_service small_request True) idle_world) of
     Inr _ \<Rightarrow> True | Inl _ \<Rightarrow> False)"
  by code_simp

text \<open>With these the calls of the client return no error, and the theorems apply.\<close>

definition sample_client :: Client where
  "sample_client = client_New ''http://10.0.0.1:8080/''"

lemma joint_delete:
  "\<exists>j w'. run_state (client_DeleteSandbox (agent_net sample_service plain_dec (cl_baseURL sample_client)) sample_client ''b'')
     (joint_world sample_let_world) = (Inr j, w')"
proof -
  let ?w = "joint_world sample_let_world"
  have b: "safe_name ''b''" by (simp add: safe_name_def)
  obtain x v where d: "run_state (let_DeleteSandbox sample_service ''b'') sample_let_world = (x, v)" by fastforce
  then obtain u where u: "x = Inr u" using sample_delete_ok by (cases x) auto
  let ?rq = "\<lparr>rq_Method = ''DELETE'', rq_Segments = [''v1'', ''sandboxes'', ''b''],
      rq_Query = query_part (''/v1/sandboxes/'' @ PathEscape ''b''),
      rq_Create = Inl (Errorf ''EOF''), rq_IDs = Inl (Errorf ''EOF'')\<rparr>"
  have rq: "agent_request ''DELETE'' (''/v1/sandboxes/'' @ PathEscape ''b'') NoBody = Some ?rq"
    using sandbox_path [OF b, of "''DELETE''" NoBody] by simp
  have "run_state (let_serve sample_service ?rq) (w_env ?w) =
      (\<lparr>lr_code = StatusOK, lr_body = DeleteSandboxResponse ''b'' ''deleted''\<rparr>, v)"
    by (simp add: let_serve_def let_route_def deleteSandbox_def d u reply_def joint_world_def)
  from client_do_agent [OF plain_dec_faithful rq refl this, of sample_client] show ?thesis
    unfolding client_DeleteSandbox_def by (auto simp: StatusOK_def)
qed


lemma joint_create:
  "\<exists>j w'. run_state (client_CreateSandbox (agent_net small_service plain_dec (cl_baseURL sample_client)) sample_client
     small_request) (joint_world idle_world) = (Inr j, w')"
proof -
  let ?req = "small_request" and ?w = "joint_world idle_world"
  obtain x v where d: "run_state (let_createSandbox small_service ?req True) idle_world = (x, v)" by fastforce
  then obtain sbx where u: "x = Inr sbx" using small_create_ok by (cases x) auto
  have "run_state (let_serve small_service \<lparr>rq_Method = ''POST'', rq_Segments = [''v1'', ''sandboxes''], rq_Query = [],
      rq_Create = Inr ?req, rq_IDs = Inl (Errorf ''EOF'')\<rparr>) (w_env ?w) =
      (\<lparr>lr_code = StatusAccepted, lr_body = CreateSandboxResponse sbx\<rparr>, v)"
    by (simp add: let_serve_def let_route_def createSandbox_def CreateSandboxAsync_def run_check d u reply_def joint_world_def)
      (simp add: small_request_def sample_let_request_def d [unfolded small_request_def sample_let_request_def] u run_check)
  from client_do_agent [OF plain_dec_faithful create_path refl this, of sample_client] show ?thesis
    unfolding client_CreateSandbox_def by (auto simp: StatusAccepted_def)
qed

theorem client_create_end_to_end_witness:
  "\<exists>t. map_of (lw_fs (w_env (snd (run_state
     (client_CreateSandbox (agent_net small_service plain_dec (cl_baseURL sample_client)) sample_client
       small_request) (joint_world idle_world))))) (state_file (sv_cfg small_service) ''c'') =
     Some (File (StateJSON (new_state (sv_cfg small_service) small_request t)))"
proof -
  obtain j w' where r: "run_state (client_CreateSandbox (agent_net small_service plain_dec (cl_baseURL sample_client))
      sample_client small_request) (joint_world idle_world) = (Inr j, w')"
    using joint_create by blast
  have c: "clean_abs (StateBaseDir (sv_cfg small_service))" using sample_base_clean by (simp add: small_service_def)
  have b: "safe_name (cr_ID small_request)" by (simp add: safe_name_def small_request_def sample_let_request_def)
  from client_create_end_to_end [OF plain_dec_faithful c b r] r show ?thesis
    by (auto simp: small_request_def sample_let_request_def)
qed

end
