(* ===== verification/Orch_Config.thy ===== *)
theory Orch_Config
  imports Pkg_Env
begin

section \<open>sbxorch: configuration\<close>

text \<open>
  \<^verbatim>\<open>sandboxd-orch/config/config.go\<close>.  Durations are nanoseconds.  Reading the bootstrap file and
  creating the directory of the database are input/output: \<open>Load\<close> takes what the read gave
  (\<open>ReadNotExist\<close>, an error, or the file's text), the YAML decoder and the outcome of creating
  the directory as arguments.
\<close>

abbreviation Second :: int where "Second \<equiv> 1000000000"

definition defaultHTTPAddr :: string where "defaultHTTPAddr = '':8082''"
definition defaultConfigPath :: string where "defaultConfigPath = ''configs/apiserver.yaml''"
definition defaultSQLitePath :: string where "defaultSQLitePath = ''/var/lib/sandboxd/orchestrator.db''"
definition defaultPortMin :: int where "defaultPortMin = 10000"
definition defaultPortMax :: int where "defaultPortMax = 32767"

record Config =
  HTTPAddr :: string
  ConfigPath :: string
  SQLitePath :: string
  HeartbeatInterval :: int
  ProbeTimeout :: int
  SandboxOpTimeout :: int
  HeartbeatParallel :: bool
  HeartbeatMaxParallel :: int
  ResourceSyncInterval :: int
  ResourcePersistMinInt :: int
  ResourcePersistMaxInt :: int
  ReadySuccessThreshold :: int
  NotReadyFailureThreshold :: int
  ShutdownTimeout :: int
  SchedulerInterval :: int
  ReconcileInterval :: int
  StatusSyncInterval :: int
  StatusSyncTimeout :: int
  StatusSyncBatchSize :: int
  StatusSyncMaxParallel :: int
  HostPortMin :: int
  HostPortMax :: int
  CreateRPS :: GoFloat
  CreateBurst :: int
  BootListenAddress :: string

datatype FileRead = ReadNotExist | ReadError GoError | ReadOK string

definition loadBootstrap :: "FileRead \<Rightarrow> (string \<Rightarrow> GoError + string) \<Rightarrow> string \<Rightarrow> GoError + string" where
  "loadBootstrap r unmarshal path =
     (case r of
        ReadNotExist \<Rightarrow> Inr []
      | ReadError e \<Rightarrow> Inl (Errorf_w (''read config file '' @ path) e)
      | ReadOK raw \<Rightarrow>
          (case unmarshal raw of
             Inl e \<Rightarrow> Inl (Errorf_w (''parse config file '' @ path) e)
           | Inr addr \<Rightarrow> Inr addr))"

definition read_config :: "Environment \<Rightarrow> string \<Rightarrow> Config" where
  "read_config env boot =
     (let a1 = TrimSpace (envutil_Get env ''ORCH_HTTP_ADDR'' []);
          a2 = (if a1 = [] then TrimSpace boot else a1);
          addr = (if a2 = [] then defaultHTTPAddr else a2);
          dur = envutil_GetDuration env; num = envutil_GetInt env in
      \<lparr>HTTPAddr = addr,
       ConfigPath = envutil_Get env ''ORCH_CONFIG_PATH'' defaultConfigPath,
       SQLitePath = envutil_Get env ''ORCH_SQLITE_PATH'' defaultSQLitePath,
       HeartbeatInterval = dur ''ORCH_HEARTBEAT_INTERVAL'' (10 * Second),
       ProbeTimeout = dur ''ORCH_NODE_PROBE_TIMEOUT'' (3 * Second),
       SandboxOpTimeout = dur ''ORCH_SANDBOX_OP_TIMEOUT'' (60 * Second),
       HeartbeatParallel = envutil_GetBool env ''ORCH_HEARTBEAT_PARALLEL'' False,
       HeartbeatMaxParallel = num ''ORCH_HEARTBEAT_MAX_PARALLEL'' 4,
       ResourceSyncInterval = dur ''ORCH_RESOURCE_SYNC_INTERVAL'' (30 * Second),
       ResourcePersistMinInt = dur ''ORCH_RESOURCE_PERSIST_MIN_INTERVAL'' (30 * Second),
       ResourcePersistMaxInt = dur ''ORCH_RESOURCE_PERSIST_MAX_INTERVAL'' (300 * Second),
       ReadySuccessThreshold = num ''ORCH_READY_SUCCESS_THRESHOLD'' 2,
       NotReadyFailureThreshold = num ''ORCH_NOTREADY_FAILURE_THRESHOLD'' 2,
       ShutdownTimeout = dur ''ORCH_SHUTDOWN_TIMEOUT'' (5 * Second),
       SchedulerInterval = dur ''ORCH_SCHEDULER_INTERVAL'' (3 * Second),
       ReconcileInterval = dur ''ORCH_RECONCILE_INTERVAL'' (5 * Second),
       StatusSyncInterval = dur ''ORCH_STATUS_SYNC_INTERVAL'' (20 * Second),
       StatusSyncTimeout = dur ''ORCH_STATUS_SYNC_TIMEOUT'' (5 * Second),
       StatusSyncBatchSize = num ''ORCH_STATUS_SYNC_BATCH_SIZE'' 50,
       StatusSyncMaxParallel = num ''ORCH_STATUS_SYNC_MAX_PARALLEL'' 4,
       HostPortMin = num ''ORCH_HOSTPORT_MIN'' defaultPortMin,
       HostPortMax = num ''ORCH_HOSTPORT_MAX'' defaultPortMax,
       CreateRPS = envutil_GetFloat64 env ''ORCH_CREATE_RPS'' (Finite 20),
       CreateBurst = num ''ORCH_CREATE_BURST'' 40,
       BootListenAddress = boot\<rparr>)"

definition float_le_0 :: "GoFloat \<Rightarrow> bool" where
  "float_le_0 f = (case f of Finite q \<Rightarrow> q \<le> 0 | _ \<Rightarrow> False)"

definition at_least :: "int \<Rightarrow> int \<Rightarrow> int \<Rightarrow> int" where
  "at_least low def x = (if x < low then def else x)"

definition normalize_config :: "Config \<Rightarrow> Config" where
  "normalize_config cfg =
     (let lo = at_least 1 defaultPortMin (HostPortMin cfg) in
      cfg\<lparr>ReadySuccessThreshold := at_least 1 1 (ReadySuccessThreshold cfg),
          NotReadyFailureThreshold := at_least 1 1 (NotReadyFailureThreshold cfg),
          HeartbeatMaxParallel := at_least 1 1 (HeartbeatMaxParallel cfg),
          ResourceSyncInterval := at_least 1 (30 * Second) (ResourceSyncInterval cfg),
          ResourcePersistMinInt := at_least 1 (30 * Second) (ResourcePersistMinInt cfg),
          ResourcePersistMaxInt := at_least 1 (300 * Second) (ResourcePersistMaxInt cfg),
          SchedulerInterval := at_least 1 (3 * Second) (SchedulerInterval cfg),
          ReconcileInterval := at_least 1 (5 * Second) (ReconcileInterval cfg),
          StatusSyncInterval := at_least 1 (20 * Second) (StatusSyncInterval cfg),
          StatusSyncTimeout := at_least 1 (5 * Second) (StatusSyncTimeout cfg),
          StatusSyncBatchSize := at_least 1 50 (StatusSyncBatchSize cfg),
          StatusSyncMaxParallel := at_least 1 4 (StatusSyncMaxParallel cfg),
          SandboxOpTimeout := at_least 1 (60 * Second) (SandboxOpTimeout cfg),
          HostPortMin := lo,
          HostPortMax := (if HostPortMax cfg < lo then defaultPortMax else HostPortMax cfg),
          CreateRPS := (if float_le_0 (CreateRPS cfg) then Finite 20 else CreateRPS cfg),
          CreateBurst := at_least 1 40 (CreateBurst cfg)\<rparr>)"

definition Load ::
  "Environment \<Rightarrow> (string \<Rightarrow> FileRead) \<Rightarrow> (string \<Rightarrow> GoError + string) \<Rightarrow> (string \<Rightarrow> GoError option)
     \<Rightarrow> GoError + Config" where
  "Load env read_file unmarshal mkdir_for =
     (let cfgPath = envutil_Get env ''ORCH_CONFIG_PATH'' defaultConfigPath in
      case loadBootstrap (read_file cfgPath) unmarshal cfgPath of
        Inl e \<Rightarrow> Inl e
      | Inr boot \<Rightarrow>
          let cfg = normalize_config (read_config env boot) in
          if SQLitePath cfg \<noteq> '':memory:''
          then (case mkdir_for (SQLitePath cfg) of
                  Some e \<Rightarrow> Inl (Errorf_w ''create sqlite dir'' e)
                | None \<Rightarrow> Inr cfg)
          else Inr cfg)"

subsection \<open>What a loaded configuration satisfies\<close>

definition config_ok :: "Config \<Rightarrow> bool" where
  "config_ok cfg \<longleftrightarrow>
     1 \<le> ReadySuccessThreshold cfg \<and> 1 \<le> NotReadyFailureThreshold cfg \<and>
     1 \<le> HeartbeatMaxParallel cfg \<and> 1 \<le> StatusSyncBatchSize cfg \<and> 1 \<le> StatusSyncMaxParallel cfg \<and>
     1 \<le> HostPortMin cfg \<and> 1 \<le> HostPortMax cfg \<and> 1 \<le> CreateBurst cfg \<and>
     (\<exists>q > 0. CreateRPS cfg = Finite q) \<and>
     list_all (\<lambda>d. 0 < d) [HeartbeatInterval cfg, ProbeTimeout cfg, SandboxOpTimeout cfg, ResourceSyncInterval cfg,
        ResourcePersistMinInt cfg, ResourcePersistMaxInt cfg, ShutdownTimeout cfg, SchedulerInterval cfg,
        ReconcileInterval cfg, StatusSyncInterval cfg, StatusSyncTimeout cfg]"

lemma at_least_ge: "low \<le> def \<Longrightarrow> low \<le> at_least low def x"
  by (simp add: at_least_def)

lemma at_least_id: "low \<le> x \<Longrightarrow> at_least low def x = x"
  by (simp add: at_least_def)

lemma at_least_pos: "0 < def \<Longrightarrow> 0 < at_least 1 def x"
  by (simp add: at_least_def)

lemma normalize_ok:
  assumes "\<exists>q. CreateRPS cfg = Finite q"
    and "0 < HeartbeatInterval cfg" "0 < ProbeTimeout cfg" "0 < ShutdownTimeout cfg"
  shows "config_ok (normalize_config cfg)"
proof -
  obtain q where "CreateRPS cfg = Finite q" using assms(1) by blast
  then have "\<exists>q > 0. CreateRPS (normalize_config cfg) = Finite q"
    by (cases "q \<le> 0") (simp_all add: normalize_config_def Let_def float_le_0_def)
  moreover have "1 \<le> HostPortMin (normalize_config cfg)"
    by (simp add: normalize_config_def Let_def at_least_def defaultPortMin_def)
  moreover have "1 \<le> HostPortMax (normalize_config cfg)"
    by (simp add: normalize_config_def Let_def at_least_def defaultPortMin_def defaultPortMax_def)
  ultimately show ?thesis
    using assms(2-4) unfolding config_ok_def list.pred_inject
    by (intro conjI) (simp_all add: normalize_config_def Let_def at_least_ge at_least_pos)
qed

lemma read_config_pre:
  "\<exists>q. CreateRPS (read_config env boot) = Finite q" "0 < HeartbeatInterval (read_config env boot)"
  "0 < ProbeTimeout (read_config env boot)" "0 < ShutdownTimeout (read_config env boot)"
  by (simp_all add: read_config_def Let_def GetFloat64_finite GetDuration_pos)

lemma Load_eq_Inr:
  "Load env rd um mk = Inr cfg \<Longrightarrow> \<exists>boot. cfg = normalize_config (read_config env boot)"
  by (auto simp: Load_def Let_def split: sum.splits option.splits if_splits)

text \<open>
  C36: whatever the environment and the bootstrap file hold, a configuration that \<^verbatim>\<open>Load\<close> returns
  has positive intervals and timeouts, thresholds and batch sizes of at least one, and a positive
  finite request rate.
\<close>

theorem Load_config_ok: "Load env rd um mk = Inr cfg \<Longrightarrow> config_ok cfg"
  by (auto dest!: Load_eq_Inr intro!: normalize_ok read_config_pre)

definition sample_env :: "(string \<times> string) list \<Rightarrow> Environment" where
  "sample_env vars = \<lparr>Getenv = (\<lambda>k. case map_of vars k of None \<Rightarrow> [] | Some v \<Rightarrow> v),
     ParseDuration = (\<lambda>s. None), ParseFloat = (\<lambda>s. None)\<rparr>"

definition load_sample :: "(string \<times> string) list \<Rightarrow> GoError + Config" where
  "load_sample vars = Load (sample_env vars) (\<lambda>p. ReadNotExist) (\<lambda>raw. Inr raw) (\<lambda>p. None)"

lemma load_sample_defaults:
  "(case load_sample [] of Inl e \<Rightarrow> False | Inr cfg \<Rightarrow> HostPortMin cfg = 10000 \<and> HostPortMax cfg = 32767)"
  by code_simp

theorem Load_config_ok_witness: "\<exists>cfg. load_sample [] = Inr cfg \<and> config_ok cfg"
proof (cases "load_sample []")
  case (Inr cfg)
  then show ?thesis using Load_config_ok unfolding load_sample_def by blast
qed (use load_sample_defaults in simp)

text \<open>
  The correction of an empty host port range resets only its upper end, to 32767, so a lower
  end above that is loaded as a range that is still empty.
\<close>

theorem Load_host_ports_inverted:
  "(case load_sample [(''ORCH_HOSTPORT_MIN'', ''40000''), (''ORCH_HOSTPORT_MAX'', ''50'')] of
      Inl e \<Rightarrow> False
    | Inr cfg \<Rightarrow> HostPortMax cfg < HostPortMin cfg)"
  by code_simp

end
