(* ===== verification/Orch_Service.thy ===== *)
theory Orch_Service
  imports Orch_Repo Orch_Client Orch_Config Go_Net
begin

section \<open>sbxorch: the service, input validation and node clients\<close>

text \<open>
  \<^verbatim>\<open>sandboxd-orch/service/service.go\<close>, \<^verbatim>\<open>validation.go\<close> and the client constructors of
  \<^verbatim>\<open>node_ops.go\<close>.  \<open>Service\<close> holds what its operations depend on and never change: the
  configuration, the transport to the node agents and the Kubernetes quantity parser.  The two
  repositories and the resource cache are in \<open>world\<close>.
\<close>

record 'e Service =
  svc_cfg :: Config
  svc_net :: "'e net"
  svc_ParseQuantity :: "string \<Rightarrow> GoError + Quantity"

subsection \<open>validation.go\<close>

definition validateNodeInput :: "string \<Rightarrow> string \<Rightarrow> int \<Rightarrow> GoError option" where
  "validateNodeInput id0 ip port =
     (if TrimSpace id0 = [] then Some (Errorf_s ErrInvalidInput ''id is required'')
      else if \<not> ParseIP_ok (TrimSpace ip) then Some (Errorf_s ErrInvalidInput ''invalid ip'')
      else if port < 1 \<or> 65535 < port then Some (Errorf_s ErrInvalidInput ''invalid port'')
      else None)"

lemma validateNodeInput_None:
  "validateNodeInput id0 ip port = None \<longleftrightarrow>
     TrimSpace id0 \<noteq> [] \<and> ParseIP_ok (TrimSpace ip) \<and> 1 \<le> port \<and> port \<le> 65535"
  by (auto simp: validateNodeInput_def)

lemma validateNodeInput_error:
  "validateNodeInput id0 ip port = Some e \<Longrightarrow> errors_Is e ErrInvalidInput"
  by (auto simp: validateNodeInput_def split: if_splits)

subsection \<open>The client of a node\<close>

definition SandboxOpClientForNode :: "string \<Rightarrow> ('e, Client \<times> Node) io" where
  "SandboxOpClientForNode id0 =
     check (repo_GetNode id0) (\<lambda>n. ok (client_New (n_SbxletBaseURL n), n))"

lemma evolve_query_node [evolve_intros]:
  "preorder_rel P \<Longrightarrow> state_io_rel (db_rel P) (repo_GetNode i)"
  "preorder_rel P \<Longrightarrow> state_io_rel (db_rel P) repo_ListNodes"
  "preorder_rel P \<Longrightarrow> state_io_rel (db_rel P) (repo_GetSandbox i)"
  "preorder_rel P \<Longrightarrow> state_io_rel (db_rel P) repo_ListSandboxes"
  "preorder_rel P \<Longrightarrow> state_io_rel (db_rel P) (repo_NodeUsedHostPorts node)"
  unfolding repo_defs by (intro evolve_intros; assumption)+

lemma evolve_client_for_node [evolve_intros]:
  "preorder_rel P \<Longrightarrow> state_io_rel (db_rel P) (SandboxOpClientForNode id0)"
  unfolding SandboxOpClientForNode_def by (intro evolve_intros)

end
