(* ===== verification/Orch_Nodes.thy ===== *)
theory Orch_Nodes
  imports Orch_Service
begin

section \<open>sbxorch: nodes and externals\<close>

text \<open>
  \<^verbatim>\<open>sandboxd-orch/service/node_ops.go\<close>: registering and deleting nodes, binding external
  addresses, probing the agents and taking over the resources they report.  The two loops run
  \<open>runHeartbeatOnce\<close> and \<open>runResourceSyncOnce\<close> on every tick.  In \<open>forEachNode\<close> the goroutines
  of a parallel pass run one after another, in the order \<open>order\<close> gives.
\<close>

subsection \<open>Probing\<close>

text \<open>The new state of a node after a probe that answered \<open>err\<close> at time \<open>now\<close>.\<close>

definition probe_next :: "Config \<Rightarrow> GoError option \<Rightarrow> int \<Rightarrow> Node \<Rightarrow> Node" where
  "probe_next cfg err now n =
     (let next0 = n\<lparr>n_LastHeartbeat := Some now\<rparr>;
          next1 = (case err of
             None \<Rightarrow>
               (let s = i64 (n_SuccessStreak next0 + 1);
                    s' = (if ReadySuccessThreshold cfg < s then ReadySuccessThreshold cfg else s);
                    m = next0\<lparr>n_SuccessStreak := s', n_FailureStreak := 0, n_LastError := []\<rparr> in
                if n_State m \<noteq> NodeStateReady \<and> ReadySuccessThreshold cfg \<le> s'
                then m\<lparr>n_State := NodeStateReady\<rparr> else m)
           | Some e \<Rightarrow>
               (let f = i64 (n_FailureStreak next0 + 1);
                    m = next0\<lparr>n_FailureStreak := f, n_SuccessStreak := 0, n_LastError := err_text e\<rparr> in
                if NotReadyFailureThreshold cfg \<le> f then m\<lparr>n_State := NodeStateNotReady\<rparr> else m)) in
      if n_State next1 = NodeStateOther [] then next1\<lparr>n_State := NodeStateUnknown\<rparr> else next1)"

definition probeNode :: "'e Service \<Rightarrow> Node \<Rightarrow> ('e, unit) act" where
  "probeNode svc n = do {
     r \<leftarrow> client_Healthz (svc_net svc) (client_New (n_SbxletBaseURL n));
     now \<leftarrow> time_Now;
     let nx = probe_next (svc_cfg svc) (case r of Inl e \<Rightarrow> Some e | Inr _ \<Rightarrow> None) now n;
     ignore (repo_UpdateHeartbeat (n_ID n) (n_State nx) (n_SuccessStreak nx) (n_FailureStreak nx)
       (n_LastError nx) (n_LastHeartbeat nx)) }"

subsection \<open>Resources\<close>

text \<open>What the agent reports, with the external address the orchestrator knows.\<close>

definition synced_resources :: "Node \<Rightarrow> NodeResources \<Rightarrow> NodeResources" where
  "synced_resources n res =
     (let ext = TrimSpace (res_External (n_Resources n)) in
      res\<lparr>res_External := (if ext = [] then ''(none)'' else ext)\<rparr>)"

definition put_current :: "string \<Rightarrow> NodeResources \<Rightarrow> ('e, unit) act" where
  "put_current name res = modify_world (\<lambda>w. w\<lparr>w_cache := PutCurrent name res (w_cache w)\<rparr>)"

definition should_persist :: "string \<Rightarrow> int \<Rightarrow> int \<Rightarrow> int \<Rightarrow> ('e, bool) act" where
  "should_persist name now minInt maxInt = do {
     w \<leftarrow> State_Monad.get;
     ret (ShouldPersist name now minInt maxInt (w_cache w)) }"

definition mark_persisted :: "string \<Rightarrow> NodeResources \<Rightarrow> int \<Rightarrow> ('e, unit) act" where
  "mark_persisted name res t = modify_world (\<lambda>w. w\<lparr>w_cache := MarkPersisted name res t (w_cache w)\<rparr>)"

definition syncNodeResources :: "'e Service \<Rightarrow> Node \<Rightarrow> ('e, unit) act" where
  "syncNodeResources svc n = do {
     r \<leftarrow> client_NodeStatus (svc_net svc) (client_New (n_SbxletBaseURL n));
     (case r of
        Inl _ \<Rightarrow> ret ()
      | Inr st \<Rightarrow>
          let res = synced_resources n (nst_Resources st) in do {
            put_current (n_ID n) res;
            now \<leftarrow> time_Now;
            p \<leftarrow> should_persist (n_ID n) now (ResourcePersistMinInt (svc_cfg svc)) (ResourcePersistMaxInt (svc_cfg svc));
            if \<not> p then ret ()
            else do {
              u \<leftarrow> repo_UpdateNodeResources (n_ID n) res;
              (case u of Inl _ \<Rightarrow> ret () | Inr _ \<Rightarrow> mark_persisted (n_ID n) res now) } }) }"

subsection \<open>Registering\<close>

definition RegisterNode :: "'e Service \<Rightarrow> RegisterNodeRequest \<Rightarrow> string \<Rightarrow> ('e, Node) io" where
  "RegisterNode svc req source =
     (case validateNodeInput (rn_ID req) (rn_IP req) (rn_Port req) of
        Some e \<Rightarrow> fail e
      | None \<Rightarrow>
          let source = (if source = [] then ''api'' else source) in
          check (repo_UpsertNode (rn_ID req) (rn_IP req) (rn_Port req) source) (\<lambda>_.
          check (repo_GetNode (rn_ID req)) (\<lambda>n. do {
            probeNode svc n;
            syncNodeResources svc n;
            repo_GetNode (rn_ID req) })))"

definition CreateNodeObject :: "'e Service \<Rightarrow> CreateNodeObjectRequest \<Rightarrow> ('e, Node) io" where
  "CreateNodeObject svc req =
     RegisterNode svc \<lparr>rn_ID = TrimSpace (cn_ID req), rn_IP = TrimSpace (no_IP (cn_Spec req)),
       rn_Port = no_Port (cn_Spec req)\<rparr> ''object''"

subsection \<open>Externals\<close>

definition UpsertExternalObject :: "CreateExternalObjectRequest \<Rightarrow> ('e, unit) io" where
  "UpsertExternalObject req =
     (let id0 = TrimSpace (ce_ID req);
          nodeID = TrimSpace (eo_NodeID (ce_Spec req));
          external = TrimSpace (eo_External (ce_Spec req)) in
      if id0 = [] then fail (Errorf_s ErrInvalidInput ''external id is required'')
      else if nodeID = [] then fail (Errorf_s ErrInvalidInput ''spec.node_id is required'')
      else if external = [] then fail (Errorf_s ErrInvalidInput ''spec.external is required'')
      else do {
        n \<leftarrow> repo_GetNode nodeID;
        (case n of
           Inl _ \<Rightarrow> fail (Errorf_s ErrInvalidInput ''referenced node not found'')
         | Inr _ \<Rightarrow> repo_SetNodeExternal id0 nodeID external) })"

definition GetExternal :: "string \<Rightarrow> ('e, External) io" where
  "GetExternal id0 =
     (let i = TrimSpace id0 in
      if i = [] then fail (Errorf_s ErrInvalidInput ''id is required'') else repo_GetExternal i)"

definition ListExternals :: "('e, External list) io" where
  "ListExternals = repo_ListExternals"

definition DeleteExternal :: "string \<Rightarrow> ('e, unit) io" where
  "DeleteExternal id0 =
     (let i = TrimSpace id0 in
      if i = [] then fail (Errorf_s ErrInvalidInput ''id is required'') else repo_DeleteExternal i)"

subsection \<open>Deleting a node\<close>

text \<open>One sandbox of the node; \<open>client\<close> is \<open>None\<close> for Go's nil client.\<close>

definition detached_status :: "SandboxStatus \<Rightarrow> SandboxStatus" where
  "detached_status st = st\<lparr>st_Phase := SandboxPhaseFailed, st_LastError := ''node removed'',
     st_NodeName := [], st_External := [], st_AssignedPorts := []\<rparr>"

definition detach_one :: "'e Service \<Rightarrow> string \<Rightarrow> bool \<Rightarrow> Client option \<Rightarrow> Sandbox \<Rightarrow> ('e, unit) io" where
  "detach_one svc nodeName force client sbx =
     (if st_NodeName (sbx_Status sbx) \<noteq> nodeName then ok ()
      else do {
        ignore (repo_ReleaseSandboxPorts (sbx_ID sbx));
        (if st_Phase (sbx_Status sbx) = SandboxPhaseDeleting then do {
           ignore (repo_DeleteSandbox (sbx_ID sbx));
           ok () }
         else if st_Phase (sbx_Status sbx) = SandboxPhaseRunning \<or> st_Phase (sbx_Status sbx) = SandboxPhaseScheduled then do {
           r \<leftarrow> (case client of
                  None \<Rightarrow> ok ()
                | Some c \<Rightarrow> check (client_DeleteSandbox (svc_net svc) c (sbx_ID sbx)) (\<lambda>_. ok ()));
           (case r of
              Inl err \<Rightarrow>
                if \<not> force then fail (Errorf_w (''delete sandbox on node '' @ nodeName @ '' for sandbox '' @ sbx_ID sbx) err)
                else do {
                  ignore (repo_UpdateSandboxStatus (sbx_ID sbx) (detached_status (sbx_Status sbx)));
                  ok () }
            | Inr _ \<Rightarrow> do {
                ignore (repo_UpdateSandboxStatus (sbx_ID sbx) (detached_status (sbx_Status sbx)));
                ok () }) }
         else ok ()) })"

definition reconcile_detached :: "'e Service \<Rightarrow> string \<Rightarrow> bool \<Rightarrow> Client option \<Rightarrow> ('e, unit) io" where
  "reconcile_detached svc nodeName force client =
     (case client of
        None \<Rightarrow> ok ()
      | Some cl \<Rightarrow> do {
          r \<leftarrow> client_Reconcile (svc_net svc) cl;
          (case r of
             Inl err \<Rightarrow>
               if \<not> force then fail (Errorf_w (''reconcile node '' @ nodeName @ '' during delete'') err)
               else ok ()
           | Inr _ \<Rightarrow> ok ()) })"

definition detachNodeSandboxes :: "'e Service \<Rightarrow> string \<Rightarrow> bool \<Rightarrow> ('e, unit) io" where
  "detachNodeSandboxes svc nodeName force = do {
     c \<leftarrow> SandboxOpClientForNode nodeName;
     (case (c, force) of
        (Inl err, False) \<Rightarrow> fail (Errorf_w ''prepare node client for delete'' err)
      | _ \<Rightarrow>
          let client = (if force then None else case c of Inl _ \<Rightarrow> None | Inr (cl, _) \<Rightarrow> Some cl) in
          check repo_ListSandboxes (\<lambda>items.
          check (for_each_err (detach_one svc nodeName force client) items) (\<lambda>_.
          reconcile_detached svc nodeName force client))) }"

definition cache_delete :: "string \<Rightarrow> ('e, unit) act" where
  "cache_delete name = modify_world (\<lambda>w. w\<lparr>w_cache := CacheDelete name (w_cache w)\<rparr>)"

definition DeleteNodeForce :: "'e Service \<Rightarrow> string \<Rightarrow> bool \<Rightarrow> ('e, unit) io" where
  "DeleteNodeForce svc id0 force =
     (let i = TrimSpace id0 in
      if i = [] then fail (Errorf_s ErrInvalidInput ''id is required'')
      else check (detachNodeSandboxes svc i force) (\<lambda>_.
           check (repo_DeleteNode i) (\<lambda>_. do { cache_delete i; ok () })))"

definition DeleteNode :: "'e Service \<Rightarrow> string \<Rightarrow> ('e, unit) io" where
  "DeleteNode svc id0 = DeleteNodeForce svc id0 False"

definition ListNodes :: "('e, Node list) io" where
  "ListNodes = repo_ListNodes"

definition GetNode :: "string \<Rightarrow> ('e, Node) io" where
  "GetNode id0 = repo_GetNode id0"

text \<open>The two client constructors differ in the timeout only, which the transport stands for.\<close>

definition SandboxClientForNode :: "string \<Rightarrow> ('e, Client \<times> Node) io" where
  "SandboxClientForNode id0 =
     check (repo_GetNode id0) (\<lambda>n. ok (client_New (n_SbxletBaseURL n), n))"

subsection \<open>The two loops\<close>

definition forEachNode ::
  "'e Service \<Rightarrow> (Node list \<Rightarrow> Node list) \<Rightarrow> Node list \<Rightarrow> (Node \<Rightarrow> ('e, unit) act) \<Rightarrow> ('e, unit) act" where
  "forEachNode svc order nodes fn =
     (if \<not> HeartbeatParallel (svc_cfg svc) \<or> length nodes \<le> 1 then for_each fn nodes
      else for_each fn (order nodes))"

definition runHeartbeatOnce :: "'e Service \<Rightarrow> (Node list \<Rightarrow> Node list) \<Rightarrow> ('e, unit) act" where
  "runHeartbeatOnce svc order = do {
     l \<leftarrow> repo_ListNodes;
     (case l of Inl _ \<Rightarrow> ret () | Inr nodes \<Rightarrow> forEachNode svc order nodes (probeNode svc)) }"

definition runResourceSyncOnce :: "'e Service \<Rightarrow> (Node list \<Rightarrow> Node list) \<Rightarrow> ('e, unit) act" where
  "runResourceSyncOnce svc order = do {
     l \<leftarrow> repo_ListNodes;
     (case l of Inl _ \<Rightarrow> ret () | Inr nodes \<Rightarrow> forEachNode svc order nodes (syncNodeResources svc)) }"

subsection \<open>Every operation evolves the world\<close>

lemma evolve_cache_ops [evolve_intros]:
  assumes "preorder_rel P"
  shows "state_io_rel (db_rel P) (put_current name res)"
    and "state_io_rel (db_rel P) (should_persist name now mn mx)"
    and "state_io_rel (db_rel P) (mark_persisted name res t)"
    and "state_io_rel (db_rel P) (cache_delete name)"
  using preorder_rel_refl [OF assms]
  by (auto simp: state_io_rel_def put_current_def should_persist_def mark_persisted_def cache_delete_def
      modify_world_def db_rel_def)

lemma evolve_probe [evolve_intros]: "state_io_rel evolves (probeNode svc n)"
  unfolding probeNode_def Let_def by (intro evolve_intros)

lemma evolve_sync [evolve_intros]: "state_io_rel evolves (syncNodeResources svc n)"
  unfolding syncNodeResources_def Let_def by (intro evolve_intros)

lemma evolve_register [evolve_intros]:
  "state_io_rel evolves (RegisterNode svc req source)"
  "state_io_rel evolves (CreateNodeObject svc creq)"
  unfolding CreateNodeObject_def RegisterNode_def Let_def by (intro evolve_intros)+

lemma evolve_externals [evolve_intros]:
  "state_io_rel evolves (UpsertExternalObject xreq)"
  "state_io_rel evolves (GetExternal i)"
  "state_io_rel evolves ListExternals"
  "state_io_rel evolves (DeleteExternal i)"
  unfolding UpsertExternalObject_def GetExternal_def ListExternals_def DeleteExternal_def Let_def
  by (intro evolve_intros)+

lemma evolve_detach_one [evolve_intros]: "state_io_rel evolves (detach_one svc node force client sbx)"
  unfolding detach_one_def by (intro evolve_intros)

lemma evolve_reconcile_detached [evolve_intros]: "state_io_rel evolves (reconcile_detached svc node force client)"
  unfolding reconcile_detached_def by (intro evolve_intros)

lemma evolve_detach [evolve_intros]: "state_io_rel evolves (detachNodeSandboxes svc node force)"
  unfolding detachNodeSandboxes_def Let_def split_beta
  by (intro evolve_intros) (auto split: sum.splits bool.splits intro!: evolve_intros)

lemma evolve_node_ops [evolve_intros]:
  "state_io_rel evolves (DeleteNodeForce svc i force)"
  "state_io_rel evolves (DeleteNode svc i)"
  "state_io_rel evolves ListNodes"
  "state_io_rel evolves (GetNode i)"
  "state_io_rel evolves (SandboxClientForNode i)"
  unfolding DeleteNode_def DeleteNodeForce_def ListNodes_def GetNode_def SandboxClientForNode_def Let_def
  by (intro evolve_intros)+

lemma evolve_loops [evolve_intros]:
  "state_io_rel evolves (runHeartbeatOnce svc order)"
  "state_io_rel evolves (runResourceSyncOnce svc order)"
  unfolding runHeartbeatOnce_def runResourceSyncOnce_def forEachNode_def by (intro evolve_intros)+

end
