(* ===== verification/Orch_Alloc.thy ===== *)
theory Orch_Alloc
  imports Orch_Service
begin

section \<open>sbxorch: choosing host ports\<close>

text \<open>
  \<^verbatim>\<open>allocateHostPorts\<close> of \<^verbatim>\<open>sandboxd-orch/service/sandbox_ops.go\<close>.  \<open>shuffle\<close> is the
  Fisher-Yates loop of \<^verbatim>\<open>math/rand/v2.Shuffle\<close> on the numbers the generator draws; that it only
  permutes is a lemma, so what is proved holds for every sequence of draws.
\<close>

definition swap_at :: "nat \<Rightarrow> nat \<Rightarrow> 'a list \<Rightarrow> 'a list" where
  "swap_at i j xs = xs[i := xs ! j, j := xs ! i]"

fun shuffle_from :: "nat \<Rightarrow> 'a list \<Rightarrow> ('e, 'a list) act" where
  "shuffle_from 0 xs = ret xs"
| "shuffle_from (Suc i) xs = do {
     r \<leftarrow> rand_draw;
     shuffle_from i (swap_at (Suc i) (r mod (Suc i + 1)) xs) }"

definition shuffle :: "'a list \<Rightarrow> ('e, 'a list) act" where
  "shuffle xs = shuffle_from (length xs - 1) xs"

definition orch_proto :: "string \<Rightarrow> string" where
  "orch_proto p = (let q = ToLower (TrimSpace p) in if q = [] then ''tcp'' else q)"

definition assign_port :: "SandboxPortSpec \<Rightarrow> int \<Rightarrow> SandboxPortAssign" where
  "assign_port p hp =
     \<lparr>pa_HostPort = hp, pa_ContainerPort = ps_ContainerPort p, pa_Protocol = orch_proto (ps_Protocol p)\<rparr>"

definition free_ports :: "int list \<Rightarrow> int \<Rightarrow> int \<Rightarrow> int list" where
  "free_ports used minPort maxPort = filter (\<lambda>hp. hp \<notin> set used) [minPort..maxPort]"

definition allocateHostPorts ::
  "SandboxPortSpec list \<Rightarrow> int list \<Rightarrow> int \<Rightarrow> int \<Rightarrow> ('e, SandboxPortAssign list option) act" where
  "allocateHostPorts spec used minPort maxPort =
     (if spec = [] then ret (Some [])
      else if maxPort < minPort then ret None
      else let available = free_ports used minPort maxPort in
        if length available < length spec then ret None
        else do {
          shuffled \<leftarrow> shuffle available;
          ret (Some (map2 assign_port spec shuffled)) })"

subsection \<open>Shuffling permutes\<close>

lemma mset_swap_at: "i < length xs \<Longrightarrow> j < length xs \<Longrightarrow> mset (swap_at i j xs) = mset xs"
  unfolding swap_at_def by (rule mset_swap)

lemma length_swap_at [simp]: "length (swap_at i j xs) = length xs"
  by (simp add: swap_at_def)

lemma run_shuffle_from:
  assumes "run_state (shuffle_from i xs) w = (ys, w')" "i < length xs \<or> xs = [] \<and> i = 0"
  shows "mset ys = mset xs \<and> (\<exists>rs. w' = w\<lparr>w_rands := rs\<rparr>)"
  using assms
proof (induction i xs arbitrary: w rule: shuffle_from.induct)
  case (1 xs)
  then show ?case by (auto intro: exI [of _ "w_rands w"])
next
  case (2 i xs)
  define r where "r = (case w_rands w of [] \<Rightarrow> 0 | x # _ \<Rightarrow> x)"
  have "run_state (shuffle_from i (swap_at (Suc i) (r mod (Suc i + 1)) xs)) (w\<lparr>w_rands := tl (w_rands w)\<rparr>) = (ys, w')"
    using 2(2) by (simp add: rand_draw_def r_def)
  from 2(1) [OF this] 2(3) obtain rs where
    "mset ys = mset (swap_at (Suc i) (r mod (Suc i + 1)) xs)" "w' = w\<lparr>w_rands := rs\<rparr>"
    by auto
  moreover have "r mod (Suc i + 1) < length xs"
    using 2(3) mod_less_divisor [of "Suc i + 1" r] by linarith
  ultimately show ?case using 2(3) mset_swap_at [of "Suc i" xs] by auto
qed

lemma run_shuffle:
  assumes "run_state (shuffle xs) w = (ys, w')"
  shows "mset ys = mset xs \<and> (\<exists>rs. w' = w\<lparr>w_rands := rs\<rparr>)"
  using assms unfolding shuffle_def by (rule run_shuffle_from) (cases xs; simp)

lemma evolve_shuffle_from: "preorder_rel P \<Longrightarrow> state_io_rel (db_rel P) (shuffle_from i xs)"
  by (induction i xs rule: shuffle_from.induct) (auto intro!: evolve_intros)

lemma evolve_allocate [evolve_intros]:
  "preorder_rel P \<Longrightarrow> state_io_rel (db_rel P) (allocateHostPorts spec used mn mx)"
  unfolding allocateHostPorts_def Let_def shuffle_def
  by (intro evolve_intros evolve_shuffle_from)

subsection \<open>What is allocated\<close>

lemma set_free_ports: "set (free_ports used mn mx) = {mn..mx} - set used"
  by (auto simp: free_ports_def)

lemma distinct_free_ports: "distinct (free_ports used mn mx)"
  by (simp add: free_ports_def)

lemma length_free_ports: "length (free_ports used mn mx) = card ({mn..mx} - set used)"
  by (metis distinct_card distinct_free_ports set_free_ports)

lemma map2_assign_port:
  assumes "length spec \<le> length hps"
  shows "map pa_HostPort (map2 assign_port spec hps) = take (length spec) hps"
    and "map pa_ContainerPort (map2 assign_port spec hps) = map ps_ContainerPort spec"
    and "map pa_Protocol (map2 assign_port spec hps) = map (\<lambda>p. orch_proto (ps_Protocol p)) spec"
  using assms
  by (induction spec arbitrary: hps) (auto simp: assign_port_def neq_Nil_conv Suc_le_length_iff)

definition allocation_ok ::
  "SandboxPortSpec list \<Rightarrow> int list \<Rightarrow> int \<Rightarrow> int \<Rightarrow> SandboxPortAssign list \<Rightarrow> bool" where
  "allocation_ok spec used mn mx ports \<longleftrightarrow>
     map pa_ContainerPort ports = map ps_ContainerPort spec \<and>
     map pa_Protocol ports = map (\<lambda>p. orch_proto (ps_Protocol p)) spec \<and>
     distinct (map pa_HostPort ports) \<and>
     (\<forall>p \<in> set ports. mn \<le> pa_HostPort p \<and> pa_HostPort p \<le> mx \<and> pa_HostPort p \<notin> set used)"

lemma allocate_cases:
  assumes "run_state (allocateHostPorts spec used mn mx) w = (r, w')"
  shows "(\<exists>rs. w' = w\<lparr>w_rands := rs\<rparr>) \<and>
    (case r of
       None \<Rightarrow> card ({mn..mx} - set used) < length spec
     | Some ports \<Rightarrow> allocation_ok spec used mn mx ports)"
proof (cases "spec = [] \<or> mx < mn \<or> length (free_ports used mn mx) < length spec")
  case True
  then show ?thesis
    using assms
    by (auto simp: allocateHostPorts_def Let_def allocation_ok_def length_free_ports
        split: if_splits intro: exI [of _ "w_rands w"])
next
  case False
  then obtain hps where h: "run_state (shuffle (free_ports used mn mx)) w = (hps, w')"
    and r: "r = Some (map2 assign_port spec hps)"
    using assms by (auto simp: allocateHostPorts_def Let_def split: prod.splits)
  have m: "mset hps = mset (free_ports used mn mx)" and s: "\<exists>rs. w' = w\<lparr>w_rands := rs\<rparr>"
    using run_shuffle [OF h] by auto
  have "length spec \<le> length hps"
    using False m by (metis mset_eq_length not_less)
  note mp = map2_assign_port [OF this]
  have d: "distinct hps" and st: "set hps = {mn..mx} - set used"
    using m distinct_free_ports set_free_ports by (metis mset_eq_imp_distinct_iff, metis mset_eq_setD)
  have "set (map pa_HostPort (map2 assign_port spec hps)) \<subseteq> {mn..mx} - set used"
    unfolding mp(1) st [symmetric] by (rule set_take_subset)
  then have "\<forall>p \<in> set (map2 assign_port spec hps). pa_HostPort p \<in> {mn..mx} - set used"
    by (simp add: subset_iff)
  then have "allocation_ok spec used mn mx (map2 assign_port spec hps)"
    unfolding allocation_ok_def mp using d by auto
  with r s show ?thesis by simp
qed

lemma orch_proto_nonempty: "orch_proto p \<noteq> []"
  by (simp add: orch_proto_def Let_def)

text \<open>
  C27: \<^verbatim>\<open>allocateHostPorts\<close> gives a port assignment exactly when the range has as many unused ports
  as were asked for, whatever the random generator draws.  The assignment keeps the requests'
  container ports and normalised protocols in order, and its host ports are in the range, not in
  use, and pairwise distinct.
\<close>

theorem allocateHostPorts_correct:
  "case fst (run_state (allocateHostPorts spec used mn mx) w) of
     None \<Rightarrow> card ({mn..mx} - set used) < length spec
   | Some ports \<Rightarrow> length spec \<le> card ({mn..mx} - set used) \<and> allocation_ok spec used mn mx ports"
proof (cases "fst (run_state (allocateHostPorts spec used mn mx) w)")
  case None
  then show ?thesis
    using allocate_cases [of spec used mn mx w None] by (metis option.simps(4) prod.collapse)
next
  case (Some ports)
  then have ok: "allocation_ok spec used mn mx ports"
    using allocate_cases [of spec used mn mx w "Some ports"] by (metis option.simps(5) prod.collapse)
  have "length ports = length spec"
    using ok unfolding allocation_ok_def by (metis length_map)
  moreover have "pa_HostPort ` set ports \<subseteq> {mn..mx} - set used"
    using ok unfolding allocation_ok_def by auto
  then have "card (pa_HostPort ` set ports) \<le> card ({mn..mx} - set used)"
    by (intro card_mono) auto
  moreover have "card (pa_HostPort ` set ports) = length ports"
    using ok unfolding allocation_ok_def by (metis distinct_card length_map set_map)
  ultimately show ?thesis using Some ok by simp
qed

end
