(* ===== verification/Orch_Scheduler.thy ===== *)
theory Orch_Scheduler
  imports Orch_Alloc
begin

section \<open>sbxorch: admission of sandboxes and the scheduler\<close>

text \<open>
  The scheduling half of \<^verbatim>\<open>sandboxd-orch/service/sandbox_ops.go\<close>: validation of a create
  request, the resources it asks for, the choice of a node and the steps that place a sandbox
  on it.  Logging is left out.  \<^verbatim>\<open>_ = s.sbxRepo.UpdateSandboxStatus(...)\<close>, which drops the error,
  is \<open>ignore (repo_UpdateSandboxStatus ...)\<close>.
\<close>

subsection \<open>Resource quantities\<close>

definition parseCPUMilli :: "'e Service \<Rightarrow> string \<Rightarrow> GoError + int" where
  "parseCPUMilli svc raw =
     (case svc_ParseQuantity svc (TrimSpace raw) of Inl e \<Rightarrow> Inl e | Inr q \<Rightarrow> Inr (q_MilliValue q))"

definition parseMemoryBytes :: "'e Service \<Rightarrow> string \<Rightarrow> GoError + int" where
  "parseMemoryBytes svc raw =
     (case svc_ParseQuantity svc (TrimSpace raw) of Inl e \<Rightarrow> Inl e | Inr q \<Rightarrow> Inr (q_Value q))"

fun resource_sum :: "'e Service \<Rightarrow> int \<Rightarrow> int \<Rightarrow> SandboxContainerSpec list \<Rightarrow> GoError + (int \<times> int)" where
  "resource_sum svc cpuMilli memBytes [] = Inr (cpuMilli, memBytes)"
| "resource_sum svc cpuMilli memBytes (c # cs) =
     (case parseCPUMilli svc (sr_CPU (sc_Resource c)) of
        Inl e \<Rightarrow> Inl e
      | Inr cpu \<Rightarrow>
          (case parseMemoryBytes svc (sr_Memory (sc_Resource c)) of
             Inl e \<Rightarrow> Inl e
           | Inr mem \<Rightarrow> resource_sum svc (i64 (cpuMilli + cpu)) (i64 (memBytes + mem)) cs))"

definition sandboxResourceRequest :: "'e Service \<Rightarrow> SandboxSpec \<Rightarrow> GoError + (int \<times> int)" where
  "sandboxResourceRequest svc spec = resource_sum svc 0 0 (spec_Containers spec)"

subsection \<open>Validation of a create request\<close>

fun validate_create_containers :: "'e Service \<Rightarrow> SandboxContainerSpec list \<Rightarrow> GoError option" where
  "validate_create_containers svc [] = None"
| "validate_create_containers svc (c # cs) =
     (if TrimSpace (sc_Name c) = [] \<or> TrimSpace (sc_Image c) = []
      then Some (Errorf_s ErrInvalidInput ''container name and image are required'')
      else if TrimSpace (sr_CPU (sc_Resource c)) = [] \<or> TrimSpace (sr_Memory (sc_Resource c)) = []
      then Some (Errorf_s ErrInvalidInput ''container resource cpu/memory are required'')
      else case parseCPUMilli svc (sr_CPU (sc_Resource c)) of
        Inl _ \<Rightarrow> Some (Errorf_s ErrInvalidInput (''invalid cpu for container '' @ sc_Name c))
      | Inr _ \<Rightarrow>
          (case parseMemoryBytes svc (sr_Memory (sc_Resource c)) of
             Inl _ \<Rightarrow> Some (Errorf_s ErrInvalidInput (''invalid memory for container '' @ sc_Name c))
           | Inr _ \<Rightarrow> validate_create_containers svc cs))"

fun validate_create_ports :: "SandboxPortSpec list \<Rightarrow> GoError option" where
  "validate_create_ports [] = None"
| "validate_create_ports (p # ps) =
     (if ps_ContainerPort p < 1 \<or> 65535 < ps_ContainerPort p
      then Some (Errorf_s ErrInvalidInput ''invalid container port'')
      else let proto = ToLower (TrimSpace (ps_Protocol p)) in
        if proto = [] then validate_create_ports ps
        else if proto \<noteq> ''tcp'' \<and> proto \<noteq> ''udp''
        then Some (Errorf_s ErrInvalidInput ''unsupported protocol'')
        else validate_create_ports ps)"

definition validateSandboxCreate :: "'e Service \<Rightarrow> CreateSandboxObjectRequest \<Rightarrow> GoError option" where
  "validateSandboxCreate svc req =
     (if TrimSpace (cso_ID req) = [] then Some (Errorf_s ErrInvalidInput ''id is required'')
      else if spec_Containers (cso_Spec req) = []
      then Some (Errorf_s ErrInvalidInput ''at least one container is required'')
      else if spec_TTLSeconds (cso_Spec req) < 0
      then Some (Errorf_s ErrInvalidInput ''ttl_seconds must be >= 0'')
      else case validate_create_containers svc (spec_Containers (cso_Spec req)) of
        Some e \<Rightarrow> Some e
      | None \<Rightarrow> validate_create_ports (spec_Ports (cso_Spec req)))"

subsection \<open>Usage accounting\<close>

definition adjustNodeUsageForSandbox ::
  "'e Service \<Rightarrow> string \<Rightarrow> SandboxSpec \<Rightarrow> int \<Rightarrow> ('e, unit) io" where
  "adjustNodeUsageForSandbox svc nodeName spec direction =
     (if TrimSpace nodeName = [] \<or> direction = 0 then ok ()
      else case sandboxResourceRequest svc spec of
        Inl e \<Rightarrow> fail e
      | Inr (cpu, mem) \<Rightarrow> repo_AdjustNodeResourceUsage nodeName (i64 (direction * cpu)) (i64 (direction * mem)))"

subsection \<open>Placing a sandbox on its node\<close>

definition container_request :: "SandboxContainerSpec \<Rightarrow> CreateContainerRequest" where
  "container_request c = \<lparr>cc_Name = sc_Name c, cc_Image = sc_Image c, cc_Args = sc_Args c,
     cc_Env = sc_Env c, cc_WorkDir = sc_WorkDir c,
     cc_Resource = \<lparr>rs_CPU = sr_CPU (sc_Resource c), rs_Memory = sr_Memory (sc_Resource c)\<rparr>\<rparr>"

definition port_request :: "SandboxPortAssign \<Rightarrow> PortMapping" where
  "port_request p = \<lparr>pm_HostPort = pa_HostPort p, pm_ContainerPort = pa_ContainerPort p,
     pm_Protocol = pa_Protocol p\<rparr>"

definition create_request :: "Sandbox \<Rightarrow> CreateSandboxRequest" where
  "create_request sbx = \<lparr>cr_ID = sbx_ID sbx, cr_Egress = spec_Egress (sbx_Spec sbx),
     cr_Containers = map container_request (spec_Containers (sbx_Spec sbx)),
     cr_Ports = map port_request (st_AssignedPorts (sbx_Status sbx))\<rparr>"

definition createSandboxOnNode :: "'e Service \<Rightarrow> Sandbox \<Rightarrow> ('e, unit) io" where
  "createSandboxOnNode svc sbx =
     check (SandboxOpClientForNode (st_NodeName (sbx_Status sbx))) (\<lambda>(client, _).
     check (client_CreateSandbox (svc_net svc) client (create_request sbx)) (\<lambda>_. ok ()))"

definition fetchSandboxIPOnce :: "'e Service \<Rightarrow> string \<Rightarrow> string \<Rightarrow> ('e, string) act" where
  "fetchSandboxIPOnce svc nodeName sandboxID = do {
     c \<leftarrow> SandboxOpClientForNode nodeName;
     (case c of
        Inl _ \<Rightarrow> ret []
      | Inr (client, _) \<Rightarrow> do {
          st \<leftarrow> client_SandboxStatuses (svc_net svc) client [sandboxID];
          (case st of
             Inl _ \<Rightarrow> ret []
           | Inr resp \<Rightarrow> (case ssr_Items resp of [] \<Rightarrow> ret [] | it # _ \<Rightarrow> ret (TrimSpace (sss_IP it)))) }) }"

definition external_or_none :: "string \<Rightarrow> string" where
  "external_or_none s = (let e = TrimSpace s in if e = [] then ''(none)'' else e)"

subsection \<open>Choosing a node\<close>

definition node_fits :: "int \<Rightarrow> int \<Rightarrow> Node \<Rightarrow> bool" where
  "node_fits needCPU needMem n \<longleftrightarrow> n_State n = NodeStateReady \<and>
     \<not> (res_AvailableCPUMilli (n_Resources n) < needCPU \<or> res_AvailableMemory (n_Resources n) < needMem)"

fun candidates ::
  "'e Service \<Rightarrow> SandboxPortSpec list \<Rightarrow> int \<Rightarrow> int \<Rightarrow> Node list
     \<Rightarrow> ('e, (Node \<times> SandboxPortAssign list) list) act" where
  "candidates svc spec needCPU needMem [] = ret []"
| "candidates svc spec needCPU needMem (n # ns) =
     (if \<not> node_fits needCPU needMem n then candidates svc spec needCPU needMem ns
      else do {
        used \<leftarrow> repo_NodeUsedHostPorts (n_ID n);
        (case used of
           Inl _ \<Rightarrow> candidates svc spec needCPU needMem ns
         | Inr u \<Rightarrow> do {
             a \<leftarrow> allocateHostPorts spec u (HostPortMin (svc_cfg svc)) (HostPortMax (svc_cfg svc));
             (case a of
                None \<Rightarrow> candidates svc spec needCPU needMem ns
              | Some ports \<Rightarrow> do {
                  rest \<leftarrow> candidates svc spec needCPU needMem ns;
                  ret ((n, ports) # rest) }) }) })"

definition cand_less :: "int \<Rightarrow> (Node \<times> 'p) \<Rightarrow> (Node \<times> 'p) \<Rightarrow> bool" where
  "cand_less needCPU a b =
     (let lhs = i64 (res_AvailableCPUMilli (n_Resources (fst a)) - needCPU);
          rhs = i64 (res_AvailableCPUMilli (n_Resources (fst b)) - needCPU) in
      if lhs = rhs then n_ID (fst a) < n_ID (fst b) else rhs < lhs)"

subsection \<open>scheduleOne\<close>

definition fail_sandbox :: "Sandbox \<Rightarrow> string \<Rightarrow> ('e, unit) act" where
  "fail_sandbox sbx msg = ignore (repo_UpdateSandboxStatus (sbx_ID sbx)
     ((sbx_Status sbx)\<lparr>st_Phase := SandboxPhaseFailed, st_LastError := msg\<rparr>))"

definition place_sandbox :: "'e Service \<Rightarrow> Sandbox \<Rightarrow> Node \<Rightarrow> ('e, unit) act" where
  "place_sandbox svc fresh0 chosen = (
     let fresh = fresh0\<lparr>sbx_Status := (sbx_Status fresh0)\<lparr>
           st_External := external_or_none (res_External (n_Resources chosen))\<rparr>\<rparr>;
         nodeName = st_NodeName (sbx_Status fresh) in do {
     r \<leftarrow> createSandboxOnNode svc fresh;
     (case r of
        Inl e \<Rightarrow> do {
          fail_sandbox fresh (err_text e);
          ignore (repo_ReleaseSandboxPorts (sbx_ID fresh)) }
      | Inr _ \<Rightarrow> do {
          latest \<leftarrow> repo_GetNode nodeName;
          let ext = (case latest of
                 Inr n \<Rightarrow> external_or_none (res_External (n_Resources n))
               | Inl _ \<Rightarrow> st_External (sbx_Status fresh));
          ip \<leftarrow> fetchSandboxIPOnce svc nodeName (sbx_ID fresh);
          let st = (sbx_Status fresh)\<lparr>st_External := ext, st_Phase := SandboxPhaseRunning, st_LastError := [],
                 st_IP := (if ip \<noteq> [] then ip else st_IP (sbx_Status fresh))\<rparr>;
          ignore (repo_UpdateSandboxStatus (sbx_ID fresh) st);
          ignore (adjustNodeUsageForSandbox svc nodeName (sbx_Spec fresh) 1);
          spawn (sbx_ID fresh, nodeName) }) })"

definition reserve_and_place ::
  "'e Service \<Rightarrow> Sandbox \<Rightarrow> Node \<times> SandboxPortAssign list \<Rightarrow> ('e, unit) act" where
  "reserve_and_place svc sbx chosen = do {
     r \<leftarrow> repo_ReserveSandboxPortsAndSchedule (sbx_ID sbx) (n_ID (fst chosen)) (snd chosen);
     (case r of
        Inl e \<Rightarrow> if errors_Is e ErrPortReservationConflict then ret () else fail_sandbox sbx (err_text e)
      | Inr _ \<Rightarrow> do {
          fresh \<leftarrow> repo_GetSandbox (sbx_ID sbx);
          (case fresh of
             Inl _ \<Rightarrow> ret ()
           | Inr f \<Rightarrow> place_sandbox svc f (fst chosen)) }) }"

definition scheduleOne :: "'e Service \<Rightarrow> Sandbox \<Rightarrow> ('e, unit) act" where
  "scheduleOne svc sbx = do {
     nodes \<leftarrow> repo_ListNodes;
     (case nodes of
        Inl _ \<Rightarrow> ret ()
      | Inr ns \<Rightarrow>
          (case sandboxResourceRequest svc (sbx_Spec sbx) of
             Inl e \<Rightarrow> fail_sandbox sbx (err_text e)
           | Inr (needCPU, needMem) \<Rightarrow> do {
               cands \<leftarrow> candidates svc (spec_Ports (sbx_Spec sbx)) needCPU needMem ns;
               (case sort_by (cand_less needCPU) cands of
                  [] \<Rightarrow> fail_sandbox sbx ''no feasible node for resources/ports''
                | chosen # _ \<Rightarrow> reserve_and_place svc sbx chosen) })) }"

definition runSchedulerOnce :: "'e Service \<Rightarrow> ('e, unit) act" where
  "runSchedulerOnce svc = do {
     l \<leftarrow> repo_ListSandboxes;
     (case l of
        Inl _ \<Rightarrow> ret ()
      | Inr sandboxes \<Rightarrow>
          for_each (\<lambda>sbx. if st_Phase (sbx_Status sbx) \<noteq> SandboxPhasePending then ret ()
                          else scheduleOne svc sbx) sandboxes) }"

end
