(* ===== verification/Orch_Quiet.thy ===== *)
theory Orch_Quiet
  imports Orch_Scheduler Orch_Ports
begin

section \<open>sbxorch: runs in which no database call fails\<close>

text \<open>
  \<open>quiet w\<close> says that the fault plan is used up.  In a quiet world every statement takes effect,
  so the result of a repository method is determined; the lemmas here give that result, and the
  node agents may still answer anything.
\<close>

definition quiet :: "'e world \<Rightarrow> bool" where
  "quiet w \<longleftrightarrow> w_faults w = []"

lemma quiet_next_fault:
  assumes "quiet w"
  obtains w' where "run_state next_fault w = (None, w')" "w_db w' = w_db w" "quiet w'"
  using assms by (simp add: run_next_fault quiet_def)

lemma quiet_Now:
  assumes "quiet w"
  obtains now w' where "run_state time_Now w = (now, w')" "w_db w' = w_db w" "quiet w'"
  using assms by (simp add: run_time_Now quiet_def)

lemma quiet_exec:
  assumes "quiet w"
  obtains w' where "run_state (exec f) w = (Inr (), w')" "w_db w' = f (w_db w)" "quiet w'"
  using assms by (simp add: exec_def run_next_fault run_modify quiet_def)

lemma quiet_exec_c:
  assumes "quiet w" "f (w_db w) = Inr d"
  obtains w' where "run_state (exec_c f) w = (Inr (), w')" "w_db w' = d" "quiet w'"
  using assms by (simp add: exec_c_def run_next_fault quiet_def)

lemma quiet_query:
  assumes "quiet w"
  obtains w' where "run_state (query q) w = (Inr (q (w_db w)), w')" "w_db w' = w_db w" "quiet w'"
  using assms by (simp add: query_def run_next_fault quiet_def)

lemma quiet_query_row:
  assumes "quiet w"
  obtains w' where "run_state (query_row q) w =
      (case q (w_db w) of None \<Rightarrow> Inl (sentinel_err ErrNoRows) | Some x \<Rightarrow> Inr x, w')"
    "w_db w' = w_db w" "quiet w'"
proof -
  obtain w' where "run_state (query q) w = (Inr (q (w_db w)), w')" "w_db w' = w_db w" "quiet w'"
    using assms by (rule quiet_query)
  then show ?thesis
    by (intro that [of w']) (auto simp: query_row_def run_check split: option.splits)
qed

lemma quiet_update_status:
  assumes "quiet w"
  obtains now w' where "run_state (repo_UpdateSandboxStatus i st) w = (Inr (), w')"
    "w_db w' = sql_update_status i st now (w_db w)" "quiet w'"
proof -
  obtain now w1 where 1: "run_state time_Now w = (now, w1)" "w_db w1 = w_db w" "quiet w1"
    using assms by (rule quiet_Now)
  obtain w2 where "run_state (exec (sql_update_status i st now)) w1 = (Inr (), w2)"
    "w_db w2 = sql_update_status i st now (w_db w1)" "quiet w2"
    using 1(3) by (rule quiet_exec)
  with 1 show ?thesis
    by (intro that [of w2 now]) (simp_all add: repo_UpdateSandboxStatus_def)
qed

lemma quiet_adjust_usage:
  assumes "quiet w"
  obtains now w' where "run_state (repo_AdjustNodeResourceUsage i cpu mem) w = (Inr (), w')"
    "w_db w' = sql_adjust_usage i cpu mem now (w_db w)" "quiet w'"
proof -
  obtain now w1 where 1: "run_state time_Now w = (now, w1)" "w_db w1 = w_db w" "quiet w1"
    using assms by (rule quiet_Now)
  obtain w2 where "run_state (exec (sql_adjust_usage i cpu mem now)) w1 = (Inr (), w2)"
    "w_db w2 = sql_adjust_usage i cpu mem now (w_db w1)" "quiet w2"
    using 1(3) by (rule quiet_exec)
  with 1 show ?thesis
    by (intro that [of w2 now]) (simp_all add: repo_AdjustNodeResourceUsage_def)
qed

text \<open>Operations that touch neither the database nor the fault plan.\<close>

definition same_db :: "'e world \<Rightarrow> 'e world \<Rightarrow> bool" where
  "same_db w w' \<longleftrightarrow> w_db w' = w_db w \<and> (quiet w \<longrightarrow> quiet w')"

lemma preorder_same_db [evolve_intros]: "preorder_rel same_db"
  by (auto simp: preorder_rel_def reflp_def transp_def same_db_def)

lemma io_rel_env_same: "state_io_rel env_step m \<Longrightarrow> state_io_rel same_db m"
  by (rule state_io_relI) (auto dest!: state_io_relD simp: env_step_def same_db_def quiet_def)

lemma same_db_query [evolve_intros]: "state_io_rel same_db (query q)"
  by (auto simp: state_io_rel_def query_def run_next_fault same_db_def quiet_def split: option.splits)

lemma same_db_query_row [evolve_intros]: "state_io_rel same_db (query_row q)"
  unfolding query_row_def by (intro evolve_intros)

lemma same_db_client [evolve_intros]:
  "state_io_rel same_db (client_Healthz net c)"
  "state_io_rel same_db (client_NodeStatus net c)"
  "state_io_rel same_db (client_Reconcile net c)"
  "state_io_rel same_db (client_CreateSandbox net c req)"
  "state_io_rel same_db (client_DeleteSandbox net c i)"
  "state_io_rel same_db (client_SandboxStatuses net c ids)"
  by (rule io_rel_env_same, rule env_step_client)+

lemma same_db_reads [evolve_intros]:
  "state_io_rel same_db (repo_GetNode i)"
  "state_io_rel same_db repo_ListNodes"
  "state_io_rel same_db (repo_GetSandbox i)"
  "state_io_rel same_db repo_ListSandboxes"
  "state_io_rel same_db (repo_NodeUsedHostPorts node)"
  unfolding repo_GetNode_def repo_ListNodes_def repo_GetSandbox_def repo_ListSandboxes_def
    repo_NodeUsedHostPorts_def
  by (rule same_db_query same_db_query_row)+

lemma same_db_client_for_node [evolve_intros]: "state_io_rel same_db (SandboxOpClientForNode i)"
  unfolding SandboxOpClientForNode_def by (intro evolve_intros)

lemma same_db_createSandboxOnNode [evolve_intros]: "state_io_rel same_db (createSandboxOnNode svc sbx)"
  unfolding createSandboxOnNode_def by (intro evolve_intros)

lemma same_db_fetch [evolve_intros]: "state_io_rel same_db (fetchSandboxIPOnce svc n i)"
  unfolding fetchSandboxIPOnce_def by (intro evolve_intros)

lemma same_db_spawn [evolve_intros]: "state_io_rel same_db (spawn t)"
  by (simp add: state_io_rel_def run_spawn same_db_def quiet_def)

lemma same_dbD: "state_io_rel same_db m \<Longrightarrow> run_state m w = (r, w') \<Longrightarrow> quiet w \<Longrightarrow>
    w_db w' = w_db w \<and> quiet w'"
  by (auto dest: state_io_relD simp: same_db_def)

lemma quiet_run:
  assumes "state_io_rel same_db m" "quiet w"
  obtains r w' where "run_state m w = (r, w')" "w_db w' = w_db w" "quiet w'"
  using assms same_dbD by (metis prod.collapse)

lemma quiet_allocate:
  assumes "run_state (allocateHostPorts spec used mn mx) w = (r, w')" "quiet w"
  shows "w_db w' = w_db w \<and> quiet w'"
  using allocate_cases [OF assms(1)] assms(2) by (auto simp: quiet_def)

subsection \<open>A quiet reservation\<close>

lemma quiet_port_free_loop:
  assumes "quiet w" "\<forall>p \<in> set ps. (node, pa_HostPort p) \<notin> port_key ` set (t_ports (w_db w))"
  shows "\<exists>w'. run_state (for_each_err (port_free node) ps) w = (Inr (), w') \<and> w_db w' = w_db w \<and> quiet w'"
  using assms
proof (induction ps arbitrary: w)
  case Nil
  then show ?case by simp
next
  case (Cons p ps)
  obtain w1 where 1: "run_state (query (sql_count_port node (pa_HostPort p))) w =
      (Inr (sql_count_port node (pa_HostPort p) (w_db w)), w1)" "w_db w1 = w_db w" "quiet w1"
    using Cons.prems(1) by (rule quiet_query)
  have "sql_count_port node (pa_HostPort p) (w_db w) = 0"
    using Cons.prems(2) count_port_0 by simp
  with 1(1) have p: "run_state (port_free node p) w = (Inr (), w1)"
    by (simp add: port_free_def run_check)
  have "\<forall>q \<in> set ps. (node, pa_HostPort q) \<notin> port_key ` set (t_ports (w_db w1))"
    using Cons.prems(2) 1(2) by simp
  from Cons.IH [OF 1(3) this] p 1(2) show ?case by (simp add: run_check)
qed

lemma quiet_reserve_loop:
  assumes "quiet w" "\<forall>p \<in> set ps. (node, pa_HostPort p) \<notin> port_key ` set (t_ports (w_db w))"
    and "distinct (map pa_HostPort ps)" "sid \<in> sb_id ` set (t_sandboxes (w_db w))"
  shows "\<exists>w'. run_state (for_each_err (reserve_port sid node) ps) w = (Inr (), w') \<and> quiet w'"
  using assms
proof (induction ps arbitrary: w)
  case Nil
  then show ?case by simp
next
  case (Cons p ps)
  obtain now w0 where 0: "run_state time_Now w = (now, w0)" "w_db w0 = w_db w" "quiet w0"
    using Cons.prems(1) by (rule quiet_Now)
  let ?r = "\<lparr>pt_sandbox_id = sid, pt_node_name = node, pt_host_port = pa_HostPort p,
      pt_container_port = pa_ContainerPort p, pt_protocol = pa_Protocol p, pt_created_at = now\<rparr>"
  have "sql_insert_port ?r (w_db w0) = Inr ((w_db w)\<lparr>t_ports := t_ports (w_db w) @ [?r]\<rparr>)"
    using Cons.prems(2,4) 0(2) by (simp add: sql_insert_port_eq_Inr)
  then obtain w1 where 1: "run_state (exec_c (sql_insert_port ?r)) w0 = (Inr (), w1)"
    "w_db w1 = (w_db w)\<lparr>t_ports := t_ports (w_db w) @ [?r]\<rparr>" "quiet w1"
    by (rule quiet_exec_c [OF 0(3)])
  have run: "run_state (reserve_port sid node p) w = (Inr (), w1)"
    using 0 1 by (simp add: reserve_port_def)
  have "\<forall>q \<in> set ps. (node, pa_HostPort q) \<notin> port_key ` set (t_ports (w_db w1))"
    using Cons.prems(2,3) 1(2) by (auto simp: rev_image_eqI)
  moreover have "distinct (map pa_HostPort ps)" "sid \<in> sb_id ` set (t_sandboxes (w_db w1))"
    using Cons.prems(3,4) 1(2) by simp_all
  ultimately show ?case using Cons.IH [OF 1(3)] run by (simp add: run_check)
qed

lemma quiet_reserve:
  assumes "quiet w" "\<forall>p \<in> set ps. (node, pa_HostPort p) \<notin> port_key ` set (t_ports (w_db w))"
    and "distinct (map pa_HostPort ps)" "sql_get_sandbox sid (w_db w) = Some sbx"
  obtains w' where "run_state (repo_ReserveSandboxPortsAndSchedule sid node ps) w = (Inr (), w')" "quiet w'"
proof -
  obtain w0 where 0: "run_state next_fault w = (None, w0)" "w_db w0 = w_db w" "quiet w0"
    using assms(1) by (rule quiet_next_fault)
  obtain w1 where 1: "run_state (for_each_err (port_free node) ps) w0 = (Inr (), w1)"
    "w_db w1 = w_db w" "quiet w1"
    using quiet_port_free_loop [of w0 ps node] assms(2) 0 by auto
  have "sid \<in> sb_id ` set (t_sandboxes (w_db w))"
    using assms(4) get_sandbox_None [of sid "w_db w"] by auto
  then obtain w2 where 2: "run_state (for_each_err (reserve_port sid node) ps) w1 = (Inr (), w2)" "quiet w2"
    using quiet_reserve_loop [of w1 ps node sid] assms(2,3) 1 by auto
  obtain rs where "w_db w2 = (w_db w1)\<lparr>t_ports := t_ports (w_db w1) @ rs\<rparr>"
    using run_reserve_loop [OF 2(1)] by auto
  then have g: "sql_get_sandbox sid (w_db w2) = Some sbx"
    using assms(4) 1(2) by (simp add: sql_get_sandbox_def)
  obtain w3 where 3: "run_state (query_row (sql_get_sandbox sid)) w2 = (Inr sbx, w3)" "quiet w3"
    using quiet_query_row [OF 2(2), of "sql_get_sandbox sid"] g by (metis option.simps(5))
  obtain now w4 where 4: "run_state time_Now w3 = (now, w4)" "quiet w4"
    using 3(2) by (rule quiet_Now)
  let ?st = "(sbx_Status sbx)\<lparr>st_NodeName := node, st_Phase := SandboxPhaseScheduled, st_AssignedPorts := ps\<rparr>"
  obtain w5 where 5: "run_state (exec (sql_update_status sid ?st now)) w4 = (Inr (), w5)" "quiet w5"
    using 4(2) by (rule quiet_exec)
  obtain w6 where 6: "run_state next_fault w5 = (None, w6)" "quiet w6"
    using 5(2) by (rule quiet_next_fault)
  show ?thesis
    by (rule that [of w6])
      (simp_all add: repo_ReserveSandboxPortsAndSchedule_def transaction_def run_check 0 1 2 3 4 5 6 Let_def)
qed

end
