(* ===== verification/Orch_Frame.thy ===== *)
theory Orch_Frame
  imports Orch_Quiet
begin

section \<open>sbxorch: which rows an operation may touch\<close>

text \<open>
  \<open>frame sid d d'\<close>: from \<open>d\<close> to \<open>d'\<close> only the sandbox \<open>sid\<close>, its port rows and the usage counters
  of nodes changed.  It is a preorder kept by every statement that the scheduler and the deletion
  of a sandbox issue, so by those operations, whatever faults occur.  The rest of the theory says
  what a statement does to the row of a given sandbox.
\<close>

definition static_resources :: "NodeResourcesRow \<Rightarrow> string \<times> NodeResources" where
  "static_resources r = (nr_name r, (nr_res r)\<lparr>res_UsedCPUMilli := 0, res_UsedMemoryBytes := 0,
     res_AvailableCPUMilli := 0, res_AvailableMemory := 0\<rparr>)"

definition frame :: "string \<Rightarrow> database \<Rightarrow> database \<Rightarrow> bool" where
  "frame sid d d' \<longleftrightarrow>
     filter (\<lambda>r. sb_id r \<noteq> sid) (t_sandboxes d') = filter (\<lambda>r. sb_id r \<noteq> sid) (t_sandboxes d) \<and>
     filter (\<lambda>p. pt_sandbox_id p \<noteq> sid) (t_ports d') = filter (\<lambda>p. pt_sandbox_id p \<noteq> sid) (t_ports d) \<and>
     t_nodes d' = t_nodes d \<and> t_status d' = t_status d \<and> t_externals d' = t_externals d \<and>
     map static_resources (t_resources d') = map static_resources (t_resources d)"

lemma preorder_frame [evolve_intros]: "preorder_rel (frame sid)"
  by (simp add: preorder_rel_def reflp_def transp_def frame_def)

lemma filter_map_keep:
  "(\<And>r. P r \<Longrightarrow> f r = r) \<Longrightarrow> (\<And>r. P (f r) = P r) \<Longrightarrow> filter P (map f xs) = filter P xs"
  by (induction xs) auto

lemma frame_update_status [evolve_intros]: "frame sid d (sql_update_status sid st now d)"
  by (simp add: frame_def sql_update_status_def filter_map_keep)

lemma frame_update_status_if [evolve_intros]: "frame sid d (snd (sql_update_status_if sid st now e d))"
  by (simp add: frame_def sql_update_status_if_def Let_def filter_map_keep)

lemma frame_delete_ports [evolve_intros]: "frame sid d (sql_delete_ports_of_sandbox sid d)"
  by (simp add: frame_def sql_delete_ports_of_sandbox_def)

lemma frame_delete_sandbox [evolve_intros]: "frame sid d (sql_delete_sandbox sid d)"
  by (simp add: frame_def sql_delete_sandbox_def)

lemma static_adjust: "static_resources (r\<lparr>nr_res := adjust_usage c m (nr_res r), nr_updated_at := t\<rparr>) = static_resources r"
  by (simp add: static_resources_def adjust_usage_def)

lemma frame_adjust_usage [evolve_intros]: "frame sid d (sql_adjust_usage n cpu mem now d)"
  by (simp add: frame_def sql_adjust_usage_def static_adjust)

lemma frame_insert_port [evolve_intros]:
  "sql_insert_port \<lparr>pt_sandbox_id = sid, pt_node_name = n, pt_host_port = h, pt_container_port = c,
     pt_protocol = pr, pt_created_at = t\<rparr> d = Inr d' \<Longrightarrow> frame sid d d'"
  by (auto simp: frame_def sql_insert_port_eq_Inr)

lemma frame_repo [evolve_intros]:
  "state_io_rel (db_rel (frame sid)) (repo_UpdateSandboxStatus sid st)"
  "state_io_rel (db_rel (frame sid)) (repo_UpdateSandboxStatusIfUnchanged sid st u)"
  "state_io_rel (db_rel (frame sid)) (repo_ReleaseSandboxPorts sid)"
  "state_io_rel (db_rel (frame sid)) (repo_DeleteSandbox sid)"
  "state_io_rel (db_rel (frame sid)) (repo_AdjustNodeResourceUsage i cpu mem)"
  "state_io_rel (db_rel (frame sid)) (repo_ReserveSandboxPortsAndSchedule sid node ports)"
  unfolding repo_defs Let_def by (intro evolve_intros; assumption)+

lemma adjust_rel [evolve_intros]:
  assumes "preorder_rel R" "\<And>c m. state_io_rel R (repo_AdjustNodeResourceUsage n c m)"
  shows "state_io_rel R (adjustNodeUsageForSandbox svc n spec dir)"
  unfolding adjustNodeUsageForSandbox_def by (intro evolve_intros assms)

lemma frame_adjustNodeUsage [evolve_intros]:
  "state_io_rel (db_rel (frame sid)) (adjustNodeUsageForSandbox svc n spec dir)"
  by (intro evolve_intros)

lemma frame_fail_sandbox [evolve_intros]: "state_io_rel (db_rel (frame (sbx_ID sbx))) (fail_sandbox sbx msg)"
  unfolding fail_sandbox_def by (intro evolve_intros)

lemma db_rel_reads [evolve_intros]:
  assumes "preorder_rel P"
  shows "state_io_rel (db_rel P) (createSandboxOnNode svc sbx)"
    and "state_io_rel (db_rel P) (fetchSandboxIPOnce svc n i)"
  unfolding createSandboxOnNode_def fetchSandboxIPOnce_def by (intro evolve_intros assms)+

lemma db_rel_candidates [evolve_intros]:
  "preorder_rel P \<Longrightarrow> state_io_rel (db_rel P) (candidates svc spec c m ns)"
  by (induction ns) (auto intro!: evolve_intros)

lemma frame_place [evolve_intros]: "state_io_rel (db_rel (frame (sbx_ID f))) (place_sandbox svc f n)"
proof -
  have "state_io_rel (db_rel (frame (sbx_ID f))) (fail_sandbox (f\<lparr>sbx_Status := st\<rparr>) msg)" for st msg
    using frame_fail_sandbox [of "f\<lparr>sbx_Status := st\<rparr>" msg] by simp
  then show ?thesis
    unfolding place_sandbox_def Let_def by (simp, intro evolve_intros)
qed

subsection \<open>The row of one sandbox\<close>

lemma find_map_key:
  assumes "\<And>r. key (f r) = key r"
  shows "find (\<lambda>r. key r = k) (map f xs) = map_option f (find (\<lambda>r. key r = k) xs)"
  using assms by (induction xs) auto

lemma get_sandbox_update_status:
  "sql_get_sandbox i (sql_update_status j st now d) =
     (if i = j then map_option (\<lambda>s. s\<lparr>sbx_Status := status_json st, sbx_UpdatedAt := now\<rparr>) (sql_get_sandbox i d)
      else sql_get_sandbox i d)"
proof -
  let ?f = "\<lambda>r. if sb_id r = j then r\<lparr>sb_status := status_json st, sb_updated_at := now\<rparr> else r"
  have f: "find (\<lambda>r. sb_id r = i) (map ?f (t_sandboxes d)) = map_option ?f (find (\<lambda>r. sb_id r = i) (t_sandboxes d))"
    by (rule find_map_key) simp
  show ?thesis
  proof (cases "find (\<lambda>r. sb_id r = i) (t_sandboxes d)")
    case None
    then show ?thesis
      using f by (cases "i = j") (simp_all add: sql_get_sandbox_def sql_update_status_def)
  next
    case (Some r)
    then have "sb_id r = i" by (auto dest: find_Some_in)
    with Some f show ?thesis
      by (cases "i = j") (simp_all add: sql_get_sandbox_def sql_update_status_def row_sandbox_def)
  qed
qed

lemma get_sandbox_simps [simp]:
  "sql_get_sandbox i (sql_delete_ports_of_sandbox j d) = sql_get_sandbox i d"
  "sql_get_sandbox i (sql_adjust_usage n c m now d) = sql_get_sandbox i d"
  "sql_get_sandbox i (d\<lparr>t_ports := ps\<rparr>) = sql_get_sandbox i d"
  by (simp_all add: sql_get_sandbox_def sql_delete_ports_of_sandbox_def sql_adjust_usage_def)

lemma get_sandbox_delete:
  "sql_get_sandbox i (sql_delete_sandbox j d) = (if i = j then None else sql_get_sandbox i d)"
proof -
  have "find (\<lambda>r. sb_id r = i) (filter (\<lambda>r. sb_id r \<noteq> j) xs) =
      (if i = j then None else find (\<lambda>r. sb_id r = i) xs)" for xs
    by (induction xs) auto
  from this [of "t_sandboxes d"] show ?thesis
    by (cases "i = j") (simp_all add: sql_get_sandbox_def sql_delete_sandbox_def)
qed

definition ports_of :: "string \<Rightarrow> database \<Rightarrow> SandboxPortRow list" where
  "ports_of sid d = filter (\<lambda>p. pt_sandbox_id p = sid) (t_ports d)"

lemma ports_of_simps [simp]:
  "ports_of i (sql_update_status j st now d) = ports_of i d"
  "ports_of i (sql_adjust_usage n c m now d) = ports_of i d"
  by (simp_all add: ports_of_def sql_adjust_usage_def)

lemma ports_of_delete: "ports_of i (sql_delete_ports_of_sandbox j d) = (if i = j then [] else ports_of i d)"
  by (auto simp: ports_of_def sql_delete_ports_of_sandbox_def filter_empty_conv intro: filter_cong)

lemma get_sandbox_frame: "frame sid d d' \<Longrightarrow> i \<noteq> sid \<Longrightarrow> sql_get_sandbox i d' = sql_get_sandbox i d"
proof -
  assume "frame sid d d'" "i \<noteq> sid"
  have f: "find (\<lambda>r. sb_id r = i) xs = find (\<lambda>r. sb_id r = i) (filter (\<lambda>r. sb_id r \<noteq> sid) xs)" for xs
    using \<open>i \<noteq> sid\<close> by (induction xs) auto
  have "find (\<lambda>r. sb_id r = i) (t_sandboxes d') = find (\<lambda>r. sb_id r = i) (t_sandboxes d)"
    using \<open>frame sid d d'\<close> f [of "t_sandboxes d"] f [of "t_sandboxes d'"] unfolding frame_def by metis
  then show ?thesis by (simp add: sql_get_sandbox_def)
qed

lemma ports_of_frame: "frame sid d d' \<Longrightarrow> i \<noteq> sid \<Longrightarrow> ports_of i d' = ports_of i d"
proof -
  assume "frame sid d d'" "i \<noteq> sid"
  have f: "ports_of i x = filter (\<lambda>p. pt_sandbox_id p = i) (filter (\<lambda>p. pt_sandbox_id p \<noteq> sid) (t_ports x))" for x
    using \<open>i \<noteq> sid\<close> by (auto simp: ports_of_def intro: filter_cong)
  from \<open>frame sid d d'\<close> have "filter (\<lambda>p. pt_sandbox_id p \<noteq> sid) (t_ports d') = filter (\<lambda>p. pt_sandbox_id p \<noteq> sid) (t_ports d)"
    unfolding frame_def by blast
  then show ?thesis unfolding f by simp
qed

subsection \<open>Reading back a sandbox\<close>

text \<open>What \<open>repo_GetSandbox i\<close> returns has the name \<open>i\<close>, so the rest of an operation may rely on it.\<close>

lemma io_rel_bind_got:
  assumes "preorder_rel R" "state_io_rel R (repo_GetSandbox i)"
    and "\<And>e. state_io_rel R (h e)" "\<And>f. sbx_ID f = i \<Longrightarrow> state_io_rel R (k f)"
  shows "state_io_rel R (do { r \<leftarrow> repo_GetSandbox i; (case r of Inl e \<Rightarrow> h e | Inr f \<Rightarrow> k f) })"
proof (rule state_io_relI)
  fix a s s'
  assume run: "run_state (do { r \<leftarrow> repo_GetSandbox i; (case r of Inl e \<Rightarrow> h e | Inr f \<Rightarrow> k f) }) s = (a, s')"
  obtain r s1 where 1: "run_state (repo_GetSandbox i) s = (r, s1)" by fastforce
  have "R s s1" using assms(2) 1 by blast
  moreover have "R s1 s'"
  proof (cases r)
    case (Inl e)
    with run 1 have "run_state (h e) s1 = (a, s')" by simp
    with assms(3) show ?thesis by blast
  next
    case (Inr f)
    then have "sbx_ID f = i"
      using 1 run_query_row_Inr [of "sql_get_sandbox i" s f s1] get_sandbox_Some_id
      unfolding repo_GetSandbox_def by blast
    moreover have "run_state (k f) s1 = (a, s')" using run 1 Inr by simp
    ultimately show ?thesis using assms(4) by blast
  qed
  ultimately show "R s s'" using assms(1) by (rule preorder_rel_trans [rotated])
qed

lemma io_rel_check_got:
  assumes "preorder_rel R" "state_io_rel R (repo_GetSandbox i)"
    and "\<And>f. sbx_ID f = i \<Longrightarrow> state_io_rel R (k f)"
  shows "state_io_rel R (check (repo_GetSandbox i) k)"
  unfolding check_def by (intro io_rel_bind_got io_rel_return assms)

lemma frame_reserve_and_place [evolve_intros]:
  "state_io_rel (db_rel (frame (sbx_ID sbx))) (reserve_and_place svc sbx ch)"
  unfolding reserve_and_place_def
  by (intro evolve_intros io_rel_bind_got) (metis frame_place)

lemma frame_scheduleOne [evolve_intros]:
  "state_io_rel (db_rel (frame (sbx_ID sbx))) (scheduleOne svc sbx)"
  unfolding scheduleOne_def by (intro evolve_intros)

lemma evolve_fail_sandbox [evolve_intros]: "state_io_rel evolves (fail_sandbox sbx msg)"
  unfolding fail_sandbox_def by (intro evolve_intros)

lemma evolve_scheduleOne [evolve_intros]: "state_io_rel evolves (scheduleOne svc sbx)"
  unfolding scheduleOne_def reserve_and_place_def place_sandbox_def Let_def by (intro evolve_intros)

lemma evolve_runSchedulerOnce [evolve_intros]: "state_io_rel evolves (runSchedulerOnce svc)"
  unfolding runSchedulerOnce_def by (intro evolve_intros)

end
