(* ===== verification/Orch_Lifecycle.thy ===== *)
theory Orch_Lifecycle
  imports Orch_Frame
begin

section \<open>sbxorch: creating, deleting and reconciling sandboxes\<close>

text \<open>
  The lifecycle half of \<^verbatim>\<open>sandboxd-orch/service/sandbox_ops.go\<close>.  The background goroutine
  \<^verbatim>\<open>refreshSandboxIPSoon\<close> polls the agent at most ten times and gives up at its deadline;
  \<open>polls\<close> is how many rounds it gets before that.
\<close>

subsection \<open>Create, get, list\<close>

definition ttl_nanoseconds :: "int \<Rightarrow> int" where
  "ttl_nanoseconds ttl = i64 (ttl * Second)"

definition new_sandbox :: "CreateSandboxObjectRequest \<Rightarrow> int \<Rightarrow> Sandbox" where
  "new_sandbox req now = \<lparr>sbx_ID = TrimSpace (cso_ID req), sbx_Spec = cso_Spec req,
     sbx_Status = zero_status\<lparr>st_Phase := SandboxPhasePending,
       st_ExpireAt := (if 0 < spec_TTLSeconds (cso_Spec req)
          then Some (now + ttl_nanoseconds (spec_TTLSeconds (cso_Spec req))) else None)\<rparr>,
     sbx_CreatedAt = now, sbx_UpdatedAt = now, sbx_DeletedAt = None\<rparr>"

definition CreateSandbox :: "'e Service \<Rightarrow> CreateSandboxObjectRequest \<Rightarrow> ('e, Sandbox) io" where
  "CreateSandbox svc req =
     (case validateSandboxCreate svc req of
        Some e \<Rightarrow> fail e
      | None \<Rightarrow> do {
          now \<leftarrow> time_Now;
          check (repo_CreateSandbox (new_sandbox req now)) (\<lambda>_. repo_GetSandbox (TrimSpace (cso_ID req))) })"

definition GetSandbox :: "string \<Rightarrow> ('e, Sandbox) io" where
  "GetSandbox id0 = repo_GetSandbox (TrimSpace id0)"

definition ListSandboxes :: "('e, Sandbox list) io" where
  "ListSandboxes = repo_ListSandboxes"

subsection \<open>Delete\<close>

definition record_error :: "Sandbox \<Rightarrow> GoError \<Rightarrow> ('e, unit) io" where
  "record_error sbx e = do {
     ignore (repo_UpdateSandboxStatus (sbx_ID sbx) ((sbx_Status sbx)\<lparr>st_LastError := err_text e\<rparr>));
     fail e }"

definition release_and_delete :: "'e Service \<Rightarrow> Sandbox \<Rightarrow> ('e, unit) io" where
  "release_and_delete svc sbx = do {
     r \<leftarrow> repo_ReleaseSandboxPorts (sbx_ID sbx);
     (case r of
        Inl e \<Rightarrow> record_error sbx e
      | Inr _ \<Rightarrow>
          if st_NodeName (sbx_Status sbx) \<noteq> [] then
            check (repo_DeleteSandbox (sbx_ID sbx)) (\<lambda>_. do {
              ignore (adjustNodeUsageForSandbox svc (st_NodeName (sbx_Status sbx)) (sbx_Spec sbx) (- 1));
              ok () })
          else repo_DeleteSandbox (sbx_ID sbx)) }"

definition finalizeSandboxDelete :: "'e Service \<Rightarrow> Sandbox \<Rightarrow> ('e, unit) io" where
  "finalizeSandboxDelete svc sbx =
     (if st_NodeName (sbx_Status sbx) \<noteq> [] then do {
        c \<leftarrow> SandboxOpClientForNode (st_NodeName (sbx_Status sbx));
        (case c of
           Inl e \<Rightarrow> if errors_Is e ErrNoRows then release_and_delete svc sbx else record_error sbx e
         | Inr (client, _) \<Rightarrow> do {
             r \<leftarrow> client_DeleteSandbox (svc_net svc) client (sbx_ID sbx);
             (case r of Inl e \<Rightarrow> record_error sbx e | Inr _ \<Rightarrow> release_and_delete svc sbx) }) }
      else release_and_delete svc sbx)"

definition DeleteSandbox :: "'e Service \<Rightarrow> string \<Rightarrow> ('e, unit) io" where
  "DeleteSandbox svc id0 = (
     let i = TrimSpace id0 in
     if i = [] then fail (Errorf_s ErrInvalidInput ''sandbox id is required'')
     else check (repo_GetSandbox i) (\<lambda>sbx.
       if st_Phase (sbx_Status sbx) = SandboxPhaseDeleting then ok ()
       else let st = (sbx_Status sbx)\<lparr>st_Phase := SandboxPhaseDeleting, st_LastError := []\<rparr> in
         check (repo_UpdateSandboxStatus i st) (\<lambda>_.
         finalizeSandboxDelete svc (sbx\<lparr>sbx_Status := st\<rparr>))))"

subsection \<open>Reconcile\<close>

definition expired :: "int \<Rightarrow> SandboxStatus \<Rightarrow> bool" where
  "expired now st \<longleftrightarrow> (case st_ExpireAt st of None \<Rightarrow> False | Some t \<Rightarrow> t < now)"

definition reconcile_one :: "'e Service \<Rightarrow> int \<Rightarrow> Sandbox \<Rightarrow> ('e, unit) act" where
  "reconcile_one svc now sbx =
     (if st_Phase (sbx_Status sbx) = SandboxPhaseDeleting then ignore (finalizeSandboxDelete svc sbx)
      else if expired now (sbx_Status sbx) then
        let st = (sbx_Status sbx)\<lparr>st_Phase := SandboxPhaseDeleting, st_LastError := ''ttl expired''\<rparr> in do {
          ignore (repo_UpdateSandboxStatus (sbx_ID sbx) st);
          ignore (finalizeSandboxDelete svc (sbx\<lparr>sbx_Status := st\<rparr>)) }
      else ret ())"

definition runSandboxReconcileOnce :: "'e Service \<Rightarrow> ('e, unit) act" where
  "runSandboxReconcileOnce svc = do {
     l \<leftarrow> repo_ListSandboxes;
     (case l of
        Inl _ \<Rightarrow> ret ()
      | Inr sandboxes \<Rightarrow> do {
          now \<leftarrow> time_Now;
          for_each (reconcile_one svc now) sandboxes }) }"

definition TriggerSandboxReconcile :: "'e Service \<Rightarrow> string \<Rightarrow> ('e, unit) io" where
  "TriggerSandboxReconcile svc id0 =
     check (repo_GetSandbox (TrimSpace id0)) (\<lambda>sbx.
       if st_Phase (sbx_Status sbx) \<noteq> SandboxPhaseDeleting then
         let st = (sbx_Status sbx)\<lparr>st_Phase := SandboxPhaseDeleting\<rparr> in do {
           ignore (repo_UpdateSandboxStatus (sbx_ID sbx) st);
           finalizeSandboxDelete svc (sbx\<lparr>sbx_Status := st\<rparr>) }
       else finalizeSandboxDelete svc sbx)"

subsection \<open>The goroutine that fetches a new sandbox's address\<close>

definition set_ip_if_unchanged :: "string \<Rightarrow> string \<Rightarrow> ('e, unit) act" where
  "set_ip_if_unchanged sandboxID ip = do {
     l \<leftarrow> repo_GetSandbox sandboxID;
     (case l of
        Inl _ \<Rightarrow> ret ()
      | Inr latest \<Rightarrow>
          if st_IP (sbx_Status latest) = ip \<or> st_Phase (sbx_Status latest) = SandboxPhaseDeleting then ret ()
          else ignore (repo_UpdateSandboxStatusIfUnchanged sandboxID
                 ((sbx_Status latest)\<lparr>st_IP := ip\<rparr>) (sbx_UpdatedAt latest))) }"

fun poll_ip :: "'e Service \<Rightarrow> Client \<Rightarrow> string \<Rightarrow> nat \<Rightarrow> ('e, unit) act" where
  "poll_ip svc c sandboxID 0 = ret ()"
| "poll_ip svc c sandboxID (Suc n) = do {
     r \<leftarrow> client_SandboxStatuses (svc_net svc) c [sandboxID];
     (case r of
        Inl _ \<Rightarrow> ret ()
      | Inr st \<Rightarrow>
          (case ssr_Items st of
             [] \<Rightarrow> poll_ip svc c sandboxID n
           | it # _ \<Rightarrow>
               let ip = TrimSpace (sss_IP it) in
               if ip \<noteq> [] then set_ip_if_unchanged sandboxID ip else poll_ip svc c sandboxID n)) }"

definition refreshSandboxIPSoon :: "'e Service \<Rightarrow> nat \<Rightarrow> string \<Rightarrow> string \<Rightarrow> ('e, unit) act" where
  "refreshSandboxIPSoon svc polls sandboxID nodeName = do {
     c \<leftarrow> SandboxOpClientForNode nodeName;
     (case c of
        Inl _ \<Rightarrow> ret ()
      | Inr (client, _) \<Rightarrow> poll_ip svc client sandboxID (min 10 polls)) }"

subsection \<open>Every operation evolves the world, and touches one sandbox\<close>

lemma evolve_record_error [evolve_intros]: "state_io_rel evolves (record_error sbx e)"
  unfolding record_error_def by (intro evolve_intros)

lemma evolve_finalize [evolve_intros]:
  "state_io_rel evolves (release_and_delete svc sbx)"
  "state_io_rel evolves (finalizeSandboxDelete svc sbx)"
  unfolding finalizeSandboxDelete_def release_and_delete_def by (intro evolve_intros)+

lemma evolve_poll_ip [evolve_intros]: "state_io_rel evolves (poll_ip svc c i n)"
  by (induction n) (auto simp: set_ip_if_unchanged_def Let_def intro!: evolve_intros split: list.splits)

lemma evolve_lifecycle [evolve_intros]:
  "state_io_rel evolves (CreateSandbox svc req)"
  "state_io_rel evolves (GetSandbox i)"
  "state_io_rel evolves ListSandboxes"
  "state_io_rel evolves (DeleteSandbox svc i)"
  "state_io_rel evolves (reconcile_one svc now sbx)"
  "state_io_rel evolves (runSandboxReconcileOnce svc)"
  "state_io_rel evolves (TriggerSandboxReconcile svc i)"
  "state_io_rel evolves (refreshSandboxIPSoon svc n i node)"
  unfolding CreateSandbox_def GetSandbox_def ListSandboxes_def DeleteSandbox_def reconcile_one_def
    runSandboxReconcileOnce_def TriggerSandboxReconcile_def refreshSandboxIPSoon_def Let_def
  by (intro evolve_intros)+

lemma frame_record_error [evolve_intros]:
  "state_io_rel (db_rel (frame (sbx_ID sbx))) (record_error sbx e)"
  unfolding record_error_def by (intro evolve_intros)

lemma frame_finalize [evolve_intros]:
  "state_io_rel (db_rel (frame (sbx_ID sbx))) (release_and_delete svc sbx)"
  "state_io_rel (db_rel (frame (sbx_ID sbx))) (finalizeSandboxDelete svc sbx)"
  unfolding finalizeSandboxDelete_def release_and_delete_def by (intro evolve_intros)+

lemma frame_finalize_status [evolve_intros]:
  "state_io_rel (db_rel (frame (sbx_ID sbx))) (finalizeSandboxDelete svc (sbx\<lparr>sbx_Status := st\<rparr>))"
  using frame_finalize(2) [of "sbx\<lparr>sbx_Status := st\<rparr>" svc] by simp

lemma frame_reconcile_one [evolve_intros]:
  "state_io_rel (db_rel (frame (sbx_ID sbx))) (reconcile_one svc now sbx)"
  unfolding reconcile_one_def Let_def by (intro evolve_intros)

lemma frame_DeleteSandbox: "state_io_rel (db_rel (frame (TrimSpace i))) (DeleteSandbox svc i)"
  unfolding DeleteSandbox_def Let_def
  by (intro evolve_intros io_rel_check_got) (metis frame_finalize_status)

end
