(* ===== verification/Orch_Handlers.thy ===== *)
theory Orch_Handlers
  imports Orch_Nodes Orch_Lifecycle
begin

section \<open>sbxorch: the HTTP handlers\<close>

text \<open>
  \<^verbatim>\<open>sandboxd-orch/http/handlers/handler.go\<close>, \<^verbatim>\<open>dto.go\<close> and the route table of
  \<^verbatim>\<open>sandboxd-orch/http/router.go\<close>.  Gin and \<^verbatim>\<open>x/time/rate\<close> are third-party: what
  \<^verbatim>\<open>ShouldBindJSON\<close> makes of a body and what the limiter answers to \<^verbatim>\<open>Allow\<close> are arguments, and a
  path or query parameter arrives decoded.  A query parameter that may be absent is an option.
  The swagger route serves generated documents and is left out.
\<close>

datatype Body =
    ErrorResponse string
  | HealthResponse bool
  | NodeResponse Node
  | NodesResponse "Node list"
  | ExternalResponse External
  | ExternalsResponse "External list"
  | DeletedResponse string
  | HeartbeatResponse Node string "NodeResources option" string string
  | SandboxObjectResponse Sandbox
  | SandboxObjectsResponse "Sandbox list"
  | ProxyResponse JsonObject

record Response =
  resp_code :: int
  resp_body :: Body

definition JSON :: "int \<Rightarrow> Body \<Rightarrow> ('e, Response) act" where
  "JSON code b = ret \<lparr>resp_code = code, resp_body = b\<rparr>"

subsection \<open>The create limiter's parameters\<close>

definition limiter_params :: "Config \<Rightarrow> GoFloat \<times> int" where
  "limiter_params cfg =
     (if float_le_0 (CreateRPS cfg) then Finite 20 else CreateRPS cfg,
      if CreateBurst cfg < 1 then 40 else CreateBurst cfg)"

subsection \<open>Answers to errors\<close>

definition respond_err :: "GoError \<Rightarrow> ('e, Response) act" where
  "respond_err e = JSON StatusInternalServerError (ErrorResponse (err_text e))"

definition respond_invalid :: "GoError \<Rightarrow> ('e, Response) act" where
  "respond_invalid e =
     (if errors_Is e ErrInvalidInput then JSON StatusBadRequest (ErrorResponse (err_text e)) else respond_err e)"

definition respond_missing :: "string \<Rightarrow> GoError \<Rightarrow> ('e, Response) act" where
  "respond_missing what e =
     (if errors_Is e ErrNoRows then JSON StatusNotFound (ErrorResponse what) else respond_err e)"

definition respondNodeErr :: "GoError \<Rightarrow> ('e, Response) act" where
  "respondNodeErr e =
     (if errors_Is e ErrNoRows then JSON StatusNotFound (ErrorResponse ''node not found'')
      else JSON StatusInternalServerError (ErrorResponse (err_text e)))"

definition respondProxy :: "GoError + JsonObject \<Rightarrow> ('e, Response) act" where
  "respondProxy r =
     (case r of
        Inl e \<Rightarrow> JSON StatusBadGateway (ErrorResponse (err_text e))
      | Inr out \<Rightarrow> JSON StatusOK (ProxyResponse out))"

definition errString :: "GoError option \<Rightarrow> string" where
  "errString e = (case e of None \<Rightarrow> [] | Some err \<Rightarrow> err_text err)"

text \<open>\<open>answer m bad good\<close> is \<^verbatim>\<open>out, err := m; if err != nil { bad(err); return }; good(out)\<close>.\<close>

definition answer :: "('e, 'a) io \<Rightarrow> (GoError \<Rightarrow> ('e, Response) act) \<Rightarrow> ('a \<Rightarrow> ('e, Response) act) \<Rightarrow> ('e, Response) act" where
  "answer m bad good = do { r \<leftarrow> m; (case r of Inl e \<Rightarrow> bad e | Inr x \<Rightarrow> good x) }"

definition ShouldBindJSON :: "GoError + 'a \<Rightarrow> ('a \<Rightarrow> ('e, Response) act) \<Rightarrow> ('e, Response) act" where
  "ShouldBindJSON b k =
     (case b of Inl e \<Rightarrow> JSON StatusBadRequest (ErrorResponse (err_text e)) | Inr req \<Rightarrow> k req)"

subsection \<open>Nodes and externals\<close>

definition h_Healthz :: "('e, Response) act" where
  "h_Healthz = JSON StatusOK (HealthResponse True)"

definition h_CreateNodeObject :: "'e Service \<Rightarrow> GoError + CreateNodeObjectRequest \<Rightarrow> ('e, Response) act" where
  "h_CreateNodeObject svc body = ShouldBindJSON body (\<lambda>req.
     answer (CreateNodeObject svc req) respond_invalid (\<lambda>n. JSON StatusOK (NodeResponse n)))"

definition h_UpsertExternalObject :: "GoError + CreateExternalObjectRequest \<Rightarrow> ('e, Response) act" where
  "h_UpsertExternalObject body = ShouldBindJSON body (\<lambda>req.
     answer (UpsertExternalObject req) respond_invalid (\<lambda>_. JSON StatusOK (HealthResponse True)))"

definition h_ListExternals :: "('e, Response) act" where
  "h_ListExternals = answer ListExternals respond_err (\<lambda>items. JSON StatusOK (ExternalsResponse items))"

definition h_GetExternal :: "string \<Rightarrow> ('e, Response) act" where
  "h_GetExternal i = answer (GetExternal i)
     (\<lambda>e. if errors_Is e ErrNoRows then JSON StatusNotFound (ErrorResponse ''external not found'') else respond_invalid e)
     (\<lambda>it. JSON StatusOK (ExternalResponse it))"

definition h_DeleteExternal :: "string \<Rightarrow> ('e, Response) act" where
  "h_DeleteExternal i = answer (DeleteExternal i)
     (\<lambda>e. if errors_Is e ErrInvalidInput then JSON StatusBadRequest (ErrorResponse (err_text e))
          else respond_missing ''external not found'' e)
     (\<lambda>_. JSON StatusOK (DeletedResponse i))"

definition h_ListNodes :: "('e, Response) act" where
  "h_ListNodes = answer ListNodes respond_err (\<lambda>nodes. JSON StatusOK (NodesResponse nodes))"

definition h_GetNode :: "string \<Rightarrow> ('e, Response) act" where
  "h_GetNode i = answer (GetNode i) (respond_missing ''node not found'') (\<lambda>n. JSON StatusOK (NodeResponse n))"

definition h_DeleteNode :: "'e Service \<Rightarrow> string \<Rightarrow> string \<Rightarrow> ('e, Response) act" where
  "h_DeleteNode svc i force_query =
     (let raw = TrimSpace force_query in
      case (if raw \<noteq> [] then ParseBool raw else Some False) of
        None \<Rightarrow> JSON StatusBadRequest (ErrorResponse ''invalid force query; use true/false'')
      | Some force \<Rightarrow>
          answer (DeleteNodeForce svc i force) respond_invalid (\<lambda>_. JSON StatusOK (DeletedResponse i)))"

definition h_HeartbeatNode :: "'e Service \<Rightarrow> string \<Rightarrow> ('e, Response) act" where
  "h_HeartbeatNode svc i = answer (SandboxClientForNode i) (respond_missing ''node not found'') (\<lambda>(client, node). do {
     hb \<leftarrow> client_Healthz (svc_net svc) client;
     st \<leftarrow> client_NodeStatus (svc_net svc) client;
     JSON StatusOK (HeartbeatResponse node
       (case hb of Inl _ \<Rightarrow> ''failed'' | Inr _ \<Rightarrow> ''ok'')
       (case st of Inl _ \<Rightarrow> None | Inr s \<Rightarrow> Some (nst_Resources s))
       (errString (case hb of Inl e \<Rightarrow> Some e | Inr _ \<Rightarrow> None))
       (errString (case st of Inl e \<Rightarrow> Some e | Inr _ \<Rightarrow> None))) })"

subsection \<open>Proxies to a node agent\<close>

definition proxied :: "string \<Rightarrow> (Client \<Rightarrow> ('e, JsonObject) io) \<Rightarrow> ('e, Response) act" where
  "proxied i call = answer (SandboxOpClientForNode i) respondNodeErr (\<lambda>(client, _). do {
     out \<leftarrow> call client;
     respondProxy out })"

definition h_NodeListSandboxes :: "'e Service \<Rightarrow> string \<Rightarrow> string \<Rightarrow> string option \<Rightarrow> ('e, Response) act" where
  "h_NodeListSandboxes svc i cursor limit_query = proxied i (\<lambda>client.
     client_ListSandboxes (svc_net svc) client cursor (Atoi_value (DefaultQuery limit_query ''20'')))"

definition h_NodeGetSandbox :: "'e Service \<Rightarrow> string \<Rightarrow> string \<Rightarrow> ('e, Response) act" where
  "h_NodeGetSandbox svc i sandboxId = proxied i (\<lambda>client. client_GetSandbox (svc_net svc) client sandboxId)"

definition h_NodeCreateSandbox :: "'e Service \<Rightarrow> string \<Rightarrow> GoError + CreateSandboxRequest \<Rightarrow> ('e, Response) act" where
  "h_NodeCreateSandbox svc i body = answer (SandboxOpClientForNode i) respondNodeErr (\<lambda>(client, _).
     ShouldBindJSON body (\<lambda>req. do {
       out \<leftarrow> client_CreateSandbox (svc_net svc) client req;
       respondProxy out }))"

definition h_NodeDeleteSandbox :: "'e Service \<Rightarrow> string \<Rightarrow> string \<Rightarrow> ('e, Response) act" where
  "h_NodeDeleteSandbox svc i sandboxId = proxied i (\<lambda>client. client_DeleteSandbox (svc_net svc) client sandboxId)"

definition h_NodeContainerLogs ::
  "'e Service \<Rightarrow> string \<Rightarrow> string \<Rightarrow> string \<Rightarrow> string \<Rightarrow> string option \<Rightarrow> ('e, Response) act" where
  "h_NodeContainerLogs svc i sandboxId container cursor limit_query = proxied i (\<lambda>client.
     client_GetContainerLogs (svc_net svc) client sandboxId container cursor
       (Atoi_value (DefaultQuery limit_query ''100'')))"

definition h_NodeReconcile :: "'e Service \<Rightarrow> string \<Rightarrow> ('e, Response) act" where
  "h_NodeReconcile svc i = proxied i (\<lambda>client. client_Reconcile (svc_net svc) client)"

subsection \<open>Sandboxes\<close>

definition h_CreateSandbox :: "'e Service \<Rightarrow> bool \<Rightarrow> GoError + CreateSandboxObjectRequest \<Rightarrow> ('e, Response) act" where
  "h_CreateSandbox svc allowed body =
     (if \<not> allowed then JSON StatusTooManyRequests (ErrorResponse ''rate limit exceeded for sandbox create'')
      else ShouldBindJSON body (\<lambda>req.
        answer (CreateSandbox svc req) respond_invalid (\<lambda>out. JSON StatusCreated (SandboxObjectResponse out))))"

definition h_ListSandboxes :: "('e, Response) act" where
  "h_ListSandboxes = answer ListSandboxes respond_err (\<lambda>out. JSON StatusOK (SandboxObjectsResponse out))"

definition h_GetSandbox :: "string \<Rightarrow> ('e, Response) act" where
  "h_GetSandbox i = answer (GetSandbox i) (respond_missing ''sandbox not found'')
     (\<lambda>out. JSON StatusOK (SandboxObjectResponse out))"

definition h_DeleteSandbox :: "'e Service \<Rightarrow> string \<Rightarrow> ('e, Response) act" where
  "h_DeleteSandbox svc i = answer (DeleteSandbox svc i)
     (\<lambda>e. if errors_Is e ErrInvalidInput then JSON StatusBadRequest (ErrorResponse (err_text e))
          else respond_missing ''sandbox not found'' e)
     (\<lambda>_. JSON StatusOK (DeletedResponse (TrimSpace i)))"

subsection \<open>The route table\<close>

datatype Route =
    Healthz | R_CreateSandbox | R_ListSandboxes | R_GetSandbox string | R_DeleteSandbox string
  | R_CreateNode | R_ListNodes | R_GetNode string | R_DeleteNode string
  | R_UpsertExternal | R_ListExternals | R_GetExternal string | R_DeleteExternal string
  | R_Heartbeat string | R_NodeListSandboxes string | R_NodeGetSandbox string string
  | R_NodeCreateSandbox string | R_NodeDeleteSandbox string string
  | R_NodeContainerLogs string string string | R_NodeReconcile string

text \<open>The segments of the request path, none of them empty, below the root.\<close>

definition orch_route :: "string \<Rightarrow> string list \<Rightarrow> Route option" where
  "orch_route meth segs =
     (if meth = ''GET'' \<and> segs = [''healthz''] then Some Healthz
      else if take 2 segs \<noteq> [''api'', ''v1''] then None
      else (case drop 2 segs of
          [a] \<Rightarrow>
            if a = ''sandboxes'' then
              (if meth = ''POST'' then Some R_CreateSandbox else if meth = ''GET'' then Some R_ListSandboxes else None)
            else if a = ''nodes'' then
              (if meth = ''POST'' then Some R_CreateNode else if meth = ''GET'' then Some R_ListNodes else None)
            else if a = ''externals'' then
              (if meth = ''POST'' then Some R_UpsertExternal else if meth = ''GET'' then Some R_ListExternals else None)
            else None
        | [a, i] \<Rightarrow>
            if a = ''sandboxes'' then
              (if meth = ''GET'' then Some (R_GetSandbox i) else if meth = ''DELETE'' then Some (R_DeleteSandbox i) else None)
            else if a = ''nodes'' then
              (if meth = ''GET'' then Some (R_GetNode i) else if meth = ''DELETE'' then Some (R_DeleteNode i) else None)
            else if a = ''externals'' then
              (if meth = ''GET'' then Some (R_GetExternal i) else if meth = ''DELETE'' then Some (R_DeleteExternal i) else None)
            else None
        | [a, i, b] \<Rightarrow>
            if a \<noteq> ''nodes'' then None
            else if b = ''heartbeat'' \<and> meth = ''POST'' then Some (R_Heartbeat i)
            else if b = ''sandboxes'' \<and> meth = ''GET'' then Some (R_NodeListSandboxes i)
            else if b = ''sandboxes'' \<and> meth = ''POST'' then Some (R_NodeCreateSandbox i)
            else if b = ''reconcile'' \<and> meth = ''POST'' then Some (R_NodeReconcile i)
            else None
        | [a, i, b, s] \<Rightarrow>
            if a = ''nodes'' \<and> b = ''sandboxes'' \<and> meth = ''GET'' then Some (R_NodeGetSandbox i s)
            else if a = ''nodes'' \<and> b = ''sandboxes'' \<and> meth = ''DELETE'' then Some (R_NodeDeleteSandbox i s)
            else None
        | [a, i, b, s, c, k, l] \<Rightarrow>
            if a = ''nodes'' \<and> b = ''sandboxes'' \<and> c = ''containers'' \<and> l = ''logs'' \<and> meth = ''GET''
            then Some (R_NodeContainerLogs i s k) else None
        | _ \<Rightarrow> None))"

text \<open>What a request brings besides its path: the bodies as bound, the queries and the limiter's answer.\<close>

record Inputs =
  in_sandbox :: "GoError + CreateSandboxObjectRequest"
  in_node :: "GoError + CreateNodeObjectRequest"
  in_external :: "GoError + CreateExternalObjectRequest"
  in_let_create :: "GoError + CreateSandboxRequest"
  in_cursor :: string
  in_limit :: "string option"
  in_force :: string
  in_allowed :: bool

definition serve :: "'e Service \<Rightarrow> Route \<Rightarrow> Inputs \<Rightarrow> ('e, Response) act" where
  "serve svc r q =
     (case r of
        Healthz \<Rightarrow> h_Healthz
      | R_CreateSandbox \<Rightarrow> h_CreateSandbox svc (in_allowed q) (in_sandbox q)
      | R_ListSandboxes \<Rightarrow> h_ListSandboxes
      | R_GetSandbox i \<Rightarrow> h_GetSandbox i
      | R_DeleteSandbox i \<Rightarrow> h_DeleteSandbox svc i
      | R_CreateNode \<Rightarrow> h_CreateNodeObject svc (in_node q)
      | R_ListNodes \<Rightarrow> h_ListNodes
      | R_GetNode i \<Rightarrow> h_GetNode i
      | R_DeleteNode i \<Rightarrow> h_DeleteNode svc i (in_force q)
      | R_UpsertExternal \<Rightarrow> h_UpsertExternalObject (in_external q)
      | R_ListExternals \<Rightarrow> h_ListExternals
      | R_GetExternal i \<Rightarrow> h_GetExternal i
      | R_DeleteExternal i \<Rightarrow> h_DeleteExternal i
      | R_Heartbeat i \<Rightarrow> h_HeartbeatNode svc i
      | R_NodeListSandboxes i \<Rightarrow> h_NodeListSandboxes svc i (in_cursor q) (in_limit q)
      | R_NodeGetSandbox i s \<Rightarrow> h_NodeGetSandbox svc i s
      | R_NodeCreateSandbox i \<Rightarrow> h_NodeCreateSandbox svc i (in_let_create q)
      | R_NodeDeleteSandbox i s \<Rightarrow> h_NodeDeleteSandbox svc i s
      | R_NodeContainerLogs i s k \<Rightarrow> h_NodeContainerLogs svc i s k (in_cursor q) (in_limit q)
      | R_NodeReconcile i \<Rightarrow> h_NodeReconcile svc i)"

end
