(* ===== verification/Orch_Sched_Props.thy ===== *)
theory Orch_Sched_Props
  imports Orch_Frame Orch_Samples
begin

section \<open>sbxorch: what the scheduler does\<close>

text \<open>
  The candidates the scheduler collects are exactly the feasible nodes, the chosen one is best
  among them, and a scheduling attempt ends in one of two consistent states.
\<close>

definition node_feasible :: "'e Service \<Rightarrow> database \<Rightarrow> SandboxPortSpec list \<Rightarrow> int \<Rightarrow> int \<Rightarrow> Node \<Rightarrow> bool" where
  "node_feasible svc d spec needCPU needMem n \<longleftrightarrow> n_State n = NodeStateReady \<and>
     needCPU \<le> res_AvailableCPUMilli (n_Resources n) \<and> needMem \<le> res_AvailableMemory (n_Resources n) \<and>
     (spec = [] \<or> length spec \<le> card ({HostPortMin (svc_cfg svc)..HostPortMax (svc_cfg svc)}
        - set (sql_ports_of_node (n_ID n) d)))"

lemma node_feasible_fits:
  "node_feasible svc d spec needCPU needMem n \<longleftrightarrow> node_fits needCPU needMem n \<and>
     (spec = [] \<or> length spec \<le> card ({HostPortMin (svc_cfg svc)..HostPortMax (svc_cfg svc)}
        - set (sql_ports_of_node (n_ID n) d)))"
  by (auto simp: node_feasible_def node_fits_def)

subsection \<open>The candidates\<close>

lemma quiet_candidates:
  assumes "run_state (candidates svc spec c m ns) w = (cs, w')" "quiet w"
  shows "quiet w' \<and> w_db w' = w_db w \<and>
    (\<forall>x \<in> set cs. fst x \<in> set ns \<and> node_fits c m (fst x) \<and>
       allocation_ok spec (sql_ports_of_node (n_ID (fst x)) (w_db w))
         (HostPortMin (svc_cfg svc)) (HostPortMax (svc_cfg svc)) (snd x)) \<and>
    (\<forall>n \<in> set ns. node_feasible svc (w_db w) spec c m n \<longrightarrow> n \<in> fst ` set cs)"
  using assms
proof (induction ns arbitrary: w cs w')
  case Nil
  then show ?case by simp
next
  case (Cons n ns)
  show ?case
  proof (cases "node_fits c m n")
    case False
    then show ?thesis
      using Cons.IH [of w cs w'] Cons.prems by (auto simp: node_feasible_fits)
  next
    case True
    let ?u = "sql_ports_of_node (n_ID n) (w_db w)"
    let ?lo = "HostPortMin (svc_cfg svc)" and ?hi = "HostPortMax (svc_cfg svc)"
    obtain w1 where 1: "run_state (repo_NodeUsedHostPorts (n_ID n)) w = (Inr ?u, w1)" "w_db w1 = w_db w" "quiet w1"
      unfolding repo_NodeUsedHostPorts_def using Cons.prems(2) by (rule quiet_query)
    obtain a w2 where 2: "run_state (allocateHostPorts spec ?u ?lo ?hi) w1 = (a, w2)" by fastforce
    have w2: "w_db w2 = w_db w" "quiet w2"
      using quiet_allocate [OF 2 1(3)] 1(2) by simp_all
    show ?thesis
    proof (cases a)
      case None
      then have "run_state (candidates svc spec c m ns) w2 = (cs, w')"
        using Cons.prems(1) True 1(1) 2 by simp
      moreover have "\<not> node_feasible svc (w_db w) spec c m n"
        using allocate_cases [OF 2] None by (auto simp: node_feasible_fits)
      ultimately show ?thesis
        using Cons.IH [of w2 cs w'] w2 by auto
    next
      case (Some ports)
      then obtain rest where r: "run_state (candidates svc spec c m ns) w2 = (rest, w')" "cs = (n, ports) # rest"
        using Cons.prems(1) True 1(1) 2 by (auto split: prod.splits)
      moreover have "allocation_ok spec ?u ?lo ?hi ports"
        using allocate_cases [OF 2] Some by simp
      ultimately show ?thesis
        using Cons.IH [OF r(1) w2(2)] w2(1) True by auto
    qed
  qed
qed

lemma cand_less_asym: "cand_less c a b \<Longrightarrow> \<not> cand_less c b a"
  by (auto simp: cand_less_def Let_def split: if_splits)

lemma cand_less_trans: "\<not> cand_less c b a \<Longrightarrow> \<not> cand_less c d b \<Longrightarrow> \<not> cand_less c d a"
  by (auto simp: cand_less_def Let_def split: if_splits)

lemma chosen_best:
  assumes "sort_by (cand_less c) cs = ch # rest" "x \<in> set cs"
  shows "\<not> cand_less c x ch"
  by (rule hd_sort_by_least [OF cand_less_asym cand_less_trans assms])

lemma chosen_in: "sort_by lt cs = ch # rest \<Longrightarrow> ch \<in> set cs"
  by (metis list.set_intros(1) set_sort_by)

text \<open>
  \<open>best_node\<close>: a feasible node such that every feasible node has less CPU left, or as much and
  no smaller name.  What is left is a 64-bit difference, as the code computes it.
\<close>

definition cpu_left :: "int \<Rightarrow> Node \<Rightarrow> int" where
  "cpu_left needCPU n = i64 (res_AvailableCPUMilli (n_Resources n) - needCPU)"

definition best_node :: "'e Service \<Rightarrow> database \<Rightarrow> SandboxSpec \<Rightarrow> int \<Rightarrow> int \<Rightarrow> Node \<Rightarrow> bool" where
  "best_node svc d spec needCPU needMem n \<longleftrightarrow>
     n \<in> set (sql_list_nodes d) \<and> node_feasible svc d (spec_Ports spec) needCPU needMem n \<and>
     (\<forall>m \<in> set (sql_list_nodes d). node_feasible svc d (spec_Ports spec) needCPU needMem m \<longrightarrow>
        cpu_left needCPU m < cpu_left needCPU n \<or>
        cpu_left needCPU m = cpu_left needCPU n \<and> n_ID n \<le> n_ID m)"

lemma cand_less_left:
  "\<not> cand_less c (m, ()) (n, ()) \<longleftrightarrow> cpu_left c m < cpu_left c n \<or> cpu_left c m = cpu_left c n \<and> n_ID n \<le> n_ID m"
  by (auto simp: cand_less_def cpu_left_def)

lemma cand_less_fst: "cand_less c (a, x) (b, y) = cand_less c (a, ()) (b, ())"
  by (simp add: cand_less_def)

lemma allocation_feasible:
  assumes "allocation_ok spec used lo hi ports"
  shows "length spec \<le> card ({lo..hi} - set used)"
proof -
  have "length ports = length spec"
    using assms unfolding allocation_ok_def by (metis length_map)
  moreover have "card (pa_HostPort ` set ports) = length ports"
    using assms unfolding allocation_ok_def by (metis distinct_card length_map set_map)
  moreover have "card (pa_HostPort ` set ports) \<le> card ({lo..hi} - set used)"
    using assms unfolding allocation_ok_def by (intro card_mono) auto
  ultimately show ?thesis by simp
qed

lemma chosen_best_node:
  assumes "run_state (candidates svc (spec_Ports spec) c m (sql_list_nodes (w_db w))) w = (cs, w')" "quiet w"
    and "sort_by (cand_less c) cs = ch # rest"
  shows "best_node svc (w_db w) spec c m (fst ch)"
proof -
  note q = quiet_candidates [OF assms(1,2)]
  have ch: "ch \<in> set cs" using assms(3) by (rule chosen_in)
  then have "node_feasible svc (w_db w) (spec_Ports spec) c m (fst ch)"
    using q allocation_feasible unfolding node_feasible_fits by blast
  moreover have "\<not> cand_less c (m', ()) (fst ch, ())"
    if "m' \<in> set (sql_list_nodes (w_db w))" "node_feasible svc (w_db w) (spec_Ports spec) c m m'" for m'
  proof -
    from that q obtain y where "(m', y) \<in> set cs" by force
    from chosen_best [OF assms(3) this] show ?thesis
      by (cases ch) (simp add: cand_less_fst [of c m' y] cand_less_fst [of c "fst ch"])
  qed
  ultimately show ?thesis using q ch unfolding best_node_def cand_less_left [symmetric] by blast
qed

subsection \<open>How an attempt ends\<close>

definition failed_clean :: "string \<Rightarrow> database \<Rightarrow> bool" where
  "failed_clean sid d \<longleftrightarrow> (\<exists>s. sql_get_sandbox sid d = Some s \<and>
     st_Phase (sbx_Status s) = SandboxPhaseFailed) \<and> ports_of sid d = []"

definition placed_on :: "'e Service \<Rightarrow> database \<Rightarrow> Sandbox \<Rightarrow> Node \<Rightarrow> database \<Rightarrow> bool" where
  "placed_on svc d sbx n d' \<longleftrightarrow> (\<exists>s. sql_get_sandbox (sbx_ID sbx) d' = Some s \<and>
     st_Phase (sbx_Status s) = SandboxPhaseRunning \<and> st_LastError (sbx_Status s) = [] \<and>
     st_NodeName (sbx_Status s) = n_ID n \<and>
     allocation_ok (spec_Ports (sbx_Spec sbx)) (sql_ports_of_node (n_ID n) d)
       (HostPortMin (svc_cfg svc)) (HostPortMax (svc_cfg svc)) (st_AssignedPorts (sbx_Status s)) \<and>
     list_all2 (assigned_row (sbx_ID sbx) (n_ID n)) (ports_of (sbx_ID sbx) d') (st_AssignedPorts (sbx_Status s)))"

lemma quiet_fail_sandbox:
  assumes "quiet w"
  obtains now w' where "run_state (fail_sandbox sbx msg) w = ((), w')" "quiet w'"
    "w_db w' = sql_update_status (sbx_ID sbx)
       ((sbx_Status sbx)\<lparr>st_Phase := SandboxPhaseFailed, st_LastError := msg\<rparr>) now (w_db w)"
proof -
  let ?st = "(sbx_Status sbx)\<lparr>st_Phase := SandboxPhaseFailed, st_LastError := msg\<rparr>"
  obtain now w1 where "run_state (repo_UpdateSandboxStatus (sbx_ID sbx) ?st) w = (Inr (), w1)"
    "w_db w1 = sql_update_status (sbx_ID sbx) ?st now (w_db w)" "quiet w1"
    using assms by (rule quiet_update_status)
  then show ?thesis by (intro that [of w1 now]) (simp_all add: fail_sandbox_def run_ignore)
qed

lemma fail_sandbox_clean:
  assumes "quiet w" "sql_get_sandbox (sbx_ID sbx) (w_db w) = Some s" "ports_of (sbx_ID sbx) (w_db w) = []"
    and "run_state (fail_sandbox sbx msg) w = (u, w')"
  shows "failed_clean (sbx_ID sbx) (w_db w')"
proof -
  obtain now where "w_db w' = sql_update_status (sbx_ID sbx)
       ((sbx_Status sbx)\<lparr>st_Phase := SandboxPhaseFailed, st_LastError := msg\<rparr>) now (w_db w)"
    using quiet_fail_sandbox [OF assms(1), of sbx msg] assms(4) by auto
  with assms(2,3) show ?thesis by (simp add: failed_clean_def get_sandbox_update_status)
qed

lemma quiet_adjust:
  assumes "quiet w" "run_state (ignore (adjustNodeUsageForSandbox svc n spec dir)) w = (u, w')"
  shows "sql_get_sandbox i (w_db w') = sql_get_sandbox i (w_db w) \<and> ports_of i (w_db w') = ports_of i (w_db w)
     \<and> quiet w'"
proof -
  have q: "\<exists>now w1. run_state (repo_AdjustNodeResourceUsage n c m) w = (Inr (), w1) \<and>
      w_db w1 = sql_adjust_usage n c m now (w_db w) \<and> quiet w1" for c m
    using quiet_adjust_usage [OF assms(1)] by metis
  have "(\<exists>c m. run_state (adjustNodeUsageForSandbox svc n spec dir) w =
      run_state (repo_AdjustNodeResourceUsage n c m) w) \<or>
      (\<exists>r. run_state (adjustNodeUsageForSandbox svc n spec dir) w = (r, w))"
    by (auto simp: adjustNodeUsageForSandbox_def split: sum.splits)
  then show ?thesis
  proof (elim disjE exE)
    fix c m
    assume "run_state (adjustNodeUsageForSandbox svc n spec dir) w = run_state (repo_AdjustNodeResourceUsage n c m) w"
    with q [of c m] assms(2) show ?thesis by (auto simp: run_ignore)
  qed (use assms in \<open>auto simp: run_ignore\<close>)
qed

lemma place_outcome:
  assumes "quiet w" "sql_get_sandbox (sbx_ID f) (w_db w) = Some f"
    and "run_state (place_sandbox svc f n) w = (u, w')"
  shows "failed_clean (sbx_ID f) (w_db w') \<and>
      (\<exists>g w1 e. st_NodeName (sbx_Status g) = st_NodeName (sbx_Status f) \<and> sbx_ID g = sbx_ID f \<and>
         fst (run_state (createSandboxOnNode svc g) w1) = Inl e) \<or>
    (\<exists>s. sql_get_sandbox (sbx_ID f) (w_db w') = Some s \<and> st_Phase (sbx_Status s) = SandboxPhaseRunning \<and>
       st_LastError (sbx_Status s) = [] \<and> st_NodeName (sbx_Status s) = st_NodeName (sbx_Status f) \<and>
       st_AssignedPorts (sbx_Status s) = st_AssignedPorts (sbx_Status f) \<and>
       ports_of (sbx_ID f) (w_db w') = ports_of (sbx_ID f) (w_db w))"
proof -
  let ?f = "f\<lparr>sbx_Status := (sbx_Status f)\<lparr>st_External := external_or_none (res_External (n_Resources n))\<rparr>\<rparr>"
  let ?node = "st_NodeName (sbx_Status f)"
  obtain r w1 where 1: "run_state (createSandboxOnNode svc ?f) w = (r, w1)" "w_db w1 = w_db w" "quiet w1"
    using same_db_createSandboxOnNode assms(1) by (rule quiet_run)
  show ?thesis
  proof (cases r)
    case (Inl e)
    obtain now w2 where 2: "run_state (fail_sandbox ?f (err_text e)) w1 = ((), w2)" "quiet w2"
      "w_db w2 = sql_update_status (sbx_ID ?f)
         ((sbx_Status ?f)\<lparr>st_Phase := SandboxPhaseFailed, st_LastError := err_text e\<rparr>) now (w_db w1)"
      using 1(3) by (rule quiet_fail_sandbox)
    obtain w3 where 3: "run_state (exec (sql_delete_ports_of_sandbox (sbx_ID f))) w2 = (Inr (), w3)"
      "w_db w3 = sql_delete_ports_of_sandbox (sbx_ID f) (w_db w2)"
      using 2(2) by (rule quiet_exec)
    have "w' = w3"
      using assms(3) 1(1) 2(1) 3(1) Inl
      by (simp add: place_sandbox_def Let_def run_ignore repo_ReleaseSandboxPorts_def)
    then have "failed_clean (sbx_ID f) (w_db w')"
      using 1(2) 2(3) 3(2) assms(2)
      by (simp add: failed_clean_def get_sandbox_update_status ports_of_delete)
    moreover have "fst (run_state (createSandboxOnNode svc ?f) w) = Inl e"
      using 1(1) Inl by simp
    ultimately show ?thesis
      by (intro disjI1 conjI exI [of _ ?f] exI [of _ w] exI [of _ e]) simp_all
  next
    case (Inr x)
    obtain latest w2 where 2: "run_state (repo_GetNode ?node) w1 = (latest, w2)" "w_db w2 = w_db w1" "quiet w2"
      using same_db_reads(1) 1(3) by (rule quiet_run)
    define ext where "ext = (case latest of Inr n \<Rightarrow> external_or_none (res_External (n_Resources n))
      | Inl _ \<Rightarrow> external_or_none (res_External (n_Resources n)))"
    obtain ip w3 where 3: "run_state (fetchSandboxIPOnce svc ?node (sbx_ID f)) w2 = (ip, w3)" "w_db w3 = w_db w2" "quiet w3"
      using same_db_fetch 2(3) by (rule quiet_run)
    let ?st = "(sbx_Status ?f)\<lparr>st_External := ext, st_Phase := SandboxPhaseRunning, st_LastError := [],
                 st_IP := (if ip \<noteq> [] then ip else st_IP (sbx_Status ?f))\<rparr>"
    obtain now w4 where 4: "run_state (repo_UpdateSandboxStatus (sbx_ID f) ?st) w3 = (Inr (), w4)"
      "w_db w4 = sql_update_status (sbx_ID f) ?st now (w_db w3)" "quiet w4"
      using 3(3) by (rule quiet_update_status)
    obtain v w5 where 5: "run_state (ignore (adjustNodeUsageForSandbox svc ?node (sbx_Spec f) 1)) w4 = (v, w5)"
      by (meson surj_pair)
    note 6 = quiet_adjust [OF 4(3) 5, of "sbx_ID f"]
    have "run_state (place_sandbox svc f n) w = run_state (spawn (sbx_ID f, ?node)) w5"
      using 1(1) 2(1) 3(1) 4(1) 5 Inr
      by (simp add: place_sandbox_def Let_def run_ignore ext_def split: sum.splits split del: if_split)
    then have "w_db w' = w_db w5"
      using assms(3) by (auto simp: run_spawn)
    then show ?thesis
      using 6 4(2) 3(2) 2(2) 1(2) assms(2) by (auto simp: get_sandbox_update_status)
  qed
qed

lemma port_not_used: "hp \<notin> set (sql_ports_of_node n d) \<longleftrightarrow> (n, hp) \<notin> port_key ` set (t_ports d)"
  by (auto simp: sql_ports_of_node_def image_iff)

lemma assigned_rows_of:
  "list_all2 (assigned_row sid n) rs ps \<Longrightarrow> filter (\<lambda>p. pt_sandbox_id p = sid) rs = rs"
  by (induction rs ps rule: list_all2_induct) (auto simp: assigned_row_def)

lemma reserve_and_place_outcome:
  assumes "quiet w" "sql_get_sandbox (sbx_ID sbx) (w_db w) = Some sbx" "ports_of (sbx_ID sbx) (w_db w) = []"
    and al: "allocation_ok (spec_Ports (sbx_Spec sbx)) (sql_ports_of_node (n_ID n) (w_db w))
       (HostPortMin (svc_cfg svc)) (HostPortMax (svc_cfg svc)) ports"
    and run: "run_state (reserve_and_place svc sbx (n, ports)) w = (u, w')"
  shows "failed_clean (sbx_ID sbx) (w_db w') \<and>
      (\<exists>g w1 e. st_NodeName (sbx_Status g) = n_ID n \<and> sbx_ID g = sbx_ID sbx \<and>
         fst (run_state (createSandboxOnNode svc g) w1) = Inl e) \<or>
    placed_on svc (w_db w) sbx n (w_db w')"
proof -
  let ?i = "sbx_ID sbx"
  have free: "\<forall>p \<in> set ports. (n_ID n, pa_HostPort p) \<notin> port_key ` set (t_ports (w_db w))"
    using al port_not_used unfolding allocation_ok_def by metis
  obtain w1 where 1: "run_state (repo_ReserveSandboxPortsAndSchedule ?i (n_ID n) ports) w = (Inr (), w1)" "quiet w1"
    using quiet_reserve [OF assms(1) free _ assms(2)] al unfolding allocation_ok_def by blast
  from 1(1) obtain rs now where rs: "list_all2 (assigned_row ?i (n_ID n)) rs ports"
    and db: "w_db w1 = sql_update_status ?i ((sbx_Status sbx)\<lparr>st_NodeName := n_ID n,
        st_Phase := SandboxPhaseScheduled, st_AssignedPorts := ports\<rparr>) now
        ((w_db w)\<lparr>t_ports := t_ports (w_db w) @ rs\<rparr>)"
    using assms(2) by (auto elim!: reserve_ok_db)
  define f where "f = sbx\<lparr>sbx_Status := status_json ((sbx_Status sbx)\<lparr>st_NodeName := n_ID n,
        st_Phase := SandboxPhaseScheduled, st_AssignedPorts := ports\<rparr>), sbx_UpdatedAt := now\<rparr>"
  have g: "sql_get_sandbox ?i (w_db w1) = Some f"
    using assms(2) by (simp add: db get_sandbox_update_status f_def)
  obtain w2 where 2: "run_state (repo_GetSandbox ?i) w1 = (Inr f, w2)" "w_db w2 = w_db w1" "quiet w2"
    using quiet_query_row [OF 1(2), of "sql_get_sandbox ?i"] g
    unfolding repo_GetSandbox_def by (metis option.simps(5))
  have fs [simp]: "sbx_ID f = ?i" "st_NodeName (sbx_Status f) = n_ID n" "st_AssignedPorts (sbx_Status f) = ports"
    by (simp_all add: f_def)
  have "run_state (place_sandbox svc f n) w2 = (u, w')"
    using run 1(1) 2(1) by (simp add: reserve_and_place_def)
  from place_outcome [OF 2(3) _ this] g 2(2)
  have "failed_clean ?i (w_db w') \<and>
      (\<exists>g w1 e. st_NodeName (sbx_Status g) = n_ID n \<and> sbx_ID g = ?i \<and>
         fst (run_state (createSandboxOnNode svc g) w1) = Inl e) \<or>
    (\<exists>s. sql_get_sandbox ?i (w_db w') = Some s \<and> st_Phase (sbx_Status s) = SandboxPhaseRunning \<and>
       st_LastError (sbx_Status s) = [] \<and> st_NodeName (sbx_Status s) = n_ID n \<and>
       st_AssignedPorts (sbx_Status s) = ports \<and> ports_of ?i (w_db w') = ports_of ?i (w_db w1))"
    by simp
  moreover have "ports_of ?i (w_db w1) = rs"
    using assms(3) assigned_rows_of [OF rs] by (simp add: db) (simp add: ports_of_def)
  ultimately show ?thesis
    using rs al unfolding placed_on_def by auto
qed

lemma scheduleOne_cases:
  assumes "quiet w" "sql_get_sandbox (sbx_ID sbx) (w_db w) = Some sbx" "ports_of (sbx_ID sbx) (w_db w) = []"
    and run: "run_state (scheduleOne svc sbx) w = (u, w')"
  shows "case sandboxResourceRequest svc (sbx_Spec sbx) of
      Inl e \<Rightarrow> failed_clean (sbx_ID sbx) (w_db w')
    | Inr (cpu, mem) \<Rightarrow>
        (if \<exists>n \<in> set (sql_list_nodes (w_db w)). node_feasible svc (w_db w) (spec_Ports (sbx_Spec sbx)) cpu mem n
         then \<exists>n. best_node svc (w_db w) (sbx_Spec sbx) cpu mem n \<and>
           (placed_on svc (w_db w) sbx n (w_db w') \<or>
            failed_clean (sbx_ID sbx) (w_db w') \<and>
              (\<exists>g w1 e. st_NodeName (sbx_Status g) = n_ID n \<and> sbx_ID g = sbx_ID sbx \<and>
                 fst (run_state (createSandboxOnNode svc g) w1) = Inl e))
         else failed_clean (sbx_ID sbx) (w_db w'))"
proof -
  let ?ns = "sql_list_nodes (w_db w)"
  obtain w1 where 1: "run_state repo_ListNodes w = (Inr ?ns, w1)" "w_db w1 = w_db w" "quiet w1"
    unfolding repo_ListNodes_def using assms(1) by (rule quiet_query)
  show ?thesis
  proof (cases "sandboxResourceRequest svc (sbx_Spec sbx)")
    case (Inl e)
    then have "run_state (fail_sandbox sbx (err_text e)) w1 = (u, w')"
      using run 1(1) by (simp add: scheduleOne_def)
    with Inl fail_sandbox_clean [OF 1(3)] 1(2) assms(2,3) show ?thesis by simp
  next
    case (Inr req)
    obtain cpu mem where req: "req = (cpu, mem)" by fastforce
    obtain cs w2 where 2: "run_state (candidates svc (spec_Ports (sbx_Spec sbx)) cpu mem ?ns) w1 = (cs, w2)"
      by (meson surj_pair)
    note q = quiet_candidates [OF 2 1(3)]
    show ?thesis
    proof (cases "sort_by (cand_less cpu) cs")
      case Nil
      then have "cs = []" by simp
      with q 1(2) have none: "\<not> (\<exists>n \<in> set ?ns. node_feasible svc (w_db w) (spec_Ports (sbx_Spec sbx)) cpu mem n)"
        by auto
      have "run_state (fail_sandbox sbx ''no feasible node for resources/ports'') w2 = (u, w')"
        using run 1(1) 2 Inr req Nil by (simp add: scheduleOne_def)
      with fail_sandbox_clean [of w2 sbx] q 1(2) assms(2,3) none Inr req show ?thesis by simp
    next
      case (Cons ch rest)
      have best: "best_node svc (w_db w) (sbx_Spec sbx) cpu mem (fst ch)"
        using chosen_best_node [OF _ 1(3) Cons] 2 1(2) by metis
      then have some: "\<exists>n \<in> set ?ns. node_feasible svc (w_db w) (spec_Ports (sbx_Spec sbx)) cpu mem n"
        unfolding best_node_def by blast
      have "ch \<in> set cs" using Cons by (rule chosen_in)
      with q 1(2) have al: "allocation_ok (spec_Ports (sbx_Spec sbx)) (sql_ports_of_node (n_ID (fst ch)) (w_db w2))
         (HostPortMin (svc_cfg svc)) (HostPortMax (svc_cfg svc)) (snd ch)" by simp
      have "run_state (reserve_and_place svc sbx (fst ch, snd ch)) w2 = (u, w')"
        using run 1(1) 2 Inr req Cons by (simp add: scheduleOne_def)
      from reserve_and_place_outcome [OF _ _ _ al this] q 1(2) assms(2,3)
      have "failed_clean (sbx_ID sbx) (w_db w') \<and>
          (\<exists>g w1 e. st_NodeName (sbx_Status g) = n_ID (fst ch) \<and> sbx_ID g = sbx_ID sbx \<and>
             fst (run_state (createSandboxOnNode svc g) w1) = Inl e) \<or>
        placed_on svc (w_db w) sbx (fst ch) (w_db w')" by simp
      with best some Inr req show ?thesis by auto
    qed
  qed
qed

subsection \<open>Properties\<close>


definition sample_quantity :: "string \<Rightarrow> GoError + Quantity" where
  "sample_quantity s =
     (if s = ''250m'' then Inr \<lparr>q_MilliValue = 250, q_Value = 1\<rparr>
      else if s = ''64Mi'' then Inr \<lparr>q_MilliValue = 67108864000, q_Value = 64\<rparr>
      else Inl (Errorf ''quantities must match the regular expression''))"

definition sample_reply :: Reply where
  "sample_reply = \<lparr>rp_StatusCode = 200, rp_Status = ''200 OK'', rp_raw = ''{}'',
     rp_object = Inr (Some ok_object), rp_statuses = Inr \<lparr>ssr_Items = [], ssr_Missing = []\<rparr>\<rparr>"

definition sample_config :: Config where
  "sample_config = (normalize_config (read_config (sample_env []) []))\<lparr>HostPortMin := 30000, HostPortMax := 30003\<rparr>"

definition sample_service :: "unit Service" where
  "sample_service = \<lparr>svc_cfg = sample_config, svc_net = (\<lambda>m url body e. (Inr sample_reply, e)),
     svc_ParseQuantity = sample_quantity\<rparr>"

lemma sample_quiet: "quiet sample_world"
  by (simp add: quiet_def sample_world_def)

lemma sample_get_b: "sql_get_sandbox ''b'' (w_db sample_world) = Some (row_sandbox sample_pending)"
  by (simp add: sql_get_sandbox_def sample_defs)

lemma sample_request: "sandboxResourceRequest sample_service sample_spec = Inr (250, 64)"
  by code_simp

lemma sample_feasible:
  "\<exists>n \<in> set (sql_list_nodes (w_db sample_world)).
     node_feasible sample_service (w_db sample_world) (spec_Ports sample_spec) 250 64 n"
proof -
  let ?n = "join_node sample_db (sample_node ''n2'')"
  have "node_fits 250 64 ?n"
    by (simp add: node_fits_def join_node_def sample_defs)
  moreover have "sql_ports_of_node ''n2'' (w_db sample_world) = []"
    by (simp add: sql_ports_of_node_def sample_defs)
  moreover have "n_ID ?n = ''n2''"
    by (simp add: sample_node_def)
  ultimately have "node_feasible sample_service (w_db sample_world) (spec_Ports sample_spec) 250 64 ?n"
    by (simp add: node_feasible_fits sample_service_def sample_config_def sample_spec_def)
  moreover have "?n \<in> set (sql_list_nodes (w_db sample_world))"
    by (simp add: set_list_nodes sample_world_def) (simp add: sample_db_def)
  ultimately show ?thesis by blast
qed


text \<open>
  C32: whatever faults the database has and whatever the agents answer, an attempt to schedule one
  sandbox changes no other sandbox, no other sandbox's ports, no node, no heartbeat and no
  external, and no capacity figure of any node.
\<close>

theorem scheduleOne_frame:
  "frame (sbx_ID sbx) (w_db w) (w_db (snd (run_state (scheduleOne svc sbx) w)))"
  using frame_scheduleOne [of sbx svc] by (simp add: state_io_rel_def db_rel_def)

end
