(* ===== verification/Orch_Nodes_Props.thy ===== *)
theory Orch_Nodes_Props
  imports Orch_Nodes Orch_Quiet Orch_Sched_Props
begin

section \<open>sbxorch: what holds of nodes and externals\<close>

text \<open>
  Readiness with hysteresis against a reference definition over the history of probes, what a
  probe and a resource report write, and the one-to-one binding of externals to nodes.
\<close>

subsection \<open>Readiness\<close>

text \<open>
  The reference: histories have the latest probe first; the verdict is that of the latest moment
  at which a run of successes or of failures reached its threshold.
\<close>

fun run_len :: "bool \<Rightarrow> bool list \<Rightarrow> nat" where
  "run_len b [] = 0"
| "run_len b (x # xs) = (if x = b then Suc (run_len b xs) else 0)"

fun verdict :: "nat \<Rightarrow> nat \<Rightarrow> bool list \<Rightarrow> NodeState" where
  "verdict r f [] = NodeStateUnknown"
| "verdict r f (x # xs) =
     (if r \<le> run_len True (x # xs) then NodeStateReady
      else if f \<le> run_len False (x # xs) then NodeStateNotReady
      else verdict r f xs)"

text \<open>The node after the probes of a history, from a node that was just registered.\<close>

fun probed :: "Config \<Rightarrow> Node \<Rightarrow> (GoError option \<times> int) list \<Rightarrow> Node" where
  "probed cfg n [] = n"
| "probed cfg n ((e, t) # h) = probe_next cfg e t (probed cfg n h)"

lemma run_len_le: "run_len b xs \<le> length xs"
  by (induction xs) auto

lemma verdict_not_other: "verdict r f xs \<noteq> NodeStateOther s"
  by (induction xs) auto

lemma probe_next_ok:
  assumes "n_State n \<noteq> NodeStateOther []" "0 \<le> n_SuccessStreak n" "n_SuccessStreak n < 2 ^ 63 - 1"
  shows "n_SuccessStreak (probe_next cfg None t n) = min (ReadySuccessThreshold cfg) (n_SuccessStreak n + 1)"
    "n_FailureStreak (probe_next cfg None t n) = 0"
    "n_State (probe_next cfg None t n) =
      (if ReadySuccessThreshold cfg \<le> n_SuccessStreak n + 1 then NodeStateReady else n_State n)"
proof -
  have "i64 (n_SuccessStreak n + 1) = n_SuccessStreak n + 1"
    using assms by (intro i64_id in_i64_small) auto
  then show "n_SuccessStreak (probe_next cfg None t n) = min (ReadySuccessThreshold cfg) (n_SuccessStreak n + 1)"
    "n_FailureStreak (probe_next cfg None t n) = 0"
    "n_State (probe_next cfg None t n) =
      (if ReadySuccessThreshold cfg \<le> n_SuccessStreak n + 1 then NodeStateReady else n_State n)"
    using assms(1) by (auto simp: probe_next_def Let_def min_def)
qed

lemma probe_next_failed:
  assumes "n_State n \<noteq> NodeStateOther []" "0 \<le> n_FailureStreak n" "n_FailureStreak n < 2 ^ 63 - 1"
  shows "n_SuccessStreak (probe_next cfg (Some e) t n) = 0"
    "n_FailureStreak (probe_next cfg (Some e) t n) = n_FailureStreak n + 1"
    "n_State (probe_next cfg (Some e) t n) =
      (if NotReadyFailureThreshold cfg \<le> n_FailureStreak n + 1 then NodeStateNotReady else n_State n)"
proof -
  have "i64 (n_FailureStreak n + 1) = n_FailureStreak n + 1"
    using assms by (intro i64_id in_i64_small) auto
  then show "n_SuccessStreak (probe_next cfg (Some e) t n) = 0"
    "n_FailureStreak (probe_next cfg (Some e) t n) = n_FailureStreak n + 1"
    "n_State (probe_next cfg (Some e) t n) =
      (if NotReadyFailureThreshold cfg \<le> n_FailureStreak n + 1 then NodeStateNotReady else n_State n)"
    using assms(1) by (auto simp: probe_next_def Let_def)
qed

text \<open>
  C15: a node's readiness is the verdict of its probe history.  After any sequence of probes from
  registration, the success streak is the current run of successes capped at its threshold, the
  failure streak is the current run of failures, and the node is Ready or NotReady according to
  the latest run that reached its threshold, Unknown before the first: one failed probe does not
  take a Ready node out, nor does one good probe bring a node back.
\<close>

theorem probe_history:
  assumes "n_State n = NodeStateUnknown" "n_SuccessStreak n = 0" "n_FailureStreak n = 0"
    and "1 \<le> ReadySuccessThreshold cfg" "1 \<le> NotReadyFailureThreshold cfg"
    and "int (length h) < 2 ^ 63"
  shows "let good = map (\<lambda>(e, t). e = None) h; m = probed cfg n h in
     n_SuccessStreak m = min (ReadySuccessThreshold cfg) (int (run_len True good)) \<and>
     n_FailureStreak m = int (run_len False good) \<and>
     n_State m = verdict (nat (ReadySuccessThreshold cfg)) (nat (NotReadyFailureThreshold cfg)) good"
  using assms(6) unfolding Let_def
proof (induction h)
  case Nil
  then show ?case using assms by simp
next
  case (Cons p h)
  obtain e t where p: "p = (e, t)" by fastforce
  let ?good = "map (\<lambda>(e, t). e = None) h"
  let ?m = "probed cfg n h"
  have small: "int (length h) < 2 ^ 63" "int (run_len b ?good) < 2 ^ 63 - 1" for b
    using Cons.prems run_len_le [of b ?good] by auto
  have ih: "n_SuccessStreak ?m = min (ReadySuccessThreshold cfg) (int (run_len True ?good))"
    "n_FailureStreak ?m = int (run_len False ?good)"
    "n_State ?m = verdict (nat (ReadySuccessThreshold cfg)) (nat (NotReadyFailureThreshold cfg)) ?good"
    using Cons.IH small(1) by simp_all
  have st: "n_State ?m \<noteq> NodeStateOther []"
    using ih(3) verdict_not_other by simp
  show ?case
  proof (cases e)
    case None
    have "0 \<le> n_SuccessStreak ?m" "n_SuccessStreak ?m < 2 ^ 63 - 1"
      using ih(1) small(2) [of True] assms(4) by auto
    from probe_next_ok [OF st this, of cfg t] ih assms(4,5) None show ?thesis
      by (auto simp: p min_def)
  next
    case (Some err)
    have "0 \<le> n_FailureStreak ?m" "n_FailureStreak ?m < 2 ^ 63 - 1"
      using ih(2) small(2) [of False] by auto
    from probe_next_failed [OF st this, of cfg err t] ih assms(4,5) Some show ?thesis
      by (auto simp: p)
  qed
qed

definition fresh_node :: Node where
  "fresh_node = join_node (w_db sample_world\<lparr>t_status := []\<rparr>) (sample_node ''n1'')"

definition sample_history :: "(GoError option \<times> int) list" where
  "sample_history = [(Some (Errorf ''down''), 4), (None, 3), (None, 2), (Some (Errorf ''down''), 1)]"

theorem probe_history_witness:
  "n_State (probed (svc_cfg sample_service) fresh_node sample_history) =
     verdict (nat (ReadySuccessThreshold (svc_cfg sample_service)))
       (nat (NotReadyFailureThreshold (svc_cfg sample_service))) [False, True, True, False]"
proof -
  have f: "n_State fresh_node = NodeStateUnknown" "n_SuccessStreak fresh_node = 0" "n_FailureStreak fresh_node = 0"
    by (simp_all add: fresh_node_def join_node_def Let_def)
  have c: "1 \<le> ReadySuccessThreshold (svc_cfg sample_service)" "1 \<le> NotReadyFailureThreshold (svc_cfg sample_service)"
    by (simp_all add: sample_service_def sample_config_def normalize_config_def Let_def at_least_ge)
  have h: "int (length sample_history) < 2 ^ 63"
    "map (\<lambda>(e, t). e = None) sample_history = [False, True, True, False]"
    by (simp_all add: sample_history_def)
  from probe_history [OF f c h(1)] show ?thesis
    unfolding Let_def h(2) by (elim conjE)
qed

subsection \<open>What a probe writes\<close>

lemma find_replaced:
  "f row = k \<Longrightarrow> find (\<lambda>r. f r = i) (map (\<lambda>r. if f r = k then row else r) rs) =
     (if i = k then if k \<in> f ` set rs then Some row else None else find (\<lambda>r. f r = i) rs)"
  by (induction rs) auto

lemma find_added:
  "f row = k \<Longrightarrow> k \<notin> f ` set rs \<Longrightarrow>
     find (\<lambda>r. f r = i) (rs @ [row]) = (if i = k then Some row else find (\<lambda>r. f r = i) rs)"
  by (induction rs) auto

lemma find_status_upsert:
  fixes i defines "row \<equiv> \<lambda>st ss fs le beat now. \<lparr>ns_name = i, ns_state = st, ns_success_streak = ss,
     ns_failure_streak = fs, ns_last_error = le, ns_last_heartbeat_at = beat, ns_updated_at = now\<rparr>"
  shows "find (\<lambda>r. ns_name r = j) (t_status (sql_upsert_heartbeat i st ss fs le beat now d)) =
     (if j = i then Some (row st ss fs le beat now) else find (\<lambda>r. ns_name r = j) (t_status d))"
proof -
  let ?row = "row st ss fs le beat now"
  have key: "ns_name ?row = i" by (simp add: row_def)
  have "t_status (sql_upsert_heartbeat i st ss fs le beat now d) =
      (if i \<in> ns_name ` set (t_status d) then map (\<lambda>r. if ns_name r = i then ?row else r) (t_status d)
       else t_status d @ [?row])"
    by (simp add: sql_upsert_heartbeat_def Let_def row_def)
  then show ?thesis
    using find_replaced [where f = ns_name and row = ?row, OF key, of j "t_status d"]
      find_added [where f = ns_name and row = ?row, OF key, of "t_status d" j] by presburger
qed

lemma heartbeat_tables:
  "t_nodes (sql_upsert_heartbeat i st ss fs le beat now d) = t_nodes d"
  "t_resources (sql_upsert_heartbeat i st ss fs le beat now d) = t_resources d"
  "t_externals (sql_upsert_heartbeat i st ss fs le beat now d) = t_externals d"
  "t_sandboxes (sql_upsert_heartbeat i st ss fs le beat now d) = t_sandboxes d"
  "t_ports (sql_upsert_heartbeat i st ss fs le beat now d) = t_ports d"
  by (simp_all add: sql_upsert_heartbeat_def Let_def)

lemma join_node_sel [simp]: "n_ID (join_node d r) = nd_name r"
  by (simp add: join_node_def Let_def)

lemma get_node_ID: "sql_get_node i d = Some n \<Longrightarrow> n_ID n = i"
  by (auto simp: sql_get_node_def dest!: find_Some_in)

lemma get_node_heartbeat:
  assumes "sql_get_node i d = Some n"
  shows "sql_get_node j (sql_upsert_heartbeat i st ss fs le beat now d) =
    (if j = i then Some (n\<lparr>n_State := st, n_SuccessStreak := ss, n_FailureStreak := fs, n_LastError := le,
       n_LastHeartbeat := beat\<rparr>) else sql_get_node j d)"
proof (cases "find (\<lambda>r. nd_name r = j) (t_nodes d)")
  case None
  with assms show ?thesis by (auto simp: sql_get_node_def heartbeat_tables)
next
  case (Some r)
  then have "nd_name r = j" by (auto dest: find_Some_in)
  with Some assms show ?thesis
    by (auto simp: sql_get_node_def heartbeat_tables join_node_def Let_def find_status_upsert)
qed

lemma probe_next_fields:
  "probe_next cfg e t n = n\<lparr>n_State := n_State (probe_next cfg e t n),
     n_SuccessStreak := n_SuccessStreak (probe_next cfg e t n), n_FailureStreak := n_FailureStreak (probe_next cfg e t n),
     n_LastError := n_LastError (probe_next cfg e t n), n_LastHeartbeat := n_LastHeartbeat (probe_next cfg e t n)\<rparr>"
  by (cases e) (simp_all add: probe_next_def Let_def)

lemma quiet_heartbeat:
  assumes "quiet w"
  obtains now w' where "run_state (repo_UpdateHeartbeat i st a b e t) w = (Inr (), w')"
    "w_db w' = sql_upsert_heartbeat i st a b e t now (w_db w)" "quiet w'"
proof -
  obtain now w1 where 1: "run_state time_Now w = (now, w1)" "w_db w1 = w_db w" "quiet w1"
    using assms by (rule quiet_Now)
  obtain w2 where "run_state (exec (sql_upsert_heartbeat i st a b e t now)) w1 = (Inr (), w2)"
    "w_db w2 = sql_upsert_heartbeat i st a b e t now (w_db w1)" "quiet w2"
    using 1(3) by (rule quiet_exec)
  with 1 show ?thesis
    by (intro that [of w2 now]) (simp_all add: repo_UpdateHeartbeat_def)
qed

definition err_of :: "GoError + 'a \<Rightarrow> GoError option" where
  "err_of r = (case r of Inl e \<Rightarrow> Some e | Inr _ \<Rightarrow> None)"

text \<open>
  When the database does not fail, probing a registered node makes its row exactly the next
  state computed from the agent's answer, leaves every other node as it was and touches no
  sandbox, port or external.
\<close>

theorem probeNode_writes:
  assumes "quiet w" "sql_get_node (n_ID n) (w_db w) = Some n"
    and "run_state (probeNode svc n) w = (u, w')"
  shows "\<exists>now. sql_get_node (n_ID n) (w_db w') =
      Some (probe_next (svc_cfg svc)
        (err_of (fst (run_state (client_Healthz (svc_net svc) (client_New (n_SbxletBaseURL n))) w))) now n) \<and>
    (\<forall>j. j \<noteq> n_ID n \<longrightarrow> sql_get_node j (w_db w') = sql_get_node j (w_db w)) \<and>
    t_sandboxes (w_db w') = t_sandboxes (w_db w) \<and> t_ports (w_db w') = t_ports (w_db w) \<and>
    t_externals (w_db w') = t_externals (w_db w) \<and> quiet w'"
proof -
  obtain r w1 where 1: "run_state (client_Healthz (svc_net svc) (client_New (n_SbxletBaseURL n))) w = (r, w1)"
    "w_db w1 = w_db w" "quiet w1"
    using same_db_client(1) assms(1) by (rule quiet_run)
  obtain now w2 where 2: "run_state time_Now w1 = (now, w2)" "w_db w2 = w_db w1" "quiet w2"
    using 1(3) by (rule quiet_Now)
  let ?nx = "probe_next (svc_cfg svc) (err_of r) now n"
  obtain t w3 where 3: "run_state (repo_UpdateHeartbeat (n_ID n) (n_State ?nx) (n_SuccessStreak ?nx)
      (n_FailureStreak ?nx) (n_LastError ?nx) (n_LastHeartbeat ?nx)) w2 = (Inr (), w3)"
    "w_db w3 = sql_upsert_heartbeat (n_ID n) (n_State ?nx) (n_SuccessStreak ?nx) (n_FailureStreak ?nx)
      (n_LastError ?nx) (n_LastHeartbeat ?nx) t (w_db w2)" "quiet w3"
    using 2(3) by (rule quiet_heartbeat)
  have w': "w' = w3"
    using assms(3) 1(1) 2(1) 3(1) by (simp add: probeNode_def err_of_def Let_def run_ignore)
  have "sql_get_node j (w_db w3) = (if j = n_ID n then Some ?nx else sql_get_node j (w_db w))" for j
    using get_node_heartbeat [OF assms(2)] probe_next_fields [of "svc_cfg svc" "err_of r" now n]
    by (simp add: 3(2) 2(2) 1(2))
  then show ?thesis
    using 3(2,3) by (auto simp: w' 1 2(2) heartbeat_tables)
qed

theorem probeNode_writes_witness:
  "\<exists>now. sql_get_node ''n1'' (w_db (snd (run_state (probeNode sample_service (join_node sample_db (sample_node ''n1''))) sample_world))) =
     Some (probe_next (svc_cfg sample_service) (err_of (fst (run_state (client_Healthz (svc_net sample_service)
       (client_New (n_SbxletBaseURL (join_node sample_db (sample_node ''n1''))))) sample_world))) now
       (join_node sample_db (sample_node ''n1'')))"
proof -
  let ?n = "join_node sample_db (sample_node ''n1'')"
  obtain u w' where r: "run_state (probeNode sample_service ?n) sample_world = (u, w')" by (meson surj_pair)
  have n: "n_ID ?n = ''n1''" by (simp add: sample_node_def)
  have got: "sql_get_node (n_ID ?n) (w_db sample_world) = Some ?n"
    unfolding n by (simp add: sql_get_node_def sample_world_def) (simp add: sample_db_def sample_node_def)
  from probeNode_writes [OF sample_quiet got r] show ?thesis
    unfolding n r snd_conv by blast
qed

subsection \<open>Binding externals\<close>

definition bindable :: "string \<Rightarrow> string \<Rightarrow> database \<Rightarrow> bool" where
  "bindable i node d \<longleftrightarrow> node \<in> nd_name ` set (t_nodes d) \<and>
     (\<forall>x \<in> set (t_externals d). ex_external_id x = i \<longleftrightarrow> ex_node_id x = node)"

definition bound_row :: "string \<Rightarrow> string \<Rightarrow> string \<Rightarrow> database \<Rightarrow> database \<Rightarrow> bool" where
  "bound_row i node ext d d' \<longleftrightarrow>
     (\<exists>x. sql_get_external i d' = Some x \<and> ext_NodeID x = node \<and> ext_External x = ext) \<and>
     (\<forall>y. sql_get_external i d = Some y \<longrightarrow> ext_NodeID y = node) \<and>
     (\<forall>j. j \<noteq> i \<longrightarrow> sql_get_external j d' = sql_get_external j d) \<and>
     t_nodes d' = t_nodes d \<and> t_status d' = t_status d \<and> t_sandboxes d' = t_sandboxes d \<and> t_ports d' = t_ports d"

lemma run_scan_Inr:
  assumes "run_state (scan_or_empty q) w = (Inr s, w')"
  shows "w_db w' = w_db w \<and> (q (w_db w) = Some s \<or> s = [])"
proof -
  obtain r w1 where 1: "run_state (query_row q) w = (r, w1)" by (meson surj_pair)
  have db: "w_db w1 = w_db w" using 1 by (rule run_query_row_db)
  show ?thesis
  proof (cases r)
    case (Inl e)
    with assms 1 db show ?thesis by (auto simp: scan_or_empty_def split: if_splits)
  next
    case (Inr x)
    with assms 1 db run_query_row_Inr [of q w x w1] show ?thesis by (auto simp: scan_or_empty_def)
  qed
qed

lemma get_external_other:
  "sql_get_external j (sql_set_resources_external e n t d) = sql_get_external j d"
  "t_nodes (sql_set_resources_external e n t d) = t_nodes d"
  "t_status (sql_set_resources_external e n t d) = t_status d"
  "t_sandboxes (sql_set_resources_external e n t d) = t_sandboxes d"
  "t_ports (sql_set_resources_external e n t d) = t_ports d"
  "t_externals (sql_set_resources_external e n t d) = t_externals d"
  by (simp_all add: sql_get_external_def sql_set_resources_external_def)

lemma find_map_update:
  assumes "\<And>r. f (g r) = f r"
  shows "find (\<lambda>r. f r = j) (map (\<lambda>r. if f r = i then g r else r) xs) =
    (if j = i then map_option g (find (\<lambda>r. f r = i) xs) else find (\<lambda>r. f r = j) xs)"
  using assms by (induction xs) auto

lemma get_external_update:
  "sql_get_external j (sql_update_external i e t d) =
     (if j = i then map_option (\<lambda>x. x\<lparr>ext_External := e, ext_UpdatedAt := t\<rparr>) (sql_get_external i d)
      else sql_get_external j d)"
  "t_nodes (sql_update_external i e t d) = t_nodes d" "t_status (sql_update_external i e t d) = t_status d"
  "t_sandboxes (sql_update_external i e t d) = t_sandboxes d" "t_ports (sql_update_external i e t d) = t_ports d"
proof -
  let ?g = "\<lambda>r. r\<lparr>ex_external := e, ex_updated_at := t\<rparr>"
  have k: "ex_external_id (?g r) = ex_external_id r" for r by simp
  have "map_option row_external (map_option ?g o') =
      map_option (\<lambda>x. x\<lparr>ext_External := e, ext_UpdatedAt := t\<rparr>) (map_option row_external o')" for o'
    by (cases o') (simp_all add: row_external_def)
  then show "sql_get_external j (sql_update_external i e t d) =
     (if j = i then map_option (\<lambda>x. x\<lparr>ext_External := e, ext_UpdatedAt := t\<rparr>) (sql_get_external i d)
      else sql_get_external j d)"
    using find_map_update [where f = ex_external_id and g = ?g and i = i and j = j and xs = "t_externals d", OF k]
    by (simp add: sql_get_external_def sql_update_external_def)
qed (simp_all add: sql_update_external_def)

lemma get_external_insert:
  assumes "sql_insert_external row d = Inr d'"
  shows "sql_get_external j d' = (if j = ex_external_id row then Some (row_external row) else sql_get_external j d)"
    "sql_get_external (ex_external_id row) d = None"
    "t_nodes d' = t_nodes d" "t_status d' = t_status d" "t_sandboxes d' = t_sandboxes d" "t_ports d' = t_ports d"
  using assms find_added [where f = ex_external_id and row = row and k = "ex_external_id row" and
      rs = "t_externals d" and i = j]
  by (auto simp: sql_insert_external_def sql_get_external_def find_None_key split: if_splits)

lemma bound_after_write:
  assumes "node \<noteq> []"
    and "b \<noteq> [] \<Longrightarrow> b = node \<and> map_option ext_NodeID (sql_get_external i d) = Some b"
    and "if b \<noteq> [] then d1 = sql_update_external i ext now d
         else sql_insert_external \<lparr>ex_external_id = i, ex_node_id = node, ex_external = ext,
            ex_created_at = now, ex_updated_at = now\<rparr> d = Inr d1"
  shows "bound_row i node ext d (sql_set_resources_external ext node now d1)"
proof (cases "b = []")
  case True
  with assms(3) have ins: "sql_insert_external \<lparr>ex_external_id = i, ex_node_id = node, ex_external = ext,
      ex_created_at = now, ex_updated_at = now\<rparr> d = Inr d1" by simp
  from get_external_insert [OF ins] show ?thesis
    by (simp add: bound_row_def get_external_other row_external_def)
next
  case False
  with assms(2) obtain x where "sql_get_external i d = Some x" "ext_NodeID x = node" by auto
  with False assms(3) show ?thesis
    by (auto simp: bound_row_def get_external_other get_external_update)
qed

lemma run_bind_Inr:
  assumes "run_state (bind_external i node ext now) w = (Inr u, w')" "node \<noteq> []"
  shows "bound_row i node ext (w_db w) (w_db w')"
proof -
  obtain b w1 where 1: "run_state (scan_or_empty (\<lambda>d. map_option ext_NodeID (sql_get_external i d))) w = (Inr b, w1)"
    and c1: "\<not> (b \<noteq> [] \<and> b \<noteq> node)" and r1: "run_state
     (check (scan_or_empty (\<lambda>d. map_option ext_ID (sql_external_of_node node d))) (\<lambda>byNodeID.
     if byNodeID \<noteq> [] \<and> byNodeID \<noteq> i
     then fail (Errorf_s ErrExternalConflict (''node '' @ node @ '' already bound to external id '' @ byNodeID))
     else
     check (if b \<noteq> [] then exec (sql_update_external i ext now)
            else exec_c (sql_insert_external \<lparr>ex_external_id = i, ex_node_id = node,
                   ex_external = ext, ex_created_at = now, ex_updated_at = now\<rparr>)) (\<lambda>_.
     exec (sql_set_resources_external ext node now)))) w1 = (Inr u, w')"
    using assms(1) unfolding bind_external_def by (elim check_InrE) (simp split: if_splits)
  obtain b2 w2 where 2: "run_state (scan_or_empty (\<lambda>d. map_option ext_ID (sql_external_of_node node d))) w1 = (Inr b2, w2)"
    and r2: "run_state (check (if b \<noteq> [] then exec (sql_update_external i ext now)
            else exec_c (sql_insert_external \<lparr>ex_external_id = i, ex_node_id = node,
                   ex_external = ext, ex_created_at = now, ex_updated_at = now\<rparr>)) (\<lambda>_.
     exec (sql_set_resources_external ext node now))) w2 = (Inr u, w')"
    using r1 by (elim check_InrE) (simp split: if_splits)
  obtain u3 w3 where 3: "run_state (if b \<noteq> [] then exec (sql_update_external i ext now)
            else exec_c (sql_insert_external \<lparr>ex_external_id = i, ex_node_id = node,
                   ex_external = ext, ex_created_at = now, ex_updated_at = now\<rparr>)) w2 = (Inr u3, w3)"
    and 4: "run_state (exec (sql_set_resources_external ext node now)) w3 = (Inr u, w')"
    using r2 by (rule check_InrE)
  have db: "w_db w1 = w_db w" "w_db w2 = w_db w"
    using run_scan_Inr [OF 1] run_scan_Inr [OF 2] by simp_all
  have "bound_row i node ext (w_db w) (sql_set_resources_external ext node now (w_db w3))"
  proof (rule bound_after_write [OF assms(2)])
    show "b = node \<and> map_option ext_NodeID (sql_get_external i (w_db w)) = Some b" if "b \<noteq> []"
      using run_scan_Inr [OF 1] c1 that by auto
    show "if b \<noteq> [] then w_db w3 = sql_update_external i ext now (w_db w)
         else sql_insert_external \<lparr>ex_external_id = i, ex_node_id = node, ex_external = ext,
            ex_created_at = now, ex_updated_at = now\<rparr> (w_db w) = Inr (w_db w3)"
      using 3 db run_exec_Inr run_exec_c_Inr by (cases "b = []") fastforce+
  qed
  with run_exec_Inr [OF 4] show ?thesis by simp
qed

lemma run_SetNodeExternal:
  assumes "run_state (repo_SetNodeExternal i node ext) w = (r, w')" "node \<noteq> []"
  shows "case r of Inl _ \<Rightarrow> w_db w' = w_db w | Inr _ \<Rightarrow> bound_row i node ext (w_db w) (w_db w')"
proof -
  obtain now w0 where 0: "w_db w0 = w_db w" "run_state (transaction (bind_external i node ext now)) w0 = (r, w')"
    using assms(1) unfolding repo_SetNodeExternal_def by (rule run_NowE)
  show ?thesis
  proof (cases r)
    case (Inl e)
    with run_transaction_Inl [of "bind_external i node ext now" w0 e w'] 0 show ?thesis by simp
  next
    case (Inr u)
    with 0 obtain w1 where 1: "run_state (bind_external i node ext now) (w0\<lparr>w_faults := tl (w_faults w0)\<rparr>) = (Inr u, w1)"
      "w_db w' = w_db w1" by (metis run_transaction_Inr)
    from run_bind_Inr [OF 1(1) assms(2)] 1(2) 0(1) Inr show ?thesis by simp
  qed
qed

lemma quiet_scan:
  assumes "quiet w"
  obtains w' where "run_state (scan_or_empty q) w = (Inr (case q (w_db w) of None \<Rightarrow> [] | Some s \<Rightarrow> s), w')"
    "w_db w' = w_db w" "quiet w'"
proof -
  obtain w' where "run_state (query_row q) w =
      (case q (w_db w) of None \<Rightarrow> Inl (sentinel_err ErrNoRows) | Some x \<Rightarrow> Inr x, w')"
    "w_db w' = w_db w" "quiet w'"
    using assms by (rule quiet_query_row)
  then show ?thesis
    by (intro that [of w']) (auto simp: scan_or_empty_def split: option.splits)
qed

lemma external_by_key:
  assumes "db_inv d" "x \<in> set (t_externals d)"
  shows "sql_get_external (ex_external_id x) d = Some (row_external x)"
    "sql_external_of_node (ex_node_id x) d = Some (row_external x)"
  using assms find_unique [of ex_external_id "t_externals d" x] find_unique [of ex_node_id "t_externals d" x]
  by (simp_all add: db_inv_def sql_get_external_def sql_external_of_node_def)

lemma external_by_keyD:
  "sql_get_external i d = Some x \<Longrightarrow> \<exists>r \<in> set (t_externals d). ex_external_id r = i \<and> x = row_external r"
  "sql_external_of_node n d = Some x \<Longrightarrow> \<exists>r \<in> set (t_externals d). ex_node_id r = n \<and> x = row_external r"
  by (auto simp: sql_get_external_def sql_external_of_node_def dest!: find_Some_in)

lemma bindable_lookup:
  assumes "bindable i node d"
  shows "sql_get_external i d = Some x \<Longrightarrow> ext_NodeID x = node"
    and "sql_external_of_node node d = Some y \<Longrightarrow> ext_ID y = i"
    and "sql_get_external i d = None \<Longrightarrow>
       i \<notin> ex_external_id ` set (t_externals d) \<and> node \<notin> ex_node_id ` set (t_externals d)"
proof -
  have same: "\<And>r. r \<in> set (t_externals d) \<Longrightarrow> ex_external_id r = i \<longleftrightarrow> ex_node_id r = node"
    using assms by (simp add: bindable_def)
  show "ext_NodeID x = node" if "sql_get_external i d = Some x"
    using external_by_keyD(1) [OF that] same by (auto simp: row_external_def)
  show "ext_ID y = i" if "sql_external_of_node node d = Some y"
    using external_by_keyD(2) [OF that] same by (auto simp: row_external_def)
  show "i \<notin> ex_external_id ` set (t_externals d) \<and> node \<notin> ex_node_id ` set (t_externals d)"
    if "sql_get_external i d = None"
  proof -
    have "i \<notin> ex_external_id ` set (t_externals d)"
      using that by (simp add: sql_get_external_def find_None_key)
    with same show ?thesis by blast
  qed
qed

lemma bound_bindable:
  assumes "bound_row i node ext d d'" "db_inv d" "db_inv d'"
  shows "bindable i node d"
  unfolding bindable_def
proof (intro conjI ballI)
  obtain x where "sql_get_external i d' = Some x" "ext_NodeID x = node"
    using assms(1) by (auto simp: bound_row_def)
  then obtain r where r: "r \<in> set (t_externals d')" "ex_external_id r = i" "ex_node_id r = node"
    by (auto dest!: external_by_keyD(1) simp: row_external_def)
  have "t_nodes d' = t_nodes d" using assms(1) by (simp add: bound_row_def)
  with r(1,3) assms(3) show "node \<in> nd_name ` set (t_nodes d)"
    by (force simp: db_inv_def)
  fix y assume y: "y \<in> set (t_externals d)"
  note gy = external_by_key(1) [OF assms(2) y]
  show "ex_external_id y = i \<longleftrightarrow> ex_node_id y = node"
  proof
    assume "ex_external_id y = i"
    with gy assms(1) show "ex_node_id y = node" by (auto simp: bound_row_def row_external_def)
  next
    assume n: "ex_node_id y = node"
    show "ex_external_id y = i"
    proof (rule ccontr)
      assume j: "ex_external_id y \<noteq> i"
      with gy assms(1) have "sql_get_external (ex_external_id y) d' = Some (row_external y)"
        by (simp add: bound_row_def)
      then obtain z where z: "z \<in> set (t_externals d')" "ex_external_id z = ex_external_id y" "row_external y = row_external z"
        using external_by_keyD(1) by metis
      from z(3) n have "ex_node_id z = node" by (simp add: row_external_def)
      then have "z = r"
        using distinct_map_inj [of ex_node_id "t_externals d'" z r] r z(1) assms(3) by (simp add: db_inv_def)
      with z(2) r(2) j show False by simp
    qed
  qed
qed

lemma quiet_bind_write:
  assumes "quiet w" "bindable i node (w_db w)" "node \<noteq> []"
  obtains w' where "run_state (if (case map_option ext_NodeID (sql_get_external i (w_db w)) of None \<Rightarrow> [] | Some s \<Rightarrow> s) \<noteq> []
      then exec (sql_update_external i ext now)
      else exec_c (sql_insert_external \<lparr>ex_external_id = i, ex_node_id = node, ex_external = ext,
        ex_created_at = now, ex_updated_at = now\<rparr>)) w = (Inr (), w')" "quiet w'"
proof (cases "sql_get_external i (w_db w)")
  case None
  let ?row = "\<lparr>ex_external_id = i, ex_node_id = node, ex_external = ext, ex_created_at = now, ex_updated_at = now\<rparr>"
  have "sql_insert_external ?row (w_db w) = Inr ((w_db w)\<lparr>t_externals := t_externals (w_db w) @ [?row]\<rparr>)"
    using bindable_lookup(3) [OF assms(2) None] assms(2) by (simp add: sql_insert_external_def bindable_def)
  with assms(1) obtain w3 where "run_state (exec_c (sql_insert_external ?row)) w = (Inr (), w3)" "quiet w3"
    by (rule quiet_exec_c)
  with None that show ?thesis by simp
next
  case (Some x)
  then have b: "ext_NodeID x \<noteq> []" using bindable_lookup(1) [OF assms(2)] assms(3) by simp
  obtain w3 where "run_state (exec (sql_update_external i ext now)) w = (Inr (), w3)" "quiet w3"
    using assms(1) by (rule quiet_exec)
  with b Some that show ?thesis by simp
qed

lemma quiet_bind:
  assumes "quiet w" "bindable i node (w_db w)" "i \<noteq> []" "node \<noteq> []"
  obtains w' where "run_state (bind_external i node ext now) w = (Inr (), w')" "quiet w'"
proof -
  let ?b = "case map_option ext_NodeID (sql_get_external i (w_db w)) of None \<Rightarrow> [] | Some s \<Rightarrow> s"
  obtain w1 where 1: "run_state (scan_or_empty (\<lambda>d. map_option ext_NodeID (sql_get_external i d))) w = (Inr ?b, w1)"
    "w_db w1 = w_db w" "quiet w1" using assms(1) by (rule quiet_scan)
  let ?c = "case map_option ext_ID (sql_external_of_node node (w_db w1)) of None \<Rightarrow> [] | Some s \<Rightarrow> s"
  obtain w2 where 2: "run_state (scan_or_empty (\<lambda>d. map_option ext_ID (sql_external_of_node node d))) w1 = (Inr ?c, w2)"
    "w_db w2 = w_db w1" "quiet w2" using 1(3) by (rule quiet_scan)
  have b: "bindable i node (w_db w2)" using assms(2) 1(2) 2(2) by simp
  have c1: "\<not> (?b \<noteq> [] \<and> ?b \<noteq> node)"
    using bindable_lookup(1) [OF assms(2)] by (auto split: option.splits)
  have c2: "\<not> (?c \<noteq> [] \<and> ?c \<noteq> i)"
    using bindable_lookup(2) [OF assms(2)] unfolding 1(2) by (auto split: option.splits)
  let ?stmt = "if ?b \<noteq> [] then exec (sql_update_external i ext now)
      else exec_c (sql_insert_external \<lparr>ex_external_id = i, ex_node_id = node, ex_external = ext,
        ex_created_at = now, ex_updated_at = now\<rparr>)"
  have same: "w_db w2 = w_db w" using 1(2) 2(2) by simp
  obtain w3 where 3: "run_state ?stmt w2 = (Inr (), w3)" "quiet w3"
    using quiet_bind_write [OF 2(3) b assms(4)] unfolding same by metis
  obtain w4 where 4: "run_state (exec (sql_set_resources_external ext node now)) w3 = (Inr (), w4)" "quiet w4"
    using 3(2) by (rule quiet_exec)
  have "run_state (bind_external i node ext now) w = (Inr (), w4)"
    unfolding bind_external_def run_check 1(1) prod.case sum.case if_not_P [OF c1] 2(1) if_not_P [OF c2] 3(1) 4(1) ..
  with 4(2) show ?thesis by (intro that)
qed

lemma quiet_transaction_bind:
  assumes "quiet w" "bindable i node (w_db w)" "i \<noteq> []" "node \<noteq> []"
  shows "fst (run_state (transaction (bind_external i node ext now)) w) = Inr ()"
proof -
  obtain w1 where 1: "run_state next_fault w = (None, w1)" "w_db w1 = w_db w" "quiet w1"
    using assms(1) by (rule quiet_next_fault)
  have b1: "bindable i node (w_db w1)" using assms(2) 1(2) by simp
  obtain w2 where 2: "run_state (bind_external i node ext now) w1 = (Inr (), w2)" "quiet w2"
    using 1(3) b1 assms(3,4) by (rule quiet_bind)
  obtain w3 where 3: "run_state next_fault w2 = (None, w3)" "w_db w3 = w_db w2" "quiet w3"
    using 2(2) by (rule quiet_next_fault)
  show ?thesis by (simp add: transaction_def 1(1) 2(1) 3(1))
qed

lemma bound_shown:
  assumes "bound_row i node ext d d'" "db_inv d'"
  shows "\<exists>n. sql_get_node node d' = Some n \<and> res_External (n_Resources n) = ext"
proof -
  obtain x where "sql_get_external i d' = Some x" "ext_NodeID x = node" "ext_External x = ext"
    using assms(1) by (auto simp: bound_row_def)
  then obtain r where r: "r \<in> set (t_externals d')" "ex_node_id r = node" "ex_external r = ext"
    by (auto dest!: external_by_keyD(1) simp: row_external_def)
  with assms(2) obtain m where m: "m \<in> set (t_nodes d')" "nd_name m = node"
    by (force simp: db_inv_def)
  have "find (\<lambda>z. nd_name z = node) (t_nodes d') = Some m" "find (\<lambda>z. ex_node_id z = node) (t_externals d') = Some r"
    using assms(2) m r by (intro find_unique; simp add: db_inv_def)+
  with m r show ?thesis by (simp add: sql_get_node_def join_node_def Let_def)
qed

text \<open>
  C29: binding an external is a transaction with a one-to-one check.  Whatever faults occur, an
  error leaves the database as it was, and success means that the trimmed id is bound to the
  node with the trimmed address, that the node shows that address, and that nothing else was
  bound differently.  Without faults it succeeds exactly when the three fields are not blank, the
  node is registered and neither the id nor the node is bound elsewhere.
\<close>

theorem UpsertExternalObject_correct:
  fixes req defines "i \<equiv> TrimSpace (ce_ID req)" and "node \<equiv> TrimSpace (eo_NodeID (ce_Spec req))"
    and "ext \<equiv> TrimSpace (eo_External (ce_Spec req))"
  assumes "db_inv (w_db w)" "run_state (UpsertExternalObject req) w = (r, w')"
  shows "(case r of
       Inl _ \<Rightarrow> w_db w' = w_db w
     | Inr _ \<Rightarrow> bound_row i node ext (w_db w) (w_db w') \<and>
         (\<exists>n. sql_get_node node (w_db w') = Some n \<and> res_External (n_Resources n) = ext)) \<and>
    (quiet w \<longrightarrow> (r = Inr ()) = (i \<noteq> [] \<and> node \<noteq> [] \<and> ext \<noteq> [] \<and> bindable i node (w_db w)))"
proof (cases "i \<noteq> [] \<and> node \<noteq> [] \<and> ext \<noteq> []")
  case False
  then have "\<exists>e. r = Inl e" "w' = w"
    using assms(5) by (auto simp: UpsertExternalObject_def Let_def i_def node_def ext_def split: if_splits)
  with False show ?thesis by auto
next
  case ne: True
  obtain g w1 where 1: "run_state (repo_GetNode node) w = (g, w1)" by (meson surj_pair)
  have db1: "w_db w1 = w_db w" using 1 unfolding repo_GetNode_def by (rule run_query_row_db)
  have run: "run_state (case g of Inl _ \<Rightarrow> fail (Errorf_s ErrInvalidInput ''referenced node not found'')
      | Inr _ \<Rightarrow> repo_SetNodeExternal i node ext) w1 = (r, w')"
    using assms(5) ne 1 by (simp add: UpsertExternalObject_def Let_def flip: i_def node_def ext_def)
  have inv': "db_inv (w_db w')"
    using evolves_inv [OF state_io_relD [OF evolve_externals(1) assms(5)] assms(4)] .
  have shown: "\<exists>n. sql_get_node node (w_db w') = Some n \<and> res_External (n_Resources n) = ext"
    if b: "bound_row i node ext (w_db w) (w_db w')" using bound_shown [OF b inv'] .
  have safe: "case r of Inl _ \<Rightarrow> w_db w' = w_db w | Inr _ \<Rightarrow> bound_row i node ext (w_db w) (w_db w')"
  proof (cases g)
    case (Inl e)
    with run db1 show ?thesis by auto
  next
    case (Inr n)
    with run have "run_state (repo_SetNodeExternal i node ext) w1 = (r, w')" by simp
    from run_SetNodeExternal [OF this] ne show ?thesis unfolding db1 by blast
  qed
  have "(r = Inr ()) = bindable i node (w_db w)" if q: "quiet w"
  proof
    assume "r = Inr ()"
    with safe have "bound_row i node ext (w_db w) (w_db w')" by simp
    then show "bindable i node (w_db w)" using assms(4) inv' by (rule bound_bindable)
  next
    assume b: "bindable i node (w_db w)"
    then have "sql_get_node node (w_db w) \<noteq> None"
      by (auto simp: bindable_def sql_get_node_def find_None_key)
    with 1 quiet_query_row [OF q, of "sql_get_node node"] obtain n where g: "g = Inr n" and q1: "quiet w1"
      unfolding repo_GetNode_def by (metis (mono_tags, lifting) not_None_eq option.case(2) prod.inject)
    obtain now w2 where 2: "run_state time_Now w1 = (now, w2)" "w_db w2 = w_db w1" "quiet w2"
      using q1 by (rule quiet_Now)
    have "run_state (transaction (bind_external i node ext now)) w2 = (r, w')"
      using run g 2(1) by (simp add: repo_SetNodeExternal_def)
    with quiet_transaction_bind [OF 2(3), of i node ext now] b ne db1 2(2) show "r = Inr ()" by simp
  qed
  with safe shown ne show ?thesis by (auto split: sum.splits)
qed

definition sample_bind :: "string \<Rightarrow> CreateExternalObjectRequest" where
  "sample_bind n = \<lparr>ce_ID = ''e2'', ce_Spec = \<lparr>eo_NodeID = n, eo_External = ''5.6.7.8''\<rparr>\<rparr>"

theorem UpsertExternalObject_correct_witness:
  "w_db (snd (run_state (UpsertExternalObject (sample_bind ''n1'')) sample_world)) = sample_db"
proof -
  obtain r w' where r: "run_state (UpsertExternalObject (sample_bind ''n1'')) sample_world = (r, w')"
    by (meson surj_pair)
  have t: "TrimSpace (ce_ID (sample_bind ''n1'')) = ''e2''" "TrimSpace (eo_NodeID (ce_Spec (sample_bind ''n1''))) = ''n1''"
    by (simp_all only: sample_bind_def CreateExternalObjectRequest.simps ExternalObjectSpec.simps) code_simp+
  have "\<not> bindable ''e2'' ''n1'' (w_db sample_world)"
    by (simp add: bindable_def sample_defs)
  with UpsertExternalObject_correct [OF sample_db_inv r] sample_quiet have "r \<noteq> Inr ()"
    unfolding t by blast
  then obtain e where "r = Inl e" by (cases r) auto
  with UpsertExternalObject_correct [OF sample_db_inv r] show ?thesis
    by (simp add: r) (simp add: sample_world_def)
qed

end
