(* ===== verification/Orch_Lifecycle_Props.thy ===== *)
theory Orch_Lifecycle_Props
  imports Orch_Lifecycle Orch_Sched_Props
begin

section \<open>sbxorch: what holds of creation, deletion and reconciliation\<close>

text \<open>
  Deletion is all or retried: it reports success only when the sandbox and its ports are gone, and
  otherwise leaves the sandbox Deleting for the next reconcile pass.  A reconcile pass removes the
  doomed sandboxes (Deleting, or past their expiry) and never any other.
\<close>

definition removed :: "string \<Rightarrow> database \<Rightarrow> bool" where
  "removed i d \<longleftrightarrow> sql_get_sandbox i d = None \<and> ports_of i d = []"

definition deleting :: "string \<Rightarrow> database \<Rightarrow> bool" where
  "deleting i d \<longleftrightarrow> (\<exists>s. sql_get_sandbox i d = Some s \<and> st_Phase (sbx_Status s) = SandboxPhaseDeleting)"

definition preserves :: "(database \<Rightarrow> bool) \<Rightarrow> database \<Rightarrow> database \<Rightarrow> bool" where
  "preserves Q d d' \<longleftrightarrow> (Q d \<longrightarrow> Q d')"

lemma preorder_preserves [evolve_intros]: "preorder_rel (preserves Q)"
  by (auto simp: preorder_rel_def reflp_def transp_def preserves_def)

lemma preservesD: "state_io_rel (db_rel (preserves Q)) m \<Longrightarrow> run_state m w = (r, w') \<Longrightarrow> Q (w_db w) \<Longrightarrow> Q (w_db w')"
  by (auto dest: state_io_relD simp: db_rel_def preserves_def)

lemma removed_adjust [evolve_intros]: "preserves (removed i) d (sql_adjust_usage n c m now d)"
  by (simp add: preserves_def removed_def)

lemma deleting_adjust [evolve_intros]: "preserves (deleting i) d (sql_adjust_usage n c m now d)"
  by (simp add: preserves_def deleting_def)

lemma deleting_ports [evolve_intros]: "preserves (deleting i) d (sql_delete_ports_of_sandbox j d)"
  by (simp add: preserves_def deleting_def)

lemma deleting_update:
  "st_Phase st = SandboxPhaseDeleting \<Longrightarrow> preserves (deleting i) d (sql_update_status j st now d)"
  by (auto simp: preserves_def deleting_def get_sandbox_update_status)

lemma adjust_preserves [evolve_intros]:
  assumes "\<And>d n c m now. preserves Q d (sql_adjust_usage n c m now d)"
  shows "state_io_rel (db_rel (preserves Q)) (repo_AdjustNodeResourceUsage n c m)"
  unfolding repo_AdjustNodeResourceUsage_def by (intro evolve_intros assms)

lemma removed_after_delete: "removed i (sql_delete_sandbox i (sql_delete_ports_of_sandbox i d))"
  unfolding removed_def
  by (intro conjI)
    (simp add: get_sandbox_delete, auto simp: ports_of_def sql_delete_sandbox_def
      sql_delete_ports_of_sandbox_def filter_empty_conv)

lemma repo_delete_ok:
  assumes "run_state (repo_DeleteSandbox i) w = (Inr u, w')"
  shows "removed i (w_db w')"
proof -
  obtain x w1 where 1: "run_state (exec (sql_delete_ports_of_sandbox i)) w = (Inr x, w1)"
    and 2: "run_state (exec (sql_delete_sandbox i)) w1 = (Inr u, w')"
    using assms unfolding repo_DeleteSandbox_def by (rule check_InrE)
  from run_exec_Inr [OF 1] run_exec_Inr [OF 2] show ?thesis
    by (simp add: removed_after_delete)
qed

lemma repo_delete_failed:
  assumes "run_state (repo_DeleteSandbox i) w = (Inl e, w')"
  shows "sql_get_sandbox j (w_db w') = sql_get_sandbox j (w_db w)"
  using assms unfolding repo_DeleteSandbox_def
  by (auto simp: run_check split: prod.splits sum.splits dest!: run_exec_Inr run_exec_Inl)

subsection \<open>Finalising a deletion\<close>

lemma record_error_result: "run_state (record_error sbx e) w = (r, w') \<Longrightarrow> r = Inl e"
  by (auto simp: record_error_def run_ignore)

lemma deleting_record_error:
  assumes "st_Phase (sbx_Status sbx) = SandboxPhaseDeleting"
  shows "state_io_rel (db_rel (preserves (deleting i))) (record_error sbx e)"
  unfolding record_error_def repo_UpdateSandboxStatus_def
  by (intro evolve_intros deleting_update) (simp add: assms)

lemma release_and_delete_ok:
  fixes svc :: "'e Service"
  assumes "run_state (release_and_delete svc sbx) w = (Inr u, w')"
  shows "removed (sbx_ID sbx) (w_db w')"
proof -
  obtain r w1 where 1: "run_state (repo_ReleaseSandboxPorts (sbx_ID sbx)) w = (r, w1)" by (meson surj_pair)
  show ?thesis
  proof (cases r)
    case (Inl e)
    with assms 1 have "run_state (record_error sbx e) w1 = (Inr u, w')"
      by (simp add: release_and_delete_def)
    then show ?thesis using record_error_result by fastforce
  next
    case (Inr x)
    show ?thesis
    proof (cases "st_NodeName (sbx_Status sbx) = []")
      case True
      with assms 1 Inr have "run_state (repo_DeleteSandbox (sbx_ID sbx)) w1 = (Inr u, w')"
        by (simp add: release_and_delete_def)
      then show ?thesis by (rule repo_delete_ok)
    next
      case False
      let ?k = "do { ignore (adjustNodeUsageForSandbox svc (st_NodeName (sbx_Status sbx)) (sbx_Spec sbx) (- 1)); ok () } :: ('e, unit) io"
      have "run_state (check (repo_DeleteSandbox (sbx_ID sbx)) (\<lambda>_. ?k)) w1 = (Inr u, w')"
        using assms 1 Inr False by (simp add: release_and_delete_def)
      then obtain y w2 where 2: "run_state (repo_DeleteSandbox (sbx_ID sbx)) w1 = (Inr y, w2)"
        "run_state ?k w2 = (Inr u, w')" by (rule check_InrE)
      have "state_io_rel (db_rel (preserves (removed (sbx_ID sbx)))) ?k" by (intro evolve_intros)
      from preservesD [OF this 2(2)] repo_delete_ok [OF 2(1)] show ?thesis by blast
    qed
  qed
qed

lemma release_and_delete_failed:
  assumes "run_state (release_and_delete svc sbx) w = (Inl e, w')"
    and "st_Phase (sbx_Status sbx) = SandboxPhaseDeleting" "deleting (sbx_ID sbx) (w_db w)"
  shows "deleting (sbx_ID sbx) (w_db w')"
proof -
  let ?i = "sbx_ID sbx"
  obtain r w1 where 1: "run_state (repo_ReleaseSandboxPorts ?i) w = (r, w1)" by (meson surj_pair)
  have "state_io_rel (db_rel (preserves (deleting ?i))) (repo_ReleaseSandboxPorts ?i)"
    unfolding repo_ReleaseSandboxPorts_def by (intro evolve_intros)
  from preservesD [OF this 1 assms(3)] have d1: "deleting ?i (w_db w1)" .
  show ?thesis
  proof (cases r)
    case (Inl e')
    with assms(1) 1 have "run_state (record_error sbx e') w1 = (Inl e, w')"
      by (simp add: release_and_delete_def)
    from preservesD [OF deleting_record_error [OF assms(2)] this d1] show ?thesis .
  next
    case (Inr x)
    with assms(1) 1 have "run_state (repo_DeleteSandbox ?i) w1 = (Inl e, w')"
      by (auto simp: release_and_delete_def run_check run_ignore split: if_splits prod.splits sum.splits)
    from repo_delete_failed [OF this] d1 show ?thesis by (simp add: deleting_def)
  qed
qed

lemma finalize_steps:
  assumes "run_state (finalizeSandboxDelete svc sbx) w = (r, w')"
  obtains w1 where "w_db w1 = w_db w" "quiet w \<Longrightarrow> quiet w1" "run_state (release_and_delete svc sbx) w1 = (r, w')"
  | w1 e where "w_db w1 = w_db w" "run_state (record_error sbx e) w1 = (r, w')"
proof (cases "st_NodeName (sbx_Status sbx) = []")
  case True
  with assms that(1) [of w] show ?thesis by (simp add: finalizeSandboxDelete_def)
next
  case False
  obtain c w1 where 1: "run_state (SandboxOpClientForNode (st_NodeName (sbx_Status sbx))) w = (c, w1)"
    by (meson surj_pair)
  then have s1: "same_db w w1" using same_db_client_for_node by blast
  show ?thesis
  proof (cases c)
    case (Inl e)
    with assms 1 False have "run_state (if errors_Is e ErrNoRows then release_and_delete svc sbx
        else record_error sbx e) w1 = (r, w')"
      by (simp add: finalizeSandboxDelete_def)
    with that s1 show ?thesis by (auto simp: same_db_def split: if_splits)
  next
    case (Inr cn)
    obtain client n where cn: "cn = (client, n)" by fastforce
    obtain x w2 where 2: "run_state (client_DeleteSandbox (svc_net svc) client (sbx_ID sbx)) w1 = (x, w2)"
      by (meson surj_pair)
    then have "same_db w1 w2" using same_db_client(5) by blast
    with s1 have s2: "same_db w w2" by (simp add: same_db_def)
    show ?thesis
    proof (cases x)
      case (Inl e)
      with assms 1 2 cn Inr False have "run_state (record_error sbx e) w2 = (r, w')"
        by (simp add: finalizeSandboxDelete_def)
      then show ?thesis using s2 by (intro that(2)) (simp_all add: same_db_def)
    next
      case Inr': (Inr y)
      with assms 1 2 cn Inr False have "run_state (release_and_delete svc sbx) w2 = (r, w')"
        by (simp add: finalizeSandboxDelete_def)
      then show ?thesis using s2 by (intro that(1)) (simp_all add: same_db_def)
    qed
  qed
qed

lemma finalize_ok:
  assumes "run_state (finalizeSandboxDelete svc sbx) w = (Inr u, w')"
  shows "removed (sbx_ID sbx) (w_db w')"
  using assms
proof (cases rule: finalize_steps)
  case (1 w1)
  then show ?thesis by (blast intro: release_and_delete_ok)
next
  case (2 w1 e)
  then show ?thesis using record_error_result by fastforce
qed

lemma finalize_failed:
  assumes "run_state (finalizeSandboxDelete svc sbx) w = (Inl e, w')"
    and "st_Phase (sbx_Status sbx) = SandboxPhaseDeleting" "deleting (sbx_ID sbx) (w_db w)"
  shows "deleting (sbx_ID sbx) (w_db w')"
  using assms(1)
proof (cases rule: finalize_steps)
  case (1 w1)
  then show ?thesis using release_and_delete_failed assms(2,3) by metis
next
  case (2 w1 e')
  then show ?thesis using preservesD [OF deleting_record_error [OF assms(2)]] assms(3) by metis
qed

subsection \<open>A reconcile pass\<close>

definition doomed :: "int \<Rightarrow> Sandbox \<Rightarrow> bool" where
  "doomed now s \<longleftrightarrow> st_Phase (sbx_Status s) = SandboxPhaseDeleting \<or>
     (case st_ExpireAt (sbx_Status s) of None \<Rightarrow> False | Some t \<Rightarrow> t < now)"

lemma doomed_expired: "doomed now s \<longleftrightarrow> st_Phase (sbx_Status s) = SandboxPhaseDeleting \<or> expired now (sbx_Status s)"
  by (simp add: doomed_def expired_def)

text \<open>An answer below 400 with an empty body or a JSON object; every agent accepts a deletion so.\<close>

definition accepting :: "GoError + Reply \<Rightarrow> bool" where
  "accepting a \<longleftrightarrow> (case a of Inl _ \<Rightarrow> False
     | Inr resp \<Rightarrow> rp_StatusCode resp < 400 \<and> (rp_raw resp = [] \<or> (case rp_object resp of Inl _ \<Rightarrow> False | Inr _ \<Rightarrow> True)))"

definition agents_accept_delete :: "'e Service \<Rightarrow> bool" where
  "agents_accept_delete svc \<longleftrightarrow> (\<forall>url e. accepting (fst (svc_net svc ''DELETE'' url NoBody e)))"

lemma client_do_accepting:
  assumes "\<And>e. accepting (fst (net meth (cl_baseURL c @ path) body e))"
    and "run_state (client_do net c meth path body) w = (r, w')"
  shows "\<exists>j. r = Inr j"
proof -
  obtain a env' where n: "net meth (cl_baseURL c @ path) body (w_env w) = (a, env')" by fastforce
  then have "accepting a" using assms(1) [of "w_env w"] by simp
  then obtain resp where a: "a = Inr resp" "\<not> 400 \<le> rp_StatusCode resp"
    "rp_raw resp = [] \<or> (\<exists>j. rp_object resp = Inr j)"
    by (cases a) (auto simp: accepting_def split: sum.splits)
  have "run_state (http_Do net meth (cl_baseURL c @ path) body) w = (Inr resp, w\<lparr>w_env := env'\<rparr>)"
    by (simp add: http_Do_def n a(1))
  then have "\<exists>x w1. run_state (doInto net c meth path body rp_object) w = (Inr x, w1)"
    using a(2,3) by (cases "rp_raw resp = []") (auto simp: doInto_def run_check Let_def)
  then show ?thesis
    using assms(2) unfolding client_do_def run_check by (auto split: option.splits)
qed

lemma accepted_delete:
  assumes "agents_accept_delete svc" "run_state (client_DeleteSandbox (svc_net svc) c i) w = (r, w')"
  shows "\<exists>j. r = Inr j"
  using assms unfolding client_DeleteSandbox_def agents_accept_delete_def
  by (blast intro: client_do_accepting)

lemma quiet_release_and_delete:
  assumes "quiet w"
  shows "\<exists>w'. run_state (release_and_delete svc sbx) w = (Inr (), w') \<and> quiet w'"
proof -
  let ?i = "sbx_ID sbx"
  obtain w1 where 1: "run_state (exec (sql_delete_ports_of_sandbox ?i)) w = (Inr (), w1)" "quiet w1"
    using assms by (rule quiet_exec)
  obtain w2 where 2: "run_state (exec (sql_delete_ports_of_sandbox ?i)) w1 = (Inr (), w2)" "quiet w2"
    using 1(2) by (rule quiet_exec)
  obtain w3 where 3: "run_state (exec (sql_delete_sandbox ?i)) w2 = (Inr (), w3)" "quiet w3"
    using 2(2) by (rule quiet_exec)
  obtain u w4 where 4: "run_state (ignore (adjustNodeUsageForSandbox svc (st_NodeName (sbx_Status sbx))
      (sbx_Spec sbx) (- 1))) w3 = (u, w4)" by (meson surj_pair)
  with quiet_adjust [OF 3(2) 4] 1 2 3 show ?thesis
    by (auto simp: release_and_delete_def repo_ReleaseSandboxPorts_def repo_DeleteSandbox_def run_check)
qed

lemma quiet_finalize:
  assumes "quiet w" "agents_accept_delete svc"
  shows "\<exists>w'. run_state (finalizeSandboxDelete svc sbx) w = (Inr (), w') \<and> quiet w'"
proof (cases "st_NodeName (sbx_Status sbx) = []")
  case True
  then show ?thesis
    using quiet_release_and_delete [OF assms(1)] by (simp add: finalizeSandboxDelete_def)
next
  case False
  let ?n = "st_NodeName (sbx_Status sbx)"
  obtain w1 where 1: "run_state (repo_GetNode ?n) w = (case sql_get_node ?n (w_db w) of
      None \<Rightarrow> Inl (sentinel_err ErrNoRows) | Some x \<Rightarrow> Inr x, w1)" "quiet w1"
    unfolding repo_GetNode_def using assms(1) by (rule quiet_query_row)
  show ?thesis
  proof (cases "sql_get_node ?n (w_db w)")
    case None
    then show ?thesis
      using 1 False quiet_release_and_delete [OF 1(2)]
      by (simp add: finalizeSandboxDelete_def SandboxOpClientForNode_def run_check)
  next
    case (Some n)
    obtain r w2 where 2: "run_state (client_DeleteSandbox (svc_net svc) (client_New (n_SbxletBaseURL n)) (sbx_ID sbx)) w1 = (r, w2)"
      "quiet w2"
      using same_db_client(5) 1(2) by (rule quiet_run)
    with accepted_delete [OF assms(2) 2(1)] show ?thesis
      using 1 Some False quiet_release_and_delete [OF 2(2)]
      by (auto simp: finalizeSandboxDelete_def SandboxOpClientForNode_def run_check)
  qed
qed

lemma quiet_reconcile_one:
  assumes "quiet w" "agents_accept_delete svc" "run_state (reconcile_one svc now s) w = (u, w')"
  shows "quiet w' \<and> (if doomed now s then removed (sbx_ID s) (w_db w') else w_db w' = w_db w)"
proof -
  have fin: "quiet w2 \<and> removed (sbx_ID t) (w_db w2)"
    if "quiet w1" "run_state (ignore (finalizeSandboxDelete svc t)) w1 = (v, w2)" for t v w1 w2
    using quiet_finalize [OF that(1) assms(2), of t] that(2) finalize_ok by (fastforce simp: run_ignore)
  show ?thesis
  proof (cases "st_Phase (sbx_Status s) = SandboxPhaseDeleting")
    case True
    then show ?thesis using fin assms(1,3) by (auto simp: reconcile_one_def doomed_expired)
  next
    case False
    show ?thesis
    proof (cases "expired now (sbx_Status s)")
      case True
      let ?st = "(sbx_Status s)\<lparr>st_Phase := SandboxPhaseDeleting, st_LastError := ''ttl expired''\<rparr>"
      obtain t w1 where 1: "run_state (repo_UpdateSandboxStatus (sbx_ID s) ?st) w = (Inr (), w1)" "quiet w1"
        using assms(1) by (rule quiet_update_status)
      have "run_state (ignore (finalizeSandboxDelete svc (s\<lparr>sbx_Status := ?st\<rparr>))) w1 = (u, w')"
        using assms(3) False True 1(1) by (simp add: reconcile_one_def Let_def run_ignore)
      from fin [OF 1(2) this] True show ?thesis by (simp add: doomed_expired)
    next
      case not: False
      then show ?thesis using False assms(1,3) by (simp add: reconcile_one_def doomed_expired)
    qed
  qed
qed

lemma reconcile_frame: "run_state (reconcile_one svc now s) w = (u, w') \<Longrightarrow> frame (sbx_ID s) (w_db w) (w_db w')"
  using frame_reconcile_one by (fastforce simp: db_rel_def)

lemma quiet_reconcile_all:
  assumes "quiet w" "agents_accept_delete svc" "run_state (for_each (reconcile_one svc now) ss) w = (u, w')"
  shows "sql_get_sandbox i (w_db w') =
      (if \<exists>s \<in> set ss. sbx_ID s = i \<and> doomed now s then None else sql_get_sandbox i (w_db w)) \<and>
    ports_of i (w_db w') =
      (if \<exists>s \<in> set ss. sbx_ID s = i \<and> doomed now s then [] else ports_of i (w_db w))"
  using assms(1,3)
proof (induction ss arbitrary: w)
  case Nil
  then show ?case by simp
next
  case (Cons s ss)
  obtain w1 where 1: "run_state (reconcile_one svc now s) w = ((), w1)"
    by (metis (full_types) old.unit.exhaust surj_pair)
  then have rest: "run_state (for_each (reconcile_one svc now) ss) w1 = (u, w')"
    using Cons.prems(2) by simp
  note one = quiet_reconcile_one [OF Cons.prems(1) assms(2) 1]
  note IH = Cons.IH [OF _ rest]
  show ?case
  proof (cases "sbx_ID s = i \<and> doomed now s")
    case True
    then show ?thesis using one IH by (auto simp: removed_def)
  next
    case False
    then have "sql_get_sandbox i (w_db w1) = sql_get_sandbox i (w_db w)" "ports_of i (w_db w1) = ports_of i (w_db w)"
      using one get_sandbox_frame [OF reconcile_frame [OF 1]] ports_of_frame [OF reconcile_frame [OF 1]]
      by (auto split: if_splits)
    then show ?thesis using one IH False by auto
  qed
qed

text \<open>A sandbox that is not doomed is not touched, whatever fails.\<close>

definition same_sandbox :: "string \<Rightarrow> database \<Rightarrow> database \<Rightarrow> bool" where
  "same_sandbox i d d' \<longleftrightarrow> sql_get_sandbox i d' = sql_get_sandbox i d \<and> ports_of i d' = ports_of i d"

lemma preorder_same_sandbox: "preorder_rel (same_sandbox i)"
  by (auto simp: preorder_rel_def reflp_def transp_def same_sandbox_def)

lemma reconcile_all_spares:
  assumes "run_state (for_each (reconcile_one svc now) ss) w = (u, w')"
    and "\<And>s. s \<in> set ss \<Longrightarrow> sbx_ID s = i \<Longrightarrow> \<not> doomed now s"
  shows "same_sandbox i (w_db w) (w_db w')"
  using assms
proof (induction ss arbitrary: w)
  case Nil
  then show ?case by (simp add: same_sandbox_def)
next
  case (Cons s ss)
  obtain w1 where 1: "run_state (reconcile_one svc now s) w = ((), w1)"
    by (metis (full_types) old.unit.exhaust surj_pair)
  then have rest: "run_state (for_each (reconcile_one svc now) ss) w1 = (u, w')"
    using Cons.prems(1) by simp
  have "same_sandbox i (w_db w) (w_db w1)"
  proof (cases "sbx_ID s = i")
    case True
    then have "\<not> doomed now s" using Cons.prems(2) by simp
    with 1 show ?thesis by (simp add: reconcile_one_def doomed_expired same_sandbox_def)
  next
    case False
    then show ?thesis
      using get_sandbox_frame [OF reconcile_frame [OF 1]] ports_of_frame [OF reconcile_frame [OF 1]]
      by (simp add: same_sandbox_def)
  qed
  moreover have "same_sandbox i (w_db w1) (w_db w')"
    using Cons.IH [OF rest] Cons.prems(2) by simp
  ultimately show ?case by (simp add: same_sandbox_def)
qed

subsection \<open>Properties\<close>


definition sample_deleting :: Sandbox where
  "sample_deleting = (row_sandbox sample_running)\<lparr>sbx_Status :=
     (sbx_Status (row_sandbox sample_running))\<lparr>st_Phase := SandboxPhaseDeleting\<rparr>\<rparr>"

definition sample_deleting_world :: "unit world" where
  "sample_deleting_world = sample_world\<lparr>w_db := sql_update_status ''a'' (sbx_Status sample_deleting) 9 sample_db\<rparr>"

lemma sample_deleting_facts:
  "sbx_ID sample_deleting = ''a''" "st_Phase (sbx_Status sample_deleting) = SandboxPhaseDeleting"
  "deleting ''a'' (w_db sample_deleting_world)"
proof -
  show "sbx_ID sample_deleting = ''a''" "st_Phase (sbx_Status sample_deleting) = SandboxPhaseDeleting"
    by (simp_all add: sample_deleting_def row_sandbox_def sample_running_def)
  moreover have "sql_get_sandbox ''a'' sample_db = Some (row_sandbox sample_running)"
    by (simp add: sql_get_sandbox_def sample_db_def sample_running_def)
  ultimately show "deleting ''a'' (w_db sample_deleting_world)"
    by (simp add: deleting_def sample_deleting_world_def get_sandbox_update_status)
qed


text \<open>
  C18: a reconcile pass never touches a sandbox that is neither Deleting nor past its expiry at the
  time of the pass: its record and its ports are the same afterwards, whatever faults the database
  has and whatever the agents answer.
\<close>

theorem reconcile_spares:
  assumes "db_inv (w_db w)" "sql_get_sandbox i (w_db w) = Some s"
    and "st_Phase (sbx_Status s) \<noteq> SandboxPhaseDeleting" "\<forall>t. st_ExpireAt (sbx_Status s) = Some t \<longrightarrow> w_clock w \<le> t"
  shows "same_sandbox i (w_db w) (w_db (snd (run_state (runSandboxReconcileOnce svc) w)))"
proof -
  obtain l w1 where 1: "run_state repo_ListSandboxes w = (l, w1)" by (meson surj_pair)
  have w1: "w_db w1 = w_db w" "w_clock w1 = w_clock w"
    using 1 by (auto simp: repo_ListSandboxes_def query_def run_next_fault split: option.splits)
  show ?thesis
  proof (cases l)
    case (Inl e)
    then show ?thesis using 1 w1 by (simp add: runSandboxReconcileOnce_def same_sandbox_def)
  next
    case (Inr ss)
    then have ss: "ss = sql_list_sandboxes (w_db w)"
      using 1 run_query_Inr [of sql_list_sandboxes w ss w1] unfolding repo_ListSandboxes_def by simp
    obtain now w2 where 2: "run_state time_Now w1 = (now, w2)" by (meson surj_pair)
    then have w2: "now = w_clock w" "w_db w2 = w_db w" using w1 by (auto simp: run_time_Now)
    obtain u w' where 3: "run_state (for_each (reconcile_one svc now) ss) w2 = (u, w')" by (meson surj_pair)
    have "t = s" if "t \<in> set ss" "sbx_ID t = i" for t
    proof -
      have "sql_get_sandbox (sbx_ID t) (w_db w) = Some t"
        using that(1) ss list_get_sandbox [OF assms(1)] by blast
      with that(2) assms(2) show ?thesis by simp
    qed
    then have "same_sandbox i (w_db w2) (w_db w')"
      using assms(3,4) w2(1) by (intro reconcile_all_spares [OF 3]) (force simp: doomed_def split: option.splits)
    then show ?thesis
      using 1 2 3 Inr w2 by (simp add: runSandboxReconcileOnce_def)
  qed
qed

theorem reconcile_spares_witness:
  "same_sandbox ''b'' (w_db sample_world) (w_db (snd (run_state (runSandboxReconcileOnce sample_service) sample_world)))"
  by (rule reconcile_spares [OF sample_db_inv sample_get_b])
    (simp_all add: row_sandbox_def sample_pending_def zero_status_def)

text \<open>
  C7: when the database does not fail and the agents accept deletions, one reconcile pass removes
  every sandbox that is Deleting or past its expiry, with its ports, and keeps every other one
  exactly as it was.
\<close>

theorem reconcile_complete:
  assumes "quiet w" "db_inv (w_db w)" "agents_accept_delete svc"
    and "run_state (runSandboxReconcileOnce svc) w = (u, w')"
  shows "sql_get_sandbox i (w_db w') = (case sql_get_sandbox i (w_db w) of
       None \<Rightarrow> None | Some s \<Rightarrow> if doomed (w_clock w) s then None else Some s)"
proof -
  let ?ss = "sql_list_sandboxes (w_db w)"
  obtain w1 where 1: "run_state repo_ListSandboxes w = (Inr ?ss, w1)" "w_db w1 = w_db w" "quiet w1"
    unfolding repo_ListSandboxes_def using assms(1) by (rule quiet_query)
  have c: "w_clock w1 = w_clock w"
    using 1(1) by (auto simp: repo_ListSandboxes_def query_def run_next_fault split: option.splits)
  obtain now w2 where 2: "run_state time_Now w1 = (now, w2)" "w_db w2 = w_db w1" "quiet w2"
    using 1(3) by (rule quiet_Now)
  then have now: "now = w_clock w" using c by (auto simp: run_time_Now)
  have 3: "run_state (for_each (reconcile_one svc now) ?ss) w2 = (u, w')"
    using assms(4) 1(1) 2(1) by (simp add: runSandboxReconcileOnce_def)
  have "(\<exists>s \<in> set ?ss. sbx_ID s = i \<and> doomed now s) \<longleftrightarrow>
      (\<exists>s. sql_get_sandbox i (w_db w) = Some s \<and> doomed now s)"
    using list_get_sandbox [OF assms(2)] get_sandbox_Some_id by blast
  then show ?thesis
    using quiet_reconcile_all [OF 2(3) assms(3) 3, of i] 1(2) 2(2) now by (auto split: option.splits)
qed

theorem reconcile_complete_witness:
  "sql_get_sandbox ''a'' (w_db (snd (run_state (runSandboxReconcileOnce sample_service) sample_deleting_world))) = None"
proof -
  have q: "quiet sample_deleting_world"
    by (simp add: quiet_def sample_deleting_world_def sample_world_def)
  have i: "db_inv (w_db sample_deleting_world)"
    using inv_update_status [of sample_db] sample_db_inv by (simp add: sample_deleting_world_def sample_world_def)
  have a: "agents_accept_delete sample_service"
    by (simp add: agents_accept_delete_def accepting_def sample_service_def sample_reply_def)
  obtain s where s: "sql_get_sandbox ''a'' (w_db sample_deleting_world) = Some s"
      "st_Phase (sbx_Status s) = SandboxPhaseDeleting"
    using sample_deleting_facts(3) unfolding deleting_def by blast
  show ?thesis
    using reconcile_complete [OF q i a prod.collapse [symmetric], of "''a''"] s by (simp add: doomed_expired)
qed

end
