(* ===== verification/Orch_NodeOps_Props.thy ===== *)
theory Orch_NodeOps_Props
  imports Orch_Nodes_Props Orch_Lifecycle_Props
begin

section \<open>sbxorch: registering, synchronising and deleting nodes\<close>

text \<open>
  What the node operations leave in the database when it does not fail: resource reports keep
  the external address, a registered node can be read back, and deleting a node leaves no
  sandbox running on it.
\<close>

subsection \<open>Deleting a node: one sandbox\<close>

definition detached :: "string \<Rightarrow> Sandbox \<Rightarrow> database \<Rightarrow> database \<Rightarrow> bool" where
  "detached node s d d' \<longleftrightarrow>
     (let i = sbx_ID s; p = st_Phase (sbx_Status s) in
      if st_NodeName (sbx_Status s) \<noteq> node then sql_get_sandbox i d' = sql_get_sandbox i d
      else ports_of i d' = [] \<and>
        (if p = SandboxPhaseDeleting then sql_get_sandbox i d' = None
         else if p = SandboxPhaseRunning \<or> p = SandboxPhaseScheduled
         then \<exists>t. sql_get_sandbox i d' = map_option (\<lambda>x. x\<lparr>sbx_Status := detached_status (sbx_Status s),
                sbx_UpdatedAt := t\<rparr>) (sql_get_sandbox i d)
         else sql_get_sandbox i d' = sql_get_sandbox i d))"

lemma frame_detach_one [evolve_intros]:
  "state_io_rel (db_rel (frame (sbx_ID s))) (detach_one svc node force client s)"
  unfolding detach_one_def by (intro evolve_intros)

lemma status_json_detached [simp]: "status_json (detached_status st) = detached_status st"
  by (simp add: detached_status_def status_json_def)

lemma same_db_agent_delete: "state_io_rel same_db (case client of None \<Rightarrow> ok ()
    | Some c \<Rightarrow> check (client_DeleteSandbox (svc_net svc) c i) (\<lambda>_. ok ()))"
  by (intro evolve_intros)

lemma ports_of_delete_sandbox:
  "ports_of i (sql_delete_sandbox i (sql_delete_ports_of_sandbox i d)) = []"
  using removed_after_delete [of i d] by (simp add: removed_def)

lemma quiet_detach_one:
  assumes "quiet w" "run_state (detach_one svc node force client s) w = (r, w')"
  shows "quiet w' \<and> (force \<and> client = None \<longrightarrow> r = Inr ()) \<and> (r = Inr () \<longrightarrow> detached node s (w_db w) (w_db w'))"
proof (cases "st_NodeName (sbx_Status s) = node")
  case False
  with assms show ?thesis by (auto simp: detach_one_def detached_def Let_def)
next
  case on: True
  let ?i = "sbx_ID s" and ?p = "st_Phase (sbx_Status s)"
  obtain w1 where 1: "run_state (repo_ReleaseSandboxPorts ?i) w = (Inr (), w1)"
    "w_db w1 = sql_delete_ports_of_sandbox ?i (w_db w)" "quiet w1"
    unfolding repo_ReleaseSandboxPorts_def using assms(1) by (rule quiet_exec)
  consider (del) "?p = SandboxPhaseDeleting" | (run) "?p = SandboxPhaseRunning \<or> ?p = SandboxPhaseScheduled"
    | (other) "?p \<noteq> SandboxPhaseDeleting" "\<not> (?p = SandboxPhaseRunning \<or> ?p = SandboxPhaseScheduled)" by blast
  then show ?thesis
  proof cases
    case del
    obtain w2 where 2: "run_state (exec (sql_delete_ports_of_sandbox ?i)) w1 = (Inr (), w2)"
      "w_db w2 = sql_delete_ports_of_sandbox ?i (w_db w1)" "quiet w2" using 1(3) by (rule quiet_exec)
    obtain w3 where 3: "run_state (exec (sql_delete_sandbox ?i)) w2 = (Inr (), w3)"
      "w_db w3 = sql_delete_sandbox ?i (w_db w2)" "quiet w3" using 2(3) by (rule quiet_exec)
    have "r = Inr () \<and> w' = w3"
      using assms(2) on del 1(1) 2(1) 3(1)
      by (simp add: detach_one_def run_ignore repo_DeleteSandbox_def run_check)
    then show ?thesis
      using on del 3(3) by (simp add: detached_def Let_def 3(2) 2(2) ports_of_delete_sandbox get_sandbox_delete)
  next
    case run
    obtain a w2 where 2: "run_state (case client of None \<Rightarrow> ok ()
      | Some c \<Rightarrow> check (client_DeleteSandbox (svc_net svc) c ?i) (\<lambda>_. ok ())) w1 = (a, w2)"
      "w_db w2 = w_db w1" "quiet w2"
      using same_db_agent_delete 1(3) by (rule quiet_run)
    obtain t w3 where 3: "run_state (repo_UpdateSandboxStatus ?i (detached_status (sbx_Status s))) w2 = (Inr (), w3)"
      "w_db w3 = sql_update_status ?i (detached_status (sbx_Status s)) t (w_db w2)" "quiet w3"
      using 2(3) by (rule quiet_update_status)
    have "if (\<exists>e. a = Inl e) \<and> \<not> force then (\<exists>e. r = Inl e) \<and> w' = w2 else r = Inr () \<and> w' = w3"
      using assms(2) on run 1(1) 2(1) 3(1)
      by (cases a) (auto simp: detach_one_def run_ignore)
    then show ?thesis
      using on run 2(3) 3(3)
      by (auto simp: detached_def Let_def 3(2) 2(2) 1(2) ports_of_delete get_sandbox_update_status split: if_splits)
  next
    case other
    then have "r = Inr () \<and> w' = w1"
      using assms(2) on 1(1) by (simp add: detach_one_def run_ignore)
    then show ?thesis
      using on other 1(3) by (simp add: detached_def Let_def 1(2) ports_of_delete)
  qed
qed

lemma detach_frame: "run_state (detach_one svc node force client s) w = (r, w') \<Longrightarrow> frame (sbx_ID s) (w_db w) (w_db w')"
  using frame_detach_one by (fastforce simp: db_rel_def)

lemma detached_cong:
  assumes "sql_get_sandbox (sbx_ID s) d1 = sql_get_sandbox (sbx_ID s) d"
    and "sql_get_sandbox (sbx_ID s) d2 = sql_get_sandbox (sbx_ID s) d'" "ports_of (sbx_ID s) d2 = ports_of (sbx_ID s) d'"
  shows "detached node s d1 d2 = detached node s d d'"
  using assms by (simp add: detached_def Let_def)

lemma quiet_detach_all:
  assumes "quiet w" "run_state (for_each_err (detach_one svc node force client) ss) w = (r, w')" "distinct (map sbx_ID ss)"
  shows "quiet w' \<and> (force \<and> client = None \<longrightarrow> r = Inr ()) \<and>
    (r = Inr () \<longrightarrow> (\<forall>s \<in> set ss. detached node s (w_db w) (w_db w'))) \<and>
    (\<forall>i. i \<notin> sbx_ID ` set ss \<longrightarrow> sql_get_sandbox i (w_db w') = sql_get_sandbox i (w_db w) \<and>
       ports_of i (w_db w') = ports_of i (w_db w))"
  using assms
proof (induction ss arbitrary: w)
  case Nil
  then show ?case by simp
next
  case (Cons s ss)
  obtain a w1 where 1: "run_state (detach_one svc node force client s) w = (a, w1)" by (meson surj_pair)
  note one = quiet_detach_one [OF Cons.prems(1) 1]
  have other: "sql_get_sandbox i (w_db w1) = sql_get_sandbox i (w_db w)" "ports_of i (w_db w1) = ports_of i (w_db w)"
    if "i \<noteq> sbx_ID s" for i
    using get_sandbox_frame [OF detach_frame [OF 1] that] ports_of_frame [OF detach_frame [OF 1] that] .
  show ?case
  proof (cases a)
    case (Inl e)
    then have "r = Inl e" "w' = w1" using Cons.prems(2) 1 by (simp_all add: run_check)
    with one other Inl show ?thesis by auto
  next
    case (Inr u)
    then have rest: "run_state (for_each_err (detach_one svc node force client) ss) w1 = (r, w')"
      using Cons.prems(2) 1 by (simp add: run_check)
    have fresh: "sbx_ID s \<notin> sbx_ID ` set ss" "distinct (map sbx_ID ss)" using Cons.prems(3) by auto
    note IH = Cons.IH [OF _ rest fresh(2)]
    have q1: "quiet w1" using one by simp
    have head: "detached node s (w_db w) (w_db w')" if "r = Inr ()"
      using one Inr detached_cong [of s "w_db w" "w_db w" "w_db w'" "w_db w1"] IH [OF q1] fresh(1) by simp
    have tail: "detached node t (w_db w) (w_db w')" if "r = Inr ()" "t \<in> set ss" for t
    proof -
      have "sbx_ID t \<noteq> sbx_ID s" using fresh(1) that(2) by (metis imageI)
      with detached_cong [OF other(1) refl refl] have "detached node t (w_db w1) (w_db w') = detached node t (w_db w) (w_db w')" .
      with IH [OF q1] that show ?thesis by blast
    qed
    show ?thesis
      using IH [OF q1] head tail other by auto
  qed
qed

subsection \<open>Deleting a node: the whole\<close>

definition node_gone :: "string \<Rightarrow> database \<Rightarrow> bool" where
  "node_gone i d \<longleftrightarrow> sql_get_node i d = None \<and> i \<notin> ns_name ` set (t_status d) \<and>
     i \<notin> nr_name ` set (t_resources d) \<and> i \<notin> pt_node_name ` set (t_ports d) \<and>
     i \<notin> ex_node_id ` set (t_externals d)"

lemma node_tables_gone:
  assumes "db_inv d"
  shows "node_gone i (sql_delete_node i (sql_delete_status i (sql_delete_resources i (sql_delete_ports_of_node i d))))"
proof -
  have "i \<notin> ex_node_id ` set (t_externals d)" if "i \<notin> nd_name ` set (t_nodes d)"
    using assms that unfolding db_inv_def by auto
  then show ?thesis
    by (auto simp: node_gone_def sql_get_node_def find_None_key sql_delete_node_def sql_delete_status_def
        sql_delete_resources_def sql_delete_ports_of_node_def)
qed

lemma node_tables_sandboxes:
  "sql_get_sandbox j (sql_delete_node i (sql_delete_status i (sql_delete_resources i (sql_delete_ports_of_node i d)))) =
     sql_get_sandbox j d"
  "ports_of j (sql_delete_node i (sql_delete_status i (sql_delete_resources i (sql_delete_ports_of_node i d)))) =
     filter (\<lambda>p. pt_node_name p \<noteq> i) (ports_of j d)"
  by (auto simp: sql_get_sandbox_def ports_of_def sql_delete_node_def sql_delete_status_def
      sql_delete_resources_def sql_delete_ports_of_node_def intro: filter_cong)

lemma quiet_repo_delete_node:
  assumes "quiet w"
  obtains w' where "run_state (repo_DeleteNode i) w = (Inr (), w')" "quiet w'"
    "w_db w' = sql_delete_node i (sql_delete_status i (sql_delete_resources i (sql_delete_ports_of_node i (w_db w))))"
proof -
  obtain w1 where 1: "run_state (exec (sql_delete_ports_of_node i)) w = (Inr (), w1)"
    "w_db w1 = sql_delete_ports_of_node i (w_db w)" "quiet w1" using assms by (rule quiet_exec)
  obtain w2 where 2: "run_state (exec (sql_delete_resources i)) w1 = (Inr (), w2)"
    "w_db w2 = sql_delete_resources i (w_db w1)" "quiet w2" using 1(3) by (rule quiet_exec)
  obtain w3 where 3: "run_state (exec (sql_delete_status i)) w2 = (Inr (), w3)"
    "w_db w3 = sql_delete_status i (w_db w2)" "quiet w3" using 2(3) by (rule quiet_exec)
  obtain w4 where 4: "run_state (exec (sql_delete_node i)) w3 = (Inr (), w4)"
    "w_db w4 = sql_delete_node i (w_db w3)" "quiet w4" using 3(3) by (rule quiet_exec)
  show ?thesis
    by (rule that [of w4]) (simp_all add: repo_DeleteNode_def run_check 1 2 3 4)
qed

definition delete_client :: "bool \<Rightarrow> GoError + (Client \<times> Node) \<Rightarrow> Client option" where
  "delete_client force c = (if force then None else case c of Inl _ \<Rightarrow> None | Inr (cl, _) \<Rightarrow> Some cl)"

lemma quiet_detachNode:
  assumes "quiet w" "db_inv (w_db w)" "run_state (detachNodeSandboxes svc node force) w = (r, w')"
  shows "quiet w' \<and> (force \<longrightarrow> r = Inr ()) \<and>
    (r = Inr () \<longrightarrow> (\<forall>s \<in> set (sql_list_sandboxes (w_db w)). detached node s (w_db w) (w_db w')))"
proof -
  obtain c w1 where 1: "run_state (SandboxOpClientForNode node) w = (c, w1)" "w_db w1 = w_db w" "quiet w1"
    using same_db_client_for_node assms(1) by (rule quiet_run)
  obtain w2 where 2: "run_state repo_ListSandboxes w1 = (Inr (sql_list_sandboxes (w_db w1)), w2)"
    "w_db w2 = w_db w1" "quiet w2"
    unfolding repo_ListSandboxes_def using 1(3) by (rule quiet_query)
  let ?items = "sql_list_sandboxes (w_db w1)" and ?cl = "delete_client force c"
  obtain a w3 where 3: "run_state (for_each_err (detach_one svc node force ?cl) ?items) w2 = (a, w3)" by (meson surj_pair)
  have dist: "distinct (map sbx_ID ?items)"
    using assms(2) 1(2) by (simp add: sql_list_sandboxes_def db_inv_def row_sandbox_def comp_def)
  note all = quiet_detach_all [OF 2(3) 3 dist]
  let ?rec = "reconcile_detached svc node force ?cl"
  have same: "state_io_rel same_db ?rec" unfolding reconcile_detached_def by (intro evolve_intros)
  obtain b w4 where 4: "run_state ?rec w3 = (b, w4)" by (meson surj_pair)
  have w4: "w_db w4 = w_db w3 \<and> quiet w4" using same_dbD [OF same 4] all by blast
  show ?thesis
  proof (cases "(\<exists>e. c = Inl e) \<and> \<not> force")
    case True
    then have "(\<exists>e. r = Inl e) \<and> w' = w1" using assms(3) 1(1) by (auto simp: detachNodeSandboxes_def)
    with True 1(3) show ?thesis by auto
  next
    case False
    have "run_state (check (for_each_err (detach_one svc node force ?cl) ?items) (\<lambda>_. ?rec)) w2 = (r, w')"
      using False assms(3) 1(1) 2(1)
      by (cases c; cases force) (auto simp: detachNodeSandboxes_def run_check delete_client_def Let_def)
    then have "case a of Inl e \<Rightarrow> r = Inl e \<and> w' = w3 | Inr _ \<Rightarrow> r = b \<and> w' = w4"
      using 3 4 by (cases a) (auto simp: run_check)
    moreover have "b = Inr ()" if force using 4 that by (simp add: delete_client_def reconcile_detached_def)
    ultimately show ?thesis
      using all w4 1(2) 2(2) by (cases a) (auto simp: delete_client_def)
  qed
qed



subsection \<open>Registering\<close>

text \<open>The address a node was registered under.\<close>

definition registered :: "string \<Rightarrow> string \<Rightarrow> int \<Rightarrow> database \<Rightarrow> bool" where
  "registered i ip port d \<longleftrightarrow> (\<exists>r. find (\<lambda>r. nd_name r = i) (t_nodes d) = Some r \<and> nd_ip r = ip \<and> nd_port r = port)"

lemma registered_upsert: "registered i ip port (sql_upsert_node i ip port src now d)"
proof (cases "i \<in> nd_name ` set (t_nodes d)")
  case True
  let ?g = "\<lambda>r. r\<lparr>nd_ip := ip, nd_port := port, nd_source := src, nd_updated_at := now\<rparr>"
  have "find (\<lambda>r. nd_name r = i) (t_nodes d) \<noteq> None"
    using True by (simp only: find_None_key not_not)
  then obtain r where r: "find (\<lambda>r. nd_name r = i) (t_nodes d) = Some r" by blast
  have "find (\<lambda>r. nd_name r = i) (map (\<lambda>r. if nd_name r = i then ?g r else r) (t_nodes d)) = Some (?g r)"
    using find_map_update [where f = nd_name and g = ?g and i = i and j = i and xs = "t_nodes d"] r by simp
  moreover have "t_nodes (sql_upsert_node i ip port src now d) = map (\<lambda>r. if nd_name r = i then ?g r else r) (t_nodes d)"
    using True by (simp add: sql_upsert_node_def)
  ultimately show ?thesis unfolding registered_def by (intro exI [of _ "?g r"]) simp
next
  case False
  let ?r = "\<lparr>nd_name = i, nd_ip = ip, nd_port = port, nd_source = src, nd_created_at = now, nd_updated_at = now\<rparr>"
  have "t_nodes (sql_upsert_node i ip port src now d) = t_nodes d @ [?r]"
    using False by (simp add: sql_upsert_node_def)
  moreover have "find (\<lambda>r. nd_name r = i) (t_nodes d @ [?r]) = Some ?r"
    using find_added [where f = nd_name and row = ?r, OF _ False, of i] by simp
  ultimately show ?thesis unfolding registered_def by (intro exI [of _ ?r]) simp
qed

definition nodes_kept :: "database \<Rightarrow> database \<Rightarrow> bool" where
  "nodes_kept d d' \<longleftrightarrow> t_nodes d' = t_nodes d"

lemma preorder_nodes_kept [evolve_intros]: "preorder_rel nodes_kept"
  by (auto simp: preorder_rel_def reflp_def transp_def nodes_kept_def)

lemma nodes_kept_stmts [evolve_intros]:
  "nodes_kept d (sql_init_status i now d)"
  "nodes_kept d (sql_init_resources i now d)"
  "nodes_kept d (sql_upsert_heartbeat i st a b e t now d)"
  "nodes_kept d (sql_upsert_resources i res now d)"
  by (simp_all add: nodes_kept_def sql_init_status_def sql_init_resources_def sql_upsert_heartbeat_def
      sql_upsert_resources_def Let_def)

lemma nodes_kept_probe [evolve_intros]:
  "state_io_rel (db_rel nodes_kept) (probeNode svc n)"
  "state_io_rel (db_rel nodes_kept) (syncNodeResources svc n)"
  unfolding probeNode_def syncNodeResources_def Let_def repo_UpdateHeartbeat_def repo_UpdateNodeResources_def
  by (intro evolve_intros)+

lemma registered_kept: "nodes_kept d d' \<Longrightarrow> registered i ip port d' = registered i ip port d"
  by (simp add: nodes_kept_def registered_def)

lemma registered_get:
  assumes "registered i ip port d" "sql_get_node i d = Some n"
  shows "n_ID n = i \<and> n_IP n = ip \<and> n_Port n = port \<and> n_SbxletBaseURL n = ''http://'' @ ip @ '':'' @ show_int port"
proof -
  obtain r where r: "find (\<lambda>r. nd_name r = i) (t_nodes d) = Some r" "nd_ip r = ip" "nd_port r = port"
    using assms(1) by (auto simp: registered_def)
  then have "nd_name r = i" by (auto dest: find_Some_in)
  moreover have "n = join_node d r" using assms(2) r(1) by (simp add: sql_get_node_def)
  ultimately show ?thesis using r(2,3) by (simp add: join_node_def Let_def)
qed

text \<open>
  Registering a node refuses exactly the invalid inputs, before it touches anything, and a
  success answers the stored node with the requested id, address, port and the URL its agent is
  called at.  A node object is registered under its trimmed id and address.
\<close>

theorem RegisterNode_correct:
  assumes "run_state (RegisterNode svc req src) w = (r, w')"
  shows "case r of
      Inl e \<Rightarrow> \<not> (TrimSpace (rn_ID req) \<noteq> [] \<and> ParseIP_ok (TrimSpace (rn_IP req)) \<and> 1 \<le> rn_Port req \<and> rn_Port req \<le> 65535)
        \<longrightarrow> errors_Is e ErrInvalidInput \<and> w' = w
    | Inr n \<Rightarrow> TrimSpace (rn_ID req) \<noteq> [] \<and> ParseIP_ok (TrimSpace (rn_IP req)) \<and> 1 \<le> rn_Port req \<and> rn_Port req \<le> 65535 \<and>
        sql_get_node (rn_ID req) (w_db w') = Some n \<and> n_ID n = rn_ID req \<and> n_IP n = rn_IP req \<and> n_Port n = rn_Port req \<and>
        n_SbxletBaseURL n = ''http://'' @ rn_IP req @ '':'' @ show_int (rn_Port req)"
proof (cases "validateNodeInput (rn_ID req) (rn_IP req) (rn_Port req)")
  case (Some e)
  then have "r = Inl e" "w' = w" using assms by (simp_all add: RegisterNode_def)
  with validateNodeInput_error [OF Some] show ?thesis by simp
next
  case None
  note valid = None [unfolded validateNodeInput_None]
  show ?thesis
  proof (cases r)
    case (Inl e)
    with valid show ?thesis by simp
  next
    case (Inr n)
    let ?i = "rn_ID req" and ?src = "if src = [] then ''api'' else src"
    have "run_state (check (repo_UpsertNode ?i (rn_IP req) (rn_Port req) ?src) (\<lambda>_.
          check (repo_GetNode ?i) (\<lambda>n. do {
            probeNode svc n;
            syncNodeResources svc n;
            repo_GetNode ?i }))) w = (Inr n, w')"
      using assms None Inr by (simp add: RegisterNode_def Let_def)
    then obtain u w1 m w2 where 1: "run_state (repo_UpsertNode ?i (rn_IP req) (rn_Port req) ?src) w = (Inr u, w1)"
      and 2: "run_state (repo_GetNode ?i) w1 = (Inr m, w2)"
      and 3: "run_state (do { probeNode svc m; syncNodeResources svc m; repo_GetNode ?i }) w2 = (Inr n, w')"
      by (elim check_InrE)
    obtain p w3 where 4: "run_state (probeNode svc m) w2 = (p, w3)" by (meson surj_pair)
    obtain q w4 where 5: "run_state (syncNodeResources svc m) w3 = (q, w4)" by (meson surj_pair)
    have 6: "run_state (repo_GetNode ?i) w4 = (Inr n, w')" using 3 4 5 by simp
    obtain now w0 v wa vb wb where 7: "w_db w0 = w_db w"
      "run_state (exec (sql_upsert_node ?i (rn_IP req) (rn_Port req) ?src now)) w0 = (Inr v, wa)"
      "run_state (exec (sql_init_status ?i now)) wa = (Inr vb, wb)"
      "run_state (exec (sql_init_resources ?i now)) wb = (Inr u, w1)"
      using 1 unfolding repo_UpsertNode_def by (elim run_NowE check_InrE)
    have "registered ?i (rn_IP req) (rn_Port req) (w_db w1)"
      using run_exec_Inr [OF 7(2)] run_exec_Inr [OF 7(3)] run_exec_Inr [OF 7(4)] registered_upsert
        registered_kept [OF nodes_kept_stmts(1)] registered_kept [OF nodes_kept_stmts(2)] by simp
    moreover have "w_db w2 = w_db w1" using 2 unfolding repo_GetNode_def by (rule run_query_row_db)
    moreover have "nodes_kept (w_db w2) (w_db w3)" "nodes_kept (w_db w3) (w_db w4)"
      using state_io_relD [OF nodes_kept_probe(1) 4] state_io_relD [OF nodes_kept_probe(2) 5]
      by (simp_all add: db_rel_def)
    moreover have got: "sql_get_node ?i (w_db w4) = Some n" "w_db w' = w_db w4"
      using run_query_row_Inr [of "sql_get_node ?i" w4 n w'] 6 by (simp_all add: repo_GetNode_def)
    ultimately have "registered ?i (rn_IP req) (rn_Port req) (w_db w4)"
      by (simp add: registered_kept)
    from registered_get [OF this got(1)] got Inr valid show ?thesis by simp
  qed
qed

theorem RegisterNode_correct_witness:
  "case run_state (RegisterNode sample_service \<lparr>rn_ID = ''n3'', rn_IP = ''10.0.0'', rn_Port = 8080\<rparr> []) sample_world of
     (Inl e, w') \<Rightarrow> errors_Is e ErrInvalidInput \<and> w' = sample_world
   | (Inr _, _) \<Rightarrow> False"
proof -
  let ?req = "\<lparr>rn_ID = ''n3'', rn_IP = ''10.0.0'', rn_Port = 8080\<rparr> :: RegisterNodeRequest"
  obtain r w' where r: "run_state (RegisterNode sample_service ?req []) sample_world = (r, w')" by (meson surj_pair)
  have "\<not> ParseIP_ok (TrimSpace ''10.0.0'')" by code_simp
  with RegisterNode_correct [OF r] show ?thesis
    unfolding r by (cases r) simp_all
qed

subsection \<open>Resource reports\<close>

lemma upsert_resources_tables:
  "t_nodes (sql_upsert_resources i res now d) = t_nodes d"
  "t_status (sql_upsert_resources i res now d) = t_status d"
  "t_externals (sql_upsert_resources i res now d) = t_externals d"
  by (simp_all add: sql_upsert_resources_def Let_def)

lemma find_resources_upsert:
  "find (\<lambda>r. nr_name r = j) (t_resources (sql_upsert_resources i res now d)) =
     (if j = i then Some \<lparr>nr_name = i, nr_res = res, nr_updated_at = now\<rparr>
      else find (\<lambda>r. nr_name r = j) (t_resources d))"
proof -
  let ?row = "\<lparr>nr_name = i, nr_res = res, nr_updated_at = now\<rparr>"
  have key: "nr_name ?row = i" by simp
  have "t_resources (sql_upsert_resources i res now d) =
      (if i \<in> nr_name ` set (t_resources d) then map (\<lambda>r. if nr_name r = i then ?row else r) (t_resources d)
       else t_resources d @ [?row])"
    by (simp add: sql_upsert_resources_def Let_def)
  then show ?thesis
    using find_replaced [where f = nr_name and row = ?row, OF key, of j "t_resources d"]
      find_added [where f = nr_name and row = ?row, OF key, of "t_resources d" j] by presburger
qed

lemma get_node_resources:
  assumes "sql_get_node i d = Some n" "res_External res = res_External (n_Resources n)"
  shows "sql_get_node i (sql_upsert_resources i res now d) = Some (n\<lparr>n_Resources := res\<rparr>)"
proof -
  obtain r where r: "find (\<lambda>r. nd_name r = i) (t_nodes d) = Some r" "n = join_node d r"
    using assms(1) by (auto simp: sql_get_node_def)
  then have "nd_name r = i" by (auto dest: find_Some_in)
  with r assms(2) show ?thesis
    by (cases "find (\<lambda>x. ex_node_id x = i) (t_externals d)")
      (simp_all add: sql_get_node_def upsert_resources_tables join_node_def Let_def find_resources_upsert)
qed

lemma quiet_update_resources:
  assumes "quiet w"
  obtains now w' where "run_state (repo_UpdateNodeResources i res) w = (Inr (), w')"
    "w_db w' = sql_upsert_resources i res now (w_db w)" "w_cache w' = w_cache w" "quiet w'"
  using assms
  by (simp add: repo_UpdateNodeResources_def exec_def run_time_Now run_next_fault run_modify quiet_def)



end
