(* ===== verification/Orch_Create_Props.thy ===== *)
theory Orch_Create_Props
  imports Orch_Lifecycle_Props
begin

section \<open>sbxorch: what holds of creating and deleting a sandbox object\<close>

text \<open>
  Validation is characterised as a predicate, creation by the row it adds, and the deletion request
  of the API by what its success means.
\<close>

subsection \<open>Validation\<close>

definition container_ok :: "'e Service \<Rightarrow> SandboxContainerSpec \<Rightarrow> bool" where
  "container_ok svc c \<longleftrightarrow> TrimSpace (sc_Name c) \<noteq> [] \<and> TrimSpace (sc_Image c) \<noteq> [] \<and>
     TrimSpace (sr_CPU (sc_Resource c)) \<noteq> [] \<and> TrimSpace (sr_Memory (sc_Resource c)) \<noteq> [] \<and>
     (\<exists>q. parseCPUMilli svc (sr_CPU (sc_Resource c)) = Inr q) \<and>
     (\<exists>q. parseMemoryBytes svc (sr_Memory (sc_Resource c)) = Inr q)"

definition port_ok :: "SandboxPortSpec \<Rightarrow> bool" where
  "port_ok p \<longleftrightarrow> 1 \<le> ps_ContainerPort p \<and> ps_ContainerPort p \<le> 65535 \<and>
     orch_proto (ps_Protocol p) \<in> {''tcp'', ''udp''}"

definition create_ok :: "'e Service \<Rightarrow> CreateSandboxObjectRequest \<Rightarrow> bool" where
  "create_ok svc req \<longleftrightarrow> TrimSpace (cso_ID req) \<noteq> [] \<and> spec_Containers (cso_Spec req) \<noteq> [] \<and>
     0 \<le> spec_TTLSeconds (cso_Spec req) \<and>
     (\<forall>c \<in> set (spec_Containers (cso_Spec req)). container_ok svc c) \<and>
     (\<forall>p \<in> set (spec_Ports (cso_Spec req)). port_ok p)"

lemma validate_create_containers_None:
  "validate_create_containers svc cs = None \<longleftrightarrow> (\<forall>c \<in> set cs. container_ok svc c)"
  by (induction cs) (auto simp: container_ok_def split: sum.splits)

lemma validate_create_ports_None:
  "validate_create_ports ps = None \<longleftrightarrow> (\<forall>p \<in> set ps. port_ok p)"
  by (induction ps) (auto simp: port_ok_def orch_proto_def Let_def)

lemma validate_create_errors:
  "validate_create_containers svc cs = Some e \<Longrightarrow> errors_Is e ErrInvalidInput"
  "validate_create_ports ps = Some e \<Longrightarrow> errors_Is e ErrInvalidInput"
  by (induction cs, auto split: if_splits sum.splits)
    (induction ps, auto simp: Let_def split: if_splits)

lemma validate_create_None: "validateSandboxCreate svc req = None \<longleftrightarrow> create_ok svc req"
  by (cases "validate_create_containers svc (spec_Containers (cso_Spec req))")
    (auto simp: validateSandboxCreate_def create_ok_def
      validate_create_containers_None [symmetric] validate_create_ports_None [symmetric])

lemma validate_create_Some: "validateSandboxCreate svc req = Some e \<Longrightarrow> errors_Is e ErrInvalidInput"
  by (auto simp: validateSandboxCreate_def split: if_splits option.splits intro: validate_create_errors)

subsection \<open>Creation\<close>

definition created_row :: "CreateSandboxObjectRequest \<Rightarrow> int \<Rightarrow> int \<Rightarrow> SandboxRow" where
  "created_row req now updated = \<lparr>sb_id = TrimSpace (cso_ID req), sb_spec = cso_Spec req,
     sb_status = status_json (sbx_Status (new_sandbox req now)),
     sb_created_at = (if now = zero_time then updated else now), sb_updated_at = updated\<rparr>"

lemma find_append: "find P (xs @ ys) = (case find P xs of None \<Rightarrow> find P ys | Some x \<Rightarrow> Some x)"
  by (induction xs) auto

lemma got_sandbox:
  "run_state (repo_GetSandbox i) w = (Inr s, w') \<Longrightarrow> sql_get_sandbox i (w_db w) = Some s \<and> w_db w' = w_db w"
  unfolding repo_GetSandbox_def by (rule run_query_row_Inr)

lemma new_sandbox_sel [simp]:
  "sbx_ID (new_sandbox req now) = TrimSpace (cso_ID req)" "sbx_Spec (new_sandbox req now) = cso_Spec req"
  "sbx_CreatedAt (new_sandbox req now) = now"
  by (simp_all add: new_sandbox_def)

lemma repo_create_eq:
  "repo_CreateSandbox (new_sandbox req now) =
     do { updated \<leftarrow> time_Now; exec_c (sql_insert_sandbox (created_row req now updated)) }"
  unfolding repo_CreateSandbox_def created_row_def new_sandbox_sel ..

lemma create_repo_cases:
  assumes "run_state (repo_CreateSandbox (new_sandbox req now)) w = (r, w')"
  shows "case r of Inl e \<Rightarrow> w_db w' = w_db w
    | Inr _ \<Rightarrow> \<exists>updated. sql_insert_sandbox (created_row req now updated) (w_db w) = Inr (w_db w')"
proof -
  obtain updated w1 where 1: "w_db w1 = w_db w" "run_state (exec_c (sql_insert_sandbox
      (created_row req now updated))) w1 = (r, w')"
    using assms unfolding repo_create_eq by (rule run_NowE)
  show ?thesis
  proof (cases r)
    case (Inl e)
    with 1 run_exec_c_Inl show ?thesis by fastforce
  next
    case (Inr u)
    with 1(2) have "sql_insert_sandbox (created_row req now updated) (w_db w1) = Inr (w_db w')"
      by (auto dest: run_exec_c_Inr)
    with Inr 1(1) show ?thesis by auto
  qed
qed

lemma get_sandbox_insert:
  assumes "sql_insert_sandbox row d = Inr d'"
  shows "sql_get_sandbox (sb_id row) d = None \<and> sql_get_sandbox (sb_id row) d' = Some (row_sandbox row)"
proof -
  have n: "sb_id row \<notin> sb_id ` set (t_sandboxes d)" and d': "d' = d\<lparr>t_sandboxes := t_sandboxes d @ [row]\<rparr>"
    using assms by (simp_all add: sql_insert_sandbox_eq_Inr)
  then have "find (\<lambda>r. sb_id r = sb_id row) (t_sandboxes d) = None"
    by (simp add: find_None_key)
  with d' show ?thesis by (simp add: sql_get_sandbox_def find_append)
qed

lemma created_row_sel:
  "sb_id (created_row req now upd) = TrimSpace (cso_ID req)"
  "sbx_Spec (row_sandbox (created_row req now upd)) = cso_Spec req"
  "st_Phase (sbx_Status (row_sandbox (created_row req now upd))) = SandboxPhasePending"
  "st_NodeName (sbx_Status (row_sandbox (created_row req now upd))) = []"
  "st_AssignedPorts (sbx_Status (row_sandbox (created_row req now upd))) = []"
  "st_LastError (sbx_Status (row_sandbox (created_row req now upd))) = []"
  by (simp_all add: created_row_def row_sandbox_def new_sandbox_def zero_status_def)

lemma create_frame:
  assumes "sql_insert_sandbox row d = Inr d'"
  shows "frame (sb_id row) d d'"
  using assms by (simp add: sql_insert_sandbox_eq_Inr frame_def)

lemma create_outcome:
  assumes "run_state (CreateSandbox svc req) w = (r, w')"
  shows "if \<not> create_ok svc req then w' = w \<and> (\<exists>e. r = Inl e \<and> errors_Is e ErrInvalidInput)
    else (case r of
        Inl e \<Rightarrow> w_db w' = w_db w \<or> sql_get_sandbox (TrimSpace (cso_ID req)) (w_db w) = None
      | Inr s \<Rightarrow> sql_get_sandbox (TrimSpace (cso_ID req)) (w_db w) = None \<and>
          sql_get_sandbox (TrimSpace (cso_ID req)) (w_db w') = Some s \<and>
          sbx_Spec s = cso_Spec req \<and> st_Phase (sbx_Status s) = SandboxPhasePending \<and>
          st_NodeName (sbx_Status s) = [] \<and> st_AssignedPorts (sbx_Status s) = [] \<and>
          st_LastError (sbx_Status s) = [] \<and> frame (TrimSpace (cso_ID req)) (w_db w) (w_db w'))"
proof (cases "validateSandboxCreate svc req")
  case (Some e)
  then have "\<not> create_ok svc req" using validate_create_None by (metis option.distinct(1))
  moreover have "w' = w" "r = Inl e" using Some assms by (simp_all add: CreateSandbox_def)
  moreover have "errors_Is e ErrInvalidInput" using Some by (rule validate_create_Some)
  ultimately show ?thesis by simp
next
  case None
  then have ok: "create_ok svc req" using validate_create_None by blast
  let ?i = "TrimSpace (cso_ID req)"
  obtain now w1 where 1: "run_state time_Now w = (now, w1)" "w_db w1 = w_db w"
    by (simp add: run_time_Now)
  obtain x w2 where 2: "run_state (repo_CreateSandbox (new_sandbox req now)) w1 = (x, w2)" by (meson surj_pair)
  note c = create_repo_cases [OF 2]
  show ?thesis
  proof (cases x)
    case (Inl e)
    then have "r = Inl e" "w' = w2"
      using assms None 1 2 by (simp_all add: CreateSandbox_def run_check)
    with Inl c ok 1(2) show ?thesis by simp
  next
    case (Inr y)
    with c obtain upd where ins: "sql_insert_sandbox (created_row req now upd) (w_db w1) = Inr (w_db w2)" by auto
    note g = get_sandbox_insert [OF ins, unfolded created_row_sel] create_frame [OF ins, unfolded created_row_sel]
    have 3: "run_state (repo_GetSandbox ?i) w2 = (r, w')"
      using assms None 1 2 Inr by (simp add: CreateSandbox_def run_check)
    then have db: "w_db w' = w_db w2"
      unfolding repo_GetSandbox_def by (rule run_query_row_db)
    show ?thesis
    proof (cases r)
      case (Inl e)
      with ok g 1(2) show ?thesis by simp
    next
      case rs: (Inr s)
      with 3 got_sandbox [of ?i w2 s w'] have "sql_get_sandbox ?i (w_db w2) = Some s" by simp
      with g(1) have s: "s = row_sandbox (created_row req now upd)" by simp
      show ?thesis
        using rs ok g db 1(2) unfolding s by (simp add: created_row_sel)
    qed
  qed
qed


definition sample_create :: CreateSandboxObjectRequest where
  "sample_create = \<lparr>cso_ID = '' c '', cso_Spec = sample_spec\<rparr>"


subsection \<open>Expiry\<close>

text \<open>
  A sandbox created with a positive time to live of at most 9223372036 seconds expires exactly
  that long after its creation, and with none it never expires.
\<close>

theorem new_sandbox_expiry:
  assumes "0 \<le> spec_TTLSeconds (cso_Spec req)" "spec_TTLSeconds (cso_Spec req) \<le> 9223372036"
  shows "st_ExpireAt (sbx_Status (new_sandbox req now)) =
    (if spec_TTLSeconds (cso_Spec req) = 0 then None else Some (now + spec_TTLSeconds (cso_Spec req) * Second))"
proof -
  have "in_i64 (spec_TTLSeconds (cso_Spec req) * Second)"
    using assms by (simp add: in_i64_def)
  then show ?thesis
    using assms(1) by (auto simp: new_sandbox_def ttl_nanoseconds_def i64_id)
qed

theorem new_sandbox_expiry_witness:
  "st_ExpireAt (sbx_Status (new_sandbox (sample_create\<lparr>cso_Spec := sample_spec\<lparr>spec_TTLSeconds := 60\<rparr>\<rparr>) 5)) =
     Some 60000000005"
  by (subst new_sandbox_expiry) simp_all

text \<open>
  C38: above that bound the product of the seconds and \<^verbatim>\<open>time.Second\<close> overflows.  A request with a
  time to live of 9223372037 seconds is accepted like any other, and the sandbox it creates has
  expired at the moment it is created, so the next reconcile pass deletes it.
\<close>

theorem new_sandbox_born_expired:
  "create_ok sample_service (sample_create\<lparr>cso_Spec := sample_spec\<lparr>spec_TTLSeconds := 9223372037\<rparr>\<rparr>) \<and>
   doomed now (new_sandbox (sample_create\<lparr>cso_Spec := sample_spec\<lparr>spec_TTLSeconds := 9223372037\<rparr>\<rparr>) now)"
proof
  show "create_ok sample_service (sample_create\<lparr>cso_Spec := sample_spec\<lparr>spec_TTLSeconds := 9223372037\<rparr>\<rparr>)"
    unfolding validate_create_None [symmetric] by code_simp
  show "doomed now (new_sandbox (sample_create\<lparr>cso_Spec := sample_spec\<lparr>spec_TTLSeconds := 9223372037\<rparr>\<rparr>) now)"
    by (simp add: doomed_def new_sandbox_def expired_def ttl_nanoseconds_def i64_def)
qed

subsection \<open>The deletion request\<close>

lemma delete_outcome:
  assumes "run_state (DeleteSandbox svc i) w = (r, w')"
  shows "frame (TrimSpace i) (w_db w) (w_db w') \<and>
    (case r of Inl _ \<Rightarrow> True
     | Inr _ \<Rightarrow> removed (TrimSpace i) (w_db w') \<or> deleting (TrimSpace i) (w_db w) \<and> w_db w' = w_db w)"
proof -
  let ?i = "TrimSpace i"
  have fr: "frame ?i (w_db w) (w_db w')"
    using frame_DeleteSandbox assms by (fastforce simp: db_rel_def)
  moreover have "removed ?i (w_db w') \<or> deleting ?i (w_db w) \<and> w_db w' = w_db w" if "r = Inr u" for u
  proof -
    have ne: "?i \<noteq> []" using assms that by (auto simp: DeleteSandbox_def)
    let ?st = "\<lambda>s. (sbx_Status s)\<lparr>st_Phase := SandboxPhaseDeleting, st_LastError := []\<rparr>"
    have "run_state (check (repo_GetSandbox ?i) (\<lambda>sbx.
       if st_Phase (sbx_Status sbx) = SandboxPhaseDeleting then ok ()
       else check (repo_UpdateSandboxStatus ?i (?st sbx)) (\<lambda>_.
         finalizeSandboxDelete svc (sbx\<lparr>sbx_Status := ?st sbx\<rparr>)))) w = (Inr u, w')"
      using assms that ne unfolding DeleteSandbox_def Let_def by simp
    then obtain s w1 where 1: "run_state (repo_GetSandbox ?i) w = (Inr s, w1)"
      and 2: "run_state (if st_Phase (sbx_Status s) = SandboxPhaseDeleting then ok ()
       else check (repo_UpdateSandboxStatus ?i (?st s)) (\<lambda>_.
         finalizeSandboxDelete svc (s\<lparr>sbx_Status := ?st s\<rparr>))) w1 = (Inr u, w')"
      by (rule check_InrE)
    have g: "sql_get_sandbox ?i (w_db w) = Some s" "w_db w1 = w_db w"
      using got_sandbox [OF 1] by simp_all
    show ?thesis
    proof (cases "st_Phase (sbx_Status s) = SandboxPhaseDeleting")
      case True
      with 2 g show ?thesis by (simp add: deleting_def)
    next
      case False
      with 2 obtain x w2 where "run_state (finalizeSandboxDelete svc (s\<lparr>sbx_Status := ?st s\<rparr>)) w2 = (Inr u, w')"
        by (auto elim: check_InrE)
      from finalize_ok [OF this] get_sandbox_Some_id [OF g(1)] show ?thesis by simp
    qed
  qed
  ultimately show ?thesis by (cases r) auto
qed

text \<open>
  C20: when \<^verbatim>\<open>DeleteSandbox\<close> returns nil, either the sandbox and its ports are gone, or its deletion
  was already under way and nothing was changed; in every case no other sandbox is touched.
\<close>

theorem DeleteSandbox_correct:
  assumes "run_state (DeleteSandbox svc i) w = (r, w')"
  shows "frame (TrimSpace i) (w_db w) (w_db w') \<and>
    (case r of Inl _ \<Rightarrow> True
     | Inr _ \<Rightarrow> removed (TrimSpace i) (w_db w') \<or> deleting (TrimSpace i) (w_db w) \<and> w_db w' = w_db w)"
  using delete_outcome [OF assms] .

theorem DeleteSandbox_correct_witness:
  "frame ''a'' (w_db sample_world) (w_db (snd (run_state (DeleteSandbox sample_service '' a'') sample_world)))"
proof -
  have "TrimSpace '' a'' = ''a''" by code_simp
  then show ?thesis
    using DeleteSandbox_correct [of sample_service "'' a''" sample_world, OF prod.collapse [symmetric]] by simp
qed

end
