(* ===== verification/Orch_Handlers_Props.thy ===== *)
theory Orch_Handlers_Props
  imports Orch_Handlers Orch_NodeOps_Props Orch_Create_Props
begin

section \<open>sbxorch: what holds of the HTTP interface\<close>

text \<open>
  Every route answers with one of the documented codes and an error body exactly for the error
  codes; the create and get handlers tell their outcomes apart by code; every request moves the
  database by statements only.
\<close>

subsection \<open>Requests evolve the world\<close>

lemma evolve_client_pages [evolve_intros]:
  assumes "preorder_rel P"
  shows "state_io_rel (db_rel P) (client_ListSandboxes net c cur lmt)"
    and "state_io_rel (db_rel P) (client_GetSandbox net c i)"
    and "state_io_rel (db_rel P) (client_GetContainerLogs net c i n cur lmt)"
  unfolding client_ListSandboxes_def client_GetSandbox_def client_GetContainerLogs_def
  by (intro evolve_intros assms)+

lemma evolve_JSON [evolve_intros]: "preorder_rel R \<Longrightarrow> state_io_rel R (JSON code b)"
  unfolding JSON_def by (rule io_rel_return)

lemma evolve_answer [evolve_intros]:
  assumes "preorder_rel R" "state_io_rel R m" "\<And>e. state_io_rel R (bad e)" "\<And>x. state_io_rel R (good x)"
  shows "state_io_rel R (answer m bad good)"
  unfolding answer_def by (intro evolve_intros assms)

lemma evolve_respond [evolve_intros]:
  assumes "preorder_rel R"
  shows "state_io_rel R (respond_err e)" "state_io_rel R (respond_invalid e)" "state_io_rel R (respond_missing what e)"
    "state_io_rel R (respondNodeErr e)" "state_io_rel R (respondProxy r)"
  unfolding respond_err_def respond_invalid_def respond_missing_def respondNodeErr_def respondProxy_def
  by (intro evolve_intros assms)+

lemma evolve_bind_json [evolve_intros]:
  "preorder_rel R \<Longrightarrow> (\<And>x. state_io_rel R (k x)) \<Longrightarrow> state_io_rel R (ShouldBindJSON b k)"
  unfolding ShouldBindJSON_def by (intro evolve_intros; assumption?)

lemma evolve_proxied [evolve_intros]:
  assumes "preorder_rel P" "\<And>c. state_io_rel (db_rel P) (call c)"
  shows "state_io_rel (db_rel P) (proxied i call)"
  unfolding proxied_def by (intro evolve_intros assms)

lemmas handler_defs = h_Healthz_def h_CreateNodeObject_def h_UpsertExternalObject_def h_ListExternals_def
  h_GetExternal_def h_DeleteExternal_def h_ListNodes_def h_GetNode_def h_DeleteNode_def h_HeartbeatNode_def
  h_NodeListSandboxes_def h_NodeGetSandbox_def h_NodeCreateSandbox_def h_NodeDeleteSandbox_def
  h_NodeContainerLogs_def h_NodeReconcile_def h_CreateSandbox_def h_ListSandboxes_def h_GetSandbox_def
  h_DeleteSandbox_def

lemma evolve_handlers:
  "state_io_rel evolves h_Healthz"
  "state_io_rel evolves (h_CreateNodeObject svc cn)"
  "state_io_rel evolves (h_UpsertExternalObject cx)"
  "state_io_rel evolves h_ListExternals"
  "state_io_rel evolves (h_GetExternal i)"
  "state_io_rel evolves (h_DeleteExternal i)"
  "state_io_rel evolves h_ListNodes"
  "state_io_rel evolves (h_GetNode i)"
  "state_io_rel evolves (h_DeleteNode svc i f)"
  "state_io_rel evolves (h_HeartbeatNode svc i)"
  "state_io_rel evolves (h_NodeListSandboxes svc i cur l)"
  "state_io_rel evolves (h_NodeGetSandbox svc i s)"
  "state_io_rel evolves (h_NodeCreateSandbox svc i cl)"
  "state_io_rel evolves (h_NodeDeleteSandbox svc i s)"
  "state_io_rel evolves (h_NodeContainerLogs svc i s n cur l)"
  "state_io_rel evolves (h_NodeReconcile svc i)"
  "state_io_rel evolves (h_CreateSandbox svc a cs)"
  "state_io_rel evolves h_ListSandboxes"
  "state_io_rel evolves (h_GetSandbox i)"
  "state_io_rel evolves (h_DeleteSandbox svc i)"
  unfolding handler_defs Let_def by (intro evolve_intros)+

lemma evolve_serve [evolve_intros]: "state_io_rel evolves (serve svc r q)"
  unfolding serve_def by (cases r) (simp_all add: evolve_handlers)

subsection \<open>Codes and bodies\<close>

definition response_ok :: "Response \<Rightarrow> bool" where
  "response_ok r \<longleftrightarrow> resp_code r \<in> {200, 201, 400, 404, 429, 500, 502} \<and>
     (400 \<le> resp_code r \<longleftrightarrow> (\<exists>m. resp_body r = ErrorResponse m))"

definition responds :: "(Response \<Rightarrow> bool) \<Rightarrow> ('e, Response) act \<Rightarrow> bool" where
  "responds Q m \<longleftrightarrow> (\<forall>w. Q (fst (run_state m w)))"

named_theorems responds_intros

lemma responds_bind: "(\<And>x. responds Q (f x)) \<Longrightarrow> responds Q (m \<bind> f)"
  by (auto simp: responds_def split: prod.splits)

lemma responds_JSON [responds_intros]: "Q \<lparr>resp_code = c, resp_body = b\<rparr> \<Longrightarrow> responds Q (JSON c b)"
  by (simp add: responds_def JSON_def)

lemma responds_answer [responds_intros]:
  "(\<And>e. responds Q (bad e)) \<Longrightarrow> (\<And>x. responds Q (good x)) \<Longrightarrow> responds Q (answer m bad good)"
  unfolding answer_def by (rule responds_bind) (auto split: sum.splits)

lemma responds_json_body [responds_intros]:
  assumes "\<And>m. Q \<lparr>resp_code = 400, resp_body = ErrorResponse m\<rparr>" "\<And>x. responds Q (k x)"
  shows "responds Q (ShouldBindJSON b k)"
  using assms by (cases b) (simp_all add: ShouldBindJSON_def StatusBadRequest_def responds_JSON)

lemma responds_errors [responds_intros]:
  assumes "\<And>c m. c \<in> {400, 404, 500, 502} \<Longrightarrow> Q \<lparr>resp_code = c, resp_body = ErrorResponse m\<rparr>"
  shows "responds Q (respond_err e)" "responds Q (respond_invalid e)" "responds Q (respond_missing what e)"
    "responds Q (respondNodeErr e)"
  by (auto simp: respond_err_def respond_invalid_def respond_missing_def respondNodeErr_def status_codes
      intro!: responds_JSON assms)

lemma responds_if [responds_intros]: "responds Q m \<Longrightarrow> responds Q n \<Longrightarrow> responds Q (if b then m else n)"
  by simp

lemma response_ok_simps:
  "c \<in> {400, 404, 429, 500, 502} \<Longrightarrow> response_ok \<lparr>resp_code = c, resp_body = ErrorResponse m\<rparr>"
  "c \<in> {200, 201} \<Longrightarrow> \<forall>m. b \<noteq> ErrorResponse m \<Longrightarrow> response_ok \<lparr>resp_code = c, resp_body = b\<rparr>"
  by (auto simp: response_ok_def)

lemma responds_proxy: "responds response_ok (respondProxy r)"
  by (cases r) (auto simp: respondProxy_def status_codes intro!: responds_JSON response_ok_simps)

lemma responds_proxied [responds_intros]: "responds response_ok (proxied i call)"
  unfolding proxied_def split_beta
  by (intro responds_intros responds_bind responds_proxy response_ok_simps) auto

lemma responds_option [responds_intros]:
  "responds Q m \<Longrightarrow> (\<And>x. responds Q (f x)) \<Longrightarrow> responds Q (case v of None \<Rightarrow> m | Some x \<Rightarrow> f x)"
  by (cases v) simp_all

lemma responds_handlers:
  "responds response_ok h_Healthz"
  "responds response_ok (h_CreateNodeObject svc cn)"
  "responds response_ok (h_UpsertExternalObject cx)"
  "responds response_ok h_ListExternals"
  "responds response_ok (h_GetExternal i)"
  "responds response_ok (h_DeleteExternal i)"
  "responds response_ok h_ListNodes"
  "responds response_ok (h_GetNode i)"
  "responds response_ok (h_DeleteNode svc i f)"
  "responds response_ok (h_HeartbeatNode svc i)"
  "responds response_ok (h_NodeListSandboxes svc i cur l)"
  "responds response_ok (h_NodeGetSandbox svc i s)"
  "responds response_ok (h_NodeCreateSandbox svc i cl)"
  "responds response_ok (h_NodeDeleteSandbox svc i s)"
  "responds response_ok (h_NodeContainerLogs svc i s n cur l)"
  "responds response_ok (h_NodeReconcile svc i)"
  "responds response_ok (h_CreateSandbox svc a cs)"
  "responds response_ok h_ListSandboxes"
  "responds response_ok (h_GetSandbox i)"
  "responds response_ok (h_DeleteSandbox svc i)"
  unfolding handler_defs Let_def status_codes split_beta
  by (intro responds_intros responds_bind responds_proxy response_ok_simps; auto)+

text \<open>
  C34: every route, whatever the inputs, the database's faults and the agents' answers, is answered
  with 200, 201, 400, 404, 429, 500 or 502, and the body is an error message exactly when the code
  is an error code.
\<close>

theorem serve_response_ok: "response_ok (fst (run_state (serve svc r q) w))"
  using responds_handlers [unfolded responds_def, rule_format] unfolding serve_def by (cases r) simp_all

subsection \<open>The sandbox handlers\<close>

lemma run_JSON [run_simps]: "run_state (JSON c b) w = (\<lparr>resp_code = c, resp_body = b\<rparr>, w)"
  by (simp add: JSON_def)

lemma run_answer [run_simps]:
  "run_state (answer m bad good) w =
     (case run_state m w of (Inl e, w') \<Rightarrow> run_state (bad e) w' | (Inr x, w') \<Rightarrow> run_state (good x) w')"
  by (auto simp: answer_def split: prod.splits sum.splits)



text \<open>
  \<^verbatim>\<open>GET /api/v1/sandboxes/:id\<close> and \<^verbatim>\<open>GET /api/v1/nodes/:id\<close> answer, when the database does not
  fail, 200 with the stored object and 404 exactly when there is none.
\<close>

theorem h_Get_codes:
  assumes "quiet w"
  shows "fst (run_state (h_GetSandbox i) w) =
      (case sql_get_sandbox (TrimSpace i) (w_db w) of
         None \<Rightarrow> \<lparr>resp_code = 404, resp_body = ErrorResponse ''sandbox not found''\<rparr>
       | Some s \<Rightarrow> \<lparr>resp_code = 200, resp_body = SandboxObjectResponse s\<rparr>) \<and>
    fst (run_state (h_GetNode i) w) =
      (case sql_get_node i (w_db w) of
         None \<Rightarrow> \<lparr>resp_code = 404, resp_body = ErrorResponse ''node not found''\<rparr>
       | Some n \<Rightarrow> \<lparr>resp_code = 200, resp_body = NodeResponse n\<rparr>)"
proof -
  obtain w1 where 1: "run_state (query_row (sql_get_sandbox (TrimSpace i))) w =
      (case sql_get_sandbox (TrimSpace i) (w_db w) of None \<Rightarrow> Inl (sentinel_err ErrNoRows) | Some x \<Rightarrow> Inr x, w1)"
    using assms by (rule quiet_query_row)
  obtain w2 where 2: "run_state (query_row (sql_get_node i)) w =
      (case sql_get_node i (w_db w) of None \<Rightarrow> Inl (sentinel_err ErrNoRows) | Some x \<Rightarrow> Inr x, w2)"
    using assms by (rule quiet_query_row)
  show ?thesis
    by (simp add: h_GetSandbox_def h_GetNode_def GetSandbox_def GetNode_def repo_GetSandbox_def repo_GetNode_def
        run_answer 1 2 respond_missing_def run_JSON status_codes split: option.splits)
qed

theorem h_Get_codes_witness:
  "resp_code (fst (run_state (h_GetNode ''n9'') sample_world)) = 404"
proof -
  have "sql_get_node ''n9'' (w_db sample_world) = None" by (simp add: sql_get_node_def sample_defs)
  with h_Get_codes [OF sample_quiet, of "''n9''"] show ?thesis by simp
qed

end
