(* ===== verification/Ctl_Net.thy ===== *)
theory Ctl_Net
  imports Ctl_Props Agent_Net Orch_Handlers_Props Orch_NodeOps_Props
begin

section \<open>sbxctl talking to sbxorch, and sbxorch to a node agent\<close>

text \<open>
  The transport of \<^verbatim>\<open>sbxctl\<close> instantiated with the orchestrator's route table: the URL is split and
  unescaped as in \<open>Agent_Net\<close>, the route is served on the orchestrator's world, and the code
  of the response comes back with a body text.  Two parameters stand for libraries: \<open>binding\<close> is
  what gin binds from a JSON body, together with the limiter's answer, and \<open>enc\<close> is the text of a
  response body.
\<close>

definition orch_dest :: "string \<Rightarrow> string \<Rightarrow> Route option" where
  "orch_dest meth u = (case PathUnescape (path_part u) of None \<Rightarrow> None
     | Some path \<Rightarrow> orch_route meth (tl (SplitByte (CHR ''/'') path)))"

definition url_inputs :: "string \<Rightarrow> Inputs \<Rightarrow> Inputs" where
  "url_inputs u q =
     (let kv = map_of (query_part u) in
      q\<lparr>in_cursor := (case kv ''cursor'' of None \<Rightarrow> [] | Some v \<Rightarrow> v), in_limit := kv ''limit'',
        in_force := (case kv ''force'' of None \<Rightarrow> [] | Some v \<Rightarrow> v)\<rparr>)"

definition orch_net :: "'e Service \<Rightarrow> ((string \<times> any) list option \<Rightarrow> Inputs) \<Rightarrow> (Response \<Rightarrow> string) \<Rightarrow> string
    \<Rightarrow> 'e world ctl_net" where
  "orch_net svc binding enc b meth url body w =
     (if \<not> HasPrefix url b then (Inl (Errorf ''connection refused''), w)
      else let u = drop (length b) url in
        (case orch_dest meth u of
           None \<Rightarrow> (Inr \<lparr>ct_StatusCode = (if PathUnescape (path_part u) = None then 400 else 404),
                      ct_Body = ''404 page not found''\<rparr>, w)
         | Some r \<Rightarrow> (case run_state (serve svc r (url_inputs u (binding body))) w of
             (resp, w1) \<Rightarrow> (Inr \<lparr>ct_StatusCode = resp_code resp, ct_Body = enc resp\<rparr>, w1))))"

subsection \<open>Which handler a command reaches\<close>

lemma orch_dest_escaped:
  assumes "CHR ''?'' \<notin> set pre" "CHR ''%'' \<notin> set pre" "CHR ''?'' \<notin> set post" "CHR ''%'' \<notin> set post"
  shows "orch_dest meth (pre @ PathEscape n @ post) = orch_route meth (tl (SplitByte (CHR ''/'') (pre @ n @ post)))"
proof -
  have "path_part (pre @ PathEscape n @ post) = pre @ PathEscape n @ post"
    using assms PathEscape_no_slash [of n] by (intro path_part_all) simp
  moreover have "PathUnescape (PathEscape n @ post) = Some (n @ post)"
    using PathUnescape_Escape [of n post] PathUnescape_plain [OF assms(4), of "[]"] by simp
  ultimately show ?thesis
    by (simp add: orch_dest_def PathUnescape_plain [OF assms(2)])
qed

lemma sandbox_dest:
  assumes "CHR ''/'' \<notin> set n"
  shows "orch_dest ''DELETE'' (''/api/v1/sandboxes/'' @ PathEscape n) = Some (R_DeleteSandbox n)"
    "orch_dest ''GET'' (''/api/v1/sandboxes/'' @ PathEscape n) = Some (R_GetSandbox n)"
proof -
  have "SplitByte (CHR ''/'') (''/api/v1/sandboxes/'' @ n) = [[], ''api'', ''v1'', ''sandboxes'', n]"
    by (simp add: Split_no_sep [OF assms])
  then show "orch_dest ''DELETE'' (''/api/v1/sandboxes/'' @ PathEscape n) = Some (R_DeleteSandbox n)"
    "orch_dest ''GET'' (''/api/v1/sandboxes/'' @ PathEscape n) = Some (R_GetSandbox n)"
    using orch_dest_escaped [of "''/api/v1/sandboxes/''" "[]" _ n] by (simp_all add: orch_route_def)
qed

lemma node_sandboxes_dest:
  assumes "CHR ''/'' \<notin> set n"
  shows "orch_dest ''POST'' (node_sandboxes n) = Some (R_NodeCreateSandbox n)"
proof -
  have "SplitByte (CHR ''/'') (''/api/v1/nodes/'' @ n @ ''/sandboxes'') = [[], ''api'', ''v1'', ''nodes'', n, ''sandboxes'']"
    using Split_no_sep [OF assms] Split_append_sep [of "CHR ''/''" n "''sandboxes''"] by simp
  then show ?thesis
    unfolding node_sandboxes_def
    using orch_dest_escaped [of "''/api/v1/nodes/''" "''/sandboxes''" "''POST''" n] by (simp add: orch_route_def)
qed

subsection \<open>Facts about one request\<close>

text \<open>When a request to the orchestrator succeeds, its handler ran and answered with a code below 400.\<close>

lemma ctl_do_orch:
  assumes "run_state (ctl_do L (orch_net svc binding enc (cc_baseURL c)) c meth u body) W = (Inr out, W')"
    and "orch_dest meth u = Some r"
  obtains resp v where "run_state (serve svc r (url_inputs u (binding body))) (cw_env W) = (resp, v)"
    "resp_code resp < 400" "W' = W\<lparr>cw_env := v\<rparr>"
proof -
  obtain resp v where sv: "run_state (serve svc r (url_inputs u (binding body))) (cw_env W) = (resp, v)" by fastforce
  have "run_state (ctl_http (orch_net svc binding enc (cc_baseURL c)) meth (cc_baseURL c @ u) body) W =
      (Inr \<lparr>ct_StatusCode = resp_code resp, ct_Body = enc resp\<rparr>, W\<lparr>cw_env := v\<rparr>)"
    using assms(2) sv by (simp add: ctl_http_def orch_net_def)
  then have "resp_code resp < 400 \<and> W' = W\<lparr>cw_env := v\<rparr>"
    using assms(1) by (auto simp: ctl_do_def run_check Let_def split: option.splits sum.splits if_splits)
  then show ?thesis using that sv by blast
qed

text \<open>Whatever it answers, a request moves the other side as the handler does.\<close>

lemma ctl_do_env:
  assumes "run_state (ctl_do L (orch_net svc binding enc (cc_baseURL c)) c meth u body) W = (x, W')"
    and "orch_dest meth u = Some r"
  shows "cw_env W' = cw_env W \<or> cw_env W' = snd (run_state (serve svc r (url_inputs u (binding body))) (cw_env W))"
proof -
  obtain resp v where sv: "run_state (serve svc r (url_inputs u (binding body))) (cw_env W) = (resp, v)" by fastforce
  have "run_state (ctl_http (orch_net svc binding enc (cc_baseURL c)) meth (cc_baseURL c @ u) body) W =
      (Inr \<lparr>ct_StatusCode = resp_code resp, ct_Body = enc resp\<rparr>, W\<lparr>cw_env := v\<rparr>)"
    using assms(2) sv by (simp add: ctl_http_def orch_net_def)
  then show ?thesis
    using assms(1) sv by (auto simp: ctl_do_def run_check Let_def split: option.splits sum.splits if_splits)
qed

lemma run_printAny:
  assumes "run_state (printAny L out fmt) W = (x, W')"
  shows "cw_env W' = cw_env W" "x = Inr u \<Longrightarrow> cw_out W' \<in> {cw_out W @ [Json out], cw_out W @ [Yaml out]}"
  using assms by (auto simp: printAny_def emit_def Let_def split: if_splits option.splits)

subsection \<open>A run\<close>

definition sample_lib :: Lib where
  "sample_lib = \<lparr>lib_yaml_Unmarshal = (\<lambda>_. Inr \<lparr>mf_APIVersion = ''sandboxd.o/v1'', mf_Kind = ''Sandbox'', mf_ID = '' c'',
       mf_Spec = Some [(''containers'', AnySlice [AnyNilMap])]\<rparr>),
     lib_yaml_error = (\<lambda>_. None), lib_json_Unmarshal = (\<lambda>_. Inr (Some [])), lib_json_error = (\<lambda>_. None),
     lib_show_float = (\<lambda>_. ''0''), lib_ParseFloat = (\<lambda>_. None), lib_int64_overflow = (\<lambda>_. - (2 ^ 63))\<rparr>"

definition sample_opts :: "string \<Rightarrow> Options" where
  "sample_opts node = \<lparr>op_Server = ''http://127.0.0.1:8082/'', op_Node = node, op_Timeout = 0, op_Output = [], op_Limit = 100\<rparr>"

definition sample_binding :: "(string \<times> any) list option \<Rightarrow> Inputs" where
  "sample_binding body = \<lparr>in_sandbox = Inr sample_create, in_node = Inl (Errorf ''EOF''), in_external = Inl (Errorf ''EOF''),
     in_let_create = Inr \<lparr>cr_ID = [], cr_Egress = False, cr_Containers = [], cr_Ports = []\<rparr>, in_cursor = [], in_limit = None,
     in_force = [], in_allowed = True\<rparr>"

definition sample_net :: "'e Service \<Rightarrow> string \<Rightarrow> 'e world ctl_net" where
  "sample_net svc node = orch_net svc sample_binding (\<lambda>_. ''{}'') (cc_baseURL (mustClient (sample_opts node)))"

definition sample_ctl_world :: "'e world \<Rightarrow> 'e world ctl_world" where
  "sample_ctl_world w = \<lparr>cw_env = w, cw_out = []\<rparr>"

definition sample_manifest :: SandboxManifest where
  "sample_manifest = \<lparr>mf_APIVersion = ''sandboxd.o/v1'', mf_Kind = ''Sandbox'', mf_ID = '' c'',
     mf_Spec = Some [(''containers'', AnySlice [AnyNilMap])]\<rparr>"

lemma sample_manifest_facts:
  "lib_yaml_Unmarshal sample_lib raw = Inr sample_manifest" "ToLower (TrimSpace (mf_Kind sample_manifest)) = ''sandbox''"
proof -
  show "lib_yaml_Unmarshal sample_lib raw = Inr sample_manifest" by (simp add: sample_lib_def sample_manifest_def)
  show "ToLower (TrimSpace (mf_Kind sample_manifest)) = ''sandbox''" by code_simp
qed

lemma sample_ctl_do:
  assumes "orch_dest meth u = Some r"
    and "fst (run_state (serve svc r (url_inputs u (sample_binding body))) w) = resp" "resp_code resp < 400"
  shows "fst (run_state (ctl_do sample_lib (sample_net svc node) (mustClient (sample_opts node)) meth u body)
    (sample_ctl_world w)) = Inr (Some [])"
proof -
  obtain v where sv: "run_state (serve svc r (url_inputs u (sample_binding body))) w = (resp, v)"
    using assms(2) by (metis prod.collapse)
  have "run_state (ctl_http (sample_net svc node) meth (cc_baseURL (mustClient (sample_opts node)) @ u) body) (sample_ctl_world w) =
      (Inr \<lparr>ct_StatusCode = resp_code resp, ct_Body = ''{}''\<rparr>, (sample_ctl_world w)\<lparr>cw_env := v\<rparr>)"
    using assms(1) sv by (simp add: ctl_http_def sample_net_def orch_net_def sample_ctl_world_def)
  then show ?thesis
    using assms(3) by (simp add: ctl_do_def run_check sample_lib_def LimitReader_def body_limit_def split: option.split)
qed

lemma sample_print: "fst (run_state (printAny sample_lib out (op_Output (sample_opts node))) W) = Inr ()"
proof -
  have "ToLower (TrimSpace []) = []" by simp
  then show ?thesis by (simp add: printAny_def sample_opts_def sample_lib_def emit_def)
qed

lemma sample_check:
  assumes "fst (run_state m W) = Inr (Some [])"
  shows "fst (run_state (check m (\<lambda>out. printAny sample_lib out (op_Output (sample_opts node)))) W) = Inr ()"
  using assms sample_print [of "Some []"] by (cases "run_state m W") (simp add: run_check)

lemma sample_delete_code:
  "resp_code (fst (run_state (serve Orch_Sched_Props.sample_service (R_DeleteSandbox ''b'') q) sample_world)) = 200"
  by code_simp

lemma sample_create_code:
  "resp_code (fst (run_state (h_CreateSandbox Orch_Sched_Props.sample_service True (Inr sample_create)) sample_world)) = 201"
  by code_simp

subsection \<open>Deleting\<close>

lemma h_DeleteSandbox_ok:
  assumes "run_state (h_DeleteSandbox svc i) w = (resp, w')" "resp_code resp < 400"
  shows "run_state (DeleteSandbox svc i) w = (Inr (), w')"
  using assms
  by (auto simp: h_DeleteSandbox_def answer_def JSON_def respond_missing_def respond_err_def status_codes
      split: prod.splits sum.splits if_splits)


lemma sample_delete_run:
  "fst (run_state (cmd_delete sample_lib (sample_net Orch_Sched_Props.sample_service []) (sample_opts []) False ''sbx/b'')
     (sample_ctl_world sample_world)) = Inr ()"
proof -
  have p: "parseObjectRef ''sbx/b'' = Inr \<lparr>or_Resource = ''sandbox'', or_Name = ''b''\<rparr>" by code_simp
  have "CHR ''/'' \<notin> set ''b''" by simp
  from sample_ctl_do [OF sandbox_dest(1) [OF this] refl, of Orch_Sched_Props.sample_service None sample_world "[]"] sample_delete_code
  have "fst (run_state (ctl_do sample_lib (sample_net Orch_Sched_Props.sample_service []) (mustClient (sample_opts []))
      ''DELETE'' (''/api/v1/sandboxes/'' @ PathEscape ''b'') None) (sample_ctl_world sample_world)) = Inr (Some [])" by simp
  moreover have "TrimSpace ''b'' = ''b''" by code_simp
  ultimately have "fst (run_state (ctl_DeleteSandbox sample_lib (sample_net Orch_Sched_Props.sample_service [])
      (mustClient (sample_opts [])) ''b'') (sample_ctl_world sample_world)) = Inr (Some [])"
    by (simp add: ctl_DeleteSandbox_def)
  from sample_check [OF this] show ?thesis
    by (simp add: cmd_delete_def p delete_object_def no_node_def) (simp add: sample_opts_def)
qed


subsection \<open>Creating\<close>

text \<open>What \<^verbatim>\<open>create -f\<close> sends for a sandbox manifest.\<close>

definition manifest_body :: "SandboxManifest \<Rightarrow> (string \<times> any) list" where
  "manifest_body m = [(''id'', AnyString (TrimSpace (mf_ID m))), (''spec'', any_of (mf_Spec m))]"

lemma kind_sandbox: "ToLower (TrimSpace (toString L (AnyString ''Sandbox''))) = ''sandbox''"
proof -
  have "ToLower (TrimSpace ''Sandbox'') = ''sandbox''" by code_simp
  then show ?thesis by (simp add: toString_def)
qed

lemma sandbox_manifest:
  assumes "lib_yaml_Unmarshal L raw = Inr m" "ToLower (TrimSpace (mf_Kind m)) = ''sandbox''"
  shows "ParseManifest L raw =
    (if TrimSpace (mf_ID m) = [] then Inl (Errorf ''id is required'')
     else parsed ''Sandbox'' (TrimSpace (mf_ID m)) (mf_Spec m) [''containers''])"
proof -
  have "TrimSpace (mf_Kind m) \<noteq> []" using assms(2) by auto
  then show ?thesis using assms by (simp add: ParseManifest_def Let_def)
qed

lemma cmd_create_sandbox:
  assumes "read file = Inr raw" "lib_yaml_Unmarshal L raw = Inr m" "ToLower (TrimSpace (mf_Kind m)) = ''sandbox''"
    and "run_state (cmd_create L net opts read file) W = (Inr (), W')"
  obtains out W1 where "TrimSpace (mf_ID m) \<noteq> []" "has_key (mf_Spec m) ''containers''"
    "run_state (if no_node opts then ctl_CreateSandbox L net (mustClient opts) (manifest_body m)
       else ctl_NodeCreateSandbox L net (mustClient opts) (op_Node opts) (manifest_body m)) W = (Inr out, W1)"
    "cw_env W' = cw_env W1"
proof -
  let ?p = "Some [(''kind'', AnyString ''Sandbox''), (''id'', AnyString (TrimSpace (mf_ID m))), (''spec'', any_of (mf_Spec m))]"
  have ok: "TrimSpace (mf_ID m) \<noteq> [] \<and> required (mf_Spec m) [''containers''] = None"
    using assms by (auto simp: cmd_create_def sandbox_manifest [OF assms(2,3)] parsed_def split: if_splits option.splits)
  then have pm: "ParseManifest L raw = Inr ?p"
    by (simp add: sandbox_manifest [OF assms(2,3)] parsed_def)
  have "run_state (check (create_object L net opts ?p) (\<lambda>out. printAny L out (op_Output opts))) W = (Inr (), W')"
    using assms(1,4) pm by (simp add: cmd_create_def split: if_splits)
  then obtain out W1 where c: "run_state (create_object L net opts ?p) W = (Inr out, W1)"
    and p: "run_state (printAny L out (op_Output opts)) W1 = (Inr (), W')" by (rule check_InrE)
  have "lookup ?p ''kind'' = AnyString ''Sandbox''" "lookup ?p ''id'' = AnyString (TrimSpace (mf_ID m))"
    "lookup ?p ''spec'' = any_of (mf_Spec m)" by (simp_all add: lookup_def)
  then have "create_object L net opts ?p = (if no_node opts then ctl_CreateSandbox L net (mustClient opts) (manifest_body m)
       else ctl_NodeCreateSandbox L net (mustClient opts) (op_Node opts) (manifest_body m))"
    by (simp add: create_object_def kind_sandbox manifest_body_def Let_def)
  moreover have "has_key (mf_Spec m) ''containers''"
    using ok by (auto simp: required_def split: if_splits)
  ultimately show ?thesis using that ok c run_printAny(1) [OF p] by simp
qed

lemma h_CreateSandbox_ok:
  assumes "run_state (h_CreateSandbox svc al body) w = (resp, w')" "resp_code resp < 400"
  obtains req s where "body = Inr req" "run_state (CreateSandbox svc req) w = (Inr s, w')"
  using assms
  by (auto simp: h_CreateSandbox_def ShouldBindJSON_def answer_def JSON_def respond_invalid_def respond_err_def status_codes
      split: prod.splits sum.splits if_splits)

text \<open>
  C8: what the operator sees created is stored.  When \<^verbatim>\<open>sbxctl create -f file\<close> of a sandbox manifest,
  sent to the orchestrator, ends without an error, the manifest has an id and containers, the body
  it sends binds to a well-formed request, no sandbox of that name existed, and a Pending sandbox
  with the requested specification is stored; no other sandbox is touched.
\<close>

theorem ctl_create_end_to_end:
  assumes "no_node opts" "read file = Inr raw" "lib_yaml_Unmarshal L raw = Inr m"
    and "ToLower (TrimSpace (mf_Kind m)) = ''sandbox''"
    and "run_state (cmd_create L (orch_net svc binding enc (cc_baseURL (mustClient opts))) opts read file) W = (Inr (), W')"
  shows "TrimSpace (mf_ID m) \<noteq> [] \<and> has_key (mf_Spec m) ''containers'' \<and>
    (\<exists>req s. in_sandbox (binding (Some (manifest_body m))) = Inr req \<and> create_ok svc req \<and>
       sql_get_sandbox (TrimSpace (cso_ID req)) (w_db (cw_env W)) = None \<and>
       sql_get_sandbox (TrimSpace (cso_ID req)) (w_db (cw_env W')) = Some s \<and>
       sbx_Spec s = cso_Spec req \<and> st_Phase (sbx_Status s) = SandboxPhasePending \<and>
       frame (TrimSpace (cso_ID req)) (w_db (cw_env W)) (w_db (cw_env W')))"
proof -
  let ?c = "mustClient opts"
  let ?net = "orch_net svc binding enc (cc_baseURL ?c)"
  obtain out W1 where o: "TrimSpace (mf_ID m) \<noteq> []" "has_key (mf_Spec m) ''containers''"
    "run_state (if no_node opts then ctl_CreateSandbox L ?net ?c (manifest_body m)
       else ctl_NodeCreateSandbox L ?net ?c (op_Node opts) (manifest_body m)) W = (Inr out, W1)"
    "cw_env W' = cw_env W1"
    using assms(2-5) by (rule cmd_create_sandbox)
  have "run_state (ctl_do L ?net ?c ''POST'' ''/api/v1/sandboxes'' (Some (manifest_body m))) W = (Inr out, W1)"
    using o(3) assms(1) by (simp add: ctl_CreateSandbox_def)
  moreover have "orch_dest ''POST'' ''/api/v1/sandboxes'' = Some R_CreateSandbox" by code_simp
  ultimately obtain resp v where s: "run_state (serve svc R_CreateSandbox
      (url_inputs ''/api/v1/sandboxes'' (binding (Some (manifest_body m))))) (cw_env W) = (resp, v)"
    "resp_code resp < 400" "W1 = W\<lparr>cw_env := v\<rparr>" by (rule ctl_do_orch)
  let ?q = "binding (Some (manifest_body m))"
  have "run_state (h_CreateSandbox svc (in_allowed ?q) (in_sandbox ?q)) (cw_env W) = (resp, v)"
    using s(1) by (simp add: serve_def url_inputs_def Let_def)
  then obtain req x where r: "in_sandbox ?q = Inr req" "run_state (CreateSandbox svc req) (cw_env W) = (Inr x, v)"
    using s(2) by (rule h_CreateSandbox_ok)
  have "cw_env W' = v" using o(4) s(3) by simp
  with create_outcome [OF r(2)] r(1) o(1,2) show ?thesis by (auto split: if_splits)
qed

lemma sample_payload:
  "ParseManifest sample_lib raw = Inr (Some [(''kind'', AnyString ''Sandbox''), (''id'', AnyString ''c''),
     (''spec'', any_of (mf_Spec sample_manifest))])"
proof -
  have "TrimSpace (mf_ID sample_manifest) = ''c''" by code_simp
  moreover have "required (mf_Spec sample_manifest) [''containers''] = None" by code_simp
  ultimately show ?thesis
    by (simp add: sandbox_manifest [OF sample_manifest_facts] parsed_def)
qed

lemma sample_create_run:
  "fst (run_state (cmd_create sample_lib (sample_net Orch_Sched_Props.sample_service []) (sample_opts []) (\<lambda>_. Inr ''raw'') ''f'')
     (sample_ctl_world sample_world)) = Inr ()"
proof -
  let ?b = "[(''id'', AnyString ''c''), (''spec'', any_of (mf_Spec sample_manifest))]"
  have f: "TrimSpace ''f'' = ''f''" by code_simp
  have "orch_dest ''POST'' ''/api/v1/sandboxes'' = Some R_CreateSandbox" by code_simp
  moreover have s: "serve Orch_Sched_Props.sample_service R_CreateSandbox (url_inputs ''/api/v1/sandboxes'' (sample_binding (Some ?b))) =
      h_CreateSandbox Orch_Sched_Props.sample_service True (Inr sample_create)"
    by (simp add: serve_def url_inputs_def sample_binding_def Let_def)
  have "resp_code (fst (run_state (serve Orch_Sched_Props.sample_service R_CreateSandbox
      (url_inputs ''/api/v1/sandboxes'' (sample_binding (Some ?b)))) sample_world)) < 400"
    unfolding s by (simp add: sample_create_code)
  ultimately have "fst (run_state (ctl_do sample_lib (sample_net Orch_Sched_Props.sample_service []) (mustClient (sample_opts []))
      ''POST'' ''/api/v1/sandboxes'' (Some ?b)) (sample_ctl_world sample_world)) = Inr (Some [])"
    by (intro sample_ctl_do [OF _ refl])
  then have "fst (run_state (ctl_CreateSandbox sample_lib (sample_net Orch_Sched_Props.sample_service [])
      (mustClient (sample_opts [])) ?b) (sample_ctl_world sample_world)) = Inr (Some [])"
    by (simp add: ctl_CreateSandbox_def)
  from sample_check [OF this] show ?thesis
    by (simp add: cmd_create_def sample_payload create_object_def lookup_def kind_sandbox no_node_def f)
      (simp add: sample_opts_def)
qed

theorem ctl_create_end_to_end_witness:
  "\<exists>s. sql_get_sandbox ''c'' (w_db (cw_env (snd (run_state
     (cmd_create sample_lib (sample_net Orch_Sched_Props.sample_service []) (sample_opts []) (\<lambda>_. Inr ''raw'') ''f'')
     (sample_ctl_world sample_world))))) = Some s \<and> st_Phase (sbx_Status s) = SandboxPhasePending"
proof -
  obtain W' where r: "run_state (cmd_create sample_lib (sample_net Orch_Sched_Props.sample_service []) (sample_opts [])
      (\<lambda>_. Inr ''raw'') ''f'') (sample_ctl_world sample_world) = (Inr (), W')"
    using sample_create_run by (metis prod.collapse)
  have o: "no_node (sample_opts [])" by (simp add: no_node_def sample_opts_def)
  have t: "TrimSpace (cso_ID sample_create) = ''c''" by code_simp
  from ctl_create_end_to_end [OF o _ sample_manifest_facts r [unfolded sample_net_def]] r show ?thesis
    by (auto simp: sample_binding_def t)
qed

subsection \<open>Creating through a node\<close>

lemma no_containers_refused:
  assumes "cr_Containers req = []"
  shows "400 \<le> lr_code (fst (run_state (createSandbox S (Inr req)) v))"
proof -
  have bad: "\<exists>e. fst (run_state (CreateSandboxAsync S r) u) = Inl e" if c: "cr_Containers r = []" for r u
  proof (rule ccontr)
    assume "\<not> ?thesis"
    then obtain sbx u' where "run_state (CreateSandboxAsync S r) u = (Inr sbx, u')"
      by (metis prod.collapse sum.exhaust)
    then obtain x u1 where "run_state (let_createSandbox S r True) u = (Inr x, u1)"
      unfolding CreateSandboxAsync_def by (rule check_InrE)
    then obtain u2 u3 where "run_state (create_locked S r True) u2 = (Inr x, u3)"
      unfolding let_createSandbox_def by (rule with_lock_InrE)
    moreover have "Validate r \<noteq> None" using c by (simp add: Validate_def)
    ultimately show False by (cases "Validate r") (simp_all add: create_locked_def)
  qed
  obtain r u where r: "run_state (if cr_ID req = [] then do { now \<leftarrow> let_Now (sv_host S);
      ret (req\<lparr>cr_ID := ''sbx-'' @ time_stamp now\<rparr>) } else ret req) v = (r, u)" by fastforce
  then have "cr_Containers r = []" using assms by (auto split: if_splits prod.splits)
  from bad [OF this, of u] obtain e u1 where e: "run_state (CreateSandboxAsync S r) u = (Inl e, u1)"
    by (metis prod.collapse)
  have "run_state (createSandbox S (Inr req)) v = run_state (respondError StatusBadRequest e) u1"
    by (simp add: createSandbox_def r e del: run_state_bind add: run_bind)
  then show ?thesis by (simp add: respondError_def respondErrorMessage_def reply_def status_codes)
qed

lemma client_create_refused:
  assumes "faithful dec" "cr_Containers req = []" "cl_baseURL c = b"
  shows "\<exists>e v. run_state (client_CreateSandbox (agent_net S dec b) c req) w = (Inl e, w\<lparr>w_env := v\<rparr>)"
proof -
  let ?rq = "\<lparr>rq_Method = ''POST'', rq_Segments = [''v1'', ''sandboxes''], rq_Query = [],
      rq_Create = Inr req, rq_IDs = Inl (Errorf ''EOF'')\<rparr>"
  obtain r v where r: "run_state (let_serve S ?rq) (w_env w) = (r, v)" by fastforce
  have "run_state (createSandbox S (Inr req)) (w_env w) = (r, v)"
    using r by (simp add: let_serve_def let_route_def)
  then have "400 \<le> lr_code r" using no_containers_refused [OF assms(2), of S "w_env w"] by simp
  then show ?thesis
    using client_do_agent [OF assms(1) create_path assms(3) r] unfolding client_CreateSandbox_def by auto
qed

lemma proxy_create_refused:
  assumes "faithful dec" "svc_net svc = agent_net S dec b"
    and "\<forall>n. sql_get_node i (w_db w) = Some n \<longrightarrow> cl_baseURL (client_New (n_SbxletBaseURL n)) = b"
    and "\<forall>req. body = Inr req \<longrightarrow> cr_Containers req = []"
    and "run_state (h_NodeCreateSandbox svc i body) w = (resp, w')"
  shows "400 \<le> resp_code resp \<and> w_db w' = w_db w"
proof -
  obtain x w1 where x: "run_state (repo_GetNode i) w = (x, w1)" by fastforce
  have db: "w_db w1 = w_db w"
    using x unfolding repo_GetNode_def by (rule run_query_row_db)
  show ?thesis
  proof (cases x)
    case (Inl e)
    with assms(5) x db show ?thesis
      by (auto simp: h_NodeCreateSandbox_def answer_def SandboxOpClientForNode_def run_check respondNodeErr_def JSON_def
          status_codes split: if_splits)
  next
    case (Inr n)
    have g: "sql_get_node i (w_db w) = Some n"
      using x Inr run_query_row_Inr [of "sql_get_node i" w n w1] unfolding repo_GetNode_def by simp
    show ?thesis
    proof (cases body)
      case b: (Inl e)
      with assms(5) x db Inr show ?thesis
        by (auto simp: h_NodeCreateSandbox_def answer_def SandboxOpClientForNode_def run_check ShouldBindJSON_def JSON_def
            status_codes)
    next
      case b: (Inr req)
      obtain e v where e: "run_state (client_CreateSandbox (svc_net svc) (client_New (n_SbxletBaseURL n)) req) w1
          = (Inl e, w1\<lparr>w_env := v\<rparr>)"
        using client_create_refused [OF assms(1)] assms(2-4) g b by metis
      with assms(5) x db Inr b show ?thesis
        by (auto simp: h_NodeCreateSandbox_def answer_def SandboxOpClientForNode_def run_check ShouldBindJSON_def JSON_def
            respondProxy_def status_codes)
    qed
  qed
qed

text \<open>
  C37: \<^verbatim>\<open>sbxctl create -f\<close> of a sandbox manifest with \<^verbatim>\<open>--node\<close> never succeeds.  It sends the object
  \<^verbatim>\<open>{id, spec}\<close> to the proxy route of the node, which binds a flat agent request: no key of the object
  is \<^verbatim>\<open>containers\<close>, so the bound request has none and the agent refuses it.  The command ends with an
  error and the orchestrator's database is what it was.  The hypothesis on \<open>binding\<close> is that of
  \<^verbatim>\<open>encoding/json\<close>: a field no key of the object matches, up to case, keeps its zero value.
\<close>

theorem ctl_create_node_refused:
  assumes "\<not> no_node opts" "CHR ''/'' \<notin> set (op_Node opts)" "read file = Inr raw"
    and "lib_yaml_Unmarshal L raw = Inr m" "ToLower (TrimSpace (mf_Kind m)) = ''sandbox''"
    and "\<forall>kvs req. (\<forall>kv \<in> set kvs. \<not> EqualFold (fst kv) ''containers'') \<longrightarrow>
        in_let_create (binding (Some kvs)) = Inr req \<longrightarrow> cr_Containers req = []"
    and "faithful dec" "svc_net svc = agent_net S dec b"
    and "\<forall>n. sql_get_node (op_Node opts) (w_db (cw_env W)) = Some n \<longrightarrow> cl_baseURL (client_New (n_SbxletBaseURL n)) = b"
    and "run_state (cmd_create L (orch_net svc binding enc (cc_baseURL (mustClient opts))) opts read file) W = (x, W')"
  shows "\<exists>e. x = Inl e"
proof (rule ccontr)
  assume "\<nexists>e. x = Inl e"
  then have x: "x = Inr ()" by (cases x) auto
  let ?c = "mustClient opts" and ?b = "binding (Some (manifest_body m))"
  let ?net = "orch_net svc binding enc (cc_baseURL ?c)"
  obtain out W1 where "run_state (if no_node opts then ctl_CreateSandbox L ?net ?c (manifest_body m)
       else ctl_NodeCreateSandbox L ?net ?c (op_Node opts) (manifest_body m)) W = (Inr out, W1)"
    using assms(3-5) assms(10) [unfolded x] by (rule cmd_create_sandbox)
  then have "run_state (ctl_do L ?net ?c ''POST'' (node_sandboxes (op_Node opts)) (Some (manifest_body m))) W = (Inr out, W1)"
    using assms(1) by (simp add: ctl_NodeCreateSandbox_def)
  then obtain resp v where s: "run_state (serve svc (R_NodeCreateSandbox (op_Node opts))
      (url_inputs (node_sandboxes (op_Node opts)) ?b)) (cw_env W) = (resp, v)" "resp_code resp < 400"
    using node_sandboxes_dest [OF assms(2)] by (rule ctl_do_orch)
  have h: "run_state (h_NodeCreateSandbox svc (op_Node opts) (in_let_create ?b)) (cw_env W) = (resp, v)"
    using s(1) by (simp add: serve_def url_inputs_def Let_def)
  have "\<not> EqualFold (fst kv) ''containers''" if "kv \<in> set (manifest_body m)" for kv
    using that by (auto simp: manifest_body_def EqualFold_def ToLower_def)
  then have "\<forall>req. in_let_create ?b = Inr req \<longrightarrow> cr_Containers req = []"
    using assms(6) by blast
  from proxy_create_refused [OF assms(7-9) this h] s(2) show False by simp
qed

definition joint_service :: "chains let_world Service" where
  "joint_service = \<lparr>svc_cfg = sample_config,
     svc_net = agent_net Let_Samples.sample_service plain_dec
       (cl_baseURL (client_New (n_SbxletBaseURL (join_node sample_db (sample_node ''n1''))))),
     svc_ParseQuantity = sample_quantity\<rparr>"

theorem ctl_create_node_refused_witness:
  "\<exists>e. fst (run_state (cmd_create sample_lib (sample_net joint_service ''n1'') (sample_opts ''n1'') (\<lambda>_. Inr ''raw'') ''f'')
     (sample_ctl_world (joint_world sample_let_world))) = Inl e"
proof -
  let ?o = "sample_opts ''n1''" and ?W = "sample_ctl_world (joint_world sample_let_world)"
  have o: "\<not> no_node ?o" "CHR ''/'' \<notin> set (op_Node ?o)" "op_Node ?o = ''n1''"
  proof -
    have "TrimSpace ''n1'' = ''n1''" by code_simp
    then show "\<not> no_node ?o" by (simp add: no_node_def sample_opts_def)
  qed (simp_all add: sample_opts_def)
  have b: "\<forall>kvs req. (\<forall>kv \<in> set kvs. \<not> EqualFold (fst kv) ''containers'') \<longrightarrow>
      in_let_create (sample_binding (Some kvs)) = Inr req \<longrightarrow> cr_Containers req = []"
    by (simp add: sample_binding_def)
  have n: "svc_net joint_service = agent_net Let_Samples.sample_service plain_dec
       (cl_baseURL (client_New (n_SbxletBaseURL (join_node sample_db (sample_node ''n1'')))))"
    by (simp add: joint_service_def)
  have g: "\<forall>n. sql_get_node (op_Node ?o) (w_db (cw_env ?W)) = Some n \<longrightarrow> cl_baseURL (client_New (n_SbxletBaseURL n)) =
      cl_baseURL (client_New (n_SbxletBaseURL (join_node sample_db (sample_node ''n1''))))"
    unfolding o(3) by (simp add: sample_ctl_world_def joint_world_def sql_get_node_def) (simp add: sample_db_def sample_node_def)
  obtain x W' where "run_state (cmd_create sample_lib (sample_net joint_service ''n1'') ?o (\<lambda>_. Inr ''raw'') ''f'') ?W = (x, W')"
    by fastforce
  from ctl_create_node_refused [OF o(1,2) refl sample_manifest_facts b plain_dec_faithful n g this [unfolded sample_net_def]] this
  show ?thesis by simp
qed

end
