(* ===== verification/Pkg_Logging.thy ===== *)
theory Pkg_Logging
  imports Go_Time Let_Path
begin

section \<open>pkg: logging\<close>

text \<open>
  \<^verbatim>\<open>pkg/logging/logging.go\<close>: the handlers a record passes through and the file that changes every
  hour.  Of \<^verbatim>\<open>log/slog\<close> the model has the levels, the level test of \<^verbatim>\<open>JSONHandler\<close> and the context
  that \<^verbatim>\<open>WithAttrs\<close> and \<^verbatim>\<open>WithGroup\<close> accumulate; the text it makes of a record is left out.
  The file writer runs on an explicit set of files; its system calls take their outcome from a
  plan of faults, where a failed write may have written a part.
\<close>

subsection \<open>Levels, attributes and handlers\<close>

definition LevelDebug :: int where "LevelDebug = - 4"
definition LevelInfo :: int where "LevelInfo = 0"
definition LevelWarn :: int where "LevelWarn = 4"
definition LevelError :: int where "LevelError = 8"

lemmas level_defs = LevelDebug_def LevelInfo_def LevelWarn_def LevelError_def

datatype LogValue =
    LogString string | LogInt int | LogDuration int | LogBool bool | LogGroup "(string \<times> LogValue) list"

type_synonym LogAttr = "string \<times> LogValue"

datatype LogContext = CtxAttrs "LogAttr list" | CtxGroup string

record LogRecord =
  rec_Level :: int
  rec_Message :: string
  rec_Attrs :: "LogAttr list"

datatype sink = Stdout | Stderr | LogFile

text \<open>A \<^verbatim>\<open>slog.Handler\<close>: the library's JSON handler with its level and context, or one of the two of the package.\<close>

datatype LogHandler =
    JSONHandler sink int "LogContext list"
  | levelRangeHandler int int bool LogHandler
  | teeHandler "LogHandler list"

text \<open>The \<^verbatim>\<open>ReplaceAttr\<close> of the options, applied to the built-in attributes too.\<close>

definition ReplaceAttr :: "LogAttr \<Rightarrow> LogAttr" where
  "ReplaceAttr a = (case a of (k, v) \<Rightarrow>
     if k = ''time'' then (''ts'', v)
     else if k = ''level'' then (k, (case v of LogString s \<Rightarrow> LogString (ToLower s) | _ \<Rightarrow> v))
     else a)"

primrec h_Enabled :: "int \<Rightarrow> LogHandler \<Rightarrow> bool" where
  "h_Enabled level (JSONHandler s lo ctx) = (lo \<le> level)"
| "h_Enabled level (levelRangeHandler lo hi hasMax h) =
     (if level < lo then False else if hasMax \<and> hi < level then False else h_Enabled level h)"
| "h_Enabled level (teeHandler hs) = list_ex (\<lambda>b. b) (map (h_Enabled level) hs)"

text \<open>What a handler writes for a record: the sinks in order, each with its context.\<close>

primrec h_Handle :: "LogRecord \<Rightarrow> LogHandler \<Rightarrow> (sink \<times> LogContext list) list" where
  "h_Handle r (JSONHandler s lo ctx) = [(s, ctx)]"
| "h_Handle r (levelRangeHandler lo hi hasMax h) = h_Handle r h"
| "h_Handle r (teeHandler hs) =
     concat (map (\<lambda>(e, out). if e then out else [])
       (map (\<lambda>h. (h_Enabled (rec_Level r) h, h_Handle r h)) hs))"

primrec h_WithAttrs :: "LogAttr list \<Rightarrow> LogHandler \<Rightarrow> LogHandler" where
  "h_WithAttrs attrs (JSONHandler s lo ctx) = JSONHandler s lo (if attrs = [] then ctx else ctx @ [CtxAttrs attrs])"
| "h_WithAttrs attrs (levelRangeHandler lo hi hasMax h) = levelRangeHandler lo hi hasMax (h_WithAttrs attrs h)"
| "h_WithAttrs attrs (teeHandler hs) = teeHandler (map (h_WithAttrs attrs) hs)"

primrec h_WithGroup :: "string \<Rightarrow> LogHandler \<Rightarrow> LogHandler" where
  "h_WithGroup name (JSONHandler s lo ctx) = JSONHandler s lo (ctx @ [CtxGroup name])"
| "h_WithGroup name (levelRangeHandler lo hi hasMax h) = levelRangeHandler lo hi hasMax (h_WithGroup name h)"
| "h_WithGroup name (teeHandler hs) = teeHandler (map (h_WithGroup name) hs)"

subsection \<open>The loggers\<close>

record LogConfig =
  lc_Dir :: string
  lc_FilePrefix :: string

record LogOptions =
  lo_Service :: string
  lo_Env :: string
  lo_AddSource :: bool
  lo_Level :: int

definition appName :: "string \<Rightarrow> string \<Rightarrow> string" where
  "appName service env =
     Join ((if service \<noteq> [] then [service] else []) @ (if env \<noteq> [] then [env] else [])) '':''"

definition new_handlers :: "int \<Rightarrow> bool \<Rightarrow> LogHandler list" where
  "new_handlers level file =
     [levelRangeHandler LevelDebug LevelWarn True (JSONHandler Stdout level []),
      levelRangeHandler LevelError 0 False (JSONHandler Stderr level [])] @
     (if file then [levelRangeHandler LevelDebug 0 False (JSONHandler LogFile level [])] else [])"

definition base_handler :: "LogOptions \<Rightarrow> bool \<Rightarrow> LogHandler" where
  "base_handler opts file =
     (let logger = teeHandler (new_handlers (lo_Level opts) file); app = appName (lo_Service opts) (lo_Env opts) in
      if app = [] then logger else h_WithAttrs [(''app'', LogString app)] logger)"

text \<open>The call of a \<^verbatim>\<open>slog.Logger\<close>: the record is built and handled only when its level is enabled.\<close>

definition slog_log :: "LogHandler \<Rightarrow> LogRecord \<Rightarrow> (sink \<times> LogContext list) list" where
  "slog_log h r = (if h_Enabled (rec_Level r) h then h_Handle r h else [])"

text \<open>\<^verbatim>\<open>logWriter.Write\<close>: the record it logs, if any, and the length it answers.\<close>

definition logWriter_Write :: "string \<Rightarrow> LogRecord option \<times> nat" where
  "logWriter_Write p =
     (let msg = TrimRightByte (CHR ''\<newline>'') p in
      (if msg = [] then None
       else Some \<lparr>rec_Level = LevelInfo, rec_Message = msg, rec_Attrs = [(''legacy'', LogBool True)]\<rparr>, length p))"

definition PanicLogger :: "bool \<Rightarrow> string \<Rightarrow> string \<Rightarrow> LogRecord option" where
  "PanicLogger nil_logger recovered stack =
     (if nil_logger then None
      else Some \<lparr>rec_Level = LevelError, rec_Message = ''panic recovered'',
        rec_Attrs = [(''error'', LogString (''panic: '' @ recovered)), (''stack'', LogString stack)]\<rparr>)"

subsection \<open>The file of the hour\<close>

record log_world =
  lw_files :: "string \<Rightarrow> string option"
  lw_clock :: int
  lw_ticks :: "int list"
  lw_plan :: "(nat \<times> GoError) option list"

record rotatingFileWriter =
  rw_dir :: string
  rw_prefix :: string
  rw_currentHour :: "int option"
  rw_file :: "string option"

type_synonym logw = "rotatingFileWriter \<times> log_world"

definition log_Now :: "(logw, int) state" where
  "log_Now = State (\<lambda>(f, w). (lw_clock w,
     (f, w\<lparr>lw_clock := lw_clock w + (case lw_ticks w of [] \<Rightarrow> 0 | t # _ \<Rightarrow> t), lw_ticks := tl (lw_ticks w)\<rparr>)))"

text \<open>The outcome of the next system call.\<close>

definition log_fault :: "(logw, (nat \<times> GoError) option) state" where
  "log_fault = State (\<lambda>(f, w). (case lw_plan w of [] \<Rightarrow> None | x # _ \<Rightarrow> x, (f, w\<lparr>lw_plan := tl (lw_plan w)\<rparr>)))"

definition plain_call :: "(logw, GoError + unit) state" where
  "plain_call = do { x \<leftarrow> log_fault; (case x of None \<Rightarrow> ok () | Some (_, e) \<Rightarrow> fail e) }"

definition set_writer :: "(rotatingFileWriter \<Rightarrow> rotatingFileWriter) \<Rightarrow> (logw, unit) state" where
  "set_writer g = State (\<lambda>(f, w). ((), (g f, w)))"

definition get_writer :: "(logw, rotatingFileWriter) state" where
  "get_writer = State (\<lambda>(f, w). (f, (f, w)))"

text \<open>\<^verbatim>\<open>O_APPEND|O_CREATE\<close>: an existing file keeps its content.\<close>

definition open_append :: "string \<Rightarrow> (logw, GoError + unit) state" where
  "open_append path = check plain_call (\<lambda>_. State (\<lambda>(f, w). (Inr (),
     (f, w\<lparr>lw_files := (lw_files w)(path := Some (case lw_files w path of None \<Rightarrow> [] | Some c \<Rightarrow> c))\<rparr>))))"

definition append_file :: "string \<Rightarrow> string \<Rightarrow> logw \<Rightarrow> logw" where
  "append_file path p = (\<lambda>(f, w). (f, w\<lparr>lw_files :=
     (lw_files w)(path := Some ((case lw_files w path of None \<Rightarrow> [] | Some c \<Rightarrow> c) @ p))\<rparr>))"

definition file_Write :: "string \<Rightarrow> string \<Rightarrow> (logw, nat \<times> GoError option) state" where
  "file_Write path p = do {
     x \<leftarrow> log_fault;
     State (\<lambda>s. (case x of
        None \<Rightarrow> ((length p, None), append_file path p s)
      | Some (n, e) \<Rightarrow> ((min n (length p), Some e), append_file path (take n p) s))) }"

definition hour_name :: "int \<Rightarrow> string" where
  "hour_name t =
     (let secs = t div 1000000000; (y, m, d) = civil_date (secs div 86400) in
      decimal 4 y @ decimal 2 m @ decimal 2 d @ ''-'' @ decimal 2 (secs mod 86400 div 3600))"

definition pathForTime :: "rotatingFileWriter \<Rightarrow> int \<Rightarrow> string" where
  "pathForTime f t = filepath_Join [rw_dir f, rw_prefix f @ ''-'' @ hour_name t @ ''.log'']"

definition sameHour :: "int \<Rightarrow> int option \<Rightarrow> bool" where
  "sameHour a b \<longleftrightarrow> (case b of None \<Rightarrow> False | Some t \<Rightarrow> truncateToHour a = truncateToHour t)"

definition rotate_file :: "int \<Rightarrow> (logw, GoError + unit) state" where
  "rotate_file now = check plain_call (\<lambda>_. do {
     f \<leftarrow> get_writer;
     (if rw_file f \<noteq> None then do { plain_call; plain_call; set_writer (\<lambda>f. f\<lparr>rw_file := None\<rparr>) } else ret ());
     let path = pathForTime f now in
     check (open_append path) (\<lambda>_. do {
       set_writer (\<lambda>f. f\<lparr>rw_file := Some path, rw_currentHour := Some (truncateToHour now)\<rparr>);
       ok () }) })"

definition rotate_if :: "bool \<Rightarrow> int \<Rightarrow> (logw, GoError + unit) state" where
  "rotate_if b now = (if b then rotate_file now else ok ())"

definition file_sync :: "nat \<Rightarrow> (logw, nat \<times> GoError option) state" where
  "file_sync n = do {
     r \<leftarrow> plain_call;
     (case r of Inl e \<Rightarrow> ret (n, Some e) | Inr _ \<Rightarrow> ret (n, None)) }"

definition writer_Write :: "string \<Rightarrow> (logw, nat \<times> GoError option) state" where
  "writer_Write p = do {
     now \<leftarrow> log_Now;
     f0 \<leftarrow> get_writer;
     r0 \<leftarrow> rotate_if (\<not> sameHour now (rw_currentHour f0)) now;
     (case r0 of Inl e \<Rightarrow> ret (0, Some e) | Inr _ \<Rightarrow> do {
       f1 \<leftarrow> get_writer;
       r1 \<leftarrow> rotate_if (rw_file f1 = None) now;
       (case r1 of Inl e \<Rightarrow> ret (0, Some e) | Inr _ \<Rightarrow> do {
         f2 \<leftarrow> get_writer;
         (n, err) \<leftarrow> file_Write (case rw_file f2 of None \<Rightarrow> [] | Some path \<Rightarrow> path) p;
         (case err of Some e \<Rightarrow> ret (n, Some e) | None \<Rightarrow> file_sync n) }) }) }"

definition writer_Close :: "(logw, GoError + unit) state" where
  "writer_Close = do {
     f \<leftarrow> get_writer;
     (if rw_file f = None then ok ()
      else do {
        s \<leftarrow> plain_call;
        c \<leftarrow> plain_call;
        set_writer (\<lambda>f. f\<lparr>rw_file := None\<rparr>);
        ret (case s of Inl e \<Rightarrow> Inl e | Inr _ \<Rightarrow> c) }) }"

definition newRotatingFileWriter :: "string \<Rightarrow> string \<Rightarrow> (logw, GoError + unit) state" where
  "newRotatingFileWriter dir prefix = do {
     set_writer (\<lambda>_. \<lparr>rw_dir = dir, rw_prefix = prefix, rw_currentHour = None, rw_file = None\<rparr>);
     now \<leftarrow> log_Now;
     rotate_file now }"

text \<open>\<^verbatim>\<open>New\<close>: the handler of the new logger, which has a file exactly when a directory is configured.\<close>

definition logging_New :: "LogConfig \<Rightarrow> LogOptions \<Rightarrow> (logw, GoError + LogHandler) state" where
  "logging_New cfg opts =
     (if lc_Dir cfg \<noteq> [] then
        check (newRotatingFileWriter (lc_Dir cfg) (lc_FilePrefix cfg)) (\<lambda>_. ok (base_handler opts True))
      else ok (base_handler opts False))"

definition logger_Close :: "bool \<Rightarrow> bool \<Rightarrow> (logw, GoError + unit) state" where
  "logger_Close nil_logger has_closer = (if nil_logger \<or> \<not> has_closer then ok () else writer_Close)"

end
