(* ===== verification/Pkg_Logging_Props.thy ===== *)
theory Pkg_Logging_Props
  imports Pkg_Logging
begin

section \<open>pkg: what is logged where\<close>

text \<open>
  A record reaches one of the standard streams by its level, and the file if there is one; a
  successful write of the file writer appends its bytes to the file named after the current hour,
  a failed one a prefix of them, and no other file changes.  The invariant \<open>writer_ok\<close> says that
  the open file is the one of the remembered hour.
\<close>

subsection \<open>Routing\<close>

lemma handle_attrs: "map fst (h_Handle r (h_WithAttrs attrs h)) = map fst (h_Handle r h)"
  and enabled_attrs: "h_Enabled l (h_WithAttrs attrs h) = h_Enabled l h"
proof -
  have e: "h_Enabled l (h_WithAttrs attrs h) = h_Enabled l h" for l h
    by (induction h) (simp_all add: comp_def list_ex_iff)
  show "h_Enabled l (h_WithAttrs attrs h) = h_Enabled l h" by (rule e)
  show "map fst (h_Handle r (h_WithAttrs attrs h)) = map fst (h_Handle r h)"
    by (induction h) (simp_all add: e map_concat comp_def case_prod_beta if_distrib cong: map_cong if_cong)
qed

text \<open>
  Where a record goes.  Below the configured level it goes nowhere; otherwise to standard output
  for the levels from Debug to Warn, to standard error from Error on, and to the file, if a
  directory is configured, from Debug on: never to both streams, and to each sink at most once.
\<close>

theorem log_routing:
  "map fst (slog_log (base_handler opts file) r) =
     (if rec_Level r < lo_Level opts then []
      else (if LevelDebug \<le> rec_Level r \<and> rec_Level r \<le> LevelWarn then [Stdout] else []) @
        (if LevelError \<le> rec_Level r then [Stderr] else []) @
        (if file \<and> LevelDebug \<le> rec_Level r then [LogFile] else []))"
proof -
  have "map fst (slog_log (base_handler opts file) r) = map fst (slog_log (teeHandler (new_handlers (lo_Level opts) file)) r)"
    unfolding slog_log_def base_handler_def Let_def by (simp add: handle_attrs enabled_attrs del: h_Handle.simps h_WithAttrs.simps)
  then show ?thesis by (auto simp: slog_log_def new_handlers_def level_defs)
qed

subsection \<open>The file writer\<close>

definition content :: "logw \<Rightarrow> string \<Rightarrow> string" where
  "content s path = (case lw_files (snd s) path of None \<Rightarrow> [] | Some c \<Rightarrow> c)"

lemma content_pair [simp]: "content (g, snd s) = content s"
  by (simp add: content_def fun_eq_iff)

definition same_names :: "logw \<Rightarrow> logw \<Rightarrow> bool" where
  "same_names s s' \<longleftrightarrow> rw_dir (fst s') = rw_dir (fst s) \<and> rw_prefix (fst s') = rw_prefix (fst s)"

definition writer_ok :: "logw \<Rightarrow> bool" where
  "writer_ok s \<longleftrightarrow> (case rw_file (fst s) of None \<Rightarrow> True
     | Some p \<Rightarrow> (\<exists>t. rw_currentHour (fst s) = Some (truncateToHour t) \<and> p = pathForTime (fst s) t))"

lemma writer_ok_fst: "fst s' = fst s \<Longrightarrow> writer_ok s' = writer_ok s"
  by (simp only: writer_ok_def)

lemma hour_name_hours:
  "hour_name t = (let h = t div time_Hour; (y, m, d) = civil_date (h div 24) in
     decimal 4 y @ decimal 2 m @ decimal 2 d @ ''-'' @ decimal 2 (h mod 24))"
proof -
  define x where "x = t div 1000000000"
  have h: "x div 3600 = t div time_Hour"
    using zdiv_zmult2_eq [of 3600 t 1000000000] by (simp add: x_def time_Hour_def)
  have "x div 86400 = x div 3600 div 24"
    using zdiv_zmult2_eq [of 24 x 3600] by simp
  moreover have "x mod 86400 div 3600 = x div 3600 mod 24"
  proof -
    have "x mod 86400 = 3600 * (x div 3600 mod 24) + x mod 3600"
      using zmod_zmult2_eq [of 24 x 3600] by simp
    then show ?thesis by simp
  qed
  ultimately show ?thesis unfolding hour_name_def Let_def x_def [symmetric] h by simp
qed

lemma pathForTime_hour: "truncateToHour a = truncateToHour b \<Longrightarrow> pathForTime f a = pathForTime f b"
proof -
  assume "truncateToHour a = truncateToHour b"
  then have "a div time_Hour = b div time_Hour"
    by (simp add: truncateToHour_def minus_mod_eq_mult_div time_Hour_def)
  then show ?thesis by (simp add: pathForTime_def hour_name_hours)
qed

lemma pathForTime_names: "same_names s s' \<Longrightarrow> pathForTime (fst s') t = pathForTime (fst s) t"
  by (simp add: pathForTime_def same_names_def)

definition quiet_step :: "logw \<Rightarrow> logw \<Rightarrow> bool" where
  "quiet_step s s' \<longleftrightarrow> content s' = content s \<and> same_names s s' \<and>
     lw_clock (snd s') = lw_clock (snd s) \<and> lw_ticks (snd s') = lw_ticks (snd s)"

lemma preorder_quiet_step: "preorder_rel quiet_step"
  by (auto simp: preorder_rel_def reflp_def transp_def quiet_step_def same_names_def)

definition drop_fault :: "logw \<Rightarrow> logw" where
  "drop_fault s = (fst s, (snd s)\<lparr>lw_plan := tl (lw_plan (snd s))\<rparr>)"

lemma run_plain_call: "\<exists>r. run_state plain_call s = (r, drop_fault s)"
  by (cases s) (auto simp: plain_call_def log_fault_def drop_fault_def split: option.split)

lemma run_writer: "run_state get_writer s = (fst s, s)" "run_state (set_writer g) s = ((), (g (fst s), snd s))"
  by (simp_all add: get_writer_def set_writer_def split_def)

lemma drop_fault_facts [simp]: "fst (drop_fault s) = fst s" "content (drop_fault s) = content s"
  "lw_clock (snd (drop_fault s)) = lw_clock (snd s)" "lw_ticks (snd (drop_fault s)) = lw_ticks (snd s)"
  by (simp_all add: drop_fault_def content_def fun_eq_iff)

lemma quiet_drop [simp]: "quiet_step s (drop_fault s)"
  by (simp add: quiet_step_def same_names_def)

lemma open_append_run:
  assumes "run_state (open_append path) s = (r, s')"
  shows "fst s' = fst s" "quiet_step s s'"
proof -
  obtain x where x: "run_state plain_call s = (x, drop_fault s)" using run_plain_call by blast
  show "fst s' = fst s" "quiet_step s s'"
    using assms x
    by (auto simp: open_append_def run_check drop_fault_def quiet_step_def same_names_def content_def fun_eq_iff
        split: sum.splits option.splits if_splits)
qed

definition close_old :: "(logw, unit) state" where
  "close_old = do {
     f \<leftarrow> get_writer;
     (if rw_file f \<noteq> None then do { plain_call; plain_call; set_writer (\<lambda>f. f\<lparr>rw_file := None\<rparr>) } else ret ()) }"

lemma close_old_run:
  assumes "run_state close_old s = (u, s')"
  shows "fst s' = (fst s)\<lparr>rw_file := None\<rparr>" "quiet_step s s'"
proof -
  obtain x where x: "run_state plain_call s = (x, drop_fault s)" using run_plain_call by blast
  obtain y where y: "run_state plain_call (drop_fault s) = (y, drop_fault (drop_fault s))" using run_plain_call by blast
  let ?t = "drop_fault (drop_fault s)"
  have t: "fst ?t = fst s" "quiet_step s ?t" by (simp_all add: quiet_step_def same_names_def)
  have s': "s' = (if rw_file (fst s) = None then s else ((fst s)\<lparr>rw_file := None\<rparr>, snd ?t))"
    using assms x y by (auto simp: close_old_def run_writer split: if_splits)
  show "fst s' = (fst s)\<lparr>rw_file := None\<rparr>" using s' by (cases "fst s") auto
  show "quiet_step s s'" using s' by (auto simp: quiet_step_def same_names_def content_def drop_fault_def fun_eq_iff)
qed

lemma rotate_file_close:
  "rotate_file now = check plain_call (\<lambda>_. do { f \<leftarrow> get_writer; close_old;
     check (open_append (pathForTime f now)) (\<lambda>_. do {
       set_writer (\<lambda>g. g\<lparr>rw_file := Some (pathForTime f now), rw_currentHour := Some (truncateToHour now)\<rparr>);
       ok () }) })"
  by (rule state.expand)
    (auto simp: rotate_file_def close_old_def get_writer_def Let_def check_def fun_eq_iff split: sum.splits prod.splits)

lemma rotate_run:
  assumes "run_state (rotate_file now) s = (r, s')"
  shows "quiet_step s s'"
    "r = Inr u \<Longrightarrow> rw_file (fst s') = Some (pathForTime (fst s) now) \<and> rw_currentHour (fst s') = Some (truncateToHour now)"
    "r = Inl e \<Longrightarrow> rw_file (fst s') = None \<or> fst s' = fst s"
proof -
  let ?p = "pathForTime (fst s) now"
  obtain x where x: "run_state plain_call s = (x, drop_fault s)" using run_plain_call by blast
  obtain v s1 where 1: "run_state close_old (drop_fault s) = (v, s1)" by (meson surj_pair)
  obtain y s2 where 2: "run_state (open_append ?p) s1 = (y, s2)" by (meson surj_pair)
  note c = close_old_run [OF 1] and o = open_append_run [OF 2]
  have q: "quiet_step s s1" "quiet_step s s2"
    using c(2) o(2) quiet_drop preorder_rel_trans [OF preorder_quiet_step] by metis+
  have run: "run_state (rotate_file now) s = (case x of Inl e \<Rightarrow> (Inl e, drop_fault s) | Inr _ \<Rightarrow>
      (case y of Inl e \<Rightarrow> (Inl e, s2) | Inr _ \<Rightarrow>
        (Inr (), (fst s2)\<lparr>rw_file := Some ?p, rw_currentHour := Some (truncateToHour now)\<rparr>, snd s2)))"
    using x 1 2 unfolding rotate_file_close
    by (auto simp: run_check run_writer split: sum.splits)
  have r: "s' = (case x of Inl e \<Rightarrow> drop_fault s | Inr _ \<Rightarrow> (case y of Inl e \<Rightarrow> s2 | Inr _ \<Rightarrow>
        ((fst s2)\<lparr>rw_file := Some ?p, rw_currentHour := Some (truncateToHour now)\<rparr>, snd s2)))"
    "r = (case x of Inl e \<Rightarrow> Inl e | Inr _ \<Rightarrow> (case y of Inl e \<Rightarrow> Inl e | Inr _ \<Rightarrow> Inr ()))"
    using assms run by (auto split: sum.splits)
  show "quiet_step s s'"
    using q r(1) by (auto simp: quiet_step_def same_names_def split: sum.splits)
  show "r = Inr u \<Longrightarrow> rw_file (fst s') = Some ?p \<and> rw_currentHour (fst s') = Some (truncateToHour now)"
    using r by (auto split: sum.splits)
  show "r = Inl e \<Longrightarrow> rw_file (fst s') = None \<or> fst s' = fst s"
    using r c(1) o(1) by (auto split: sum.splits)
qed

lemma rotate_if_run:
  assumes "run_state (rotate_if b now) s = (r, s')"
  shows "quiet_step s s'" "\<not> b \<Longrightarrow> s' = s \<and> r = Inr ()"
    "b \<Longrightarrow> r = Inr u \<Longrightarrow> rw_file (fst s') = Some (pathForTime (fst s) now) \<and> rw_currentHour (fst s') = Some (truncateToHour now)"
    "r = Inl e \<Longrightarrow> rw_file (fst s') = None \<or> fst s' = fst s"
proof -
  have "b \<Longrightarrow> run_state (rotate_file now) s = (r, s')" "\<not> b \<Longrightarrow> s' = s \<and> r = Inr ()"
    using assms by (simp_all add: rotate_if_def)
  then show "quiet_step s s'" "\<not> b \<Longrightarrow> s' = s \<and> r = Inr ()"
    "b \<Longrightarrow> r = Inr u \<Longrightarrow> rw_file (fst s') = Some (pathForTime (fst s) now) \<and> rw_currentHour (fst s') = Some (truncateToHour now)"
    "r = Inl e \<Longrightarrow> rw_file (fst s') = None \<or> fst s' = fst s"
    using rotate_run [of now s r s'] preorder_rel_refl [OF preorder_quiet_step] by blast+
qed

lemma writer_ok_open:
  assumes "rw_file (fst s) = Some (pathForTime f now)" "rw_currentHour (fst s) = Some (truncateToHour now)"
    and "rw_dir f = rw_dir (fst s)" "rw_prefix f = rw_prefix (fst s)"
  shows "writer_ok s"
  using assms by (auto simp: writer_ok_def pathForTime_def intro!: exI [of _ now])

text \<open>What a successful opening phase leaves: the file of the current hour, whatever was open before.\<close>

lemma open_phase:
  assumes "writer_ok s" "run_state (rotate_if (\<not> sameHour now (rw_currentHour (fst s))) now) s = (Inr (), s1)"
    and "run_state (rotate_if (rw_file (fst s1) = None) now) s1 = (Inr (), s2)"
  shows "rw_file (fst s2) = Some (pathForTime (fst s) now)" "writer_ok s2" "quiet_step s s2"
proof -
  note r1 = rotate_if_run [OF assms(2)] and r2 = rotate_if_run [OF assms(3)]
  show q: "quiet_step s s2" using r1(1) r2(1) preorder_rel_trans [OF preorder_quiet_step] by metis
  have n1: "same_names s s1" "same_names s s2" using r1(1) q by (simp_all add: quiet_step_def)
  have "rw_file (fst s2) = Some (pathForTime (fst s) now) \<and> (\<exists>t. rw_currentHour (fst s2) = Some (truncateToHour t) \<and>
      truncateToHour t = truncateToHour now)"
  proof (cases "rw_file (fst s1) = None")
    case True
    then show ?thesis using r2(3) pathForTime_names [OF n1(1)] by auto
  next
    case False
    then have s2: "s2 = s1" using r2(2) by blast
    show ?thesis
    proof (cases "sameHour now (rw_currentHour (fst s))")
      case True
      then have "s1 = s" using r1(2) by blast
      with False assms(1) True s2 show ?thesis
        by (auto simp: writer_ok_def sameHour_def split: option.splits intro: pathForTime_hour)
    next
      case False
      then show ?thesis using r1(3) s2 by auto
    qed
  qed
  then show f: "rw_file (fst s2) = Some (pathForTime (fst s) now)" and "writer_ok s2"
    using n1(2) by (auto intro!: writer_ok_open [of s2 "fst s" now] simp: same_names_def)
qed

lemma close_phase_ok:
  assumes "writer_ok s" "run_state (rotate_if b now) s = (Inl e, s')"
  shows "writer_ok s'"
  using rotate_if_run(4) [OF assms(2) refl]
proof
  assume "rw_file (fst s') = None"
  then show ?thesis by (simp add: writer_ok_def)
next
  assume "fst s' = fst s"
  then show ?thesis using assms(1) writer_ok_fst by blast
qed

lemma append_file_facts [simp]:
  "fst (append_file path p s) = fst s" "lw_clock (snd (append_file path p s)) = lw_clock (snd s)"
  "lw_ticks (snd (append_file path p s)) = lw_ticks (snd s)"
  "content (append_file path p s) q = content s q @ (if q = path then p else [])"
  by (simp_all add: append_file_def content_def split_def)

lemma file_Write_run:
  assumes "run_state (file_Write path p) s = ((n, err), s')"
  shows "fst s' = fst s" "lw_clock (snd s') = lw_clock (snd s)" "lw_ticks (snd s') = lw_ticks (snd s)"
    "n \<le> length p" "err = None \<Longrightarrow> n = length p"
    "content s' q = content s q @ (if q = path then take n p else [])"
proof -
  obtain x where x: "run_state log_fault s = (x, drop_fault s)"
    by (simp add: log_fault_def drop_fault_def split_def)
  have s': "s' = append_file path (take n p) (drop_fault s) \<and> n \<le> length p \<and> (err = None \<longrightarrow> n = length p)"
  proof (cases x)
    case None
    then show ?thesis using assms x by (auto simp: file_Write_def)
  next
    case (Some y)
    then show ?thesis using assms x by (cases y) (auto simp: file_Write_def min_def)
  qed
  then show "fst s' = fst s" "lw_clock (snd s') = lw_clock (snd s)" "lw_ticks (snd s') = lw_ticks (snd s)"
    "n \<le> length p" "err = None \<Longrightarrow> n = length p"
    "content s' q = content s q @ (if q = path then take n p else [])" by simp_all
qed

lemma file_sync_run:
  assumes "run_state (file_sync n) s = ((m, err), s')"
  shows "m = n" "s' = drop_fault s"
proof -
  obtain x where "run_state plain_call s = (x, drop_fault s)" using run_plain_call by blast
  then show "m = n" "s' = drop_fault s" using assms by (auto simp: file_sync_def split: sum.splits)
qed

text \<open>The clock ticks once in a write.\<close>

definition tick :: "logw \<Rightarrow> logw" where
  "tick s = (fst s, (snd s)\<lparr>lw_clock := lw_clock (snd s) + (case lw_ticks (snd s) of [] \<Rightarrow> 0 | t # _ \<Rightarrow> t),
     lw_ticks := tl (lw_ticks (snd s))\<rparr>)"

lemma tick_facts [simp]: "fst (tick s) = fst s" "content (tick s) = content s" "writer_ok (tick s) = writer_ok s"
proof -
  show f: "fst (tick s) = fst s" and "content (tick s) = content s" by (simp_all add: tick_def content_def fun_eq_iff)
  show "writer_ok (tick s) = writer_ok s" using f by (rule writer_ok_fst)
qed

lemma run_log_Now: "run_state log_Now s = (lw_clock (snd s), tick s)"
  by (cases s) (simp add: log_Now_def tick_def)

text \<open>One write, whatever fails: a prefix of the chunk is appended to the file of the hour.\<close>

lemma write_run:
  assumes "writer_ok s" "run_state (writer_Write p) s = ((n, err), s')"
  shows "writer_ok s'" "same_names s s'" "lw_clock (snd s') = lw_clock (snd (tick s))" "lw_ticks (snd s') = lw_ticks (snd (tick s))"
    "n \<le> length p" "err = None \<Longrightarrow> n = length p"
    "content s' q = content s q @ (if q = pathForTime (fst s) (lw_clock (snd s)) then take n p else [])"
proof -
  let ?now = "lw_clock (snd s)" and ?t = "tick s"
  obtain r1 s1 where 1: "run_state (rotate_if (\<not> sameHour ?now (rw_currentHour (fst ?t))) ?now) ?t = (r1, s1)" by (meson surj_pair)
  obtain r2 s2 where 2: "run_state (rotate_if (rw_file (fst s1) = None) ?now) s1 = (r2, s2)" by (meson surj_pair)
  define path where "path = (case rw_file (fst s2) of None \<Rightarrow> [] | Some path \<Rightarrow> path)"
  obtain m e s3 where 3: "run_state (file_Write path p) s2 = ((m, e), s3)" by (metis surj_pair)
  obtain m' e' s4 where 4: "run_state (file_sync m) s3 = ((m', e'), s4)" by (metis surj_pair)
  have ok1: "writer_ok ?t" using assms(1) by simp
  note open_defs = writer_Write_def run_log_Now run_writer path_def [symmetric]
  have run1: "n = 0 \<and> err = Some x \<and> s' = s1" if "r1 = Inl x" for x
    using assms(2) 1 that by (simp add: open_defs)
  have run2: "n = 0 \<and> err = Some x \<and> s' = s2" if "r1 = Inr ()" "r2 = Inl x" for x
    using assms(2) 1 2 that by (simp add: open_defs)
  have run3: "n = m \<and> err = Some x \<and> s' = s3" if "r1 = Inr ()" "r2 = Inr ()" "e = Some x" for x
    using assms(2) 1 2 3 [unfolded that(3)] that(1,2) by (simp add: open_defs)
  have run4: "n = m' \<and> err = e' \<and> s' = s4" if "r1 = Inr ()" "r2 = Inr ()" "e = None"
    using assms(2) 1 2 3 [unfolded that(3)] 4 that(1,2) by (simp add: open_defs)
  consider (first) x where "r1 = Inl x" | (second) x where "r1 = Inr ()" "r2 = Inl x" | (wrote) "r1 = Inr ()" "r2 = Inr ()"
    by (cases r1; cases r2) auto
  then have "writer_ok s' \<and> same_names s s' \<and> lw_clock (snd s') = lw_clock (snd ?t) \<and> lw_ticks (snd s') = lw_ticks (snd ?t) \<and>
      n \<le> length p \<and> (err = None \<longrightarrow> n = length p) \<and>
      content s' q = content s q @ (if q = pathForTime (fst s) ?now then take n p else [])"
  proof cases
    case first
    then have "n = 0" "err = Some x" "s' = s1" using run1 by blast+
    then show ?thesis
      using rotate_if_run(1) [OF 1] close_phase_ok [OF ok1 1 [unfolded first]] by (simp add: quiet_step_def same_names_def)
  next
    case second
    then have "n = 0" "err = Some x" "s' = s2" using run2 by blast+
    moreover have "writer_ok s1"
    proof (cases "sameHour ?now (rw_currentHour (fst ?t))")
      case True
      then show ?thesis using rotate_if_run(2) [OF 1] ok1 by simp
    next
      case False
      then show ?thesis
        using rotate_if_run(1,3) [OF 1] second(1) by (intro writer_ok_open [of s1 "fst ?t" ?now]) (auto simp: quiet_step_def same_names_def)
    qed
    moreover have "quiet_step ?t s2"
      using rotate_if_run(1) [OF 1] rotate_if_run(1) [OF 2] preorder_rel_trans [OF preorder_quiet_step] by metis
    ultimately show ?thesis
      using close_phase_ok [of s1] 2 second(2) by (simp add: quiet_step_def same_names_def)
  next
    case wrote
    note o = open_phase [OF ok1 1 [unfolded wrote(1)] 2 [unfolded wrote(2)]]
    have p: "path = pathForTime (fst s) ?now" using o(1) by (simp add: path_def)
    note w = file_Write_run [OF 3]
    have ok3: "writer_ok s3" using o(2) writer_ok_fst [OF w(1)] by simp
    show ?thesis
    proof (cases e)
      case (Some x)
      then have "n = m" "err = Some x" "s' = s3" using run3 [OF wrote] by blast+
      then show ?thesis
        using o(3) w(1-4) w(6) [of q] ok3 p by (simp add: quiet_step_def same_names_def)
    next
      case None
      then have "n = m'" "err = e'" "s' = s4" using run4 [OF wrote] by blast+
      moreover note file_sync_run [OF 4]
      moreover have "writer_ok (drop_fault s3)" using ok3 writer_ok_fst [of "drop_fault s3" s3] by simp
      ultimately show ?thesis
        using o(3) w(1-5) w(6) [of q] None p by (simp add: quiet_step_def same_names_def)
    qed
  qed
  then show "writer_ok s'" "same_names s s'" "lw_clock (snd s') = lw_clock (snd ?t)" "lw_ticks (snd s') = lw_ticks (snd ?t)"
    "n \<le> length p" "err = None \<Longrightarrow> n = length p"
    "content s' q = content s q @ (if q = pathForTime (fst s) ?now then take n p else [])" by blast+
qed

subsection \<open>A run of writes\<close>

fun write_all :: "string list \<Rightarrow> (logw, (nat \<times> GoError option) list) state" where
  "write_all [] = ret []"
| "write_all (p # ps) = do { r \<leftarrow> writer_Write p; rs \<leftarrow> write_all ps; ret (r # rs) }"

text \<open>The time at which each chunk is written.\<close>

fun stamped :: "int \<Rightarrow> int list \<Rightarrow> string list \<Rightarrow> (int \<times> string) list" where
  "stamped c ticks [] = []"
| "stamped c ticks (p # ps) = (c, p) # stamped (c + (case ticks of [] \<Rightarrow> 0 | t # _ \<Rightarrow> t)) (tl ticks) ps"

lemma new_writer_ok:
  assumes "run_state (newRotatingFileWriter dir prefix) s = (Inr u, s')"
  shows "writer_ok s'"
proof -
  define s0 :: logw where "s0 = (\<lparr>rw_dir = dir, rw_prefix = prefix, rw_currentHour = None, rw_file = None\<rparr>, snd s)"
  have r: "run_state (rotate_file (lw_clock (snd s0))) (tick s0) = (Inr u, s')"
    using assms by (simp add: newRotatingFileWriter_def run_writer run_log_Now s0_def)
  from rotate_run(1) [OF r] rotate_run(2) [OF r refl] show ?thesis
    by (intro writer_ok_open [of s' "fst (tick s0)" "lw_clock (snd s0)"]) (simp_all add: quiet_step_def same_names_def)
qed

text \<open>
  C23: the files refine the sequence of chunks.  After any run of writes, under any faults and with
  the clock advancing as it may, every file holds what it held before followed by, in order, what
  was written of each chunk whose hour it is named after; a write that reports no error wrote its
  whole chunk, and one that fails reports how much it wrote.
\<close>

theorem log_files_refine:
  assumes "writer_ok s" "run_state (write_all ps) s = (rs, s')"
  shows "length rs = length ps \<and>
    (\<forall>(p, n, err) \<in> set (zip ps rs). n \<le> length p \<and> (err = None \<longrightarrow> n = length p)) \<and>
    content s' path = content s path @ concat (map (\<lambda>((t, p), (n, err)).
       if pathForTime (fst s) t = path then take n p else []) (zip (stamped (lw_clock (snd s)) (lw_ticks (snd s)) ps) rs))"
  using assms
proof (induction ps arbitrary: s rs)
  case Nil
  then show ?case by simp
next
  case (Cons p ps)
  obtain n err s1 where 1: "run_state (writer_Write p) s = ((n, err), s1)" by (metis surj_pair)
  obtain rs1 s2 where 2: "run_state (write_all ps) s1 = (rs1, s2)" by (metis surj_pair)
  have rs: "rs = (n, err) # rs1" "s' = s2" using Cons.prems(2) 1 2 by simp_all
  note w = write_run [OF Cons.prems(1) 1]
  have p: "pathForTime (fst s1) t = pathForTime (fst s) t" for t
    using pathForTime_names [OF w(2)] .
  have c: "lw_clock (snd s1) = lw_clock (snd s) + (case lw_ticks (snd s) of [] \<Rightarrow> 0 | t # _ \<Rightarrow> t)"
    "lw_ticks (snd s1) = tl (lw_ticks (snd s))"
    using w(3,4) by (simp_all add: tick_def)
  from Cons.IH [OF w(1) 2 [folded rs(2)]] w(5-6) w(7) [of path] show ?case
    unfolding rs p c by (auto simp: split_def)
qed

text \<open>A run over the turn of an hour with one failing write.\<close>

definition sample_log_world :: log_world where
  "sample_log_world = \<lparr>lw_files = (\<lambda>_. None), lw_clock = 0, lw_ticks = [0, 0, time_Hour],
     lw_plan = [None, None, None, None, Some (2, Errorf ''no space left'')]\<rparr>"

lemma sample_new_log:
  "(case fst (run_state (newRotatingFileWriter ''/var/log/sbx'' ''orch'')
     (\<lparr>rw_dir = [], rw_prefix = [], rw_currentHour = None, rw_file = None\<rparr>, sample_log_world)) of Inl _ \<Rightarrow> False | Inr _ \<Rightarrow> True)"
  by code_simp

definition sample_log :: logw where
  "sample_log = snd (run_state (newRotatingFileWriter ''/var/log/sbx'' ''orch'')
     (\<lparr>rw_dir = [], rw_prefix = [], rw_currentHour = None, rw_file = None\<rparr>, sample_log_world))"

theorem log_files_refine_witness:
  "content (snd (run_state (write_all [''one'', ''two'', ''three'']) sample_log)) ''/var/log/sbx/orch-19700101-00.log'' = ''onetw'' \<and>
   content (snd (run_state (write_all [''one'', ''two'', ''three'']) sample_log)) ''/var/log/sbx/orch-19700101-01.log'' = ''three''"
proof -
  have ok: "writer_ok sample_log"
  proof -
    obtain r s' where r: "run_state (newRotatingFileWriter ''/var/log/sbx'' ''orch'')
      (\<lparr>rw_dir = [], rw_prefix = [], rw_currentHour = None, rw_file = None\<rparr>, sample_log_world) = (r, s')" by (meson surj_pair)
    then obtain u where "r = Inr u" using sample_new_log by (cases r) auto
    with r show ?thesis using new_writer_ok by (simp add: sample_log_def)
  qed
  have rs: "fst (run_state (write_all [''one'', ''two'', ''three'']) sample_log) =
      [(3, None), (2, Some (Errorf ''no space left'')), (5, None)]" by code_simp
  have st: "stamped (lw_clock (snd sample_log)) (lw_ticks (snd sample_log)) [''one'', ''two'', ''three''] =
      [(0, ''one''), (0, ''two''), (time_Hour, ''three'')]" by code_simp
  have em: "content sample_log p = []" if "p \<in> {''/var/log/sbx/orch-19700101-00.log'', ''/var/log/sbx/orch-19700101-01.log''}" for p
    using that by (auto; code_simp)
  have pa: "pathForTime (fst sample_log) 0 = ''/var/log/sbx/orch-19700101-00.log''"
    "pathForTime (fst sample_log) time_Hour = ''/var/log/sbx/orch-19700101-01.log''" by code_simp+
  obtain out s' where r: "run_state (write_all [''one'', ''two'', ''three'']) sample_log = (out, s')" by (meson surj_pair)
  show ?thesis
    using log_files_refine [OF ok r] rs em unfolding r by (simp add: st pa del: write_all.simps stamped.simps)
qed

end
