(* ===== verification/Pkg_Httplog.thy ===== *)
theory Pkg_Httplog
  imports Pkg_Logging_Props
begin

section \<open>pkg: the HTTP middleware\<close>

text \<open>
  \<^verbatim>\<open>pkg/httplog/middleware.go\<close>.  The next handler of the chain is a computation that answers a status
  or panics; the request gives what gin reads from it.  A middleware appends the records it logs
  to the state.  \<^verbatim>\<open>AbortWithStatus\<close> sets the status of a response that has not been started.
\<close>

datatype outcome = Returned int | Panicked string

record HttpInfo =
  hi_Method :: string
  hi_Path :: string
  hi_Query :: string
  hi_ClientIP :: string
  hi_UserAgent :: string

record 'w mw =
  mw_app :: 'w
  mw_clock :: int
  mw_records :: "LogRecord list"

definition mw_log :: "LogRecord \<Rightarrow> ('w mw, unit) state" where
  "mw_log r = State (\<lambda>w. ((), w\<lparr>mw_records := mw_records w @ [r]\<rparr>))"

definition mw_now :: "('w mw, int) state" where
  "mw_now = State (\<lambda>w. (mw_clock w, w))"

definition request_attrs :: "HttpInfo \<Rightarrow> int \<Rightarrow> int \<Rightarrow> LogAttr list" where
  "request_attrs i status latency =
     [(''method'', LogString (hi_Method i)), (''path'', LogString (hi_Path i)), (''status'', LogInt status),
      (''latency'', LogDuration latency), (''ip'', LogString (hi_ClientIP i))] @
     (if hi_Query i \<noteq> [] then [(''query'', LogString (hi_Query i))] else []) @
     (if hi_UserAgent i \<noteq> [] then [(''user_agent'', LogString (hi_UserAgent i))] else [])"

definition RequestLogger :: "HttpInfo \<Rightarrow> ('w mw, outcome) state \<Rightarrow> ('w mw, outcome) state" where
  "RequestLogger i nxt = do {
     start \<leftarrow> mw_now;
     out \<leftarrow> nxt;
     (case out of
        Panicked e \<Rightarrow> ret (Panicked e)
      | Returned status \<Rightarrow> do {
          now \<leftarrow> mw_now;
          mw_log \<lparr>rec_Level = LevelInfo, rec_Message = ''http request'',
            rec_Attrs = [(''http'', LogGroup (request_attrs i status (now - start)))]\<rparr>;
          ret (Returned status) }) }"

definition RecoveryLogger :: "HttpInfo \<Rightarrow> string \<Rightarrow> ('w mw, outcome) state \<Rightarrow> ('w mw, outcome) state" where
  "RecoveryLogger i stack nxt = do {
     out \<leftarrow> nxt;
     (case out of
        Returned status \<Rightarrow> ret (Returned status)
      | Panicked recovered \<Rightarrow> do {
          mw_log \<lparr>rec_Level = LevelError, rec_Message = ''panic recovered'',
            rec_Attrs = [(''error'', LogString recovered), (''path'', LogString (hi_Path i)),
              (''method'', LogString (hi_Method i)), (''stack'', LogString stack)]\<rparr>;
          ret (Returned 500) }) }"

text \<open>
  With the two middlewares in the order the routers install them, every request is answered
  and adds exactly one record of theirs: the request record with the handler's status when the
  handler returns, the error record and status 500 when it panics; the handler's effects stand.
\<close>

theorem middleware_logs_once:
  assumes "run_state nxt w = (out, w1)" "run_state (RecoveryLogger i stack (RequestLogger i nxt)) w = (out', w')"
  shows "\<exists>r. w' = w1\<lparr>mw_records := mw_records w1 @ [r]\<rparr> \<and>
    (case out of
       Returned status \<Rightarrow> out' = Returned status \<and> rec_Level r = LevelInfo \<and>
         rec_Attrs r = [(''http'', LogGroup (request_attrs i status (mw_clock w1 - mw_clock w)))]
     | Panicked e \<Rightarrow> out' = Returned 500 \<and> rec_Level r = LevelError \<and> (''error'', LogString e) \<in> set (rec_Attrs r))"
  using assms by (cases out) (auto simp: RecoveryLogger_def RequestLogger_def mw_now_def mw_log_def)

theorem middleware_logs_once_witness:
  "fst (run_state (RecoveryLogger \<lparr>hi_Method = ''GET'', hi_Path = ''/panic'', hi_Query = [], hi_ClientIP = ''::1'', hi_UserAgent = []\<rparr> []
      (RequestLogger \<lparr>hi_Method = ''GET'', hi_Path = ''/panic'', hi_Query = [], hi_ClientIP = ''::1'', hi_UserAgent = []\<rparr>
        (ret (Panicked ''x'')))) (\<lparr>mw_app = (), mw_clock = 0, mw_records = []\<rparr>)) = Returned 500"
proof -
  let ?i = "\<lparr>hi_Method = ''GET'', hi_Path = ''/panic'', hi_Query = [], hi_ClientIP = ''::1'', hi_UserAgent = []\<rparr>"
  let ?w = "\<lparr>mw_app = (), mw_clock = 0, mw_records = []\<rparr>"
  have n: "run_state (ret (Panicked ''x'')) ?w = (Panicked ''x'', ?w)" by simp
  obtain out' w' where r: "run_state (RecoveryLogger ?i [] (RequestLogger ?i (ret (Panicked ''x'')))) ?w = (out', w')"
    by (meson surj_pair)
  from middleware_logs_once [OF n r] show ?thesis unfolding r by auto
qed

end
