(* ===== verification/Cmd_Main.thy ===== *)
theory Cmd_Main
  imports Pkg_Logging_Props Let_Config
begin

section \<open>cmd: what the two daemons start with\<close>

text \<open>
  \<^verbatim>\<open>cmd/sbxorch/main.go\<close> and \<^verbatim>\<open>cmd/sbxlet/main.go\<close> as far as they compute: the settings of the
  logger and of the node agent from the environment.  Starting the loops and the servers is not
  modelled; a pass of each loop is a step of \<open>Orch_System\<close> or an operation of the agent.
\<close>

definition valueOrDefault :: "string \<Rightarrow> string \<Rightarrow> string" where
  "valueOrDefault v def = (if TrimSpace v = [] then def else v)"

definition orch_log_config :: "Environment \<Rightarrow> LogConfig" where
  "orch_log_config env = \<lparr>lc_Dir = TrimSpace (Getenv env ''ORCH_LOG_DIR''),
     lc_FilePrefix = valueOrDefault (TrimSpace (Getenv env ''ORCH_LOG_FILE_PREFIX'')) ''orchestrator''\<rparr>"

definition orch_log_options :: "Environment \<Rightarrow> LogOptions" where
  "orch_log_options env = \<lparr>lo_Service = ''orchestrator'', lo_Env = TrimSpace (Getenv env ''APP_ENV''),
     lo_AddSource = False, lo_Level = LevelInfo\<rparr>"

definition let_log_config :: "Environment \<Rightarrow> LogConfig" where
  "let_log_config env = \<lparr>lc_Dir = TrimSpace (Getenv env ''SANDBOX_LOG_DIR''),
     lc_FilePrefix = valueOrDefault (TrimSpace (Getenv env ''SANDBOX_LOG_FILE_PREFIX'')) ''sandboxd''\<rparr>"

definition let_log_options :: "Environment \<Rightarrow> LogOptions" where
  "let_log_options env = \<lparr>lo_Service = ''sandboxd'', lo_Env = TrimSpace (Getenv env ''APP_ENV''),
     lo_AddSource = False, lo_Level = LevelInfo\<rparr>"

text \<open>\<open>env_or env key def\<close> is \<^verbatim>\<open>if v := os.Getenv(key); v != "" { x = v }\<close> with \<open>x\<close> at \<open>def\<close> before.\<close>

definition env_or :: "Environment \<Rightarrow> string \<Rightarrow> string \<Rightarrow> string" where
  "env_or env key def = (let v = Getenv env key in if v \<noteq> [] then v else def)"

definition let_main_config :: "Environment \<Rightarrow> LetConfig" where
  "let_main_config env =
     (let cfg = DefaultConfig env in
      cfg\<lparr>StateBaseDir := env_or env ''SANDBOX_STATE_BASE_DIR'' (StateBaseDir cfg),
          LockDir := env_or env ''SANDBOX_LOCK_DIR'' (LockDir cfg),
          BridgeInterface := env_or env ''SANDBOX_BRIDGE_INTERFACE'' (BridgeInterface cfg),
          SubnetCIDR := env_or env ''SANDBOX_SUBNET_CIDR'' (SubnetCIDR cfg)\<rparr>)"

definition let_http_addr :: "Environment \<Rightarrow> string" where
  "let_http_addr env = env_or env ''HTTP_ADDR'' '':8080''"

text \<open>
  With no variable set the agent runs on its defaults, and the daemons log nothing below Info:
  debug records reach neither stream nor file.
\<close>

lemma main_defaults:
  assumes "\<And>k. Getenv env k = []"
  shows "let_main_config env = DefaultConfig env" "let_http_addr env = '':8080''"
    "lc_FilePrefix (let_log_config env) = ''sandboxd''" "lc_FilePrefix (orch_log_config env) = ''orchestrator''"
  using assms by (simp_all add: let_main_config_def let_http_addr_def env_or_def let_log_config_def orch_log_config_def
      valueOrDefault_def)

lemma no_debug_records:
  assumes "rec_Level r < LevelInfo"
  shows "slog_log (base_handler (orch_log_options env) to_file) r = []"
proof -
  have "map fst (slog_log (base_handler (orch_log_options env) to_file) r) = []"
    using assms by (simp add: log_routing orch_log_options_def)
  then show ?thesis by simp
qed

end
