(* ===== verification/Let_Page_Props.thy ===== *)
theory Let_Page_Props
  imports Let_Store_Props
begin

section \<open>sbxlet: reading the list of sandboxes page by page\<close>

text \<open>
  A client of \<^verbatim>\<open>ListSandboxesPage\<close> that starts without a cursor and asks again with
  \<^verbatim>\<open>next_cursor\<close> until there is none.
\<close>

fun follow_pages :: "nat \<Rightarrow> 'o LetService \<Rightarrow> int \<Rightarrow> string \<Rightarrow> 'o let_world \<Rightarrow> LetSandbox list option" where
  "follow_pages 0 S n cursor w = None"
| "follow_pages (Suc f) S n cursor w =
     (case run_state (let_ListSandboxesPage S cursor n) w of
        (Inl e, _) \<Rightarrow> None
      | (Inr (page, next), w1) \<Rightarrow>
          if next = [] then Some page else map_option ((@) page) (follow_pages f S n next w1))"

subsection \<open>Listing depends on the file system only\<close>

definition reads_fs :: "('o, 'a) lact \<Rightarrow> bool" where
  "reads_fs m \<longleftrightarrow> (\<forall>v. lw_fs (snd (run_state m v)) = lw_fs v) \<and>
     (\<forall>v w. lw_fs v = lw_fs w \<longrightarrow> fst (run_state m v) = fst (run_state m w))"

lemma reads_fsD:
  assumes "reads_fs m"
  shows "lw_fs (snd (run_state m v)) = lw_fs v" "lw_fs v = lw_fs w \<Longrightarrow> fst (run_state m v) = fst (run_state m w)"
  using assms unfolding reads_fs_def by blast+

lemma reads_ret: "reads_fs (ret x)"
  by (simp add: reads_fs_def)

lemma reads_bind:
  assumes "reads_fs m" "\<And>x. reads_fs (f x)"
  shows "reads_fs (m \<bind> f)"
proof -
  have r: "run_state (m \<bind> f) v = run_state (f (fst (run_state m v))) (snd (run_state m v))" for v
    by (simp add: split_def)
  show ?thesis
    unfolding reads_fs_def r
  proof (intro conjI allI impI)
    fix v w :: "'a let_world"
    show "lw_fs (snd (run_state (f (fst (run_state m v))) (snd (run_state m v)))) = lw_fs v"
      using reads_fsD(1) [OF assms(1)] reads_fsD(1) [OF assms(2)] by simp
    assume e: "lw_fs v = lw_fs w"
    have "lw_fs (snd (run_state m v)) = lw_fs (snd (run_state m w))"
      using reads_fsD(1) [OF assms(1)] e by simp
    then show "fst (run_state (f (fst (run_state m v))) (snd (run_state m v))) =
        fst (run_state (f (fst (run_state m w))) (snd (run_state m w)))"
      unfolding reads_fsD(2) [OF assms(1) e] by (rule reads_fsD(2) [OF assms(2)])
  qed
qed

lemma reads_check: "reads_fs m \<Longrightarrow> (\<And>x. reads_fs (f x)) \<Longrightarrow> reads_fs (check m f)"
  unfolding check_def by (rule reads_bind) (auto simp: reads_ret split: sum.split)

lemma reads_os_call:
  assumes "quiet_host H" "\<And>fs x fs'. f fs = Inr (x, fs') \<Longrightarrow> fs' = fs"
  shows "reads_fs (os_call H p f)"
  unfolding reads_fs_def
proof (intro conjI allI impI)
  fix v w :: "'a let_world"
  obtain x y where r: "run_state (os_call H p f) v = (case f (lw_fs v) of Inl e \<Rightarrow> (Inl e, v\<lparr>lw_out := x\<rparr>)
      | Inr (z, fs) \<Rightarrow> (Inr z, v\<lparr>lw_out := x, lw_fs := fs\<rparr>))"
    "run_state (os_call H p f) w = (case f (lw_fs w) of Inl e \<Rightarrow> (Inl e, w\<lparr>lw_out := y\<rparr>)
      | Inr (z, fs) \<Rightarrow> (Inr z, w\<lparr>lw_out := y, lw_fs := fs\<rparr>))"
    using run_quiet_call [OF assms(1), of p f v] run_quiet_call [OF assms(1), of p f w] by blast
  show "lw_fs (snd (run_state (os_call H p f) v)) = lw_fs v"
    unfolding r(1) using assms(2) [of "lw_fs v"] by (cases "f (lw_fs v)") auto
  assume "lw_fs v = lw_fs w"
  then show "fst (run_state (os_call H p f) v) = fst (run_state (os_call H p f) w)"
    unfolding r by (cases "f (lw_fs w)") auto
qed

lemma reads_Load: "quiet_host H \<Longrightarrow> reads_fs (store_Load H cfg i)"
  unfolding store_Load_def os_ReadFile_def
  by (intro reads_check reads_ret reads_os_call) (auto split: option.splits FsNode.splits)

lemma reads_load_all: "quiet_host H \<Longrightarrow> reads_fs (load_all H cfg es)"
  by (induction H cfg es rule: load_all.induct) (auto intro!: reads_bind reads_ret reads_Load)

lemma reads_List: "quiet_host H \<Longrightarrow> reads_fs (store_List H cfg)"
  unfolding store_List_def os_ReadDir_def
  by (intro reads_check reads_bind reads_ret reads_os_call reads_load_all) (auto split: if_splits)

subsection \<open>One page\<close>

lemma refreshed_id: "ls_ID (fst (run_state (refreshSandboxRuntimeState S sbx) w)) = ls_ID sbx"
  using yields_refresh unfolding yields_def by blast

lemma refresh_all_ids: "map ls_ID (fst (run_state (refresh_all S xs) w)) = map ls_ID xs"
  by (induction xs arbitrary: w) (simp_all add: split_def refreshed_id)

lemma fs_refresh_all: "preorder_rel P \<Longrightarrow> state_io_rel (fs_rel P) (refresh_all S xs)"
  by (induction xs) (auto intro!: evolve_intros)

lemma run_page:
  assumes "quiet_host (sv_host S)" "fst (run_state (store_List (sv_host S) (sv_cfg S)) w) = Inr listed"
  obtains page w1 where
    "map ls_ID page = map ls_ID (take (page_limit n) (drop (page_start cursor (sort_by by_id listed)) (sort_by by_id listed)))"
    "lw_fs w1 = lw_fs w"
    "run_state (let_ListSandboxesPage S cursor n) w =
       (Inr (page, if page_start cursor (sort_by by_id listed) + length page < length listed \<and> page \<noteq> []
          then ls_ID (last page) else []), w1)"
proof -
  let ?all = "sort_by by_id listed"
  let ?xs = "take (page_limit n) (drop (page_start cursor ?all) ?all)"
  obtain w0 where l: "run_state (store_List (sv_host S) (sv_cfg S)) w = (Inr listed, w0)"
    using assms(2) by (metis prod.collapse)
  obtain page w1 where p: "run_state (refresh_all S ?xs) w0 = (page, w1)" by fastforce
  have "lw_fs w0 = lw_fs w"
    using reads_fsD(1) [OF reads_List [OF assms(1)], of "sv_cfg S" w] l by simp
  moreover have "fs_rel (=) w0 w1"
    by (rule io_relD [OF fs_refresh_all p]) (simp add: preorder_rel_def reflp_def transp_def)
  ultimately have "lw_fs w1 = lw_fs w" by (simp add: fs_rel_def)
  moreover have "map ls_ID page = map ls_ID ?xs"
    using refresh_all_ids [of S ?xs w0] p by simp
  moreover have "run_state (let_ListSandboxesPage S cursor n) w =
       (Inr (page, if page_start cursor ?all + length page < length listed \<and> page \<noteq> [] then ls_ID (last page) else []), w1)"
    by (simp add: let_ListSandboxesPage_def run_check l p Let_def)
  ultimately show ?thesis using that by blast
qed

subsection \<open>All pages\<close>

lemma sorted_ids:
  assumes "distinct (map ls_ID listed)"
  shows "sorted_wrt (<) (map ls_ID (sort_by by_id listed))" "map ls_ID (sort_by by_id listed) = sort (map ls_ID listed)"
proof -
  have "sorted_wrt (\<lambda>a b. \<not> by_id b a) (sort_by by_id listed)"
    by (rule sorted_sort_by) (auto simp: by_id_def)
  then have s: "sorted (map ls_ID (sort_by by_id listed))"
    by (simp add: sorted_wrt_map by_id_def not_less)
  moreover have "distinct (map ls_ID (sort_by by_id listed))" using assms by simp
  ultimately show "sorted_wrt (<) (map ls_ID (sort_by by_id listed))" by (rule strict_sorted_iff [THEN iffD2, OF conjI])
  have "mset (map ls_ID (sort_by by_id listed)) = mset (map ls_ID listed)" by simp
  with s show "map ls_ID (sort_by by_id listed) = sort (map ls_ID listed)"
    by (metis properties_for_sort)
qed

text \<open>The cursor that is the id of the element before position \<open>k\<close> leads to position \<open>k\<close>.\<close>

lemma takeWhile_split:
  "(\<forall>x \<in> set xs. P x) \<Longrightarrow> (\<forall>y \<in> set ys. \<not> P y) \<Longrightarrow> takeWhile P (xs @ ys) = xs"
  by (induction xs) (cases ys; simp)+

lemma page_start_at:
  assumes "sorted_wrt (<) (map ls_ID (xs @ l # ys))" "ls_ID l \<noteq> []"
  shows "page_start (ls_ID l) (xs @ l # ys) = Suc (length xs)"
proof -
  have "\<not> ls_ID l < ls_ID x" if "x \<in> set (xs @ [l])" for x
    using assms(1) that by (auto simp: sorted_wrt_append)
  moreover have "ls_ID l < ls_ID y" if "y \<in> set ys" for y
    using assms(1) that by (simp add: sorted_wrt_append)
  ultimately have "takeWhile (\<lambda>s. \<not> ls_ID l < ls_ID s) ((xs @ [l]) @ ys) = xs @ [l]"
    by (intro takeWhile_split) auto
  then show ?thesis using assms(2) by (simp add: page_start_def)
qed

lemma page_limit_pos: "0 < page_limit n"
  by (simp add: page_limit_def Let_def)

lemma follow_from:
  assumes "quiet_host (sv_host S)" "fst (run_state (store_List (sv_host S) (sv_cfg S)) w) = Inr listed"
    and "sorted_wrt (<) (map ls_ID (sort_by by_id listed))" "[] \<notin> ls_ID ` set listed"
    and "page_start cursor (sort_by by_id listed) = k" "length listed - k < f"
  shows "\<exists>out. follow_pages f S n cursor w = Some out \<and> map ls_ID out = map ls_ID (drop k (sort_by by_id listed))"
  using assms(2,5,6)
proof (induction f arbitrary: w cursor k)
  case (Suc f)
  let ?all = "sort_by by_id listed"
  obtain page w1 where p: "map ls_ID page = map ls_ID (take (page_limit n) (drop k ?all))" "lw_fs w1 = lw_fs w"
    "run_state (let_ListSandboxesPage S cursor n) w =
       (Inr (page, if k + length page < length listed \<and> page \<noteq> [] then ls_ID (last page) else []), w1)"
    using run_page [OF assms(1) Suc.prems(1), of n cursor] unfolding Suc.prems(2) by blast
  have len: "length page = min (page_limit n) (length listed - k)"
    using arg_cong [OF p(1), of length] by simp
  show ?case
  proof (cases "k + length page < length listed \<and> page \<noteq> []")
    case True
    let ?m = "k + length page"
    have m: "0 < length page" "?m \<le> length ?all" using True by simp_all
    then have "length page = page_limit n" using True len by (simp add: min_def split: if_splits)
    then have pg: "map ls_ID page = map ls_ID (take (length page) (drop k ?all))" using p(1) by simp
    let ?l = "?all ! (?m - 1)"
    have split_all: "?all = take (?m - 1) ?all @ ?l # drop ?m ?all"
    proof -
      have "?m - 1 < length ?all" "Suc (?m - 1) = ?m" using m True by auto
      then show ?thesis using id_take_nth_drop [of "?m - 1" ?all] by simp
    qed
    have "ls_ID (last page) = map ls_ID page ! (length page - 1)"
      using True by (simp add: last_conv_nth)
    also have "\<dots> = ls_ID ?l"
    proof -
      have "length page - 1 < length page" "k + (length page - 1) = ?m - 1" "?m - 1 < length ?all"
        "length page - 1 < length ?all - k"
        using m(1) conjunct1 [OF True] unfolding length_sort_by by arith+
      then show ?thesis unfolding pg by simp
    qed
    finally have l: "ls_ID (last page) = ls_ID ?l" .
    have ne: "ls_ID ?l \<noteq> []"
    proof -
      have "?m - 1 < length ?all" using m(1) conjunct1 [OF True] unfolding length_sort_by by arith
      then have "?l \<in> set ?all" by (rule nth_mem)
      then have "ls_ID ?l \<in> ls_ID ` set listed" unfolding set_sort_by by (rule imageI)
      with assms(4) show ?thesis by metis
    qed
    have fu: "length listed - ?m < f" using Suc.prems(3) m(1) conjunct1 [OF True] by arith
    have "page_start (ls_ID ?l) ?all = ?m"
    proof -
      have "sorted_wrt (<) (map ls_ID (take (?m - 1) ?all @ ?l # drop ?m ?all))"
        using assms(3) split_all by simp
      from page_start_at [OF this ne] have "page_start (ls_ID ?l) ?all = Suc (length (take (?m - 1) ?all))"
        using split_all by simp
      moreover have "length (take (?m - 1) ?all) = ?m - 1" using m(2) by simp
      moreover have "Suc (?m - 1) = ?m" using m(1) by arith
      ultimately show ?thesis by simp
    qed
    moreover have "fst (run_state (store_List (sv_host S) (sv_cfg S)) w1) = Inr listed"
      using reads_fsD(2) [OF reads_List [OF assms(1)] p(2)] Suc.prems(1) by simp
    ultimately obtain out where o: "follow_pages f S n (ls_ID ?l) w1 = Some out" "map ls_ID out = map ls_ID (drop ?m ?all)"
      using Suc.IH [of w1 "ls_ID ?l" ?m] fu by auto
    have "drop ?m ?all = drop (length page) (drop k ?all)" by (simp add: add.commute)
    then have "map ls_ID (page @ out) = map ls_ID (take (length page) (drop k ?all) @ drop (length page) (drop k ?all))"
      unfolding map_append o(2) pg by simp
    then have "map ls_ID (page @ out) = map ls_ID (drop k ?all)" unfolding append_take_drop_id .
    then show ?thesis using o(1) p(3) True l ne by simp
  next
    case False
    then have "length listed - k \<le> length page \<or> page = []" by auto
    then have "length listed - k \<le> page_limit n" using len page_limit_pos [of n] by auto
    then have "take (page_limit n) (drop k ?all) = drop k ?all" by simp
    then show ?thesis using False p(1,3) by auto
  qed
qed simp

text \<open>
  C25: the pages of a list make up the list.  On a host where reading does not fail, a client that
  starts without a cursor and follows \<^verbatim>\<open>next_cursor\<close> gets, after at most one request per sandbox
  and one more and for any page size, zero and negative included, every stored sandbox once,
  ordered by id, provided the stored ids are distinct and not empty.
\<close>

theorem follow_pages_complete:
  assumes "quiet_host (sv_host S)" "fst (run_state (store_List (sv_host S) (sv_cfg S)) w) = Inr listed"
    and "distinct (map ls_ID listed)" "[] \<notin> ls_ID ` set listed"
  shows "\<exists>out. follow_pages (Suc (length listed)) S n [] w = Some out \<and> map ls_ID out = sort (map ls_ID listed)"
  using follow_from [OF assms(1,2) sorted_ids(1) [OF assms(3)] assms(4), of "[]" 0 "Suc (length listed)" n]
    sorted_ids(2) [OF assms(3)] by (simp add: page_start_def)

theorem follow_pages_complete_witness:
  "map_option (map ls_ID) (follow_pages 3 sample_service 1 [] sample_let_world) = Some [''a'', ''b'']"
proof -
  have l: "fst (run_state (store_List calm_host sample_let_config) sample_let_world) =
      Inr [sample_stored ''a'' 30000, sample_stored ''b'' 30001]"
    by code_simp
  have i: "ls_ID (sample_stored k hp) = k" for k hp
    by (simp add: sample_stored_def new_state_def sample_let_request_def)
  have q: "quiet_host (sv_host sample_service)"
    by (simp add: sample_service_def quiet_host_def calm_host_def)
  have "sort [''a'', ''b''] = [''a'', ''b'']" by code_simp
  then show ?thesis
    using follow_pages_complete [OF q, of sample_let_world "[sample_stored ''a'' 30000, sample_stored ''b'' 30001]" 1] l i
    by (auto simp: sample_service_def numeral_3_eq_3)
qed

end
