(* ===== verification/Let_Firewall_Props.thy ===== *)
theory Let_Firewall_Props
  imports Let_Samples Let_Evolve
begin

section \<open>sbxlet: publishing a port and taking it back\<close>

text \<open>
  What the code relies on of the packet filter is stated on an abstraction \<open>rules\<close> of its state,
  the list of rules of each chain of each table: \<open>appends\<close> and \<open>deletes\<close> are the documented
  effect of \<^verbatim>\<open>AppendUnique\<close> and \<^verbatim>\<open>Delete\<close>.  Appending may fail, without an effect.
\<close>

definition appends :: "'o IptOps \<Rightarrow> ('o \<Rightarrow> string \<times> string \<Rightarrow> rule list) \<Rightarrow> bool" where
  "appends I rules \<longleftrightarrow> (\<forall>t c r o0.
     (case ipt_AppendUnique I t c r o0 of
        (None, o1) \<Rightarrow> rules o1 = (rules o0)((t, c) := if r \<in> set (rules o0 (t, c)) then rules o0 (t, c)
          else rules o0 (t, c) @ [r])
      | (Some _, o1) \<Rightarrow> rules o1 = rules o0))"

definition deletes :: "'o IptOps \<Rightarrow> ('o \<Rightarrow> string \<times> string \<Rightarrow> rule list) \<Rightarrow> bool" where
  "deletes I rules \<longleftrightarrow> (\<forall>t c r o0.
     rules (snd (ipt_Delete I t c r o0)) = (rules o0)((t, c) := remove1 r (rules o0 (t, c))))"

lemma chain_rules_update: "chain_rules (AList.update k rs o0) = (chain_rules o0)(k := rs)"
  by (auto simp: chain_rules_def fun_eq_iff update_conv')

lemma chain_rules_Some: "map_of o0 k = Some rs \<Longrightarrow> chain_rules o0 k = rs"
  by (simp add: chain_rules_def)

lemma chain_rules_None: "map_of o0 k = None \<Longrightarrow> chain_rules o0 k = []"
  by (simp add: chain_rules_def)

lemma chain_rules_same: "map_of o0 k = Some rs \<Longrightarrow> (chain_rules o0)(k := rs) = chain_rules o0"
  by (rule fun_upd_idem) (rule chain_rules_Some)

lemma chain_rules_empty: "map_of o0 k = None \<Longrightarrow> (chain_rules o0)(k := []) = chain_rules o0"
  by (rule fun_upd_idem) (rule chain_rules_None)

lemma list_ipt_appends: "appends list_ipt chain_rules"
  unfolding appends_def
proof (intro allI)
  fix t c r o0
  show "case ipt_AppendUnique list_ipt t c r o0 of
      (None, o1) \<Rightarrow> chain_rules o1 = (chain_rules o0)((t, c) := if r \<in> set (chain_rules o0 (t, c))
        then chain_rules o0 (t, c) else chain_rules o0 (t, c) @ [r])
    | (Some _, o1) \<Rightarrow> chain_rules o1 = chain_rules o0"
    by (cases "map_of o0 (t, c)") (simp_all add: list_ipt_def chain_rules_update chain_rules_Some chain_rules_same)
qed

lemma list_ipt_deletes: "deletes list_ipt chain_rules"
  unfolding deletes_def
proof (intro allI)
  fix t c r o0
  show "chain_rules (snd (ipt_Delete list_ipt t c r o0)) =
      (chain_rules o0)((t, c) := remove1 r (chain_rules o0 (t, c)))"
    by (cases "map_of o0 (t, c)")
      (simp_all add: list_ipt_def chain_rules_update chain_rules_Some chain_rules_None chain_rules_same chain_rules_empty
        remove1_idem)
qed

subsection \<open>Adding rules\<close>

text \<open>Every chain got some of the rules \<open>R\<close> allows it, each once and none it had.\<close>

definition extended :: "('o \<Rightarrow> string \<times> string \<Rightarrow> rule list) \<Rightarrow> (string \<times> string \<Rightarrow> rule set)
    \<Rightarrow> 'o let_world \<Rightarrow> 'o let_world \<Rightarrow> bool" where
  "extended rules R w w' \<longleftrightarrow> (\<forall>k. \<exists>xs. rules (lw_out w') k = rules (lw_out w) k @ xs \<and> distinct xs \<and>
     set xs \<subseteq> R k \<and> set xs \<inter> set (rules (lw_out w) k) = {})"

lemma preorder_extended: "preorder_rel (extended rules R)"
proof -
  have "extended rules R w w" for w :: "'a let_world" by (auto simp: extended_def)
  moreover have "extended rules R w w2" if 1: "extended rules R w w1" and 2: "extended rules R w1 w2"
    for w w1 w2 :: "'a let_world"
    unfolding extended_def
  proof
    fix k
    obtain xs ys where "rules (lw_out w1) k = rules (lw_out w) k @ xs" "distinct xs" "set xs \<subseteq> R k"
      "set xs \<inter> set (rules (lw_out w) k) = {}" "rules (lw_out w2) k = rules (lw_out w1) k @ ys" "distinct ys"
      "set ys \<subseteq> R k" "set ys \<inter> set (rules (lw_out w1) k) = {}"
      using 1 2 unfolding extended_def by metis
    then show "\<exists>xs. rules (lw_out w2) k = rules (lw_out w) k @ xs \<and> distinct xs \<and> set xs \<subseteq> R k \<and>
        set xs \<inter> set (rules (lw_out w) k) = {}"
      by (intro exI [of _ "xs @ ys"]) auto
  qed
  ultimately show ?thesis by (auto simp: preorder_rel_def reflp_def transp_def)
qed

lemma extended_append:
  assumes "appends I rules" "r \<in> R (t, c)"
  shows "state_io_rel (extended rules R) (outside_err (ipt_AppendUnique I t c r))"
proof -
  have "extended rules R w (w\<lparr>lw_out := snd (ipt_AppendUnique I t c r (lw_out w))\<rparr>)" for w
  proof -
    obtain e o1 where e: "ipt_AppendUnique I t c r (lw_out w) = (e, o1)" by fastforce
    have "rules o1 = rules (lw_out w) \<or>
        rules o1 = (rules (lw_out w))((t, c) := if r \<in> set (rules (lw_out w) (t, c)) then rules (lw_out w) (t, c)
          else rules (lw_out w) (t, c) @ [r])"
    proof -
      have "case ipt_AppendUnique I t c r (lw_out w) of
          (None, o1) \<Rightarrow> rules o1 = (rules (lw_out w))((t, c) := if r \<in> set (rules (lw_out w) (t, c))
            then rules (lw_out w) (t, c) else rules (lw_out w) (t, c) @ [r])
        | (Some _, o1) \<Rightarrow> rules o1 = rules (lw_out w)"
        by (rule assms(1) [unfolded appends_def, rule_format])
      then show ?thesis unfolding e by (cases e) simp_all
    qed
    then have "\<exists>xs. rules o1 k = rules (lw_out w) k @ xs \<and> distinct xs \<and> set xs \<subseteq> R k \<and>
        set xs \<inter> set (rules (lw_out w) k) = {}" for k
    proof (cases "rules o1 k = rules (lw_out w) k")
      case True
      then show ?thesis by (intro exI [of _ "[]"]) simp
    next
      case False
      assume "rules o1 = rules (lw_out w) \<or> rules o1 = (rules (lw_out w))((t, c) := if r \<in> set (rules (lw_out w) (t, c))
          then rules (lw_out w) (t, c) else rules (lw_out w) (t, c) @ [r])"
      with False have "k = (t, c)" "r \<notin> set (rules (lw_out w) k)" "rules o1 k = rules (lw_out w) k @ [r]"
        by (auto simp: fun_upd_apply split: if_splits)
      with assms(2) show ?thesis by (intro exI [of _ "[r]"]) simp
    qed
    then show ?thesis using e by (simp add: extended_def)
  qed
  then have "state_io_rel (extended rules R) (outside (ipt_AppendUnique I t c r))"
    by (simp add: state_io_rel_def outside_def)
  then show ?thesis
    unfolding outside_err_def by (intro evolve_intros preorder_extended)
qed

definition dnat_rules :: "string \<Rightarrow> string \<Rightarrow> HostPortForward list \<Rightarrow> string \<times> string \<Rightarrow> rule list" where
  "dnat_rules i ip fs k =
     (if k = (''nat'', ''PREROUTING'') then map (prerouting_rule i ip) fs
      else if k = (''nat'', ''OUTPUT'') then map (output_rule i ip) fs else [])"

lemma io_rel_for_each_err_set:
  assumes "preorder_rel R" "\<And>x. x \<in> set xs \<Longrightarrow> state_io_rel R (f x)"
  shows "state_io_rel R (for_each_err f xs)"
  using assms by (induction xs) (auto intro!: evolve_intros)

lemma extended_Apply:
  assumes "appends I rules"
  shows "state_io_rel (extended rules (\<lambda>k. set (dnat_rules i ip fs k))) (ApplyHostPortDNAT I i ip fs)"
  unfolding ApplyHostPortDNAT_def
  by (rule io_rel_for_each_err_set [OF preorder_extended])
    (intro evolve_intros preorder_extended extended_append [OF assms]; simp add: dnat_rules_def)

subsection \<open>Removing them\<close>

lemma run_Delete:
  assumes "deletes I rules"
  shows "rules (lw_out (snd (run_state (DeleteHostPortDNAT I i ip fs) w))) k =
    foldl (\<lambda>L r. remove1 r L) (rules (lw_out w) k) (dnat_rules i ip fs k)"
proof (induction fs arbitrary: w)
  case Nil
  then show ?case by (simp add: DeleteHostPortDNAT_def dnat_rules_def)
next
  case (Cons f fs)
  let ?w1 = "w\<lparr>lw_out := snd (ipt_Delete I ''nat'' ''PREROUTING'' (prerouting_rule i ip f) (lw_out w))\<rparr>"
  let ?w2 = "?w1\<lparr>lw_out := snd (ipt_Delete I ''nat'' ''OUTPUT'' (output_rule i ip f) (lw_out ?w1))\<rparr>"
  have "rules (lw_out ?w2) = (rules (lw_out w))
      ((''nat'', ''PREROUTING'') := remove1 (prerouting_rule i ip f) (rules (lw_out w) (''nat'', ''PREROUTING'')),
       (''nat'', ''OUTPUT'') := remove1 (output_rule i ip f) (rules (lw_out w) (''nat'', ''OUTPUT'')))"
    using assms unfolding deletes_def by simp
  moreover have "snd (run_state (DeleteHostPortDNAT I i ip (f # fs)) w) =
      snd (run_state (DeleteHostPortDNAT I i ip fs) ?w2)"
    by (simp add: DeleteHostPortDNAT_def outside_def)
  ultimately show ?case using Cons [of ?w2] by (simp add: dnat_rules_def)
qed

lemma foldl_remove_disjoint:
  assumes "set rs \<inter> set L = {}"
  shows "foldl (\<lambda>L r. remove1 r L) (L @ xs) rs = L @ foldl (\<lambda>L r. remove1 r L) xs rs"
  using assms by (induction rs arbitrary: xs) (simp_all add: remove1_append)

lemma foldl_remove_all:
  assumes "distinct xs" "set xs \<subseteq> set rs"
  shows "foldl (\<lambda>L r. remove1 r L) xs rs = []"
  using assms
proof (induction rs arbitrary: xs)
  case (Cons r rs)
  have "distinct (remove1 r xs)" "set (remove1 r xs) \<subseteq> set rs"
    using Cons.prems by auto
  then show ?case using Cons.IH by simp
qed simp

text \<open>
  C16: publishing host ports leaves nothing behind.  Whatever \<^verbatim>\<open>ApplyHostPortDNAT\<close> got done,
  whether it returned an error half way or not, \<^verbatim>\<open>DeleteHostPortDNAT\<close> with the same arguments
  puts every chain of every table back to the list of rules it had before, in the same order, if
  none of the rules was there before.
\<close>

theorem dnat_roundtrip:
  assumes "appends I rules" "deletes I rules"
    and "\<forall>k. set (dnat_rules i ip fs k) \<inter> set (rules (lw_out w) k) = {}"
    and "run_state (ApplyHostPortDNAT I i ip fs) w = (r, w1)"
  shows "rules (lw_out (snd (run_state (DeleteHostPortDNAT I i ip fs) w1))) = rules (lw_out w)"
proof
  fix k
  have "extended rules (\<lambda>k. set (dnat_rules i ip fs k)) w w1"
    by (rule io_relD [OF extended_Apply [OF assms(1)] assms(4)])
  then obtain xs where xs: "rules (lw_out w1) k = rules (lw_out w) k @ xs" "distinct xs"
      "set xs \<subseteq> set (dnat_rules i ip fs k)"
    unfolding extended_def by blast
  have "rules (lw_out (snd (run_state (DeleteHostPortDNAT I i ip fs) w1))) k =
      foldl (\<lambda>L r. remove1 r L) (rules (lw_out w) k @ xs) (dnat_rules i ip fs k)"
    unfolding run_Delete [OF assms(2)] xs(1) ..
  also have "\<dots> = rules (lw_out w) k @ foldl (\<lambda>L r. remove1 r L) xs (dnat_rules i ip fs k)"
    by (rule foldl_remove_disjoint) (rule assms(3) [rule_format])
  also have "\<dots> = rules (lw_out w) k"
    unfolding foldl_remove_all [OF xs(2,3)] by simp
  finally show "rules (lw_out (snd (run_state (DeleteHostPortDNAT I i ip fs) w1))) k = rules (lw_out w) k" .
qed

definition bare_world :: "chains let_world" where
  "bare_world = \<lparr>lw_fs = [], lw_locks = [], lw_reserved = [], lw_since = [], lw_hits = [], lw_jobs = [],
     lw_out = sample_chains\<rparr>"

theorem dnat_roundtrip_witness:
  "let m = toHostPortForwards [sample_mapping 30000];
       r = run_state (ApplyHostPortDNAT list_ipt ''a'' ''10.89.0.7'' m) bare_world in
   chain_rules (lw_out (snd r)) (''nat'', ''PREROUTING'') \<noteq> [] \<and>
   chain_rules (lw_out (snd (run_state (DeleteHostPortDNAT list_ipt ''a'' ''10.89.0.7'' m) (snd r)))) =
   chain_rules (lw_out bare_world)"
proof -
  let ?m = "toHostPortForwards [sample_mapping 30000]"
  obtain r w1 where r: "run_state (ApplyHostPortDNAT list_ipt ''a'' ''10.89.0.7'' ?m) bare_world = (r, w1)"
    by fastforce
  have "chain_rules sample_chains k = []" for k
    by (simp add: chain_rules_def sample_chains_def)
  then have "\<forall>k. set (dnat_rules ''a'' ''10.89.0.7'' ?m k) \<inter> set (chain_rules (lw_out bare_world) k) = {}"
    by (simp add: bare_world_def)
  note back_again = dnat_roundtrip [OF list_ipt_appends list_ipt_deletes this r]
  have "chain_rules (lw_out (snd (run_state (ApplyHostPortDNAT list_ipt ''a'' ''10.89.0.7'' ?m) bare_world)))
      (''nat'', ''PREROUTING'') \<noteq> []"
    by (simp add: ApplyHostPortDNAT_def toHostPortForwards_def outside_err_def outside_def list_ipt_def bare_world_def
        sample_chains_def chain_rules_def run_check)
  with back_again show ?thesis unfolding Let_def r by simp
qed

subsection \<open>Cleaning up by tag\<close>

text \<open>
  The cleanup by sandbox looks for \<^verbatim>\<open>--comment SBX:<id>\<close> anywhere in a listed rule, so the
  cleanup of a sandbox also picks the rules of every sandbox whose id continues its own.
\<close>

lemma Contains_prefix: "HasPrefix s t \<Longrightarrow> Contains s t"
  by (cases s) (simp_all add: HasPrefix_def)

lemma Contains_append: "Contains s t \<Longrightarrow> Contains (p @ s) t"
  by (induction p) simp_all

lemma DNAT_tag_matches_longer_id:
  assumes "HasPrefix j i"
  shows "Contains (''-A PREROUTING '' @ Join (prerouting_rule j ip f) '' '')
    (''--comment '' @ hostPortCommentPrefix @ i)"
proof -
  obtain t where t: "j = i @ t" using assms by (auto simp: HasPrefix_iff)
  let ?tail = "''--comment '' @ hostPortCommentPrefix @ j @ '' '' @
    Join [''-j'', ''DNAT'', ''--to-destination'', ip @ '':'' @ show_int (hf_ContainerPort f)] '' ''"
  have "HasPrefix ?tail (''--comment '' @ hostPortCommentPrefix @ i)"
    unfolding HasPrefix_iff t by (simp add: hostPortCommentPrefix_def)
  moreover have "''-A PREROUTING '' @ Join (prerouting_rule j ip f) '' '' =
      (''-A PREROUTING '' @ ''-p '' @ dnat_proto (hf_Protocol f) @ '' --dport '' @ show_int (hf_HostPort f) @
        '' -m comment '') @ ?tail"
    by (simp add: prerouting_rule_def dnat_tail_def)
  ultimately show ?thesis using Contains_append Contains_prefix by metis
qed

end
