(* ===== verification/Let_Logs_Props.thy ===== *)
theory Let_Logs_Props
  imports Let_Logs
begin

section \<open>sbxlet: what a reader of container logs sees\<close>

text \<open>
  A client that starts at the beginning and follows \<^verbatim>\<open>next_cursor\<close> while \<^verbatim>\<open>has_more\<close> is set
  reads every line once, whatever page size it asks for; and the file that is read lies in the
  log directory of the sandbox.
\<close>

subsection \<open>Lines with their terminators\<close>

abbreviation LF :: char where "LF \<equiv> CHR 0x0A"

lemma read_string_cases:
  obtains (last) "LF \<notin> set s" "read_string s = (s, [], True)"
  | (line) l r where "s = l @ LF # r" "LF \<notin> set l" "read_string s = (l @ [LF], r, False)"
proof (cases "LF \<in> set s")
  case True
  then obtain l r where lr: "s = l @ LF # r" "LF \<notin> set l" by (meson split_list_first)
  then have "\<forall>c \<in> set l. c \<noteq> LF" by auto
  then have "takeWhile (\<lambda>c. c \<noteq> LF) s = l" "dropWhile (\<lambda>c. c \<noteq> LF) s = LF # r"
    using lr(1) by (simp_all add: takeWhile_append2 dropWhile_append2)
  then show ?thesis using lr by (intro line) (simp_all add: read_string_def)
next
  case False
  then have "\<forall>c \<in> set s. c \<noteq> LF" by auto
  then have "takeWhile (\<lambda>c. c \<noteq> LF) s = s" "dropWhile (\<lambda>c. c \<noteq> LF) s = []"
    by (simp_all add: takeWhile_eq_all_conv)
  then show ?thesis using False by (intro last) (simp_all add: read_string_def)
qed

lemma read_string_parts: "fst (read_string s) @ fst (snd (read_string s)) = s"
  by (cases s rule: read_string_cases) simp_all

lemma read_string_nonempty: "s \<noteq> [] \<Longrightarrow> fst (read_string s) \<noteq> []"
  by (cases s rule: read_string_cases) simp_all

lemma read_string_shorter: "s \<noteq> [] \<Longrightarrow> length (fst (snd (read_string s))) < length s"
  by (cases s rule: read_string_cases) simp_all

lemma read_string_eof: "snd (snd (read_string s)) \<Longrightarrow> fst (snd (read_string s)) = []"
  by (cases s rule: read_string_cases) simp_all

function raw_lines :: "string \<Rightarrow> string list" where
  "raw_lines s =
     (if s = [] then [] else fst (read_string s) # raw_lines (fst (snd (read_string s))))"
  by pat_completeness auto
termination
  by (relation "measure length") (simp_all add: read_string_shorter)

declare raw_lines.simps [simp del]

lemma raw_lines_Nil [simp]: "raw_lines [] = []"
  by (subst raw_lines.simps) simp

lemma raw_lines_step:
  "s \<noteq> [] \<Longrightarrow> raw_lines s = fst (read_string s) # raw_lines (fst (snd (read_string s)))"
  by (subst raw_lines.simps) simp

lemma concat_raw_lines: "concat (raw_lines s) = s"
proof (induction s rule: length_induct)
  case (1 s)
  show ?case
  proof (cases "s = []")
    case False
    with 1 have "concat (raw_lines (fst (snd (read_string s)))) = fst (snd (read_string s))"
      using read_string_shorter by blast
    then show ?thesis using raw_lines_step [OF False] read_string_parts [of s] by simp
  qed simp
qed

lemma raw_lines_drop: "raw_lines (concat (drop n (raw_lines s))) = drop n (raw_lines s)"
proof (induction n arbitrary: s)
  case 0
  then show ?case by (simp add: concat_raw_lines)
next
  case (Suc n)
  show ?case
  proof (cases "s = []")
    case False
    then show ?thesis using Suc [of "fst (snd (read_string s))"] raw_lines_step [OF False] by simp
  qed simp
qed

lemma read_lines_eq:
  "read_lines n s next acc =
     (acc @ map trim_line (take n (raw_lines s)),
      next + int (length (concat (take n (raw_lines s)))), drop n (raw_lines s) \<noteq> [])"
proof (induction n arbitrary: s "next" acc)
  case 0
  have "raw_lines s = [] \<longleftrightarrow> s = []" using raw_lines_step [of s] by (cases "s = []") auto
  then show ?case by simp
next
  case (Suc n)
  obtain l r e where p: "read_string s = (l, r, e)" by (cases "read_string s") auto
  show ?case
  proof (cases "s = []")
    case True
    then show ?thesis by (simp add: read_string_def)
  next
    case False
    have l: "l \<noteq> []" "raw_lines s = l # raw_lines r" "e \<longrightarrow> r = []"
      using False p read_string_nonempty [OF False] raw_lines_step [OF False] read_string_eof [of s] by auto
    then show ?thesis using p Suc [of r] by (auto simp: Let_def)
  qed
qed

subsection \<open>The lines of a file\<close>

text \<open>
  What a log file says: the pieces between line feeds without carriage returns at their end; a
  final line feed starts no line.
\<close>

definition log_lines :: "string \<Rightarrow> string list" where
  "log_lines s = (let ps = SplitByte LF s in map trim_line (if last ps = [] then butlast ps else ps))"

lemma trim_line_LF: "trim_line (l @ [LF]) = trim_line l"
  by (simp add: trim_line_def)

lemma log_lines_raw: "log_lines s = map trim_line (raw_lines s)"
proof (induction s rule: length_induct)
  case (1 s)
  show ?case
  proof (cases s rule: read_string_cases)
    case last
    then show ?thesis
      by (cases "s = []") (simp_all add: log_lines_def Split_no_sep raw_lines_step)
  next
    case (line l r)
    then have "log_lines r = map trim_line (raw_lines r)" using 1 by simp
    moreover have "SplitByte LF s = l # SplitByte LF r"
      using line by (simp add: Split_append_sep Split_no_sep)
    then have "log_lines s = trim_line l # log_lines r"
      by (simp add: log_lines_def Let_def)
    ultimately show ?thesis using line by (simp add: raw_lines_step trim_line_LF)
  qed
qed

subsection \<open>Following the cursor\<close>

fun follow_log :: "nat \<Rightarrow> string \<Rightarrow> string \<Rightarrow> int \<Rightarrow> string list option" where
  "follow_log 0 content cursor n = None"
| "follow_log (Suc k) content cursor n =
     (case log_offset cursor of
        Inl _ \<Rightarrow> None
      | Inr offset \<Rightarrow>
          let page = log_page content offset n in
          if lp_HasMore page then map_option ((@) (lp_Lines page)) (follow_log k content (lp_NextCursor page) n)
          else Some (lp_Lines page))"

lemma log_limit_pos: "0 < log_limit n"
  by (simp add: log_limit_def Let_def)

lemma show_nat_digits: "c \<in> set (show_nat n) \<Longrightarrow> is_digit c"
proof (induction n rule: less_induct)
  case (less n)
  have "is_digit (char_of (48 + k))" if "k < 10" for k :: nat
  proof -
    from that have "k \<in> {0, 1, 2, 3, 4, 5, 6, 7, 8, 9}" by auto
    then show ?thesis by (auto simp: is_digit_def less_eq_char_def)
  qed
  moreover have "c \<in> set (if n < 10 then [char_of (48 + n)] else show_nat (n div 10) @ [char_of (48 + n mod 10)])"
    using less.prems by (subst show_nat.simps [symmetric])
  ultimately show ?case using less.IH [of "n div 10"] by (auto split: if_splits)
qed

lemma leading_space_hd:
  assumes "\<forall>w \<in> set ws. w \<noteq> [] \<and> \<not> is_digit (hd w)" "is_digit (hd s)"
  shows "leading_space ws s = 0"
proof -
  have "\<not> HasPrefix s w" if "w \<in> set ws" for w
  proof
    assume "HasPrefix s w"
    moreover have "w \<noteq> []" "\<not> is_digit (hd w)" using that assms(1) by blast+
    ultimately have "hd s = hd w" unfolding HasPrefix_def by (metis hd_take length_greater_0_conv)
    with \<open>\<not> is_digit (hd w)\<close> assms(2) show False by simp
  qed
  then have "find (HasPrefix s) ws = None" by (auto simp: find_None_iff)
  then show ?thesis by (simp add: leading_space_def)
qed

lemma TrimSpace_show_nat: "TrimSpace (show_nat n) = show_nat n"
proof -
  have "\<forall>w \<in> set space_runes. w \<noteq> [] \<and> \<not> is_digit (hd w)"
    "\<forall>w \<in> set (map rev space_runes). w \<noteq> [] \<and> \<not> is_digit (hd w)"
    by code_simp+
  then have "leading_space space_runes (show_nat n) = 0" "leading_space (map rev space_runes) (rev (show_nat n)) = 0"
    using show_nat_digits [OF hd_in_set] show_nat_digits [OF last_in_set]
    by (auto intro!: leading_space_hd simp: hd_rev)
  then show ?thesis by (simp add: TrimSpace_def trim_left_id)
qed

lemma log_offset_show:
  assumes "0 \<le> v" "v < 2 ^ 63"
  shows "log_offset (show_int v) = Inr v"
  using Atoi_show_nat [of "nat v"] assms TrimSpace_show_nat [of "nat v"]
  by (simp add: log_offset_def show_int_def in_i64_def)

lemma follow_log_lines:
  assumes "log_offset cursor = Inr off" "0 \<le> off" "nat off \<le> length content" "length content < 2 ^ 63"
    and "length (drop (nat off) content) < k"
  shows "follow_log k content cursor n = Some (map trim_line (raw_lines (drop (nat off) content)))"
  using assms
proof (induction k arbitrary: cursor off)
  case 0
  then show ?case by simp
next
  case (Suc k)
  let ?s = "drop (nat off) content" and ?m = "log_limit n"
  let ?taken = "concat (take ?m (raw_lines ?s))" and ?rest = "concat (drop ?m (raw_lines ?s))"
  let ?next = "off + int (length ?taken)"
  have page: "log_page content off n =
      \<lparr>lp_Lines = map trim_line (take ?m (raw_lines ?s)), lp_NextCursor = show_int ?next,
       lp_HasMore = (drop ?m (raw_lines ?s) \<noteq> [])\<rparr>"
    by (simp add: log_page_def read_lines_eq)
  have split: "?taken @ ?rest = ?s"
    using concat_raw_lines [of ?s] by (metis append_take_drop_id concat_append)
  show ?case
  proof (cases "drop ?m (raw_lines ?s) = []")
    case True
    then show ?thesis using Suc.prems(1) page by simp
  next
    case False
    then have "take ?m (raw_lines ?s) \<noteq> []" using log_limit_pos [of n] by auto
    then obtain l ls where "take ?m (raw_lines ?s) = l # ls" by (cases "take ?m (raw_lines ?s)") auto
    moreover have "?s \<noteq> []" using False by auto
    ultimately have "l \<noteq> []"
      using read_string_nonempty [of ?s] raw_lines_step [of ?s] log_limit_pos [of n]
      by (cases ?m) auto
    then have taken: "0 < length ?taken" using \<open>take ?m (raw_lines ?s) = l # ls\<close> by simp
    have len: "length ?taken + length ?rest = length ?s" using split by (metis length_append)
    have rest: "drop (nat ?next) content = ?rest"
    proof -
      have "nat ?next = length ?taken + nat off" using Suc.prems(2) by simp
      then have "drop (nat ?next) content = drop (length ?taken) ?s" by (simp add: drop_drop)
      then show ?thesis using split by (metis append_eq_conv_conj)
    qed
    have le: "nat ?next \<le> length content"
      using len Suc.prems(2,3) by (simp add: nat_le_iff)
    then have "int (nat ?next) < int (2 ^ 63)" using Suc.prems(4) by (simp only: of_nat_less_iff)
    then have "log_offset (show_int ?next) = Inr ?next"
      using Suc.prems(2) by (intro log_offset_show) simp_all
    then have "follow_log k content (show_int ?next) n = Some (map trim_line (raw_lines ?rest))"
      using Suc.IH [of "show_int ?next" ?next] le len taken rest Suc.prems(2,4,5) by simp
    then show ?thesis
      using Suc.prems(1) page False by (simp add: raw_lines_drop Let_def flip: map_append)
  qed
qed

text \<open>
  C17: following the cursor reads the whole log.  A reader that starts without a cursor and, as
  long as a page says there is more, asks again with the cursor of that page, gets after at most
  one request per byte (and one more) all the lines of the file in their order and each once,
  whatever page size it asks for, zero and negative included.
\<close>

theorem follow_log_complete:
  assumes "length content < 2 ^ 63"
  shows "follow_log (Suc (length content)) content [] n = Some (log_lines content)"
  using follow_log_lines [of "[]" 0 content "Suc (length content)" n] assms
  by (simp add: log_offset_def log_lines_raw)

theorem follow_log_complete_witness:
  "follow_log 13 ''ab\<newline>c\<newline>\<newline>def\<newline>gh'' [] 2 = Some [''ab'', ''c'', [], ''def'', ''gh'']"
proof -
  let ?s = "''ab\<newline>c\<newline>\<newline>def\<newline>gh''"
  have "log_lines ?s = [''ab'', ''c'', [], ''def'', ''gh'']" by code_simp
  moreover have n: "length ?s = 12" by simp
  moreover have "Suc 12 = 13" by simp
  moreover have "length ?s < 2 ^ 63" unfolding n by simp
  ultimately show ?thesis using follow_log_complete [of ?s 2] by (simp only:)
qed

subsection \<open>The file that is read\<close>

text \<open>A token is one path component that names neither the parent directory nor anything below.\<close>

definition path_token :: "string \<Rightarrow> bool" where
  "path_token v \<longleftrightarrow> v \<noteq> [] \<and> CHR ''/'' \<notin> set v \<and> CHR 0x5C \<notin> set v \<and> \<not> Contains v ''..''"

definition log_dir :: "LetConfig \<Rightarrow> string \<Rightarrow> string" where
  "log_dir cfg i = (if i = ''.'' then StateBaseDir cfg else StateBaseDir cfg @ ''/'' @ i) @ ''/logs''"

lemma Contains_byte: "Contains s [c] \<longleftrightarrow> c \<in> set s"
  by (induction s) (auto simp: HasPrefix_def)

lemma validatePathToken_None: "validatePathToken v = None \<longleftrightarrow> path_token v"
  by (auto simp: validatePathToken_def path_token_def Contains_byte)

lemma path_token_safe: "path_token v \<Longrightarrow> v \<noteq> ''.'' \<Longrightarrow> safe_name v"
  unfolding path_token_def safe_name_def by (cases "v = ''..''") (simp_all add: HasPrefix_def)

lemma log_dir_join:
  assumes "clean_abs (StateBaseDir cfg)" "path_token i"
  shows "filepath_Join [StateBaseDir cfg, i, ''logs''] = log_dir cfg i" "clean_abs (log_dir cfg i)"
proof -
  have logs: "safe_name ''logs''" by (simp add: safe_name_def)
  show "filepath_Join [StateBaseDir cfg, i, ''logs''] = log_dir cfg i"
  proof (cases "i = ''.''")
    case True
    then show ?thesis
      using Join_dot [OF assms(1) logs] by (simp add: log_dir_def)
  next
    case False
    then show ?thesis
      using Join_grandchild [OF assms(1) path_token_safe [OF assms(2) False] logs] by (simp add: log_dir_def)
  qed
  show "clean_abs (log_dir cfg i)"
    using assms clean_abs_child [OF _ logs] clean_abs_child [OF _ path_token_safe [OF assms(2)]]
    by (simp add: log_dir_def)
qed

text \<open>
  C35: a log request cannot leave the log directory of a sandbox.  The path is computed exactly
  for ids and container names that are single path components without \<^verbatim>\<open>..\<close>, slash or backslash,
  and it is then \<^verbatim>\<open><state dir>/<id>/logs/<name>.log\<close> (the id \<^verbatim>\<open>.\<close> names the state directory
  itself); any other request is refused before a file is opened.
\<close>

theorem containerLogPath_confined:
  assumes "clean_abs (StateBaseDir cfg)"
  shows "case containerLogPath cfg i c of
      Inr p \<Rightarrow> path_token i \<and> path_token c \<and> p = log_dir cfg i @ ''/'' @ c @ ''.log''
    | Inl _ \<Rightarrow> \<not> (path_token i \<and> path_token c)"
proof (cases "path_token i \<and> path_token c")
  case True
  then have "safe_name (c @ ''.log'')"
    by (auto simp: path_token_def safe_name_def append_eq_Cons_conv)
  moreover note d = log_dir_join [OF assms conjunct1 [OF True]]
  ultimately have "filepath_Join [log_dir cfg i, c @ ''.log''] = log_dir cfg i @ ''/'' @ c @ ''.log''"
    "Clean (log_dir cfg i @ ''/'' @ c @ ''.log'') = log_dir cfg i @ ''/'' @ c @ ''.log''"
    using Join_child Clean_child by blast+
  moreover have "Clean (log_dir cfg i) = log_dir cfg i" using d(2) by (simp add: clean_abs_def)
  moreover have "HasPrefix (log_dir cfg i @ ''/'' @ c @ ''.log'') (log_dir cfg i @ ''/'')"
    by (simp add: HasPrefix_iff)
  ultimately show ?thesis
    using True by (simp add: containerLogPath_def validatePathToken_None d(1))
next
  case False
  then show ?thesis
    using validatePathToken_None [of i] validatePathToken_None [of c]
    by (auto simp: containerLogPath_def)
qed

theorem containerLogPath_confined_witness:
  "(case containerLogPath sample_let_config ''a'' ''web'' of
      Inr p \<Rightarrow> p = ''/var/lib/sandboxd/sandboxes/a/logs/web.log'' | Inl _ \<Rightarrow> False) \<and>
   (case containerLogPath sample_let_config ''..'' ''web'' of Inr p \<Rightarrow> False | Inl _ \<Rightarrow> True)"
proof -
  have t: "path_token ''a''" "path_token ''web''" "\<not> path_token ''..''"
    by (simp_all add: path_token_def HasPrefix_def)
  show ?thesis
    using containerLogPath_confined [OF sample_base_clean, of "''a''" "''web''"]
      containerLogPath_confined [OF sample_base_clean, of "''..''" "''web''"] t
    by (auto simp: log_dir_def sample_base split: sum.splits)
qed

end
