(* ===== verification/Orch_Port_Props.thy ===== *)
theory Orch_Port_Props
  imports Orch_Samples
begin

section \<open>sbxorch: what holds of port reservations\<close>

text \<open>
  The properties of \<^verbatim>\<open>ReserveSandboxPortsAndSchedule\<close> and \<^verbatim>\<open>ReleaseSandboxPorts\<close>, from the
  contract \<open>port_registry\<close> and the effects proved in \<open>Orch_Ports\<close>.
\<close>

text \<open>
  C2: once sandbox \<open>b\<close> holds host port \<open>hp\<close> of a node, then after any sequence of reservations
  and releases by any sandboxes in which \<open>b\<close> itself releases nothing, with any faults of the
  database on the way, a reservation of \<open>hp\<close> on that node by another sandbox fails.
\<close>

theorem reservation_excludes:
  assumes "db_inv (w_db w)" "port_holds w b (node, hp)" "Release b \<notin> set ops" "a \<noteq> b"
    and "hp \<in> pa_HostPort ` set ps"
  shows "\<exists>e. fst (run_state (repo_ReserveSandboxPortsAndSchedule a node ps) (orch_ports.run_ops ops w)) = Inl e"
proof -
  have "(node, hp) \<in> request_keys (node, ps)"
    using assms(5) by (auto simp: request_keys_def)
  from orch_ports.run_ops_excludes [OF assms(1-4) this] show ?thesis
    by (cases "fst (run_state (repo_ReserveSandboxPortsAndSchedule a node ps) (orch_ports.run_ops ops w))")
      (auto simp: succeeded_def)
qed

theorem reservation_excludes_witness:
  "\<exists>e. fst (run_state (repo_ReserveSandboxPortsAndSchedule ''b'' ''n1'' [sample_assign 30001, sample_assign 30000])
     (orch_ports.run_ops [Reserve ''b'' (''n2'', [sample_assign 30000]), Release ''b''] sample_world)) = Inl e"
  by (rule reservation_excludes [OF sample_db_inv sample_holds]) (simp_all add: sample_assign_def)

text \<open>
  C6: \<^verbatim>\<open>ReserveSandboxPortsAndSchedule\<close> is all or nothing.  When it returns an error the
  database is unchanged.  When it succeeds, none of the requested host ports was reserved on the
  node before, they are pairwise distinct, exactly one row per request was added, and the sandbox
  exists and is Scheduled on the node with those ports; nothing else changed.
\<close>

theorem reserve_atomic:
  assumes "run_state (repo_ReserveSandboxPortsAndSchedule sid node ps) w = (r, w')"
  shows "case r of
      Inl e \<Rightarrow> w_db w' = w_db w
    | Inr _ \<Rightarrow> (\<exists>rs sbx now. list_all2 (assigned_row sid node) rs ps \<and>
        (\<forall>p \<in> set ps. (node, pa_HostPort p) \<notin> port_key ` set (t_ports (w_db w))) \<and>
        distinct (map pa_HostPort ps) \<and> sql_get_sandbox sid (w_db w) = Some sbx \<and>
        w_db w' = sql_update_status sid ((sbx_Status sbx)\<lparr>st_NodeName := node,
          st_Phase := SandboxPhaseScheduled, st_AssignedPorts := ps\<rparr>) now
          ((w_db w)\<lparr>t_ports := t_ports (w_db w) @ rs\<rparr>))"
proof (cases r)
  case (Inl e)
  then show ?thesis using assms reserve_failed_db by auto
next
  case (Inr u)
  with assms obtain rs sbx now where "list_all2 (assigned_row sid node) rs ps"
    "\<forall>p \<in> set ps. (node, pa_HostPort p) \<notin> port_key ` set (t_ports (w_db w))"
    "distinct (map pa_HostPort ps)" "sql_get_sandbox sid (w_db w) = Some sbx"
    "w_db w' = sql_update_status sid ((sbx_Status sbx)\<lparr>st_NodeName := node,
        st_Phase := SandboxPhaseScheduled, st_AssignedPorts := ps\<rparr>) now
        ((w_db w)\<lparr>t_ports := t_ports (w_db w) @ rs\<rparr>)"
    by (auto elim: reserve_ok_db)
  with Inr show ?thesis by auto
qed

theorem reserve_atomic_witness:
  "\<exists>sbx. sql_get_sandbox ''b'' (w_db sample_world) = Some sbx"
proof -
  obtain w' where "run_state (repo_ReserveSandboxPortsAndSchedule ''b'' ''n2'' [sample_assign 30000]) sample_world
      = (Inr (), w')"
    using sample_reserve by (metis prod.collapse)
  from reserve_atomic [OF this] show ?thesis by auto
qed

end
