(* ===== verification/Orch_StatusSync.thy ===== *)
theory Orch_StatusSync
  imports Orch_Lifecycle
begin

section \<open>sbxorch: merging what the agents report\<close>

text \<open>
  The status synchronisation of \<^verbatim>\<open>sandboxd-orch/service/sandbox_ops.go\<close>.  One pass lists the
  sandboxes, groups those that live on a node by that node, asks each agent in batches and writes
  back what changed, unless the row was written meanwhile.  The map of groups is iterated in an
  unspecified order and its groups run in parallel: \<open>order\<close> stands for that choice.
\<close>

subsection \<open>The merge\<close>

fun container_errors :: "string \<Rightarrow> ContainerSyncStatus list \<Rightarrow> string" where
  "container_errors msg [] = msg"
| "container_errors msg (c # cs) =
     (let e = TrimSpace (css_Error c) in
      if e \<noteq> [] then
        (if msg = [] then container_errors (''container '' @ css_Name c @ '': '' @ e) cs
         else container_errors (msg @ ''; container '' @ css_Name c @ '': '' @ e) cs)
      else container_errors msg cs)"

definition set_phase :: "SandboxPhase \<Rightarrow> SandboxStatus \<times> bool \<Rightarrow> SandboxStatus \<times> bool" where
  "set_phase p x = (if st_Phase (fst x) \<noteq> p then ((fst x)\<lparr>st_Phase := p\<rparr>, True) else x)"

definition set_last_error :: "string \<Rightarrow> SandboxStatus \<times> bool \<Rightarrow> SandboxStatus \<times> bool" where
  "set_last_error m x = (if st_LastError (fst x) \<noteq> m then ((fst x)\<lparr>st_LastError := m\<rparr>, True) else x)"

definition unhealthy_message :: "ContainerSyncStatus \<Rightarrow> string" where
  "unhealthy_message c =
     (let msg = TrimSpace (css_Error c) in
      if msg = [] then ''container '' @ css_Name c @ '' unhealthy ('' @ TrimSpace (css_Phase c) @ '')''
      else ''container '' @ css_Name c @ '': '' @ msg)"

definition mergeSandboxPhaseWithNodeState :: "SandboxStatus \<Rightarrow> SandboxSyncStatus \<Rightarrow> SandboxStatus \<times> bool" where
  "mergeSandboxPhaseWithNodeState cur st =
     (let phase = TrimSpace (sss_Phase st) in
      if EqualFold phase ''error'' then
        (let m = container_errors (TrimSpace (sss_Error st)) (sss_UnhealthyContainers st);
             msg = (if m = [] then ''sandbox error on sbxlet node'' else m) in
         set_last_error msg (set_phase SandboxPhaseFailed (cur, False)))
      else
        (case sss_UnhealthyContainers st of
           c # _ \<Rightarrow> set_last_error (unhealthy_message c) (set_phase SandboxPhaseFailed (cur, False))
         | [] \<Rightarrow>
             if EqualFold phase ''running'' then set_last_error [] (set_phase SandboxPhaseRunning (cur, False))
             else if EqualFold phase ''creating'' then
               (if st_Phase cur = SandboxPhaseRunning then (cur\<lparr>st_Phase := SandboxPhaseScheduled\<rparr>, True)
                else (cur, False))
             else (cur, False)))"

definition inferSandboxExternal :: "string \<Rightarrow> string \<Rightarrow> string" where
  "inferSandboxExternal fromNodeResp fallback =
     (let ip = TrimSpace fromNodeResp in
      if ip \<noteq> [] then ip
      else let f = TrimSpace fallback in if f = [] then ''(none)'' else f)"

definition findMissing :: "string list \<Rightarrow> string \<Rightarrow> bool" where
  "findMissing items i \<longleftrightarrow> i \<in> set items"

subsection \<open>One batch\<close>

definition missing_status :: "string \<Rightarrow> SandboxStatus \<Rightarrow> SandboxStatus option" where
  "missing_status nodeExternal cur =
     (if st_Phase cur = SandboxPhaseDeleting then None
      else if st_Phase cur = SandboxPhaseScheduled then None
      else Some (cur\<lparr>st_Phase := SandboxPhaseFailed, st_LastError := ''deleted on sbxlet node'',
             st_External := inferSandboxExternal nodeExternal (st_External cur)\<rparr>))"

definition reported_status :: "string \<Rightarrow> SandboxSyncStatus \<Rightarrow> SandboxStatus \<Rightarrow> SandboxStatus option" where
  "reported_status nodeExternal nodeSt cur =
     (if st_Phase cur = SandboxPhaseDeleting then None
      else let (n1, c1) = mergeSandboxPhaseWithNodeState cur nodeSt;
               ip = TrimSpace (sss_IP nodeSt);
               (n2, c2) = (if ip \<noteq> [] \<and> st_IP n1 \<noteq> ip then (n1\<lparr>st_IP := ip\<rparr>, True) else (n1, c1));
               ext = inferSandboxExternal nodeExternal (st_External cur);
               (n3, c3) = (if st_External n2 \<noteq> ext then (n2\<lparr>st_External := ext\<rparr>, True) else (n2, c2)) in
             if c3 then Some n3 else None)"

text \<open>Read the row again, compute the new status from it and write it if the row is still that one.\<close>

definition merge_latest :: "(SandboxStatus \<Rightarrow> SandboxStatus option) \<Rightarrow> string \<Rightarrow> ('e, unit) act" where
  "merge_latest f i = do {
     l \<leftarrow> repo_GetSandbox i;
     (case l of
        Inl _ \<Rightarrow> ret ()
      | Inr latest \<Rightarrow>
          (case f (sbx_Status latest) of
             None \<Rightarrow> ret ()
           | Some st \<Rightarrow> ignore (repo_UpdateSandboxStatusIfUnchanged i st (sbx_UpdatedAt latest)))) }"

definition sync_one :: "string \<Rightarrow> SandboxStatusesResponse \<Rightarrow> Sandbox \<Rightarrow> ('e, unit) act" where
  "sync_one nodeExternal resp sbx =
     (if findMissing (ssr_Missing resp) (sbx_ID sbx)
      then merge_latest (missing_status nodeExternal) (sbx_ID sbx)
      else case map_of (rev (map (\<lambda>it. (sss_ID it, it)) (ssr_Items resp))) (sbx_ID sbx) of
        None \<Rightarrow> ret ()
      | Some nodeSt \<Rightarrow> merge_latest (reported_status nodeExternal nodeSt) (sbx_ID sbx))"

definition syncNodeSandboxBatch :: "'e Service \<Rightarrow> Client \<Rightarrow> string \<Rightarrow> Sandbox list \<Rightarrow> ('e, unit) act" where
  "syncNodeSandboxBatch svc c nodeName sandboxes = do {
     n \<leftarrow> repo_GetNode nodeName;
     let nodeExternal = (case n of Inl _ \<Rightarrow> [] | Inr x \<Rightarrow> TrimSpace (res_External (n_Resources x)));
     r \<leftarrow> client_SandboxStatuses (svc_net svc) c (map sbx_ID sandboxes);
     (case r of
        Inl _ \<Rightarrow> ret ()
      | Inr resp \<Rightarrow> for_each (sync_one nodeExternal resp) sandboxes) }"

subsection \<open>Batches and groups\<close>

function batches_from :: "nat \<Rightarrow> nat \<Rightarrow> 'a list \<Rightarrow> 'a list list" where
  "batches_from sz i xs =
     (if sz = 0 \<or> length xs \<le> i then []
      else take (min (i + sz) (length xs) - i) (drop i xs) # batches_from sz (i + sz) xs)"
  by pat_completeness auto
termination
  by (relation "measure (\<lambda>(sz, i, xs). length xs - i)") auto

declare batches_from.simps [simp del]

definition synced_phase :: "SandboxPhase \<Rightarrow> bool" where
  "synced_phase p \<longleftrightarrow> p = SandboxPhaseScheduled \<or> p = SandboxPhaseRunning \<or> p = SandboxPhaseFailed"

fun add_to_group :: "string \<Rightarrow> 'a \<Rightarrow> (string \<times> 'a list) list \<Rightarrow> (string \<times> 'a list) list" where
  "add_to_group k x [] = [(k, [x])]"
| "add_to_group k x ((k', xs) # gs) =
     (if k = k' then (k', xs @ [x]) # gs else (k', xs) # add_to_group k x gs)"

fun group_by_node :: "(string \<times> Sandbox list) list \<Rightarrow> Sandbox list \<Rightarrow> (string \<times> Sandbox list) list" where
  "group_by_node gs [] = gs"
| "group_by_node gs (s # ss) =
     (if TrimSpace (st_NodeName (sbx_Status s)) = [] \<or> \<not> synced_phase (st_Phase (sbx_Status s))
      then group_by_node gs ss
      else group_by_node (add_to_group (st_NodeName (sbx_Status s)) s gs) ss)"

definition sync_group :: "'e Service \<Rightarrow> string \<times> Sandbox list \<Rightarrow> ('e, unit) act" where
  "sync_group svc g = do {
     c \<leftarrow> SandboxOpClientForNode (fst g);
     (case c of
        Inl _ \<Rightarrow> ret ()
      | Inr (client, _) \<Rightarrow>
          let sz = (if StatusSyncBatchSize (svc_cfg svc) < 1 then 50 else StatusSyncBatchSize (svc_cfg svc)) in
          for_each (syncNodeSandboxBatch svc client (fst g)) (batches_from (nat sz) 0 (snd g))) }"

definition runSandboxStatusSyncOnce ::
  "'e Service \<Rightarrow> ((string \<times> Sandbox list) list \<Rightarrow> (string \<times> Sandbox list) list) \<Rightarrow> ('e, unit) act" where
  "runSandboxStatusSyncOnce svc order = do {
     l \<leftarrow> repo_ListSandboxes;
     (case l of
        Inl _ \<Rightarrow> ret ()
      | Inr items \<Rightarrow> for_each (sync_group svc) (order (group_by_node [] items))) }"

subsection \<open>Every step evolves the world\<close>

lemma evolve_merge_latest [evolve_intros]: "state_io_rel evolves (merge_latest f i)"
  unfolding merge_latest_def by (intro evolve_intros)

lemma evolve_status_sync [evolve_intros]:
  "state_io_rel evolves (sync_one ext resp sbx)"
  "state_io_rel evolves (syncNodeSandboxBatch svc c n ss)"
  "state_io_rel evolves (sync_group svc g)"
  "state_io_rel evolves (runSandboxStatusSyncOnce svc order)"
  unfolding sync_one_def syncNodeSandboxBatch_def sync_group_def runSandboxStatusSyncOnce_def Let_def
  by (intro evolve_intros)+

subsection \<open>Batches cover the list\<close>

lemma batches_from_concat: "0 < sz \<Longrightarrow> concat (batches_from sz i xs) = drop i xs"
proof (induction sz i xs rule: batches_from.induct)
  case (1 sz i xs)
  show ?case
  proof (cases "length xs \<le> i")
    case True
    then show ?thesis by (simp add: batches_from.simps)
  next
    case False
    then have "concat (batches_from sz (i + sz) xs) = drop (i + sz) xs"
      using 1 by auto
    moreover have "take (min (i + sz) (length xs) - i) (drop i xs) = take sz (drop i xs)"
      using False by (simp add: min_def take_all_iff)
    ultimately show ?thesis
      using False 1(2) by (subst batches_from.simps) (simp add: add.commute [of i sz] flip: drop_drop)
  qed
qed

lemma batches_from_sizes:
  assumes "b \<in> set (batches_from sz i xs)"
  shows "b \<noteq> [] \<and> length b \<le> sz"
  using assms
proof (induction sz i xs rule: batches_from.induct)
  case (1 sz i xs)
  show ?case
  proof (cases "sz = 0 \<or> length xs \<le> i")
    case True
    with 1(2) show ?thesis by (simp add: batches_from.simps [of sz i xs])
  next
    case False
    with 1(2) have "b = take (min (i + sz) (length xs) - i) (drop i xs) \<or> b \<in> set (batches_from sz (i + sz) xs)"
      by (simp add: batches_from.simps [of sz i xs])
    then show ?thesis
    proof
      assume b: "b = take (min (i + sz) (length xs) - i) (drop i xs)"
      have "length b = min (i + sz) (length xs) - i"
        using False by (simp add: b)
      then show ?thesis using False by (auto simp: min_def split: if_splits)
    qed (rule 1(1) [OF False])
  qed
qed

lemma set_add_to_group:
  "(\<Union>g \<in> set (add_to_group n x gs). set (snd g)) = insert x (\<Union>g \<in> set gs. set (snd g))"
  by (induction n x gs rule: add_to_group.induct) auto

lemma set_group_by_node:
  "(\<Union>g \<in> set (group_by_node gs ss). set (snd g)) = (\<Union>g \<in> set gs. set (snd g)) \<union>
     {s \<in> set ss. TrimSpace (st_NodeName (sbx_Status s)) \<noteq> [] \<and> synced_phase (st_Phase (sbx_Status s))}"
proof (induction gs ss rule: group_by_node.induct)
  case (1 gs)
  then show ?case by simp
next
  case (2 gs s ss)
  then show ?case
    by (cases "TrimSpace (st_NodeName (sbx_Status s)) = [] \<or> \<not> synced_phase (st_Phase (sbx_Status s))")
      (auto simp: set_add_to_group)
qed

lemma add_to_group_node:
  assumes "\<And>g s. g \<in> set gs \<Longrightarrow> s \<in> set (snd g) \<Longrightarrow> st_NodeName (sbx_Status s) = fst g"
    and "st_NodeName (sbx_Status x) = n"
    and "g \<in> set (add_to_group n x gs)" "s \<in> set (snd g)"
  shows "st_NodeName (sbx_Status s) = fst g"
  using assms
proof (induction n x gs rule: add_to_group.induct)
  case (1 k x)
  then show ?case by simp
next
  case (2 k x k' xs gs)
  have own: "st_NodeName (sbx_Status t) = k'" if "t \<in> set xs" for t
    using 2(2) [of "(k', xs)" t] that by simp
  have rest: "st_NodeName (sbx_Status t) = fst h" if "h \<in> set gs" "t \<in> set (snd h)" for h t
    using 2(2) [of h t] that by simp
  show ?case
  proof (cases "k = k'")
    case True
    with 2(4) have "g = (k', xs @ [x]) \<or> g \<in> set gs" by simp
    then show ?thesis
    proof
      assume "g = (k', xs @ [x])"
      with own 2(3,5) True show ?thesis by auto
    next
      assume "g \<in> set gs"
      then show ?thesis using 2(5) by (rule rest)
    qed
  next
    case False
    with 2(4) have "g = (k', xs) \<or> g \<in> set (add_to_group k x gs)" by simp
    then show ?thesis
    proof
      assume "g = (k', xs)"
      with own 2(5) show ?thesis by simp
    next
      assume "g \<in> set (add_to_group k x gs)"
      from 2(1) [OF False rest 2(3) this 2(5)] show ?thesis by simp
    qed
  qed
qed

end
