(* ===== verification/Orch_StatusSync_Props.thy ===== *)
theory Orch_StatusSync_Props
  imports Orch_StatusSync Orch_Lifecycle_Props
begin

section \<open>sbxorch: what holds of the status synchronisation\<close>

text \<open>
  The merge reports a change exactly when it makes one and touches two fields only.  A
  synchronisation pass rewrites the mutable fields of sandboxes that are not Deleting and
  nothing else.
\<close>

subsection \<open>The merge\<close>

lemma set_phase_sel:
  "fst (set_phase p (s, c)) = s\<lparr>st_Phase := p\<rparr>" "snd (set_phase p (s, c)) \<longleftrightarrow> c \<or> st_Phase s \<noteq> p"
  by (auto simp: set_phase_def)

lemma set_last_error_sel:
  "fst (set_last_error m x) = (fst x)\<lparr>st_LastError := m\<rparr>"
  "snd (set_last_error m x) \<longleftrightarrow> snd x \<or> st_LastError (fst x) \<noteq> m"
  by (auto simp: set_last_error_def)

lemma status_unchanged_iff:
  "s\<lparr>st_Phase := p\<rparr> = s \<longleftrightarrow> st_Phase s = p" for s :: SandboxStatus
  by (cases s) auto

lemma status_unchanged2_iff:
  "s\<lparr>st_Phase := p, st_LastError := m\<rparr> = s \<longleftrightarrow> st_Phase s = p \<and> st_LastError s = m" for s :: SandboxStatus
  by (cases s) auto

lemmas merge_sel = set_phase_sel set_last_error_sel status_unchanged_iff status_unchanged2_iff

text \<open>The three shapes of a merge: set both fields, fall back to Scheduled, keep all.\<close>

lemma merge_shape:
  obtains (both) p m where "p \<in> {SandboxPhaseFailed, SandboxPhaseRunning}"
      "\<And>c. mergeSandboxPhaseWithNodeState c st = set_last_error m (set_phase p (c, False))"
  | (demote) "\<And>c. mergeSandboxPhaseWithNodeState c st =
      (if st_Phase c = SandboxPhaseRunning then (c\<lparr>st_Phase := SandboxPhaseScheduled\<rparr>, True) else (c, False))"
  | (keep) "\<And>c. mergeSandboxPhaseWithNodeState c st = (c, False)"
proof -
  consider (error) "EqualFold (TrimSpace (sss_Phase st)) ''error''"
    | (unhealthy) c cs where "\<not> EqualFold (TrimSpace (sss_Phase st)) ''error''" "sss_UnhealthyContainers st = c # cs"
    | (healthy) "\<not> EqualFold (TrimSpace (sss_Phase st)) ''error''" "sss_UnhealthyContainers st = []"
    by (cases "sss_UnhealthyContainers st") blast+
  then show ?thesis
  proof cases
    case error
    then show ?thesis
      by (intro both [of SandboxPhaseFailed]) (simp_all only: mergeSandboxPhaseWithNodeState_def Let_def if_True insert_iff simp_thms)
  next
    case unhealthy
    then show ?thesis
      by (intro both [of SandboxPhaseFailed])
        (simp_all only: mergeSandboxPhaseWithNodeState_def Let_def if_False list.case insert_iff simp_thms)
  next
    case healthy
    show ?thesis
    proof (cases "EqualFold (TrimSpace (sss_Phase st)) ''running''")
      case True
      with healthy show ?thesis
        by (intro both [of SandboxPhaseRunning])
          (simp_all only: mergeSandboxPhaseWithNodeState_def Let_def if_False if_True list.case insert_iff simp_thms)
    next
      case nr: False
      show ?thesis
      proof (cases "EqualFold (TrimSpace (sss_Phase st)) ''creating''")
        case True
        with healthy nr show ?thesis
          by (intro demote) (simp only: mergeSandboxPhaseWithNodeState_def Let_def if_False if_True list.case)
      next
        case False
        with healthy nr show ?thesis
          by (intro keep) (simp only: mergeSandboxPhaseWithNodeState_def Let_def if_False list.case)
      qed
    qed
  qed
qed

lemma merge_phase:
  "st_Phase (fst (mergeSandboxPhaseWithNodeState cur st)) \<in>
     {st_Phase cur, SandboxPhaseFailed, SandboxPhaseRunning, SandboxPhaseScheduled}"
  by (cases rule: merge_shape [of st]) (auto simp: merge_sel)

definition kept_status :: "SandboxStatus \<Rightarrow> SandboxStatus" where
  "kept_status s = s\<lparr>st_Phase := SandboxPhasePending, st_IP := [], st_External := [], st_LastError := []\<rparr>"

lemma kept_merge: "kept_status (fst (mergeSandboxPhaseWithNodeState cur st)) = kept_status cur"
  by (cases rule: merge_shape [of st]) (simp_all add: merge_sel kept_status_def)

subsection \<open>A pass\<close>

definition sync_row :: "SandboxRow \<Rightarrow> SandboxRow \<Rightarrow> bool" where
  "sync_row r r' \<longleftrightarrow> r' = r \<or>
     st_Phase (sb_status r) \<noteq> SandboxPhaseDeleting \<and> st_Phase (sb_status r') \<noteq> SandboxPhaseDeleting \<and>
     sb_id r' = sb_id r \<and> sb_spec r' = sb_spec r \<and> sb_created_at r' = sb_created_at r \<and>
     kept_status (sb_status r') = kept_status (sb_status r)"

definition sync_rel :: "database \<Rightarrow> database \<Rightarrow> bool" where
  "sync_rel d d' \<longleftrightarrow> list_all2 sync_row (t_sandboxes d) (t_sandboxes d') \<and> t_ports d' = t_ports d \<and>
     t_nodes d' = t_nodes d \<and> t_status d' = t_status d \<and> t_resources d' = t_resources d \<and>
     t_externals d' = t_externals d"

definition inv_sync :: "database \<Rightarrow> database \<Rightarrow> bool" where
  "inv_sync d d' \<longleftrightarrow> (db_inv d \<longrightarrow> db_inv d' \<and> sync_rel d d')"

lemma sync_row_refl: "sync_row r r"
  by (simp add: sync_row_def)

lemma sync_row_trans: "sync_row r s \<Longrightarrow> sync_row s t \<Longrightarrow> sync_row r t"
  by (auto simp: sync_row_def)

lemma sync_rel_refl: "sync_rel d d"
  by (simp add: sync_rel_def list_all2_same sync_row_refl)

lemma preorder_inv_sync [evolve_intros]: "preorder_rel inv_sync"
proof -
  have "list_all2 sync_row xs zs" if "list_all2 sync_row xs ys" "list_all2 sync_row ys zs" for xs ys zs
    using list_all2_trans [OF sync_row_trans that(1,2)] .
  then show ?thesis
    unfolding preorder_rel_def reflp_def transp_def inv_sync_def
    by (auto simp: sync_rel_refl) (auto simp: sync_rel_def)
qed

definition sync_safe :: "(SandboxStatus \<Rightarrow> SandboxStatus option) \<Rightarrow> bool" where
  "sync_safe f \<longleftrightarrow> (\<forall>cur st. f cur = Some st \<longrightarrow> st_Phase cur \<noteq> SandboxPhaseDeleting \<and>
     st_Phase st \<noteq> SandboxPhaseDeleting \<and> kept_status st = kept_status cur)"

lemma missing_safe: "sync_safe (missing_status ext)"
  by (auto simp: sync_safe_def missing_status_def kept_status_def split: if_splits)

lemma reported_safe: "sync_safe (reported_status ext st)"
  unfolding sync_safe_def
proof (intro allI impI)
  fix cur new
  assume new: "reported_status ext st cur = Some new"
  obtain n1 c1 where m: "mergeSandboxPhaseWithNodeState cur st = (n1, c1)" by fastforce
  have d: "st_Phase cur \<noteq> SandboxPhaseDeleting"
    using new by (auto simp: reported_status_def)
  have p: "st_Phase n1 \<noteq> SandboxPhaseDeleting"
    using merge_phase [of cur st] m d by auto
  have k: "kept_status n1 = kept_status cur"
    using kept_merge [of cur st] m by simp
  have "st_Phase new = st_Phase n1 \<and> kept_status new = kept_status n1"
    using new d by (auto simp: reported_status_def m Let_def kept_status_def split: if_splits)
  with d p k show "st_Phase cur \<noteq> SandboxPhaseDeleting \<and> st_Phase new \<noteq> SandboxPhaseDeleting \<and>
      kept_status new = kept_status cur" by simp
qed

lemma kept_json [simp]: "kept_status (status_json s) = kept_status s"
  by (simp add: kept_status_def status_json_def)

lemma sync_rel_update_if:
  assumes "db_inv d" "sql_get_sandbox i d = Some s" "sync_safe f" "f (sbx_Status s) = Some st"
  shows "sync_rel d (snd (sql_update_status_if i st now (sbx_UpdatedAt s) d))"
proof -
  obtain r where r: "r \<in> set (t_sandboxes d)" "sb_id r = i" "s = row_sandbox r"
    using assms(2) by (auto simp: sql_get_sandbox_def dest: find_Some_in)
  have safe: "st_Phase (sb_status r) \<noteq> SandboxPhaseDeleting" "st_Phase st \<noteq> SandboxPhaseDeleting"
    "kept_status st = kept_status (sb_status r)"
    using assms(3,4) r(3) unfolding sync_safe_def by (force simp: row_sandbox_def)+
  have same: "x = r" if "x \<in> set (t_sandboxes d)" "sb_id x = i" for x
    using that r assms(1) distinct_map_inj [of sb_id "t_sandboxes d" x r] by (simp add: db_inv_def)
  have "list_all2 sync_row (t_sandboxes d) (map (\<lambda>x. if sb_id x = i \<and> sb_updated_at x = sbx_UpdatedAt s
       then x\<lparr>sb_status := status_json st, sb_updated_at := now\<rparr> else x) (t_sandboxes d))"
    unfolding list_all2_map2 list.rel_map
  proof (rule list.rel_refl_strong)
    fix x assume x: "x \<in> set (t_sandboxes d)"
    show "sync_row x (if sb_id x = i \<and> sb_updated_at x = sbx_UpdatedAt s
       then x\<lparr>sb_status := status_json st, sb_updated_at := now\<rparr> else x)"
    proof (cases "sb_id x = i")
      case True
      then have "x = r" using x same by blast
      with safe show ?thesis by (simp add: sync_row_def)
    qed (simp add: sync_row_refl)
  qed
  then show ?thesis
    by (simp add: sync_rel_def sql_update_status_if_def Let_def)
qed

text \<open>The conditional update, with the clock reading and the row count.\<close>

lemma run_update_if:
  assumes "run_state (repo_UpdateSandboxStatusIfUnchanged i st e) w = (r, w')"
  shows "w_db w' = w_db w \<and> (\<exists>err. r = Inl err) \<or>
    (\<exists>now. w_db w' = snd (sql_update_status_if i st now e (w_db w)) \<and>
       r = Inr (fst (sql_update_status_if i st now e (w_db w)) = 1))"
proof -
  obtain now w1 where 1: "w_db w1 = w_db w" "run_state
      (check (exec_rows (sql_update_status_if i st now e)) (\<lambda>affected. ok (affected = 1))) w1 = (r, w')"
    using assms unfolding repo_UpdateSandboxStatusIfUnchanged_def by (rule run_NowE)
  obtain x w2 where 2: "run_state (exec_rows (sql_update_status_if i st now e)) w1 = (x, w2)" by fastforce
  show ?thesis
  proof (cases x)
    case (Inl err)
    with 2 have "w_db w2 = w_db w1"
      by (auto simp: exec_rows_def run_next_fault split: option.splits)
    with 1 2 Inl have "w_db w' = w_db w \<and> r = Inl err" by (simp add: run_check)
    then show ?thesis by blast
  next
    case (Inr n)
    with 2 have "n = fst (sql_update_status_if i st now e (w_db w1))"
      "w_db w2 = snd (sql_update_status_if i st now e (w_db w1))"
      by (auto simp: exec_rows_def run_next_fault split: option.splits)
    with 1 2 Inr show ?thesis by (auto simp: run_check)
  qed
qed

lemma inv_sync_merge [evolve_intros]:
  assumes "sync_safe f"
  shows "state_io_rel (db_rel inv_sync) (merge_latest f i)"
proof (rule state_io_relI)
  fix a :: unit and w w' :: "'e world"
  assume run: "run_state (merge_latest f i) w = (a, w')"
  obtain l w1 where 1: "run_state (repo_GetSandbox i) w = (l, w1)" by fastforce
  then have w1: "w_db w1 = w_db w" unfolding repo_GetSandbox_def by (rule run_query_row_db)
  have refl: "inv_sync d d" for d
    using preorder_inv_sync by (rule preorder_rel_refl)
  show "db_rel inv_sync w w'"
  proof (cases l)
    case (Inl e)
    with run 1 w1 refl show ?thesis by (simp add: merge_latest_def db_rel_def)
  next
    case (Inr s)
    with 1 run_query_row_Inr [of "sql_get_sandbox i" w s w1] have g: "sql_get_sandbox i (w_db w) = Some s"
      by (simp add: repo_GetSandbox_def)
    show ?thesis
    proof (cases "f (sbx_Status s)")
      case None
      with run 1 w1 Inr refl show ?thesis by (simp add: merge_latest_def db_rel_def)
    next
      case (Some st)
      obtain r w2 where 2: "run_state (repo_UpdateSandboxStatusIfUnchanged i st (sbx_UpdatedAt s)) w1 = (r, w2)"
        by fastforce
      with run 1 Inr Some have "w' = w2" by (simp add: merge_latest_def run_ignore)
      with run_update_if [OF 2] w1 sync_rel_update_if [OF _ g assms Some] inv_update_status_if refl
      show ?thesis by (auto simp: db_rel_def inv_sync_def)
    qed
  qed
qed

lemma inv_sync_pass [evolve_intros]:
  "state_io_rel (db_rel inv_sync) (sync_one ext resp sbx)"
  "state_io_rel (db_rel inv_sync) (syncNodeSandboxBatch svc c n ss)"
  "state_io_rel (db_rel inv_sync) (sync_group svc g)"
  "state_io_rel (db_rel inv_sync) (runSandboxStatusSyncOnce svc order)"
  unfolding sync_one_def syncNodeSandboxBatch_def sync_group_def runSandboxStatusSyncOnce_def Let_def
  by (intro evolve_intros missing_safe reported_safe)+

subsection \<open>Properties\<close>

text \<open>
  C22: the merge of an agent's report into a status says \<open>changed\<close> exactly when the status it
  returns differs, changes nothing but the phase and the last error, never makes a sandbox
  Deleting, and applied again to its own result changes nothing.
\<close>

theorem merge_correct:
  "let r = mergeSandboxPhaseWithNodeState cur st in
     snd r = (fst r \<noteq> cur) \<and>
     fst r = cur\<lparr>st_Phase := st_Phase (fst r), st_LastError := st_LastError (fst r)\<rparr> \<and>
     st_Phase (fst r) \<in> {st_Phase cur, SandboxPhaseFailed, SandboxPhaseRunning, SandboxPhaseScheduled} \<and>
     mergeSandboxPhaseWithNodeState (fst r) st = (fst r, False)"
proof (cases rule: merge_shape [of st])
  case (both p m)
  then show ?thesis
    by (auto simp: merge_sel prod_eq_iff Let_def)
next
  case demote
  then show ?thesis
    by (cases "st_Phase cur = SandboxPhaseRunning") (auto simp: Let_def merge_sel)
next
  case keep
  then show ?thesis by (simp add: Let_def)
qed

text \<open>
  C21: a status synchronisation pass, with any faults and any answers of the agents and in any order
  of the groups, changes no sandbox that is Deleting and moves none into Deleting; of the others it
  changes only phase, address, external and last error, and it changes no other table.
\<close>

theorem status_sync_safe:
  assumes "db_inv (w_db w)"
  shows "db_inv (w_db (snd (run_state (runSandboxStatusSyncOnce svc order) w))) \<and>
    sync_rel (w_db w) (w_db (snd (run_state (runSandboxStatusSyncOnce svc order) w)))"
  using inv_sync_pass(4) [of svc order] assms by (simp add: state_io_rel_def db_rel_def inv_sync_def)

theorem status_sync_safe_witness:
  "sync_rel (w_db sample_world) (w_db (snd (run_state (runSandboxStatusSyncOnce sample_service rev) sample_world)))"
  using status_sync_safe [OF sample_db_inv] by blast

subsection \<open>The conditional update\<close>

definition hits :: "string \<Rightarrow> int \<Rightarrow> database \<Rightarrow> bool" where
  "hits i e d = (\<exists>x \<in> set (t_sandboxes d). sb_id x = i \<and> sb_updated_at x = e)"

lemma id_unique:
  assumes "db_inv d" "x \<in> set (t_sandboxes d)" "y \<in> set (t_sandboxes d)" "sb_id x = sb_id y"
  shows "x = y"
  using assms distinct_map_inj [of sb_id "t_sandboxes d" x y] by (simp add: db_inv_def)

lemma hits_iff:
  assumes "db_inv d"
  shows "hits i e d \<longleftrightarrow> (\<exists>s. sql_get_sandbox i d = Some s \<and> sbx_UpdatedAt s = e)"
proof
  assume "hits i e d"
  then obtain x where x: "x \<in> set (t_sandboxes d)" "sb_id x = i" "sb_updated_at x = e"
    unfolding hits_def by blast
  with db_inv_find_sandbox [OF assms x(1)] have "sql_get_sandbox i d = Some (row_sandbox x)"
    by (simp add: sql_get_sandbox_def)
  with x(3) show "\<exists>s. sql_get_sandbox i d = Some s \<and> sbx_UpdatedAt s = e"
    by (simp add: row_sandbox_def)
next
  assume "\<exists>s. sql_get_sandbox i d = Some s \<and> sbx_UpdatedAt s = e"
  then show "hits i e d"
    by (auto simp: hits_def sql_get_sandbox_def row_sandbox_def dest!: find_Some_in)
qed

lemma hits_count:
  assumes "db_inv d"
  shows "fst (sql_update_status_if i st now e d) = (if hits i e d then 1 else 0)"
proof -
  let ?hit = "\<lambda>x. sb_id x = i \<and> sb_updated_at x = e"
  have "distinct (filter ?hit (t_sandboxes d))"
    using assms by (simp add: db_inv_def distinct_map)
  from distinct_card [OF this]
  have n: "fst (sql_update_status_if i st now e d) = card {x \<in> set (t_sandboxes d). ?hit x}"
    unfolding sql_update_status_if_def Let_def by simp
  show ?thesis
  proof (cases "hits i e d")
    case True
    then obtain x where x: "x \<in> set (t_sandboxes d)" "?hit x" unfolding hits_def by blast
    have "y = x" if "y \<in> set (t_sandboxes d)" "?hit y" for y
      using id_unique [OF assms that(1) x(1)] that(2) x(2) by simp
    with x have one: "{y \<in> set (t_sandboxes d). ?hit y} = {x}" by blast
    show ?thesis unfolding n one using True by simp
  next
    case False
    then have none: "{y \<in> set (t_sandboxes d). ?hit y} = {}" unfolding hits_def by blast
    show ?thesis unfolding n none using False by simp
  qed
qed

lemma hits_update:
  assumes "db_inv d"
  shows "snd (sql_update_status_if i st now e d) = (if hits i e d then sql_update_status i st now d else d)"
proof (cases "hits i e d")
  case True
  then obtain x where x: "x \<in> set (t_sandboxes d)" "sb_id x = i" "sb_updated_at x = e" unfolding hits_def by blast
  have "(sb_id y = i \<and> sb_updated_at y = e) \<longleftrightarrow> sb_id y = i" if "y \<in> set (t_sandboxes d)" for y
    using id_unique [OF assms that x(1)] x by auto
  then show ?thesis
    using True by (auto simp: sql_update_status_if_def sql_update_status_def Let_def)
next
  case False
  then have "map (\<lambda>y. if sb_id y = i \<and> sb_updated_at y = e
      then y\<lparr>sb_status := status_json st, sb_updated_at := now\<rparr> else y) (t_sandboxes d) = t_sandboxes d"
    unfolding hits_def by (intro map_idI) auto
  with False show ?thesis by (simp add: sql_update_status_if_def Let_def)
qed

lemma run_update_if_hits:
  assumes "db_inv (w_db w)" "run_state (repo_UpdateSandboxStatusIfUnchanged i st e) w = (r, w')"
  shows "w_db w' = w_db w \<and> (\<exists>err. r = Inl err) \<or> r = Inr (hits i e (w_db w)) \<and>
    (if hits i e (w_db w) then \<exists>now. w_db w' = sql_update_status i st now (w_db w) else w_db w' = w_db w)"
  using run_update_if [OF assms(2)] unfolding hits_count [OF assms(1)] hits_update [OF assms(1)]
  by (cases "hits i e (w_db w)") auto

text \<open>
  C30: \<^verbatim>\<open>UpdateSandboxStatusIfUnchanged\<close> is a compare-and-set on the row's update time.  It answers
  true exactly when the sandbox exists with the expected update time, and then the row holds the
  new status; when it answers false or an error, the database is unchanged.
\<close>

theorem update_if_unchanged_correct:
  assumes "db_inv (w_db w)" "run_state (repo_UpdateSandboxStatusIfUnchanged i st expected) w = (r, w')"
  shows "case r of
      Inl _ \<Rightarrow> w_db w' = w_db w
    | Inr b \<Rightarrow>
        b = (\<exists>s. sql_get_sandbox i (w_db w) = Some s \<and> sbx_UpdatedAt s = expected) \<and>
        (if b then \<exists>now. w_db w' = sql_update_status i st now (w_db w) else w_db w' = w_db w)"
  using run_update_if_hits [OF assms]
  unfolding hits_iff [OF assms(1)] by (elim disjE conjE exE) simp_all

theorem update_if_unchanged_correct_witness:
  "case run_state (repo_UpdateSandboxStatusIfUnchanged ''b'' zero_status 7) sample_world of
     (Inl _, w') \<Rightarrow> w_db w' = w_db sample_world
   | (Inr b, w') \<Rightarrow> b = (\<exists>s. sql_get_sandbox ''b'' (w_db sample_world) = Some s \<and> sbx_UpdatedAt s = 7)"
proof -
  obtain r w' where r: "run_state (repo_UpdateSandboxStatusIfUnchanged ''b'' zero_status 7) sample_world = (r, w')"
    by fastforce
  from update_if_unchanged_correct [OF sample_db_inv this] show ?thesis
    by (cases r) (simp_all add: r)
qed

text \<open>
  The status synchronisation asks for every sandbox it should and for each once: the groups
  hold exactly the sandboxes with a node that are Scheduled, Running or Failed, and cutting a
  group into batches of a positive size gives non-empty batches no larger than that, which
  concatenated are the group.
\<close>

theorem status_sync_covers:
  assumes "0 < n"
  shows "(\<Union>g \<in> set (group_by_node [] items). set (snd g)) =
      {s \<in> set items. TrimSpace (st_NodeName (sbx_Status s)) \<noteq> [] \<and> synced_phase (st_Phase (sbx_Status s))} \<and>
    concat (batches_from n 0 xs) = xs \<and>
    (\<forall>b \<in> set (batches_from n 0 xs). b \<noteq> [] \<and> length b \<le> n)"
  using set_group_by_node [of "[]" items] batches_from_concat [OF assms, of 0 xs] batches_from_sizes [of _ n 0 xs]
  by simp

theorem status_sync_covers_witness:
  "(\<Union>g \<in> set (group_by_node [] (sql_list_sandboxes sample_db)). sbx_ID ` set (snd g)) = {''a''} \<and>
   concat (batches_from 2 0 (sql_list_sandboxes sample_db)) = sql_list_sandboxes sample_db"
proof -
  have "{s \<in> set (sql_list_sandboxes sample_db). TrimSpace (st_NodeName (sbx_Status s)) \<noteq> [] \<and>
      synced_phase (st_Phase (sbx_Status s))} =
    set (filter (\<lambda>s. TrimSpace (st_NodeName (sbx_Status s)) \<noteq> [] \<and> synced_phase (st_Phase (sbx_Status s)))
      (sql_list_sandboxes sample_db))" by auto
  moreover have "map sbx_ID (filter (\<lambda>s. TrimSpace (st_NodeName (sbx_Status s)) \<noteq> [] \<and>
      synced_phase (st_Phase (sbx_Status s))) (sql_list_sandboxes sample_db)) = [''a'']"
    by code_simp
  ultimately have "sbx_ID ` {s \<in> set (sql_list_sandboxes sample_db). TrimSpace (st_NodeName (sbx_Status s)) \<noteq> [] \<and>
      synced_phase (st_Phase (sbx_Status s))} = {''a''}"
    by (metis list.set_map list.simps(15) empty_set)
  then show ?thesis
    using status_sync_covers [of 2 "sql_list_sandboxes sample_db" "sql_list_sandboxes sample_db"]
    by (simp flip: image_UN)
qed

end
