(* ===== verification/Orch_System.thy ===== *)
theory Orch_System
  imports Orch_Handlers_Props Orch_StatusSync
begin

section \<open>sbxorch: the whole server\<close>

text \<open>
  The orchestrator as a state machine over its world: one rule for a request on any route, one for
  each background loop (\<^verbatim>\<open>cmd/sbxorch/main.go\<close> starts them), one for a spawned address poll, and one
  for what happens outside (time passes, agents change, faults are drawn).  \<open>reachable\<close> worlds start
  with the empty schema of \<^verbatim>\<open>migrate\<close>.  A rule runs its operation to the end; finer interleavings
  are covered by \<open>db_steps\<close>, of which every operation is a sequence.
\<close>

inductive orch_step :: "'e Service \<Rightarrow> 'e world \<Rightarrow> 'e world \<Rightarrow> bool" for svc where
  request: "run_state (serve svc r q) w = (resp, w') \<Longrightarrow> orch_step svc w w'"
| heartbeat_tick: "run_state (runHeartbeatOnce svc order) w = (u, w') \<Longrightarrow> orch_step svc w w'"
| resource_tick: "run_state (runResourceSyncOnce svc order) w = (u, w') \<Longrightarrow> orch_step svc w w'"
| scheduler_tick: "run_state (runSchedulerOnce svc) w = (u, w') \<Longrightarrow> orch_step svc w w'"
| reconcile_tick: "run_state (runSandboxReconcileOnce svc) w = (u, w') \<Longrightarrow> orch_step svc w w'"
| status_tick: "run_state (runSandboxStatusSyncOnce svc groups) w = (u, w') \<Longrightarrow> orch_step svc w w'"
| poll_address: "(i, node) \<in> set (w_tasks w) \<Longrightarrow> run_state (refreshSandboxIPSoon svc polls i node) w = (u, w') \<Longrightarrow>
    orch_step svc w w'"
| outside: "orch_step svc w (w\<lparr>w_clock := c, w_ticks := ts, w_rands := rs, w_faults := fs, w_env := e\<rparr>)"

inductive_cases orch_stepE: "orch_step svc w w'"

definition reachable :: "'e Service \<Rightarrow> 'e world \<Rightarrow> bool" where
  "reachable svc w \<longleftrightarrow> (\<exists>w0. w_db w0 = migrate \<and> (orch_step svc)\<^sup>*\<^sup>* w0 w)"

lemmas pass_evolves = evolve_serve evolve_loops evolve_runSchedulerOnce evolve_lifecycle(6,8) evolve_status_sync(4)

lemma step_evolves: "orch_step svc w w' \<Longrightarrow> evolves w w'"
proof (induction rule: orch_step.induct)
  case (outside w c ts rs fs e)
  then show ?case by (simp add: db_rel_def)
qed (erule state_io_relD [rotated], rule pass_evolves)+

lemma reachable_evolves:
  assumes "(orch_step svc)\<^sup>*\<^sup>* w0 w"
  shows "db_steps (w_db w0) (w_db w)"
  using assms
proof induction
  case base
  then show ?case by simp
next
  case (step w w')
  then show ?case using step_evolves [of svc w w'] by (simp add: db_rel_def)
qed

text \<open>
  C1: in every reachable state of the server, after any requests, loop passes and address polls with
  any faults and any answers of the agents, no host port of a node is reserved twice, every port
  belongs to an existing sandbox, every external to a registered node that has no other, and names
  are unique.
\<close>

theorem reachable_safe:
  assumes "reachable svc w"
  shows "(\<forall>p \<in> set (t_ports (w_db w)). \<forall>q \<in> set (t_ports (w_db w)).
        pt_node_name p = pt_node_name q \<and> pt_host_port p = pt_host_port q \<longrightarrow> p = q) \<and>
    (\<forall>p \<in> set (t_ports (w_db w)). \<exists>s. sql_get_sandbox (pt_sandbox_id p) (w_db w) = Some s) \<and>
    (\<forall>x \<in> set (t_externals (w_db w)). (\<exists>n. sql_get_node (ex_node_id x) (w_db w) = Some n) \<and>
        (\<forall>y \<in> set (t_externals (w_db w)). ex_node_id y = ex_node_id x \<longrightarrow> y = x)) \<and>
    distinct (map sbx_ID (sql_list_sandboxes (w_db w))) \<and> distinct (map n_ID (sql_list_nodes (w_db w)))"
proof -
  let ?d = "w_db w"
  obtain w0 where "w_db w0 = migrate" "(orch_step svc)\<^sup>*\<^sup>* w0 w"
    using assms by (auto simp: reachable_def)
  then have "db_steps migrate ?d" using reachable_evolves by metis
  then have inv: "db_inv ?d" using db_inv_migrate by (rule db_steps_inv)
  have "p = q" if "p \<in> set (t_ports ?d)" "q \<in> set (t_ports ?d)" "port_key p = port_key q" for p q
    using distinct_map_inj [of port_key "t_ports ?d" p q] inv that by (simp add: db_inv_def)
  moreover have "\<exists>s. sql_get_sandbox (pt_sandbox_id p) ?d = Some s" if "p \<in> set (t_ports ?d)" for p
    using inv that get_sandbox_None [of "pt_sandbox_id p" ?d] by (auto simp: db_inv_def)
  moreover have "\<exists>n. sql_get_node (ex_node_id x) ?d = Some n" if "x \<in> set (t_externals ?d)" for x
  proof -
    have "ex_node_id x \<in> nd_name ` set (t_nodes ?d)" using inv that by (simp add: db_inv_def)
    then have "find (\<lambda>r. nd_name r = ex_node_id x) (t_nodes ?d) \<noteq> None" by (simp only: find_None_key not_not)
    then show ?thesis by (auto simp: sql_get_node_def)
  qed
  moreover have "y = x" if "x \<in> set (t_externals ?d)" "y \<in> set (t_externals ?d)" "ex_node_id y = ex_node_id x" for x y
    using distinct_map_inj [of ex_node_id "t_externals ?d" y x] inv that by (simp add: db_inv_def)
  moreover have "distinct (map sbx_ID (sql_list_sandboxes ?d))"
    using inv by (simp add: sql_list_sandboxes_def db_inv_def row_sandbox_def comp_def)
  moreover have "distinct (map n_ID (sql_list_nodes ?d))"
    using inv by (simp add: sql_list_nodes_def db_inv_def comp_def)
  ultimately show ?thesis by simp
qed

definition sample_inputs :: Inputs where
  "sample_inputs = \<lparr>in_sandbox = Inr sample_create,
     in_node = Inr \<lparr>cn_ID = ''n1'', cn_Spec = \<lparr>no_IP = ''10.0.0.1'', no_Port = 8080\<rparr>\<rparr>,
     in_external = Inr (sample_bind ''n1''), in_let_create = Inl (Errorf ''EOF''), in_cursor = [], in_limit = None,
     in_force = [], in_allowed = True\<rparr>"

theorem reachable_safe_witness:
  "\<exists>w. reachable sample_service w \<and>
     (\<exists>resp w0. w = snd (run_state (serve sample_service R_CreateNode sample_inputs) w0) \<and> w_db w0 = migrate) \<and>
     distinct (map n_ID (sql_list_nodes (w_db w)))"
proof -
  let ?w0 = "sample_world\<lparr>w_db := migrate\<rparr>"
  obtain resp w where r: "run_state (serve sample_service R_CreateNode sample_inputs) ?w0 = (resp, w)" by (meson surj_pair)
  then have "orch_step sample_service ?w0 w" by (rule request)
  then have "reachable sample_service w"
    unfolding reachable_def by (intro exI [of _ ?w0]) auto
  with reachable_safe [OF this] r show ?thesis
    by (intro exI [of _ w]) (auto intro!: exI [of _ ?w0])
qed

end
